(* ===== verification/Go_Prelude.thy ===== *)
theory Go_Prelude
  imports Complex_Main "HOL-Library.List_Lexorder" "HOL-Library.Char_ord" "HOL-Library.AList"
    "HOL-Library.Word" "HOL-Library.Multiset" "HOL-Library.Sublist" "HOL-Library.Product_Lexorder"
begin

text \<open>
  The part of Go and of its standard library that the orchestrator uses, shared by every
  component of the development.

  \<^item> Strings are byte strings (\<open>string\<close>); the order of \<open>HOL-Library.List_Lexorder\<close> over
    \<open>HOL-Library.Char_ord\<close> is Go's bytewise string comparison. \<open>trim_space\<close>, \<open>to_lower\<close> and
    \<open>equal_fold\<close> are \<open>strings.TrimSpace\<close>, \<open>strings.ToLower\<close> and \<open>strings.EqualFold\<close> on ASCII;
    bytes above 127 are left alone.
  \<^item> An instant (\<open>time.Time\<close>) is the number of nanoseconds since the zero instant of Go, so
    \<open>IsZero\<close> is equality with 0; \<open>Sub\<close> saturates at the range of \<open>time.Duration\<close>.
  \<^item> A Go map is an association list with distinct keys. The order of the list is one possible
    iteration order; operations that sort what they collect are shown not to depend on it.
  \<^item> \<open>fmt.Sprintf\<close> of an integer is \<open>show_int\<close>, shown injective.
  \<^item> A \<open>float64\<close> is an exact rational (\<open>gofloat\<close>); rounding, infinities and NaN are not modelled.
\<close>

named_theorems gm_simps \<open>rewriting of map operations\<close>
named_theorems inv_intros \<open>preservation of component invariants\<close>

section \<open>Strings\<close>

definition is_space :: "char \<Rightarrow> bool" where
  "is_space c \<longleftrightarrow> c \<in> set [CHR '' '', CHR 0x09, CHR 0x0A, CHR 0x0B, CHR 0x0C, CHR 0x0D]"

definition trim_left :: "string \<Rightarrow> string" where
  "trim_left s = dropWhile is_space s"

definition trim_right :: "string \<Rightarrow> string" where
  "trim_right s = rev (dropWhile is_space (rev s))"

definition trim_space :: "string \<Rightarrow> string" where
  "trim_space s = trim_right (trim_left s)"

definition to_lower_char :: "char \<Rightarrow> char" where
  "to_lower_char c =
     (let n = (of_char c :: nat) in if 65 \<le> n \<and> n \<le> 90 then char_of (n + 32) else c)"

definition to_lower :: "string \<Rightarrow> string" where
  "to_lower s = map to_lower_char s"

definition equal_fold :: "string \<Rightarrow> string \<Rightarrow> bool" where
  "equal_fold a b \<longleftrightarrow> to_lower a = to_lower b"

definition has_prefix :: "string \<Rightarrow> string \<Rightarrow> bool" where
  "has_prefix s p \<longleftrightarrow> length p \<le> length s \<and> take (length p) s = p"

definition has_suffix :: "string \<Rightarrow> string \<Rightarrow> bool" where
  "has_suffix s p \<longleftrightarrow> length p \<le> length s \<and> drop (length s - length p) s = p"

definition trim_prefix :: "string \<Rightarrow> string \<Rightarrow> string" where
  "trim_prefix s p = (if has_prefix s p then drop (length p) s else s)"

definition trim_suffix :: "string \<Rightarrow> string \<Rightarrow> string" where
  "trim_suffix s p = (if has_suffix s p then take (length s - length p) s else s)"

fun contains_str :: "string \<Rightarrow> string \<Rightarrow> bool" where
  "contains_str [] sub = (sub = [])"
| "contains_str (c # s) sub = (has_prefix (c # s) sub \<or> contains_str s sub)"

lemma has_prefix_iff: "has_prefix s p \<longleftrightarrow> (\<exists>r. s = p @ r)"
proof
  assume "has_prefix s p"
  then have "s = p @ drop (length p) s" by (metis has_prefix_def append_take_drop_id)
  then show "\<exists>r. s = p @ r" ..
qed (auto simp: has_prefix_def)

lemma has_suffix_iff: "has_suffix s p \<longleftrightarrow> (\<exists>r. s = r @ p)"
proof
  assume "has_suffix s p"
  then have "s = take (length s - length p) s @ p" by (metis has_suffix_def append_take_drop_id)
  then show "\<exists>r. s = r @ p" ..
qed (auto simp: has_suffix_def)

lemma contains_str_iff: "contains_str s sub \<longleftrightarrow> (\<exists>l r. s = l @ sub @ r)"
proof (induction s)
  case Nil
  then show ?case by auto
next
  case (Cons c s)
  have "(\<exists>l r. c # s = l @ sub @ r) \<longleftrightarrow> (\<exists>r. c # s = sub @ r) \<or> (\<exists>l r. s = l @ sub @ r)"
  proof -
    have "c # s = l @ sub @ r \<longleftrightarrow> (l = [] \<and> c # s = sub @ r) \<or> (\<exists>l'. l = c # l' \<and> s = l' @ sub @ r)" for l r
      by (cases l) auto
    then show ?thesis by auto
  qed
  with Cons show ?case by (simp add: has_prefix_iff)
qed

lemma trim_space_Nil [simp]: "trim_space [] = []"
  by (simp add: trim_space_def trim_left_def trim_right_def)

lemma trim_left_no_space:
  "s = [] \<or> \<not> is_space (hd s) \<Longrightarrow> trim_left s = s"
  by (cases s) (auto simp: trim_left_def)

lemma trim_right_no_space:
  "s = [] \<or> \<not> is_space (last s) \<Longrightarrow> trim_right s = s"
  by (cases s rule: rev_cases) (auto simp: trim_right_def)

lemma trim_right_suffix: "\<exists>w. s = trim_right s @ w \<and> (\<forall>c \<in> set w. is_space c)"
proof -
  have "rev (takeWhile is_space (rev s) @ dropWhile is_space (rev s)) = s" by simp
  then have "s = rev (dropWhile is_space (rev s)) @ rev (takeWhile is_space (rev s))"
    by (simp only: rev_append)
  then show ?thesis unfolding trim_right_def
    by (rule exI [where P = "\<lambda>w. s = rev (dropWhile is_space (rev s)) @ w \<and> (\<forall>c \<in> set w. is_space c)", OF conjI])
      (auto dest: set_takeWhileD)
qed

lemma trim_right_last: "trim_right s \<noteq> [] \<Longrightarrow> \<not> is_space (last (trim_right s))"
  by (simp add: trim_right_def last_rev hd_dropWhile)

lemma trim_left_hd: "trim_left s \<noteq> [] \<Longrightarrow> \<not> is_space (hd (trim_left s))"
  by (simp add: trim_left_def hd_dropWhile)

lemma trim_space_hd: "trim_space s \<noteq> [] \<Longrightarrow> \<not> is_space (hd (trim_space s))"
proof -
  assume ne: "trim_space s \<noteq> []"
  obtain w where w: "trim_left s = trim_space s @ w"
    using trim_right_suffix [of "trim_left s"] by (auto simp: trim_space_def)
  with ne have "trim_left s \<noteq> []" and "hd (trim_left s) = hd (trim_space s)" by auto
  with trim_left_hd [of s] show ?thesis by simp
qed

lemma trim_space_last: "trim_space s \<noteq> [] \<Longrightarrow> \<not> is_space (last (trim_space s))"
  by (simp add: trim_space_def trim_right_last)

lemma to_lower_append: "to_lower (a @ b) = to_lower a @ to_lower b"
  by (simp add: to_lower_def)

lemma trim_space_fixed:
  "s = [] \<or> (\<not> is_space (hd s) \<and> \<not> is_space (last s)) \<Longrightarrow> trim_space s = s"
  unfolding trim_space_def by (auto simp: trim_left_no_space trim_right_no_space)

lemma trim_space_idem [simp]: "trim_space (trim_space s) = trim_space s"
  using trim_space_hd trim_space_last by (metis trim_space_fixed)

section \<open>Decimal rendering\<close>

definition digit_char :: "nat \<Rightarrow> char" where
  "digit_char d = char_of (48 + d)"

fun show_nat :: "nat \<Rightarrow> string" where
  "show_nat n = (if n < 10 then [digit_char n] else show_nat (n div 10) @ [digit_char (n mod 10)])"

declare show_nat.simps [simp del]

definition show_int :: "int \<Rightarrow> string" where
  "show_int i = (if i < 0 then CHR ''-'' # show_nat (nat (- i)) else show_nat (nat i))"

definition read_nat :: "string \<Rightarrow> nat" where
  "read_nat s = foldl (\<lambda>a c. a * 10 + (of_char c - 48)) 0 s"

definition is_digit :: "char \<Rightarrow> bool" where
  "is_digit c \<longleftrightarrow> 48 \<le> (of_char c :: nat) \<and> (of_char c :: nat) \<le> 57"

text \<open>\<open>strconv.Atoi\<close>: an optional sign and decimal digits, refused outside the 64-bit range.\<close>

definition atoi :: "string \<Rightarrow> int option" where
  "atoi s =
     (let (neg, ds) = (case s of
            [] \<Rightarrow> (False, [])
          | c # cs \<Rightarrow> if c = CHR ''-'' then (True, cs) else if c = CHR ''+'' then (False, cs) else (False, s));
          v = (if neg then - int (read_nat ds) else int (read_nat ds))
      in if ds = [] \<or> \<not> list_all is_digit ds then None
         else if v < - (2 ^ 63) \<or> 2 ^ 63 \<le> v then None else Some v)"

text \<open>\<open>strings.SplitN\<close> with limit 2 and a one-byte separator; \<open>None\<close> when it does not occur.\<close>

fun split_once :: "char \<Rightarrow> string \<Rightarrow> (string \<times> string) option" where
  "split_once c [] = None"
| "split_once c (x # xs) =
     (if x = c then Some ([], xs) else map_option (\<lambda>(a, b). (x # a, b)) (split_once c xs))"

lemma split_once_Some: "split_once c s = Some (a, b) \<longleftrightarrow> s = a @ c # b \<and> c \<notin> set a"
proof (induction s arbitrary: a b)
  case (Cons x xs)
  show ?case
  proof (cases "x = c")
    case True
    then show ?thesis by (cases a) auto
  next
    case False
    then show ?thesis by (cases a) (auto simp: Cons.IH)
  qed
qed simp

lemma of_char_digit: "d < 10 \<Longrightarrow> (of_char (digit_char d) :: nat) = 48 + d"
  by (simp add: digit_char_def)

lemma read_nat_show_nat [simp]: "read_nat (show_nat n) = n"
proof (induction n rule: show_nat.induct)
  case (1 n)
  show ?case
  proof (cases "n < 10")
    case True
    then show ?thesis by (simp add: show_nat.simps [of n] read_nat_def of_char_digit)
  next
    case False
    with 1 have "read_nat (show_nat (n div 10)) = n div 10" by simp
    with False show ?thesis
      by (simp add: show_nat.simps [of n] read_nat_def of_char_digit)
  qed
qed

lemma show_nat_inject [simp]: "show_nat m = show_nat n \<longleftrightarrow> m = n"
  by (metis read_nat_show_nat)

lemma show_nat_digits: "c \<in> set (show_nat n) \<Longrightarrow> 48 \<le> (of_char c :: nat) \<and> (of_char c :: nat) \<le> 57"
proof (induction n rule: show_nat.induct)
  case (1 n)
  show ?case
  proof (cases "n < 10")
    case True
    with 1 show ?thesis by (simp add: show_nat.simps [of n] of_char_digit)
  next
    case False
    then have d: "(of_char (digit_char (n mod 10)) :: nat) = 48 + n mod 10"
      by (simp add: of_char_digit)
    from False "1.prems" have "c \<in> set (show_nat (n div 10)) \<or> c = digit_char (n mod 10)"
      by (auto simp: show_nat.simps [of n])
    then show ?thesis using "1.IH" [OF False] d by auto
  qed
qed

lemma dash_not_digit: "CHR ''-'' \<notin> set (show_nat n)"
proof
  assume "CHR ''-'' \<in> set (show_nat n)"
  from show_nat_digits [OF this] show False by simp
qed

lemma show_nat_not_Nil [simp]: "show_nat n \<noteq> []"
  by (subst show_nat.simps) simp

text \<open>A decimal number after the last dash of an identifier can be read back.\<close>

lemma after_last_dash:
  assumes "a @ CHR ''-'' # show_nat m = b @ CHR ''-'' # show_nat n"
  shows "a = b \<and> m = n"
proof -
  have tw: "takeWhile (\<lambda>c. c \<noteq> CHR ''-'') (rev (show_nat k) @ CHR ''-'' # rev p) = rev (show_nat k)" for k p
    using dash_not_digit [of k] by (subst takeWhile_append2) auto
  from assms have "rev (a @ CHR ''-'' # show_nat m) = rev (b @ CHR ''-'' # show_nat n)" by simp
  then have eq: "rev (show_nat m) @ CHR ''-'' # rev a = rev (show_nat n) @ CHR ''-'' # rev b" by simp
  then have "rev (show_nat m) = rev (show_nat n)" by (metis tw)
  then have "m = n" by simp
  with eq show ?thesis by simp
qed

type_synonym gofloat = rat

text \<open>The outcome of a call: a value, a returned error, or a run-time panic.\<close>

datatype 'a outcome = Ok 'a | Err string | Panic

text \<open>Increment of a Go \<open>int\<close>, which has 64 bits and wraps around.\<close>

definition int_inc :: "int \<Rightarrow> int" where
  "int_inc i = (if i = 2 ^ 63 - 1 then - (2 ^ 63) else i + 1)"

text \<open>The value of 64-bit signed arithmetic on an exact result.\<close>

definition wrap64 :: "int \<Rightarrow> int" where
  "wrap64 n = sint (word_of_int n :: 64 word)"

lemma wrap64_code [code]: "wrap64 n = (n + 9223372036854775808) mod 18446744073709551616 - 9223372036854775808"
  by (simp add: wrap64_def int_word_sint)

lemma wrap64_bounds: "- (2 ^ 63) \<le> wrap64 n \<and> wrap64 n < 2 ^ 63"
  using sint_range_size [of "word_of_int n :: 64 word"] by (simp add: wrap64_def word_size)

lemma wrap64_id: "- (2 ^ 63) \<le> n \<Longrightarrow> n < 2 ^ 63 \<Longrightarrow> wrap64 n = n"
  by (simp add: wrap64_def sint_sbintrunc' signed_take_bit_int_eq_self)

section \<open>Time\<close>

type_synonym gotime = int
type_synonym duration = int

abbreviation (input) second :: duration where "second \<equiv> 1000000000"
abbreviation (input) millisecond :: duration where "millisecond \<equiv> 1000000"

definition unix_epoch :: gotime where
  "unix_epoch = 62135596800 * 1000000000"

definition unix_nano :: "gotime \<Rightarrow> int" where
  "unix_nano t = t - unix_epoch"

definition time_sub :: "gotime \<Rightarrow> gotime \<Rightarrow> duration" where
  "time_sub a b = max (- (2 ^ 63)) (min (2 ^ 63 - 1) (a - b))"

lemma time_sub_gt: "d < 2 ^ 63 - 1 \<Longrightarrow> - (2 ^ 63) \<le> d \<Longrightarrow> d < time_sub a b \<longleftrightarrow> d < a - b"
  by (auto simp: time_sub_def)

lemma time_sub_lt: "d \<le> 2 ^ 63 - 1 \<Longrightarrow> - (2 ^ 63) < d \<Longrightarrow> time_sub a b < d \<longleftrightarrow> a - b < d"
  by (auto simp: time_sub_def)

section \<open>Go maps\<close>

type_synonym ('k, 'v) gomap = "('k \<times> 'v) list"

abbreviation gm_wf :: "('k, 'v) gomap \<Rightarrow> bool" where
  "gm_wf m \<equiv> distinct (map fst m)"

abbreviation gm_set :: "'k \<Rightarrow> 'v \<Rightarrow> ('k, 'v) gomap \<Rightarrow> ('k, 'v) gomap" where
  "gm_set k v m \<equiv> AList.update k v m"

abbreviation gm_del :: "'k \<Rightarrow> ('k, 'v) gomap \<Rightarrow> ('k, 'v) gomap" where
  "gm_del k m \<equiv> AList.delete k m"

definition gm_count :: "('v \<Rightarrow> bool) \<Rightarrow> ('k, 'v) gomap \<Rightarrow> nat" where
  "gm_count P m = length (filter (\<lambda>(_, v). P v) m)"

lemma gm_get_set [simp, gm_simps]: "map_of (gm_set k v m) j = (if j = k then Some v else map_of m j)"
  by (simp add: AList.update_conv')

lemma gm_get_del [simp, gm_simps]: "map_of (gm_del k m) j = (if j = k then None else map_of m j)"
  by (simp add: AList.delete_conv')

lemma gm_wf_set [simp, intro]: "gm_wf m \<Longrightarrow> gm_wf (gm_set k v m)"
  by (rule AList.distinct_update)

lemma gm_wf_del [simp, intro]: "gm_wf m \<Longrightarrow> gm_wf (gm_del k m)"
  by (rule AList.distinct_delete)

lemma gm_fst_set [simp, gm_simps]: "fst ` set (gm_set k v m) = insert k (fst ` set m)"
  by (simp add: AList.dom_update)

lemma gm_set_new: "map_of m k = None \<Longrightarrow> gm_set k v m = m @ [(k, v)]"
  by (induction m) (auto split: if_splits)

lemma gm_del_absent: "map_of m k = None \<Longrightarrow> gm_del k m = m"
  by (simp add: map_of_eq_None_iff)

lemma gm_length_set_old: "map_of m k = Some v \<Longrightarrow> length (gm_set k w m) = length m"
  by (induction m) (auto split: if_splits)

lemma gm_length_set:
  "length (gm_set k v m) = (if map_of m k = None then Suc (length m) else length m)"
  by (induction m) auto

lemma gm_count_Nil [simp]: "gm_count P [] = 0"
  by (simp add: gm_count_def)

lemma gm_count_Cons [simp]: "gm_count P ((k, v) # m) = (if P v then 1 else 0) + gm_count P m"
  by (simp add: gm_count_def)

lemma gm_count_set_new:
  "map_of m k = None \<Longrightarrow> gm_count P (gm_set k v m) = gm_count P m + (if P v then 1 else 0)"
  by (simp add: gm_set_new gm_count_def)

lemma gm_count_set_old:
  "map_of m k = Some v \<Longrightarrow>
     gm_count P (gm_set k w m) + (if P v then 1 else 0) = gm_count P m + (if P w then 1 else 0)"
  by (induction m) (auto split: if_splits)

lemma gm_count_set_same:
  "map_of m k = Some v \<Longrightarrow> P v = P w \<Longrightarrow> gm_count P (gm_set k w m) = gm_count P m"
  using gm_count_set_old [of m k v P w] by (simp split: if_splits)

lemma gm_count_del:
  "gm_wf m \<Longrightarrow> map_of m k = Some v \<Longrightarrow> \<not> P v \<Longrightarrow> gm_count P (gm_del k m) = gm_count P m"
  by (induction m) (auto simp: map_of_eq_None_iff split: if_splits)

lemma gm_count_pos: "map_of m k = Some v \<Longrightarrow> P v \<Longrightarrow> 0 < gm_count P m"
  by (induction m) (auto split: if_splits)

lemma gm_count_zero: "gm_wf m \<Longrightarrow> gm_count P m = 0 \<longleftrightarrow> (\<forall>k v. map_of m k = Some v \<longrightarrow> \<not> P v)"
  by (auto simp: gm_count_def filter_empty_conv)

lemma gm_count_card:
  assumes "gm_wf m"
  shows "gm_count P m = card {k. \<exists>v. map_of m k = Some v \<and> P v}"
proof -
  have "gm_count P m = length (map fst (filter (\<lambda>(_, v). P v) m))"
    by (simp add: gm_count_def)
  also have "\<dots> = card (set (map fst (filter (\<lambda>(_, v). P v) m)))"
    using assms by (subst distinct_card) (auto intro: distinct_map_filter)
  also have "set (map fst (filter (\<lambda>(_, v). P v) m)) = {k. \<exists>v. map_of m k = Some v \<and> P v}"
    using assms by force
  finally show ?thesis .
qed

lemma gm_get_filter:
  "gm_wf m \<Longrightarrow> map_of (filter P m) k = (case map_of m k of None \<Rightarrow> None | Some v \<Rightarrow> if P (k, v) then Some v else None)"
  by (induction m) (auto split: option.splits if_splits dest: map_of_SomeD simp: rev_image_eqI)

section \<open>Lists\<close>

text \<open>Indices of a ring of \<open>c\<close> slots that start at \<open>h\<close> are distinct within one turn.\<close>

lemma ring_index_inj:
  assumes "(h + i) mod c = (h + j) mod c" and "i < c" and "j < (c :: nat)"
  shows "i = j"
  using assms
proof (induction i j rule: linorder_wlog)
  case (le i j)
  then have "h + i \<le> h + j" and "(h + j) mod c = (h + i) mod c" by simp_all
  then have "c dvd (h + j) - (h + i)" using mod_eq_dvd_iff_nat by blast
  then have "c dvd j - i" by simp
  moreover have "j - i < c" using le by linarith
  ultimately have "j - i = 0" by (meson dvd_imp_le gr0I not_le)
  with le show ?case by simp
next
  case (sym i j)
  then show ?case by simp
qed


text \<open>The last \<open>n\<close> elements of a list, which is what a bounded log retains.\<close>

definition take_last :: "nat \<Rightarrow> 'a list \<Rightarrow> 'a list" where
  "take_last n xs = drop (length xs - n) xs"

lemma take_last_all [simp]: "length xs \<le> n \<Longrightarrow> take_last n xs = xs"
  by (simp add: take_last_def)

lemma length_take_last [simp]: "length (take_last n xs) = min n (length xs)"
  by (simp add: take_last_def min_def)

lemma take_last_take_last [simp]: "take_last n (take_last m xs) = take_last (min n m) xs"
proof (cases "n \<le> length xs")
  case True
  then show ?thesis
    by (cases "n \<le> m"; cases "m \<le> length xs") (simp_all add: take_last_def min_def)
next
  case False
  then show ?thesis by (simp add: take_last_def min_def)
qed

lemma take_last_snoc: "take_last (Suc n) (xs @ [x]) = take_last n xs @ [x]"
  by (simp add: take_last_def)

lemma take_last_append_snoc:
  "0 < n \<Longrightarrow> take_last n (take_last n xs @ [x]) = take_last n (xs @ [x])"
  by (cases n) (simp_all add: take_last_snoc)

lemma take_last_suffix: "n \<le> length ys \<Longrightarrow> take_last n (xs @ ys) = take_last n ys"
  by (simp add: take_last_def)

lemma take_last_absorb: "take_last n (take_last n xs @ ys) = take_last n (xs @ ys)"
proof (cases "length xs \<le> n")
  case False
  define k where "k = length xs - n"
  have "take_last n (take k xs @ (drop k xs @ ys)) = take_last n (drop k xs @ ys)"
    by (rule take_last_suffix) (use False in \<open>simp add: k_def\<close>)
  moreover have "take k xs @ (drop k xs @ ys) = xs @ ys"
    by (simp only: append.assoc [symmetric] append_take_drop_id)
  ultimately have "take_last n (xs @ ys) = take_last n (drop k xs @ ys)" by (simp only:)
  then show ?thesis by (simp add: take_last_def [of n xs] k_def)
qed simp

lemma set_take_last: "set (take_last n xs) \<subseteq> set xs"
  by (simp add: take_last_def set_drop_subset)

text \<open>
  Go collects the values of a map in iteration order and sorts them. When the sort key is
  injective on the values the result does not depend on that order.
\<close>

lemma sort_key_perm_eq:
  assumes "mset xs = mset ys" and "inj_on f (set xs)"
  shows "sort_key f xs = sort_key f ys"
  by (rule sort_key_inj_key_eq [where ys = "sort_key f ys"]) (use assms in simp_all)

declare map_of_eq_Some_iff [simp del]

end
