(* ===== verification/Go_Json.thy ===== *)
theory Go_Json
  imports Go_Prelude
begin

text \<open>
  JSON values as the orchestrator exchanges them, and \<open>json.Marshal\<close> on them.

  A number is its literal; a Go \<open>map[string]any\<close> is an association list, written with its keys in
  bytewise order as \<open>encoding/json\<close> does. A payload of type \<open>any\<close> is nil, a value with a JSON
  form, or a value \<open>json.Marshal\<close> refuses, of which only the texts of \<open>fmt.Sprint\<close> and of the
  error are used. Decoding and encoding again is the identity on the tree; the loss of precision
  of a number that goes through \<open>float64\<close> is not modelled.
\<close>

datatype json =
  JNull | JBool bool | JNum string | JStr string | JArr "json list" | JObj "(string \<times> json) list"

datatype go_any = AnyNil | AnyJson json | AnyOpaque string string

definition hex_digit :: "nat \<Rightarrow> char" where
  "hex_digit d = (if d < 10 then char_of (48 + d) else char_of (87 + d))"

text \<open>The verb \<open>%q\<close> of \<open>fmt\<close>; bytes above 127 are left alone.\<close>

definition go_escape_char :: "char \<Rightarrow> string" where
  "go_escape_char c =
     (let n = (of_char c :: nat) in
      if c = CHR 0x22 then [CHR 0x5C, CHR 0x22]
      else if c = CHR 0x5C then [CHR 0x5C, CHR 0x5C]
      else if n = 7 then [CHR 0x5C, CHR ''a'']
      else if n = 8 then [CHR 0x5C, CHR ''b'']
      else if n = 9 then [CHR 0x5C, CHR ''t'']
      else if n = 10 then [CHR 0x5C, CHR ''n'']
      else if n = 11 then [CHR 0x5C, CHR ''v'']
      else if n = 12 then [CHR 0x5C, CHR ''f'']
      else if n = 13 then [CHR 0x5C, CHR ''r'']
      else if n < 32 \<or> n = 127 then [CHR 0x5C, CHR ''x'', hex_digit (n div 16), hex_digit (n mod 16)]
      else [c])"

definition go_quote :: "string \<Rightarrow> string" where
  "go_quote s = [CHR 0x22] @ concat (map go_escape_char s) @ [CHR 0x22]"

definition json_escape_char :: "char \<Rightarrow> string" where
  "json_escape_char c =
     (let n = (of_char c :: nat) in
      if c = CHR 0x22 then [CHR 0x5C, CHR 0x22]
      else if c = CHR 0x5C then [CHR 0x5C, CHR 0x5C]
      else if n = 8 then [CHR 0x5C, CHR ''b'']
      else if n = 9 then [CHR 0x5C, CHR ''t'']
      else if n = 10 then [CHR 0x5C, CHR ''n'']
      else if n = 12 then [CHR 0x5C, CHR ''f'']
      else if n = 13 then [CHR 0x5C, CHR ''r'']
      else if n < 32 \<or> c = CHR ''<'' \<or> c = CHR ''>'' \<or> c = CHR ''&''
        then [CHR 0x5C, CHR ''u'', CHR ''0'', CHR ''0'', hex_digit (n div 16), hex_digit (n mod 16)]
      else [c])"

definition json_quote :: "string \<Rightarrow> string" where
  "json_quote s = [CHR 0x22] @ concat (map json_escape_char s) @ [CHR 0x22]"

fun join_with :: "string \<Rightarrow> string list \<Rightarrow> string" where
  "join_with sep [] = []"
| "join_with sep [x] = x"
| "join_with sep (x # y # ys) = x @ sep @ join_with sep (y # ys)"

fun json_encode :: "json \<Rightarrow> string" where
  "json_encode JNull = ''null''"
| "json_encode (JBool b) = (if b then ''true'' else ''false'')"
| "json_encode (JNum n) = n"
| "json_encode (JStr s) = json_quote s"
| "json_encode (JArr xs) = ''['' @ join_with '','' (map json_encode xs) @ '']''"
| "json_encode (JObj kvs) =
     CHR 0x7B # join_with '',''
       (map (\<lambda>(k, t). json_quote k @ '':'' @ t)
          (sort_key fst (map (\<lambda>(k, v). (k, json_encode v)) kvs))) @ [CHR 0x7D]"

definition json_marshal :: "go_any \<Rightarrow> string + string" where
  "json_marshal v = (case v of
      AnyNil \<Rightarrow> Inr ''null''
    | AnyJson j \<Rightarrow> Inr (json_encode j)
    | AnyOpaque sprint err \<Rightarrow> Inl err)"

definition json_field :: "string \<Rightarrow> json \<Rightarrow> json option" where
  "json_field k j = (case j of JObj kvs \<Rightarrow> map_of kvs k | _ \<Rightarrow> None)"

text \<open>Objects written in another iteration order have the same encoding.\<close>

lemma json_encode_obj_perm:
  assumes "mset kvs = mset kvs'" and "gm_wf kvs"
  shows "json_encode (JObj kvs) = json_encode (JObj kvs')"
proof -
  let ?f = "\<lambda>(k, v). (k, json_encode v)"
  have "mset (map ?f kvs) = mset (map ?f kvs')"
    using assms(1) by (simp only: mset_map)
  moreover have "inj_on fst (set (map ?f kvs))"
    using assms(2) by (auto simp: inj_on_def dest: eq_key_imp_eq_value)
  ultimately have "sort_key fst (map ?f kvs) = sort_key fst (map ?f kvs')"
    by (rule sort_key_perm_eq)
  then show ?thesis by simp
qed

end
