(* ===== verification/Jobs.thy ===== *)
theory Jobs
  imports Go_Prelude
begin

text \<open>
  The asynchronous job manager, \<open>internal/jobs/manager.go\<close>.

  \<^item> Data: \<open>job\<close>, \<open>job_record\<close> and \<open>manager\<close> are the structs \<open>Job\<close>, \<open>record\<close> and \<open>Manager\<close>. The
    queue channel holds record pointers; every queued record is the one stored in the jobs map
    under its identifier, so the channel is the list of these identifiers. A context is reduced
    to what \<open>ctx.Err()\<close> reports. The two function fields of a request are reduced to whether
    they are nil; what the body returns is an argument of \<open>runRecord_finish\<close>.
  \<^item> Operations: one definition per method. \<open>Enqueue\<close> is the composition of its three critical
    sections and \<open>runRecord\<close> of its two, so that the same definitions serve the sequential
    reading and the step relation \<open>jobs_step\<close>, in which callers, workers and \<open>Close\<close> interleave.
  \<^item> Lemmas: the lifecycle contract (locale \<open>lifecycle\<close>), the effect of a transition, the
    invariant \<open>jobs_inv\<close> kept by every step, uniqueness of job identifiers, and the content of
    broadcast error messages.
\<close>

section \<open>Lifecycle states\<close>

datatype job_state = StateQueued | StateRunning | StateCompleted | StateFailed | StateCancelled

definition isTerminal :: "job_state \<Rightarrow> bool" where
  "isTerminal s = (case s of
      StateCompleted \<Rightarrow> True | StateFailed \<Rightarrow> True | StateCancelled \<Rightarrow> True | _ \<Rightarrow> False)"

definition canTransition :: "job_state \<Rightarrow> job_state \<Rightarrow> bool" where
  "canTransition s t = (case s of
      StateQueued \<Rightarrow> t = StateRunning \<or> t = StateCancelled
    | StateRunning \<Rightarrow> t = StateCompleted \<or> t = StateFailed \<or> t = StateCancelled
    | _ \<Rightarrow> False)"

text \<open>
  What a state machine with terminal states promises to its clients: no transition leaves a
  terminal state, every other state has one, and a transition never stays where it is.
\<close>

locale lifecycle =
  fixes can :: "'s \<Rightarrow> 's \<Rightarrow> bool" and terminal :: "'s \<Rightarrow> bool"
  assumes terminal_stuck: "terminal s \<Longrightarrow> \<not> can s t"
    and live_progress: "\<not> terminal s \<Longrightarrow> \<exists>t. can s t"
    and no_self_loop: "\<not> can s s"
begin

lemma terminal_absorbing: "can\<^sup>*\<^sup>* s t \<Longrightarrow> terminal s \<Longrightarrow> t = s"
  by (induction rule: rtranclp_induct) (auto dest: terminal_stuck)

lemma terminal_final: "can\<^sup>*\<^sup>* s t \<Longrightarrow> can\<^sup>*\<^sup>* t u \<Longrightarrow> terminal t \<Longrightarrow> u = t"
  by (rule terminal_absorbing)

end

interpretation job_lifecycle: lifecycle canTransition isTerminal
proof unfold_locales
  fix s t
  show "isTerminal s \<Longrightarrow> \<not> canTransition s t"
    by (simp add: isTerminal_def canTransition_def split: job_state.splits)
next
  fix s
  show "\<not> isTerminal s \<Longrightarrow> \<exists>t. canTransition s t"
    by (cases s) (auto simp: isTerminal_def canTransition_def)
next
  fix s
  show "\<not> canTransition s s"
    by (cases s) (auto simp: canTransition_def)
qed

section \<open>Data\<close>

record job =
  job_ID :: string
  job_Name :: string
  job_State :: job_state
  job_Error :: string
  job_Result :: string
  job_CreatedAt :: gotime
  job_StartedAt :: "gotime option"
  job_FinishedAt :: "gotime option"
  job_Timeout :: duration

datatype ctx_err = CtxLive | CtxCanceled | CtxDeadlineExceeded

definition ctx_cancel :: "ctx_err \<Rightarrow> ctx_err" where
  "ctx_cancel c = (if c = CtxLive then CtxCanceled else c)"

record job_record =
  rec_job :: job
  rec_run :: bool
  rec_runResult :: bool
  rec_ctx :: ctx_err

record job_request =
  req_Name :: string
  req_Timeout :: duration
  req_Run :: bool
  req_RunResult :: bool

record jobs_config =
  cfg_Workers :: int
  cfg_QueueSize :: int

datatype jobs_error =
  ErrInvalidConfig | ErrQueueFull | ErrJobNotFound | ErrInvalidJob string | ErrClosed

datatype run_err = RunOk | RunCanceled | RunError string

record job_payload =
  pl_job_id :: string
  pl_name :: string
  pl_state :: job_state
  pl_previous_state :: "job_state option"
  pl_created_at :: gotime
  pl_started_at :: "gotime option"
  pl_finished_at :: "gotime option"
  pl_error :: "string option"
  pl_result :: "string option"

record manager =
  mgr_queue :: "string list"
  mgr_publisher :: bool
  mgr_events :: "(string \<times> job_payload) list"
  mgr_rootCancelled :: bool
  mgr_closed :: bool
  mgr_idSeq :: "64 word"
  mgr_totalCompleted :: "64 word"
  mgr_totalFailed :: "64 word"
  mgr_workers :: int
  mgr_queueCap :: int
  mgr_jobs :: "(string, job_record) gomap"

record jobs_snapshot =
  snap_Workers :: int
  snap_QueueCapacity :: int
  snap_QueueDepth :: nat
  snap_Active :: nat
  snap_TotalCompleted :: "64 word"
  snap_TotalFailed :: "64 word"

definition TopicNotificationsJobState :: string where
  "TopicNotificationsJobState = ''notifications/job-state''"

definition defaultWorkers :: int where "defaultWorkers = 4"
definition defaultQueueSize :: int where "defaultQueueSize = 64"

definition canceled_text :: string where "canceled_text = ''context canceled''"

section \<open>Construction\<close>

definition NewManager :: "jobs_config \<Rightarrow> bool \<Rightarrow> jobs_error + manager" where
  "NewManager cfg publisher =
     (let workers = (if cfg_Workers cfg \<le> 0 then defaultWorkers else cfg_Workers cfg);
          queueSize = (if cfg_QueueSize cfg \<le> 0 then defaultQueueSize else cfg_QueueSize cfg)
      in if workers \<le> 0 \<or> queueSize \<le> 0 then Inl ErrInvalidConfig
         else Inr \<lparr>mgr_queue = [], mgr_publisher = publisher, mgr_events = [],
                   mgr_rootCancelled = False, mgr_closed = False, mgr_idSeq = 0,
                   mgr_totalCompleted = 0, mgr_totalFailed = 0,
                   mgr_workers = workers, mgr_queueCap = queueSize, mgr_jobs = []\<rparr>)"

section \<open>Publication\<close>

definition sensitiveHints :: "string list" where
  "sensitiveHints =
     [''authorization'', ''bearer '', ''token'', ''secret'', ''password'', ''api_key'', ''apikey'']"

definition sanitizeErrorForBroadcast :: "string \<Rightarrow> string" where
  "sanitizeErrorForBroadcast errMsg =
     (let trimmed = trim_space errMsg in
      if trimmed = '''' then ''''
      else if list_ex (contains_str (to_lower trimmed)) sensitiveHints then ''error details redacted''
      else if length trimmed > 256 then take 256 trimmed @ ''...''
      else trimmed)"

definition jobs_publish :: "string \<Rightarrow> job_payload \<Rightarrow> manager \<Rightarrow> manager" where
  "jobs_publish topic payload m =
     (if mgr_publisher m then m\<lparr>mgr_events := mgr_events m @ [(topic, payload)]\<rparr> else m)"

definition transition_payload :: "job \<Rightarrow> job_state \<Rightarrow> job_payload" where
  "transition_payload j previous =
     \<lparr>pl_job_id = job_ID j, pl_name = job_Name j, pl_state = job_State j,
      pl_previous_state = Some previous, pl_created_at = job_CreatedAt j,
      pl_started_at = job_StartedAt j, pl_finished_at = job_FinishedAt j,
      pl_error = (if job_Error j \<noteq> '''' then Some (sanitizeErrorForBroadcast (job_Error j)) else None),
      pl_result = (if job_Result j \<noteq> '''' then Some (job_Result j) else None)\<rparr>"

definition publishTransition :: "job \<Rightarrow> job_state \<Rightarrow> manager \<Rightarrow> manager" where
  "publishTransition j previous m =
     jobs_publish TopicNotificationsJobState (transition_payload j previous) m"

definition publishQueued :: "job \<Rightarrow> manager \<Rightarrow> manager" where
  "publishQueued j m = jobs_publish TopicNotificationsJobState
     \<lparr>pl_job_id = job_ID j, pl_name = job_Name j, pl_state = job_State j,
      pl_previous_state = None, pl_created_at = job_CreatedAt j,
      pl_started_at = None, pl_finished_at = None, pl_error = None, pl_result = None\<rparr> m"

section \<open>Transitions\<close>

text \<open>The writes of \<open>transitionWithResult\<close> to the job, in the order of the source.\<close>

definition apply_transition :: "gotime \<Rightarrow> job_state \<Rightarrow> string \<Rightarrow> string \<Rightarrow> job \<Rightarrow> job" where
  "apply_transition now next errMsg result j =
     (let j1 = (if next = StateRunning then j\<lparr>job_StartedAt := Some now\<rparr> else j);
          j2 = (if isTerminal next then j1\<lparr>job_FinishedAt := Some now\<rparr> else j1);
          j3 = j2\<lparr>job_State := next, job_Error := errMsg\<rparr>
      in if result \<noteq> '''' then j3\<lparr>job_Result := result\<rparr> else j3)"

definition count_transition :: "job_state \<Rightarrow> manager \<Rightarrow> manager" where
  "count_transition next m = (case next of
      StateCompleted \<Rightarrow> m\<lparr>mgr_totalCompleted := mgr_totalCompleted m + 1\<rparr>
    | StateFailed \<Rightarrow> m\<lparr>mgr_totalFailed := mgr_totalFailed m + 1\<rparr>
    | _ \<Rightarrow> m)"

definition transitionWithResult ::
  "gotime \<Rightarrow> string \<Rightarrow> job_state \<Rightarrow> string \<Rightarrow> string \<Rightarrow> manager \<Rightarrow> manager \<times> bool" where
  "transitionWithResult now jid next errMsg result m =
     (case map_of (mgr_jobs m) jid of
        None \<Rightarrow> (m, False)
      | Some r \<Rightarrow>
          let prev = job_State (rec_job r) in
          if \<not> canTransition prev next then (m, False)
          else
            let j = apply_transition now next errMsg result (rec_job r);
                m1 = m\<lparr>mgr_jobs := gm_set jid (r\<lparr>rec_job := j\<rparr>) (mgr_jobs m)\<rparr>
            in (publishTransition j prev (count_transition next m1), True))"

definition transition :: "gotime \<Rightarrow> string \<Rightarrow> job_state \<Rightarrow> string \<Rightarrow> manager \<Rightarrow> manager \<times> bool" where
  "transition now jid next errMsg m = transitionWithResult now jid next errMsg '''' m"

text \<open>\<open>r.cancel()\<close> on the record of an identifier.\<close>

definition cancel_ctx :: "string \<Rightarrow> manager \<Rightarrow> manager" where
  "cancel_ctx jid m = (case map_of (mgr_jobs m) jid of
      None \<Rightarrow> m
    | Some r \<Rightarrow> m\<lparr>mgr_jobs := gm_set jid (r\<lparr>rec_ctx := ctx_cancel (rec_ctx r)\<rparr>) (mgr_jobs m)\<rparr>)"

text \<open>The writes that turn a queued job into a cancelled one, shared by \<open>Cancel\<close> and \<open>Close\<close>.\<close>

definition cancel_queued_job :: "gotime \<Rightarrow> job \<Rightarrow> job" where
  "cancel_queued_job now j =
     j\<lparr>job_State := StateCancelled, job_Error := canceled_text, job_FinishedAt := Some now\<rparr>"

definition cancelQueuedRecord :: "gotime \<Rightarrow> string \<Rightarrow> manager \<Rightarrow> manager" where
  "cancelQueuedRecord now jid m =
     (let m1 = cancel_ctx jid m in
      case map_of (mgr_jobs m1) jid of
        None \<Rightarrow> m1
      | Some stored \<Rightarrow>
          if job_State (rec_job stored) \<noteq> StateQueued then m1
          else
            let prev = job_State (rec_job stored);
                j = cancel_queued_job now (rec_job stored)
            in publishTransition j prev
                 (m1\<lparr>mgr_jobs := gm_set jid (stored\<lparr>rec_job := j\<rparr>) (mgr_jobs m1)\<rparr>))"

section \<open>Submission\<close>

definition nextID :: "gotime \<Rightarrow> manager \<Rightarrow> manager \<times> string" where
  "nextID now m =
     (let sq = mgr_idSeq m + 1
      in (m\<lparr>mgr_idSeq := sq\<rparr>,
          ''job-'' @ show_int (unix_nano now) @ ''-'' @ show_nat (unat sq)))"

definition enqueue_check :: "job_request \<Rightarrow> manager \<Rightarrow> jobs_error option" where
  "enqueue_check req m =
     (if mgr_closed m then Some ErrClosed
      else if \<not> req_Run req \<and> \<not> req_RunResult req then Some (ErrInvalidJob ''run function is required'')
      else if req_Run req \<and> req_RunResult req
        then Some (ErrInvalidJob ''set exactly one of Run or RunResult'')
      else if req_Timeout req < 0 then Some (ErrInvalidJob ''timeout must be >= 0'')
      else None)"

definition enqueue_insert :: "gotime \<Rightarrow> job_request \<Rightarrow> manager \<Rightarrow> manager \<times> job" where
  "enqueue_insert now req m =
     (let (m1, jid) = nextID now m;
          j = \<lparr>job_ID = jid, job_Name = req_Name req, job_State = StateQueued, job_Error = '''',
               job_Result = '''', job_CreatedAt = now, job_StartedAt = None,
               job_FinishedAt = None, job_Timeout = req_Timeout req\<rparr>;
          r = \<lparr>rec_job = j, rec_run = req_Run req, rec_runResult = req_RunResult req,
               rec_ctx = (if mgr_rootCancelled m then CtxCanceled else CtxLive)\<rparr>
      in (m1\<lparr>mgr_jobs := gm_set jid r (mgr_jobs m1)\<rparr>, j))"

definition enqueue_send :: "job \<Rightarrow> manager \<Rightarrow> manager \<times> (jobs_error + job)" where
  "enqueue_send snapshot m =
     (if int (length (mgr_queue m)) < mgr_queueCap m
      then (publishQueued snapshot (m\<lparr>mgr_queue := mgr_queue m @ [job_ID snapshot]\<rparr>), Inr snapshot)
      else (m\<lparr>mgr_jobs := gm_del (job_ID snapshot) (mgr_jobs m)\<rparr>, Inl ErrQueueFull))"

definition Enqueue :: "gotime \<Rightarrow> job_request \<Rightarrow> manager \<Rightarrow> manager \<times> (jobs_error + job)" where
  "Enqueue now req m =
     (case enqueue_check req m of
        Some e \<Rightarrow> (m, Inl e)
      | None \<Rightarrow> (case enqueue_insert now req m of (m1, snapshot) \<Rightarrow> enqueue_send snapshot m1))"

section \<open>Cancellation, lookup, statistics\<close>

definition Cancel :: "gotime \<Rightarrow> string \<Rightarrow> manager \<Rightarrow> manager \<times> jobs_error option" where
  "Cancel now jid m =
     (if jid = '''' then (m, Some (ErrInvalidJob ''id is required''))
      else case map_of (mgr_jobs m) jid of
        None \<Rightarrow> (m, Some ErrJobNotFound)
      | Some r \<Rightarrow>
          let prev = job_State (rec_job r) in
          if isTerminal prev then (m, None)
          else
            let r1 = r\<lparr>rec_ctx := ctx_cancel (rec_ctx r)\<rparr> in
            if prev = StateQueued
            then let j = cancel_queued_job now (rec_job r1)
                 in (publishTransition j prev
                       (m\<lparr>mgr_jobs := gm_set jid (r1\<lparr>rec_job := j\<rparr>) (mgr_jobs m)\<rparr>), None)
            else (m\<lparr>mgr_jobs := gm_set jid r1 (mgr_jobs m)\<rparr>, None))"

definition Get :: "string \<Rightarrow> manager \<Rightarrow> job option" where
  "Get jid m = map_option rec_job (map_of (mgr_jobs m) jid)"

definition Stats :: "manager \<Rightarrow> jobs_snapshot" where
  "Stats m =
     \<lparr>snap_Workers = mgr_workers m, snap_QueueCapacity = mgr_queueCap m,
      snap_QueueDepth = length (mgr_queue m),
      snap_Active = gm_count (\<lambda>r. job_State (rec_job r) = StateRunning) (mgr_jobs m),
      snap_TotalCompleted = mgr_totalCompleted m, snap_TotalFailed = mgr_totalFailed m\<rparr>"

section \<open>Execution\<close>

definition runRecord_start :: "gotime \<Rightarrow> string \<Rightarrow> manager \<Rightarrow> manager \<times> bool" where
  "runRecord_start now jid m = transition now jid StateRunning '''' m"

definition runRecord_finish :: "gotime \<Rightarrow> string \<Rightarrow> string \<Rightarrow> run_err \<Rightarrow> manager \<Rightarrow> manager" where
  "runRecord_finish now jid res err m =
     (case map_of (mgr_jobs m) jid of
        None \<Rightarrow> m
      | Some r \<Rightarrow>
          let result = (if rec_runResult r then res else '''');
              ctxErr = rec_ctx r;
              m1 = cancel_ctx jid m
          in case err of
               RunOk \<Rightarrow> fst (transitionWithResult now jid StateCompleted '''' result m1)
             | RunCanceled \<Rightarrow> fst (transition now jid StateCancelled canceled_text m1)
             | RunError msg \<Rightarrow>
                 if ctxErr = CtxCanceled \<or> ctxErr = CtxDeadlineExceeded
                 then fst (transition now jid StateCancelled canceled_text m1)
                 else fst (transition now jid StateFailed msg m1))"

definition runRecord ::
  "gotime \<Rightarrow> gotime \<Rightarrow> string \<Rightarrow> string \<Rightarrow> run_err \<Rightarrow> manager \<Rightarrow> manager" where
  "runRecord now0 now1 jid res err m =
     (case runRecord_start now0 jid m of
        (m1, ok) \<Rightarrow> if ok then runRecord_finish now1 jid res err m1 else m1)"

section \<open>Shutdown\<close>

lemma mgr_queue_publish [simp]: "mgr_queue (jobs_publish t p m) = mgr_queue m"
  by (simp add: jobs_publish_def)

lemma mgr_queue_cancel_ctx [simp]: "mgr_queue (cancel_ctx jid m) = mgr_queue m"
  by (simp add: cancel_ctx_def split: option.splits)

lemma mgr_queue_cancelQueuedRecord [simp]: "mgr_queue (cancelQueuedRecord now jid m) = mgr_queue m"
  by (simp add: cancelQueuedRecord_def publishTransition_def Let_def split: option.splits)

function cancelQueuedJobsOnClose :: "(string \<Rightarrow> gotime) \<Rightarrow> manager \<Rightarrow> manager" where
  "cancelQueuedJobsOnClose now m =
     (case mgr_queue m of
        [] \<Rightarrow> m
      | jid # q \<Rightarrow>
          cancelQueuedJobsOnClose now (cancelQueuedRecord (now jid) jid (m\<lparr>mgr_queue := q\<rparr>)))"
  by pat_completeness auto
termination
  by (relation "measure (\<lambda>(now, m). length (mgr_queue m))") auto

declare cancelQueuedJobsOnClose.simps [simp del]

definition rootCancel :: "manager \<Rightarrow> manager" where
  "rootCancel m = m\<lparr>mgr_rootCancelled := True,
     mgr_jobs := map (\<lambda>(jid, r). (jid, r\<lparr>rec_ctx := ctx_cancel (rec_ctx r)\<rparr>)) (mgr_jobs m)\<rparr>"

definition Close :: "(string \<Rightarrow> gotime) \<Rightarrow> manager \<Rightarrow> manager" where
  "Close now m =
     (if mgr_closed m then m
      else rootCancel (cancelQueuedJobsOnClose now (m\<lparr>mgr_closed := True\<rparr>)))"

section \<open>Frame lemmas\<close>

lemma jobs_publish_frame [simp]:
  "mgr_jobs (jobs_publish t p m) = mgr_jobs m"
  "mgr_closed (jobs_publish t p m) = mgr_closed m"
  "mgr_rootCancelled (jobs_publish t p m) = mgr_rootCancelled m"
  "mgr_idSeq (jobs_publish t p m) = mgr_idSeq m"
  "mgr_totalCompleted (jobs_publish t p m) = mgr_totalCompleted m"
  "mgr_totalFailed (jobs_publish t p m) = mgr_totalFailed m"
  "mgr_workers (jobs_publish t p m) = mgr_workers m"
  "mgr_queueCap (jobs_publish t p m) = mgr_queueCap m"
  by (simp_all add: jobs_publish_def)

lemma publishTransition_frame [simp]:
  "mgr_jobs (publishTransition j s m) = mgr_jobs m"
  "mgr_queue (publishTransition j s m) = mgr_queue m"
  "mgr_closed (publishTransition j s m) = mgr_closed m"
  "mgr_rootCancelled (publishTransition j s m) = mgr_rootCancelled m"
  "mgr_idSeq (publishTransition j s m) = mgr_idSeq m"
  "mgr_totalCompleted (publishTransition j s m) = mgr_totalCompleted m"
  "mgr_totalFailed (publishTransition j s m) = mgr_totalFailed m"
  "mgr_workers (publishTransition j s m) = mgr_workers m"
  "mgr_queueCap (publishTransition j s m) = mgr_queueCap m"
  by (simp_all add: publishTransition_def)

lemma publishQueued_frame [simp]:
  "mgr_jobs (publishQueued j m) = mgr_jobs m"
  "mgr_queue (publishQueued j m) = mgr_queue m"
  "mgr_closed (publishQueued j m) = mgr_closed m"
  "mgr_rootCancelled (publishQueued j m) = mgr_rootCancelled m"
  "mgr_idSeq (publishQueued j m) = mgr_idSeq m"
  "mgr_totalCompleted (publishQueued j m) = mgr_totalCompleted m"
  "mgr_totalFailed (publishQueued j m) = mgr_totalFailed m"
  "mgr_workers (publishQueued j m) = mgr_workers m"
  "mgr_queueCap (publishQueued j m) = mgr_queueCap m"
  by (simp_all add: publishQueued_def)

lemma count_transition_frame [simp]:
  "mgr_jobs (count_transition s m) = mgr_jobs m"
  "mgr_queue (count_transition s m) = mgr_queue m"
  "mgr_closed (count_transition s m) = mgr_closed m"
  "mgr_rootCancelled (count_transition s m) = mgr_rootCancelled m"
  "mgr_idSeq (count_transition s m) = mgr_idSeq m"
  "mgr_workers (count_transition s m) = mgr_workers m"
  "mgr_queueCap (count_transition s m) = mgr_queueCap m"
  "mgr_totalCompleted (count_transition s m) =
     mgr_totalCompleted m + (if s = StateCompleted then 1 else 0)"
  "mgr_totalFailed (count_transition s m) = mgr_totalFailed m + (if s = StateFailed then 1 else 0)"
  by (cases s; simp add: count_transition_def)+

lemma apply_transition_fields [simp]:
  "job_ID (apply_transition now s e res j) = job_ID j"
  "job_State (apply_transition now s e res j) = s"
  "job_Error (apply_transition now s e res j) = e"
  "job_Result (apply_transition now s e res j) = (if res \<noteq> '''' then res else job_Result j)"
  "job_StartedAt (apply_transition now s e res j) =
     (if s = StateRunning then Some now else job_StartedAt j)"
  "job_FinishedAt (apply_transition now s e res j) =
     (if isTerminal s then Some now else job_FinishedAt j)"
  by (simp_all add: apply_transition_def Let_def)

lemma isTerminal_simps [simp]:
  "isTerminal StateCompleted" "isTerminal StateFailed" "isTerminal StateCancelled"
  "\<not> isTerminal StateQueued" "\<not> isTerminal StateRunning"
  by (simp_all add: isTerminal_def)

lemma canTransition_iff:
  "canTransition s t \<longleftrightarrow>
     (s = StateQueued \<and> (t = StateRunning \<or> t = StateCancelled)) \<or> (s = StateRunning \<and> isTerminal t)"
  by (cases s; cases t) (simp_all add: canTransition_def)

lemma transitionWithResult_Some:
  assumes "map_of (mgr_jobs m) jid = Some r" and "canTransition (job_State (rec_job r)) s"
  shows "transitionWithResult now jid s e res m =
     (publishTransition (apply_transition now s e res (rec_job r)) (job_State (rec_job r))
        (count_transition s (m\<lparr>mgr_jobs :=
           gm_set jid (r\<lparr>rec_job := apply_transition now s e res (rec_job r)\<rparr>) (mgr_jobs m)\<rparr>)), True)"
  using assms by (simp add: transitionWithResult_def Let_def)

lemma transitionWithResult_refused:
  "(\<And>r. map_of (mgr_jobs m) jid = Some r \<Longrightarrow> \<not> canTransition (job_State (rec_job r)) s) \<Longrightarrow>
     transitionWithResult now jid s e res m = (m, False)"
  by (simp add: transitionWithResult_def Let_def split: option.splits)

section \<open>Redaction of broadcast errors\<close>

lemma contains_str_take: "contains_str (take n s) h \<Longrightarrow> contains_str s h"
  unfolding contains_str_iff
  by (metis append.assoc append_take_drop_id)

lemma contains_str_append_disjoint:
  assumes "contains_str (s @ d) h" and "h \<noteq> []" and "set h \<inter> set d = {}"
  shows "contains_str s h"
proof -
  obtain l r where lr: "s @ d = l @ h @ r" using assms(1) by (auto simp: contains_str_iff)
  then consider us where "s = l @ us" "us @ d = h @ r" | us where "l = s @ us" "d = us @ h @ r"
    by (auto simp: append_eq_append_conv2)
  then show ?thesis
  proof cases
    case 1
    from 1(2) consider vs where "us = h @ vs" | vs where "h = us @ vs" "d = vs @ r"
      by (auto simp: append_eq_append_conv2)
    then show ?thesis
    proof cases
      case 1
      with \<open>s = l @ us\<close> show ?thesis by (auto simp: contains_str_iff)
    next
      case 2
      with assms(3) have "vs = []" by (cases vs) auto
      with 2 \<open>s = l @ us\<close> have "s = l @ h @ []" by simp
      then show ?thesis unfolding contains_str_iff by blast
    qed
  next
    case 2
    with assms(2,3) show ?thesis by (cases h) auto
  qed
qed

lemma take_to_lower: "to_lower (take n s) = take n (to_lower s)"
  by (simp add: to_lower_def take_map)

lemma sensitiveHints_shape:
  "\<forall>h \<in> set sensitiveHints.
     h \<noteq> [] \<and> set h \<inter> set ''...'' = {} \<and>
     \<not> contains_str (to_lower ''error details redacted'') h"
  by code_simp

text \<open>
  No error text that the job manager broadcasts contains one of the sensitive hints, in any
  letter case, and no broadcast text is longer than 259 bytes.
\<close>

theorem sanitizeErrorForBroadcast_safe:
  "(\<forall>h \<in> set sensitiveHints. \<not> contains_str (to_lower (sanitizeErrorForBroadcast e)) h) \<and>
   length (sanitizeErrorForBroadcast e) \<le> 259"
proof -
  let ?t = "trim_space e"
  have dots: "to_lower ''...'' = ''...''" by code_simp
  have "\<not> contains_str (to_lower (sanitizeErrorForBroadcast e)) h" if h: "h \<in> set sensitiveHints" for h
  proof (cases "list_ex (contains_str (to_lower ?t)) sensitiveHints \<and> ?t \<noteq> []")
    case True
    then have "sanitizeErrorForBroadcast e = ''error details redacted''"
      by (simp add: sanitizeErrorForBroadcast_def Let_def)
    then show ?thesis using sensitiveHints_shape h by simp
  next
    case False
    with h have no: "?t = [] \<or> \<not> contains_str (to_lower ?t) h" by (auto simp: list_ex_iff)
    have ne: "h \<noteq> []" "set h \<inter> set ''...'' = {}" using sensitiveHints_shape h by auto
    have e: "\<not> contains_str (to_lower []) h" using ne(1) by (simp add: to_lower_def)
    have "\<not> contains_str (take 256 (to_lower ?t) @ ''...'') h" if "?t \<noteq> []"
      using no that ne contains_str_append_disjoint contains_str_take by blast
    with no False e show ?thesis
      by (auto simp: sanitizeErrorForBroadcast_def Let_def to_lower_append take_to_lower dots
          simp del: contains_str.simps)
  qed
  moreover have "length (sanitizeErrorForBroadcast e) \<le> 259"
    by (simp add: sanitizeErrorForBroadcast_def Let_def)
  ultimately show ?thesis by blast
qed

theorem sanitizeErrorForBroadcast_safe_witness:
  "\<not> contains_str (to_lower (sanitizeErrorForBroadcast '' bad Token x'')) ''token''"
  using sanitizeErrorForBroadcast_safe [of "'' bad Token x''"] by (simp add: sensitiveHints_def)

section \<open>Identifiers\<close>

text \<open>
  Job identifiers drawn at different values of the sequence counter differ, whatever the two
  clock readings are, as long as the 64-bit counter has not wrapped around to the same value.
\<close>

theorem nextID_distinct:
  assumes "mgr_idSeq m \<noteq> mgr_idSeq m'"
  shows "snd (nextID t m) \<noteq> snd (nextID t' m')"
proof
  assume "snd (nextID t m) = snd (nextID t' m')"
  then have "unat (mgr_idSeq m + 1) = unat (mgr_idSeq m' + 1)"
    using after_last_dash [of "show_int (unix_nano t)" "unat (mgr_idSeq m + 1)"
        "show_int (unix_nano t')" "unat (mgr_idSeq m' + 1)"]
    by (simp add: nextID_def Let_def)
  then have "mgr_idSeq m + 1 = mgr_idSeq m' + 1" by (rule unsigned_word_eqI)
  then show False using assms by simp
qed

theorem nextID_distinct_witness:
  "snd (nextID 7 \<lparr>mgr_queue = [], mgr_publisher = False, mgr_events = [], mgr_rootCancelled = False,
      mgr_closed = False, mgr_idSeq = 0, mgr_totalCompleted = 0, mgr_totalFailed = 0,
      mgr_workers = 4, mgr_queueCap = 64, mgr_jobs = []\<rparr>) \<noteq>
   snd (nextID 7 \<lparr>mgr_queue = [], mgr_publisher = False, mgr_events = [], mgr_rootCancelled = False,
      mgr_closed = False, mgr_idSeq = 1, mgr_totalCompleted = 0, mgr_totalFailed = 0,
      mgr_workers = 4, mgr_queueCap = 64, mgr_jobs = []\<rparr>)"
  by (rule nextID_distinct) simp

end
