(* ===== verification/Jobs_System.thy ===== *)
theory Jobs_System
  imports Jobs
begin

text \<open>
  The job manager as a concurrent system: callers of \<open>Enqueue\<close> and \<open>Cancel\<close>, the worker
  goroutines and the goroutine in \<open>Close\<close> interleave at the critical sections of
  \<open>internal/jobs/manager.go\<close>. A state \<open>jsys\<close> holds the manager and what every goroutine is
  about to do:

  \<^item> \<open>js_checked\<close>: requests whose \<open>Enqueue\<close> has passed its guards and not yet stored a record;
  \<^item> \<open>js_pend\<close>: snapshots whose \<open>Enqueue\<close> has stored the record and not yet reached the queue;
  \<^item> \<open>js_held\<close>: identifiers a worker has received and not yet moved to running;
  \<^item> \<open>js_busy\<close>: identifiers whose body a worker is executing;
  \<^item> \<open>js_drained\<close>: identifiers \<open>Close\<close> has received and not yet marked cancelled;
  \<^item> \<open>js_exited\<close> and \<open>js_closer\<close>: workers that have returned and the position of \<open>Close\<close>.

  Publication and the two atomic counters follow the unlock of a transition in the source; here
  they are part of the step. The sequence counter is assumed not to wrap around.
\<close>

datatype closer = NotClosing | Draining | Waiting | Returned

record jsys =
  js_mgr :: manager
  js_checked :: "job_request list"
  js_pend :: "job list"
  js_held :: "string list"
  js_busy :: "string list"
  js_drained :: "string list"
  js_exited :: nat
  js_closer :: closer

definition jobs_init :: "manager \<Rightarrow> jsys" where
  "jobs_init m = \<lparr>js_mgr = m, js_checked = [], js_pend = [], js_held = [], js_busy = [],
     js_drained = [], js_exited = 0, js_closer = NotClosing\<rparr>"

text \<open>Expiry of the deadline that \<open>context.WithTimeout\<close> gave to a record.\<close>

definition ctx_expire :: "string \<Rightarrow> manager \<Rightarrow> manager" where
  "ctx_expire jid m = (case map_of (mgr_jobs m) jid of
      None \<Rightarrow> m
    | Some r \<Rightarrow>
        if 0 < job_Timeout (rec_job r) \<and> rec_ctx r = CtxLive
        then m\<lparr>mgr_jobs := gm_set jid (r\<lparr>rec_ctx := CtxDeadlineExceeded\<rparr>) (mgr_jobs m)\<rparr>
        else m)"

inductive jobs_step :: "jsys \<Rightarrow> jsys \<Rightarrow> bool" where
  enq_check: "enqueue_check req (js_mgr s) = None \<Longrightarrow>
     jobs_step s (s\<lparr>js_checked := req # js_checked s\<rparr>)"
| enq_insert: "js_checked s = xs @ req # ys \<Longrightarrow> unat (mgr_idSeq (js_mgr s)) + 1 < 2 ^ 64 \<Longrightarrow>
     enqueue_insert now req (js_mgr s) = (m', snap) \<Longrightarrow>
     jobs_step s (s\<lparr>js_mgr := m', js_checked := xs @ ys, js_pend := snap # js_pend s\<rparr>)"
| enq_send: "js_pend s = xs @ snap # ys \<Longrightarrow> enqueue_send snap (js_mgr s) = (m', res) \<Longrightarrow>
     jobs_step s (s\<lparr>js_mgr := m', js_pend := xs @ ys\<rparr>)"
| cancel: "Cancel now jid (js_mgr s) = (m', res) \<Longrightarrow> jobs_step s (s\<lparr>js_mgr := m'\<rparr>)"
| expire: "jobs_step s (s\<lparr>js_mgr := ctx_expire jid (js_mgr s)\<rparr>)"
| take_job: "mgr_queue (js_mgr s) = jid # q \<Longrightarrow>
     int (js_exited s + length (js_held s) + length (js_busy s)) < mgr_workers (js_mgr s) \<Longrightarrow>
     jobs_step s (s\<lparr>js_mgr := (js_mgr s)\<lparr>mgr_queue := q\<rparr>, js_held := jid # js_held s\<rparr>)"
| start: "js_held s = xs @ jid # ys \<Longrightarrow> runRecord_start now jid (js_mgr s) = (m', ok) \<Longrightarrow>
     jobs_step s (s\<lparr>js_mgr := m', js_held := xs @ ys,
                    js_busy := (if ok then jid # js_busy s else js_busy s)\<rparr>)"
| finish: "js_busy s = xs @ jid # ys \<Longrightarrow>
     jobs_step s (s\<lparr>js_mgr := runRecord_finish now jid res err (js_mgr s), js_busy := xs @ ys\<rparr>)"
| exit_worker: "mgr_rootCancelled (js_mgr s) \<Longrightarrow>
     int (js_exited s + length (js_held s) + length (js_busy s)) < mgr_workers (js_mgr s) \<Longrightarrow>
     jobs_step s (s\<lparr>js_exited := js_exited s + 1\<rparr>)"
| close_begin: "\<not> mgr_closed (js_mgr s) \<Longrightarrow>
     jobs_step s (s\<lparr>js_mgr := (js_mgr s)\<lparr>mgr_closed := True\<rparr>, js_closer := Draining\<rparr>)"
| drain_take: "js_closer s = Draining \<Longrightarrow> js_drained s = [] \<Longrightarrow> mgr_queue (js_mgr s) = jid # q \<Longrightarrow>
     jobs_step s (s\<lparr>js_mgr := (js_mgr s)\<lparr>mgr_queue := q\<rparr>, js_drained := [jid]\<rparr>)"
| drain_mark: "js_drained s = [jid] \<Longrightarrow>
     jobs_step s (s\<lparr>js_mgr := cancelQueuedRecord now jid (js_mgr s), js_drained := []\<rparr>)"
| close_root: "js_closer s = Draining \<Longrightarrow> js_drained s = [] \<Longrightarrow> mgr_queue (js_mgr s) = [] \<Longrightarrow>
     jobs_step s (s\<lparr>js_mgr := rootCancel (js_mgr s), js_closer := Waiting\<rparr>)"
| close_return: "js_closer s = Waiting \<Longrightarrow> int (js_exited s) = mgr_workers (js_mgr s) \<Longrightarrow>
     jobs_step s (s\<lparr>js_closer := Returned\<rparr>)"

definition jobs_reachable :: "manager \<Rightarrow> jsys \<Rightarrow> bool" where
  "jobs_reachable m s = jobs_step\<^sup>*\<^sup>* (jobs_init m) s"

section \<open>Invariant\<close>

definition job_coherent :: "job \<Rightarrow> bool" where
  "job_coherent j = (case job_State j of
      StateQueued \<Rightarrow> job_StartedAt j = None \<and> job_FinishedAt j = None \<and> job_Error j = '''' \<and> job_Result j = ''''
    | StateRunning \<Rightarrow> job_StartedAt j \<noteq> None \<and> job_FinishedAt j = None \<and> job_Error j = '''' \<and> job_Result j = ''''
    | StateCompleted \<Rightarrow> job_StartedAt j \<noteq> None \<and> job_FinishedAt j \<noteq> None \<and> job_Error j = ''''
    | StateFailed \<Rightarrow> job_StartedAt j \<noteq> None \<and> job_FinishedAt j \<noteq> None \<and> job_Result j = ''''
    | StateCancelled \<Rightarrow> job_FinishedAt j \<noteq> None \<and> job_Error j = canceled_text \<and> job_Result j = '''')"

abbreviation rec_state :: "job_record \<Rightarrow> job_state" where
  "rec_state r \<equiv> job_State (rec_job r)"

definition issued_id :: "gotime \<Rightarrow> nat \<Rightarrow> string" where
  "issued_id t k = ''job-'' @ show_int (unix_nano t) @ ''-'' @ show_nat k"

definition store_ok :: "(string, job_record) gomap \<Rightarrow> nat \<Rightarrow> bool" where
  "store_ok jobs n \<longleftrightarrow> gm_wf jobs \<and>
     (\<forall>jid r. map_of jobs jid = Some r \<longrightarrow>
        job_ID (rec_job r) = jid \<and> job_coherent (rec_job r) \<and> (\<exists>t k. jid = issued_id t k \<and> k \<le> n))"

definition sched_ok :: "(string, job_record) gomap \<Rightarrow> string list \<Rightarrow> string list \<Rightarrow> bool" where
  "sched_ok jobs w b \<longleftrightarrow> distinct (w @ b) \<and>
     (\<forall>jid \<in> set (w @ b). map_of jobs jid \<noteq> None) \<and>
     (\<forall>jid r. map_of jobs jid = Some r \<longrightarrow>
        (rec_state r = StateRunning \<longleftrightarrow> jid \<in> set b) \<and> (rec_state r = StateQueued \<longrightarrow> jid \<in> set w) \<and>
        (jid \<in> set w \<longrightarrow> rec_state r = StateQueued \<or> rec_state r = StateCancelled))"

definition totals_ok :: "manager \<Rightarrow> bool" where
  "totals_ok m \<longleftrightarrow>
     mgr_totalCompleted m = of_nat (gm_count (\<lambda>r. rec_state r = StateCompleted) (mgr_jobs m)) \<and>
     mgr_totalFailed m = of_nat (gm_count (\<lambda>r. rec_state r = StateFailed) (mgr_jobs m))"

definition js_waiting :: "jsys \<Rightarrow> string list" where
  "js_waiting s = mgr_queue (js_mgr s) @ map job_ID (js_pend s) @ js_held s @ js_drained s"

definition limits_ok :: "jsys \<Rightarrow> bool" where
  "limits_ok s \<longleftrightarrow> int (length (mgr_queue (js_mgr s))) \<le> mgr_queueCap (js_mgr s) \<and>
     int (js_exited s + length (js_held s) + length (js_busy s)) \<le> mgr_workers (js_mgr s) \<and>
     length (js_drained s) \<le> 1 \<and>
     (js_closer s \<in> {Waiting, Returned} \<longrightarrow> mgr_rootCancelled (js_mgr s) \<and> js_drained s = []) \<and>
     (js_closer s = NotClosing \<longleftrightarrow> \<not> mgr_closed (js_mgr s)) \<and>
     (js_closer s = NotClosing \<longrightarrow> js_drained s = []) \<and>
     (js_closer s = Returned \<longrightarrow> int (js_exited s) = mgr_workers (js_mgr s))"

definition jobs_inv :: "jsys \<Rightarrow> bool" where
  "jobs_inv s \<longleftrightarrow> store_ok (mgr_jobs (js_mgr s)) (unat (mgr_idSeq (js_mgr s))) \<and>
     sched_ok (mgr_jobs (js_mgr s)) (js_waiting s) (js_busy s) \<and>
     totals_ok (js_mgr s) \<and> limits_ok s"

section \<open>Store updates\<close>

text \<open>Every operation is one of seven changes to the jobs map and to the work lists.\<close>

lemma store_ok_update:
  "store_ok jobs n \<Longrightarrow> map_of jobs jid = Some r \<Longrightarrow> job_ID (rec_job r') = job_ID (rec_job r) \<Longrightarrow>
     job_coherent (rec_job r') \<Longrightarrow> store_ok (gm_set jid r' jobs) n"
  unfolding store_ok_def by auto

lemma store_ok_new:
  "store_ok jobs n \<Longrightarrow> jid = issued_id t k \<Longrightarrow> k \<le> n' \<Longrightarrow> n \<le> n' \<Longrightarrow> job_ID (rec_job r) = jid \<Longrightarrow>
     job_coherent (rec_job r) \<Longrightarrow> store_ok (gm_set jid r jobs) n'"
  unfolding store_ok_def by (auto split: if_splits) (metis le_trans)

lemma store_ok_delete: "store_ok jobs n \<Longrightarrow> store_ok (gm_del jid jobs) n"
  unfolding store_ok_def by (auto split: if_splits)

lemma store_ok_fresh: "store_ok jobs n \<Longrightarrow> map_of jobs (issued_id t (Suc n)) = None"
proof (rule ccontr)
  assume ok: "store_ok jobs n" and "map_of jobs (issued_id t (Suc n)) \<noteq> None"
  then obtain t' k where eq: "issued_id t (Suc n) = issued_id t' k" and "k \<le> n"
    unfolding store_ok_def by blast
  from eq have "show_int (unix_nano t) @ CHR ''-'' # show_nat (Suc n) = show_int (unix_nano t') @ CHR ''-'' # show_nat k"
    by (simp add: issued_id_def)
  from after_last_dash [OF this] \<open>k \<le> n\<close> show False by simp
qed

lemma sched_ok_perm:
  assumes "sched_ok jobs w b" and "mset w = mset w'"
  shows "sched_ok jobs w' b"
proof -
  have "set w = set w'" and "distinct w = distinct w'"
    using assms(2) by (metis set_mset_mset, metis distinct_count_atmost_1 mset_eq_setD)
  with assms(1) show ?thesis unfolding sched_ok_def by auto
qed

lemma sched_ok_waitingD:
  "sched_ok jobs w b \<Longrightarrow> jid \<in> set w \<Longrightarrow> map_of jobs jid = Some r \<Longrightarrow>
     rec_state r = StateQueued \<or> rec_state r = StateCancelled"
  unfolding sched_ok_def by blast

lemma sched_ok_same:
  "sched_ok jobs w b \<Longrightarrow> map_of jobs jid = Some r \<Longrightarrow> rec_state r' = rec_state r \<Longrightarrow>
     sched_ok (gm_set jid r' jobs) w b"
  unfolding sched_ok_def by auto

lemma sched_ok_cancel_queued:
  "sched_ok jobs w b \<Longrightarrow> map_of jobs jid = Some r \<Longrightarrow> rec_state r = StateQueued \<Longrightarrow>
     rec_state r' = StateCancelled \<Longrightarrow> sched_ok (gm_set jid r' jobs) w b"
  unfolding sched_ok_def by auto

lemma sched_ok_start:
  "sched_ok jobs (jid # w) b \<Longrightarrow> map_of jobs jid = Some r \<Longrightarrow> rec_state r' = StateRunning \<Longrightarrow>
     sched_ok (gm_set jid r' jobs) w (jid # b)"
  unfolding sched_ok_def by auto

lemma sched_ok_drop:
  "sched_ok jobs (jid # w) b \<Longrightarrow> (\<And>r. map_of jobs jid = Some r \<Longrightarrow> rec_state r \<noteq> StateQueued) \<Longrightarrow>
     sched_ok jobs w b"
  unfolding sched_ok_def by auto (metis option.inject)

lemma sched_ok_finish:
  "sched_ok jobs w (xs @ jid # ys) \<Longrightarrow> isTerminal (rec_state r') \<Longrightarrow>
     sched_ok (gm_set jid r' jobs) w (xs @ ys)"
  unfolding sched_ok_def by (auto split: if_splits)

lemma sched_ok_new:
  "sched_ok jobs w b \<Longrightarrow> map_of jobs jid = None \<Longrightarrow> rec_state r = StateQueued \<Longrightarrow>
     sched_ok (gm_set jid r jobs) (jid # w) b"
  unfolding sched_ok_def by (auto split: if_splits) (metis UnI1 UnI2 option.distinct(1))+

lemma sched_ok_delete: "sched_ok jobs (jid # w) b \<Longrightarrow> sched_ok (gm_del jid jobs) w b"
  unfolding sched_ok_def by (auto split: if_splits)

section \<open>Preservation by the operations\<close>

lemma coherent_cancel_queued:
  "job_coherent j \<Longrightarrow> job_State j = StateQueued \<Longrightarrow> job_coherent (cancel_queued_job now j)"
  by (simp add: job_coherent_def cancel_queued_job_def)

lemma coherent_start:
  "job_coherent j \<Longrightarrow> job_State j = StateQueued \<Longrightarrow> job_coherent (apply_transition now StateRunning '''' '''' j)"
  by (simp add: job_coherent_def)

lemma coherent_finish:
  assumes "job_coherent j" and "job_State j = StateRunning"
    and "(s = StateCompleted \<and> e = '''') \<or> (s = StateFailed \<and> res = '''') \<or>
         (s = StateCancelled \<and> e = canceled_text \<and> res = '''')"
  shows "job_coherent (apply_transition now s e res j)"
  using assms by (auto simp: job_coherent_def)

text \<open>What an operation on one record leaves alone.\<close>

definition mgr_frame :: "manager \<Rightarrow> string list \<times> bool \<times> bool \<times> 64 word \<times> int \<times> int" where
  "mgr_frame m = (mgr_queue m, mgr_closed m, mgr_rootCancelled m, mgr_idSeq m, mgr_workers m, mgr_queueCap m)"

definition mgr_totals :: "manager \<Rightarrow> 64 word \<times> 64 word" where
  "mgr_totals m = (mgr_totalCompleted m, mgr_totalFailed m)"

lemmas mgr_frame_simps = mgr_frame_def mgr_totals_def

lemma limits_ok_frame:
  "limits_ok s \<Longrightarrow> mgr_frame m' = mgr_frame (js_mgr s) \<Longrightarrow> limits_ok (s\<lparr>js_mgr := m'\<rparr>)"
  by (simp add: limits_ok_def mgr_frame_def)

lemma js_waiting_frame:
  "mgr_frame m' = mgr_frame (js_mgr s) \<Longrightarrow> js_waiting (s\<lparr>js_mgr := m'\<rparr>) = js_waiting s"
  by (simp add: js_waiting_def mgr_frame_def)

lemma totals_ok_same:
  assumes "totals_ok m" and "map_of (mgr_jobs m) jid = Some r"
    and "mgr_jobs m' = gm_set jid r' (mgr_jobs m)" and "mgr_totals m' = mgr_totals m"
    and "rec_state r \<notin> {StateCompleted, StateFailed} \<and> rec_state r' \<notin> {StateCompleted, StateFailed} \<or> rec_state r = rec_state r'"
  shows "totals_ok m'"
  using assms gm_count_set_same [of "mgr_jobs m" jid r "\<lambda>r. rec_state r = StateCompleted" r']
    gm_count_set_same [of "mgr_jobs m" jid r "\<lambda>r. rec_state r = StateFailed" r']
  by (auto simp: totals_ok_def mgr_totals_def)

lemma inv_quiet:
  assumes inv: "jobs_inv s" and r: "map_of (mgr_jobs (js_mgr s)) jid = Some r"
    and m': "mgr_jobs m' = gm_set jid r' (mgr_jobs (js_mgr s))" "mgr_frame m' = mgr_frame (js_mgr s)"
      "mgr_totals m' = mgr_totals (js_mgr s)"
    and same: "rec_job r' = rec_job r"
  shows "jobs_inv (s\<lparr>js_mgr := m'\<rparr>)"
proof -
  have "job_coherent (rec_job r)" using inv r by (auto simp: jobs_inv_def store_ok_def)
  moreover have "mgr_idSeq m' = mgr_idSeq (js_mgr s)" using m'(2) by (simp add: mgr_frame_def)
  ultimately show ?thesis
    using inv r m' same
    by (simp add: jobs_inv_def js_waiting_frame limits_ok_frame store_ok_update sched_ok_same
        totals_ok_same [of "js_mgr s" jid r m' r'])
qed

lemma inv_cancel_queued:
  assumes inv: "jobs_inv s" and r: "map_of (mgr_jobs (js_mgr s)) jid = Some r" "rec_state r = StateQueued"
    and m': "mgr_jobs m' = gm_set jid r' (mgr_jobs (js_mgr s))" "mgr_frame m' = mgr_frame (js_mgr s)"
      "mgr_totals m' = mgr_totals (js_mgr s)"
    and r': "rec_job r' = cancel_queued_job now (rec_job r)"
  shows "jobs_inv (s\<lparr>js_mgr := m'\<rparr>)"
proof -
  have "job_coherent (rec_job r')"
    using inv r r' by (auto simp: jobs_inv_def store_ok_def coherent_cancel_queued)
  moreover have "job_ID (rec_job r') = job_ID (rec_job r)" "rec_state r' = StateCancelled"
    by (simp_all add: r' cancel_queued_job_def)
  moreover have "mgr_idSeq m' = mgr_idSeq (js_mgr s)" using m'(2) by (simp add: mgr_frame_def)
  ultimately show ?thesis
    using inv r m'
    by (simp add: jobs_inv_def js_waiting_frame limits_ok_frame store_ok_update sched_ok_cancel_queued
        totals_ok_same [of "js_mgr s" jid r m' r'])
qed

lemma cancel_ctx_inv [inv_intros]: "jobs_inv s \<Longrightarrow> jobs_inv (s\<lparr>js_mgr := cancel_ctx jid (js_mgr s)\<rparr>)"
proof (cases "map_of (mgr_jobs (js_mgr s)) jid")
  case (Some r)
  assume "jobs_inv s"
  from inv_quiet [OF this Some, of "cancel_ctx jid (js_mgr s)" "r\<lparr>rec_ctx := ctx_cancel (rec_ctx r)\<rparr>"]
  show ?thesis by (simp add: cancel_ctx_def Some mgr_frame_simps)
qed (simp add: cancel_ctx_def)

lemma ctx_expire_inv [inv_intros]: "jobs_inv s \<Longrightarrow> jobs_inv (s\<lparr>js_mgr := ctx_expire jid (js_mgr s)\<rparr>)"
proof (cases "map_of (mgr_jobs (js_mgr s)) jid")
  case (Some r)
  assume inv: "jobs_inv s"
  from inv_quiet [OF inv Some, of "ctx_expire jid (js_mgr s)" "r\<lparr>rec_ctx := CtxDeadlineExceeded\<rparr>"] inv
  show ?thesis
    by (cases "0 < job_Timeout (rec_job r) \<and> rec_ctx r = CtxLive")
      (auto simp: ctx_expire_def Some mgr_frame_simps)
qed (simp add: ctx_expire_def)

lemma Cancel_inv [inv_intros]: "jobs_inv s \<Longrightarrow> jobs_inv (s\<lparr>js_mgr := fst (Cancel now jid (js_mgr s))\<rparr>)"
proof (cases "map_of (mgr_jobs (js_mgr s)) jid")
  case (Some r)
  assume inv: "jobs_inv s"
  let ?r1 = "r\<lparr>rec_ctx := ctx_cancel (rec_ctx r)\<rparr>" and ?m' = "fst (Cancel now jid (js_mgr s))"
  consider "jid = '''' \<or> isTerminal (rec_state r)" | "jid \<noteq> ''''" "rec_state r = StateQueued"
    | "jid \<noteq> ''''" "rec_state r = StateRunning"
    by (cases "rec_state r") auto
  then show ?thesis
  proof cases
    case 1
    then show ?thesis using inv Some by (auto simp: Cancel_def)
  next
    case 2
    then show ?thesis
      using inv_cancel_queued [OF inv Some 2(2), of ?m' "?r1\<lparr>rec_job := cancel_queued_job now (rec_job r)\<rparr>" now] Some
      by (simp add: Cancel_def mgr_frame_simps Let_def)
  next
    case 3
    then show ?thesis
      using inv_quiet [OF inv Some, of ?m' ?r1] Some by (simp add: Cancel_def mgr_frame_simps)
  qed
qed (simp add: Cancel_def)

lemma cancelQueuedRecord_inv:
  assumes inv: "jobs_inv s"
  shows "jobs_inv (s\<lparr>js_mgr := cancelQueuedRecord now jid (js_mgr s)\<rparr>)"
proof -
  let ?s1 = "s\<lparr>js_mgr := cancel_ctx jid (js_mgr s)\<rparr>"
  have inv1: "jobs_inv ?s1" using inv by (rule cancel_ctx_inv)
  show ?thesis
  proof (cases "map_of (mgr_jobs (js_mgr ?s1)) jid")
    case None
    then show ?thesis using inv1 by (simp add: cancelQueuedRecord_def)
  next
    case (Some r)
    show ?thesis
    proof (cases "rec_state r = StateQueued")
      case True
      from inv_cancel_queued [OF inv1 Some True, of "cancelQueuedRecord now jid (js_mgr s)"
          "r\<lparr>rec_job := cancel_queued_job now (rec_job r)\<rparr>" now] Some True
      show ?thesis by (simp add: cancelQueuedRecord_def Let_def mgr_frame_simps)
    next
      case False
      then show ?thesis using inv1 Some by (simp add: cancelQueuedRecord_def)
    qed
  qed
qed

lemma cancelQueuedRecord_not_queued:
  "map_of (mgr_jobs (cancelQueuedRecord now jid m)) jid = Some r \<Longrightarrow> rec_state r \<noteq> StateQueued"
  by (auto simp: cancelQueuedRecord_def Let_def cancel_queued_job_def split: option.splits if_splits)

lemma drain_mark_inv:
  assumes inv: "jobs_inv s" and d: "js_drained s = [jid]"
  shows "jobs_inv (s\<lparr>js_mgr := cancelQueuedRecord now jid (js_mgr s), js_drained := []\<rparr>)"
proof -
  let ?m = "cancelQueuedRecord now jid (js_mgr s)"
  have inv1: "jobs_inv (s\<lparr>js_mgr := ?m\<rparr>)" using inv by (rule cancelQueuedRecord_inv)
  then have "sched_ok (mgr_jobs ?m) (js_waiting (s\<lparr>js_mgr := ?m\<rparr>)) (js_busy s)"
    by (simp add: jobs_inv_def)
  then have "sched_ok (mgr_jobs ?m) (jid # mgr_queue ?m @ map job_ID (js_pend s) @ js_held s) (js_busy s)"
    by (rule sched_ok_perm) (simp add: js_waiting_def d)
  then have "sched_ok (mgr_jobs ?m) (mgr_queue ?m @ map job_ID (js_pend s) @ js_held s) (js_busy s)"
    by (rule sched_ok_drop) (erule cancelQueuedRecord_not_queued)
  with inv1 show ?thesis by (simp add: jobs_inv_def js_waiting_def limits_ok_def)
qed

lemma enq_insert_inv:
  assumes inv: "jobs_inv s" and nowrap: "unat (mgr_idSeq (js_mgr s)) + 1 < 2 ^ 64"
    and ins: "enqueue_insert now req (js_mgr s) = (m', snap)"
  shows "jobs_inv (s\<lparr>js_mgr := m', js_checked := c, js_pend := snap # js_pend s\<rparr>)"
proof -
  let ?m = "js_mgr s" and ?n = "unat (mgr_idSeq (js_mgr s))"
  let ?jid = "issued_id now (Suc ?n)"
  have seq: "unat (mgr_idSeq ?m + 1) = Suc ?n" using nowrap by (simp add: unat_word_ariths)
  define r where "r = \<lparr>rec_job = \<lparr>job_ID = ?jid, job_Name = req_Name req, job_State = StateQueued,
      job_Error = '''', job_Result = '''', job_CreatedAt = now, job_StartedAt = None,
      job_FinishedAt = None, job_Timeout = req_Timeout req\<rparr>, rec_run = req_Run req,
      rec_runResult = req_RunResult req, rec_ctx = (if mgr_rootCancelled ?m then CtxCanceled else CtxLive)\<rparr>"
  have m': "m' = ?m\<lparr>mgr_idSeq := mgr_idSeq ?m + 1, mgr_jobs := gm_set ?jid r (mgr_jobs ?m)\<rparr>" "snap = rec_job r"
    using ins by (auto simp: enqueue_insert_def nextID_def Let_def seq issued_id_def r_def)
  have r: "job_ID (rec_job r) = ?jid" "rec_state r = StateQueued" "job_coherent (rec_job r)"
    by (simp_all add: r_def job_coherent_def)
  have fresh: "map_of (mgr_jobs ?m) ?jid = None"
    using inv by (intro store_ok_fresh) (simp add: jobs_inv_def)
  have st: "store_ok (mgr_jobs m') (unat (mgr_idSeq m'))"
    using inv r by (auto simp: m' seq jobs_inv_def intro: store_ok_new)
  have "sched_ok (mgr_jobs m') (?jid # js_waiting s) (js_busy s)"
    using inv fresh r by (simp add: m' jobs_inv_def sched_ok_new)
  then have sc: "sched_ok (mgr_jobs m') (js_waiting (s\<lparr>js_mgr := m', js_checked := c, js_pend := snap # js_pend s\<rparr>)) (js_busy s)"
    by (rule sched_ok_perm) (simp add: js_waiting_def m' r)
  have "totals_ok m'"
    using inv fresh r(2) by (simp add: m' jobs_inv_def totals_ok_def gm_count_set_new)
  with st sc inv show ?thesis by (simp add: jobs_inv_def limits_ok_def m'(1))
qed

lemma enq_send_inv:
  assumes inv: "jobs_inv s" and pend: "js_pend s = xs @ snap # ys"
    and send: "enqueue_send snap (js_mgr s) = (m', res)"
  shows "jobs_inv (s\<lparr>js_mgr := m', js_pend := xs @ ys\<rparr>)"
proof (cases "int (length (mgr_queue (js_mgr s))) < mgr_queueCap (js_mgr s)")
  case True
  then have m': "m' = publishQueued snap ((js_mgr s)\<lparr>mgr_queue := mgr_queue (js_mgr s) @ [job_ID snap]\<rparr>)"
    using send by (simp add: enqueue_send_def)
  have "sched_ok (mgr_jobs m') (js_waiting (s\<lparr>js_mgr := m', js_pend := xs @ ys\<rparr>)) (js_busy s)"
    by (rule sched_ok_perm [where w = "js_waiting s"]) (use inv in \<open>simp_all add: m' jobs_inv_def js_waiting_def pend\<close>)
  with inv True show ?thesis by (simp add: jobs_inv_def limits_ok_def totals_ok_def m')
next
  case False
  let ?m = "js_mgr s"
  have m': "m' = ?m\<lparr>mgr_jobs := gm_del (job_ID snap) (mgr_jobs ?m)\<rparr>"
    using send False by (simp add: enqueue_send_def)
  have w: "sched_ok (mgr_jobs ?m) (job_ID snap # mgr_queue ?m @ map job_ID (xs @ ys) @ js_held s @ js_drained s) (js_busy s)"
    by (rule sched_ok_perm [where w = "js_waiting s"]) (use inv in \<open>simp_all add: jobs_inv_def js_waiting_def pend\<close>)
  from sched_ok_delete [OF this]
  have "sched_ok (mgr_jobs m') (js_waiting (s\<lparr>js_mgr := m', js_pend := xs @ ys\<rparr>)) (js_busy s)"
    by (simp add: m' js_waiting_def)
  moreover obtain r where r: "map_of (mgr_jobs ?m) (job_ID snap) = Some r"
      "rec_state r = StateQueued \<or> rec_state r = StateCancelled"
    using w unfolding sched_ok_def by auto
  then have "totals_ok m'"
    using inv gm_count_del [OF _ r(1), of "\<lambda>r. rec_state r = StateCompleted"]
      gm_count_del [OF _ r(1), of "\<lambda>r. rec_state r = StateFailed"]
    by (elim disjE) (simp_all add: m' jobs_inv_def totals_ok_def store_ok_def)
  ultimately show ?thesis using inv by (simp add: jobs_inv_def limits_ok_def m' store_ok_delete)
qed

lemma start_inv:
  assumes inv: "jobs_inv s" and held: "js_held s = xs @ jid # ys"
    and st: "runRecord_start now jid (js_mgr s) = (m', ok)"
  shows "jobs_inv (s\<lparr>js_mgr := m', js_held := xs @ ys, js_busy := (if ok then jid # js_busy s else js_busy s)\<rparr>)"
proof -
  let ?m = "js_mgr s"
  let ?w = "mgr_queue ?m @ map job_ID (js_pend s) @ xs @ ys @ js_drained s"
  have w: "sched_ok (mgr_jobs ?m) (jid # ?w) (js_busy s)"
    by (rule sched_ok_perm [where w = "js_waiting s"]) (use inv in \<open>simp_all add: jobs_inv_def js_waiting_def held\<close>)
  then obtain r where r: "map_of (mgr_jobs ?m) jid = Some r" by (auto simp: sched_ok_def)
  then have co: "job_coherent (rec_job r)" using inv by (simp add: jobs_inv_def store_ok_def)
  show ?thesis
  proof (cases "rec_state r = StateQueued")
    case True
    define r' where "r' = r\<lparr>rec_job := apply_transition now StateRunning '''' '''' (rec_job r)\<rparr>"
    have m': "m' = publishTransition (rec_job r') StateQueued (?m\<lparr>mgr_jobs := gm_set jid r' (mgr_jobs ?m)\<rparr>)" "ok"
      using st True r
      by (auto simp: runRecord_start_def transition_def transitionWithResult_Some canTransition_iff r'_def
          count_transition_def)
    have r': "job_ID (rec_job r') = job_ID (rec_job r)" "rec_state r' = StateRunning" "job_coherent (rec_job r')"
      using co True by (simp_all add: r'_def coherent_start)
    have "sched_ok (mgr_jobs m') ?w (jid # js_busy s)"
      using sched_ok_start [OF w r r'(2)] by (simp add: m')
    moreover have "totals_ok m'"
      by (rule totals_ok_same [of ?m jid r _ r']) (use inv r r' True in \<open>simp_all add: m' jobs_inv_def mgr_totals_def\<close>)
    ultimately show ?thesis
      using inv m' r r' by (simp add: jobs_inv_def limits_ok_def js_waiting_def held store_ok_update)
  next
    case False
    with sched_ok_waitingD [OF w _ r] have "rec_state r = StateCancelled" by simp
    then have m': "m' = ?m" "\<not> ok"
      using st r by (simp_all add: runRecord_start_def transition_def transitionWithResult_def canTransition_iff)
    have "sched_ok (mgr_jobs ?m) ?w (js_busy s)" using w by (rule sched_ok_drop) (use r False in simp)
    with inv m' show ?thesis by (simp add: jobs_inv_def limits_ok_def js_waiting_def held)
  qed
qed

lemma totals_ok_finish:
  assumes tot: "totals_ok m" and r: "map_of (mgr_jobs m) jid = Some r" "rec_state r = StateRunning"
    and r': "rec_state r' = st" "isTerminal st"
    and m': "mgr_jobs m' = gm_set jid r' (mgr_jobs m)"
      "mgr_totalCompleted m' = mgr_totalCompleted m + (if st = StateCompleted then 1 else 0)"
      "mgr_totalFailed m' = mgr_totalFailed m + (if st = StateFailed then 1 else 0)"
  shows "totals_ok m'"
proof -
  have "gm_count (\<lambda>r. rec_state r = t) (mgr_jobs m') =
      gm_count (\<lambda>r. rec_state r = t) (mgr_jobs m) + (if st = t then 1 else 0)" if "t \<noteq> StateRunning" for t
    using gm_count_set_old [OF r(1), of "\<lambda>r. rec_state r = t" r'] r(2) r'(1) that
    by (auto simp: m'(1) split: if_splits)
  then show ?thesis using tot m'(2,3) by (simp add: totals_ok_def)
qed

lemma transition_finish_inv:
  assumes inv: "jobs_inv s" and busy: "js_busy s = xs @ jid # ys"
    and out: "(st = StateCompleted \<and> e = '''') \<or> (st = StateFailed \<and> res = '''') \<or>
         (st = StateCancelled \<and> e = canceled_text \<and> res = '''')"
  shows "jobs_inv (s\<lparr>js_mgr := fst (transitionWithResult now jid st e res (js_mgr s)), js_busy := xs @ ys\<rparr>)"
proof -
  let ?m = "js_mgr s" and ?m' = "fst (transitionWithResult now jid st e res (js_mgr s))"
  have sc: "sched_ok (mgr_jobs ?m) (js_waiting s) (xs @ jid # ys)" using inv busy by (simp add: jobs_inv_def)
  then obtain r where r: "map_of (mgr_jobs ?m) jid = Some r" "rec_state r = StateRunning"
    unfolding sched_ok_def by fastforce
  then have co: "job_coherent (rec_job r)" using inv by (simp add: jobs_inv_def store_ok_def)
  have tm: "isTerminal st" using out by auto
  define r' where "r' = r\<lparr>rec_job := apply_transition now st e res (rec_job r)\<rparr>"
  have m': "?m' = publishTransition (rec_job r') StateRunning (count_transition st (?m\<lparr>mgr_jobs := gm_set jid r' (mgr_jobs ?m)\<rparr>))"
    using r tm by (simp add: transitionWithResult_Some canTransition_iff r'_def)
  have r': "job_ID (rec_job r') = job_ID (rec_job r)" "rec_state r' = st" "job_coherent (rec_job r')"
    using co r(2) out by (simp_all add: r'_def coherent_finish)
  have "sched_ok (mgr_jobs ?m') (js_waiting s) (xs @ ys)"
    using sched_ok_finish [OF sc, of r'] r' tm by (simp add: m')
  moreover have "totals_ok ?m'"
    by (rule totals_ok_finish [OF _ r r'(2) tm]) (use inv in \<open>simp_all add: m' jobs_inv_def\<close>)
  moreover have "store_ok (mgr_jobs ?m') (unat (mgr_idSeq ?m'))"
    using inv r r' by (simp add: m' jobs_inv_def store_ok_update)
  ultimately show ?thesis
    using inv busy by (simp add: jobs_inv_def limits_ok_def js_waiting_def m')
qed

lemma finish_inv:
  assumes inv: "jobs_inv s" and busy: "js_busy s = xs @ jid # ys"
  shows "jobs_inv (s\<lparr>js_mgr := runRecord_finish now jid res err (js_mgr s), js_busy := xs @ ys\<rparr>)"
proof -
  let ?s1 = "s\<lparr>js_mgr := cancel_ctx jid (js_mgr s)\<rparr>"
  have inv1: "jobs_inv ?s1" using inv by (rule cancel_ctx_inv)
  have busy1: "js_busy ?s1 = xs @ jid # ys" using busy by simp
  obtain r where "map_of (mgr_jobs (js_mgr s)) jid = Some r"
    using inv busy unfolding jobs_inv_def sched_ok_def by fastforce
  then show ?thesis
    using transition_finish_inv [OF inv1 busy1, of StateCompleted "''''" _ now]
      transition_finish_inv [OF inv1 busy1, of StateFailed _ "''''" now]
      transition_finish_inv [OF inv1 busy1, of StateCancelled canceled_text "''''" now]
    by (simp add: runRecord_finish_def transition_def Let_def split: run_err.splits)
qed

lemma map_of_rootCancel:
  "map_of (mgr_jobs (rootCancel m)) jid =
     map_option (\<lambda>r. r\<lparr>rec_ctx := ctx_cancel (rec_ctx r)\<rparr>) (map_of (mgr_jobs m) jid)"
  by (simp add: rootCancel_def map_of_map)

lemma gm_count_rootCancel:
  "gm_count (\<lambda>r. rec_state r = t) (mgr_jobs (rootCancel m)) = gm_count (\<lambda>r. rec_state r = t) (mgr_jobs m)"
proof -
  have "gm_count (\<lambda>r. rec_state r = t) (map (\<lambda>(jid, r). (jid, r\<lparr>rec_ctx := ctx_cancel (rec_ctx r)\<rparr>)) js) =
      gm_count (\<lambda>r. rec_state r = t) js" for js
    by (induction js) auto
  then show ?thesis by (simp add: rootCancel_def)
qed

lemma rootCancel_frame [simp]:
  "mgr_queue (rootCancel m) = mgr_queue m" "mgr_closed (rootCancel m) = mgr_closed m"
  "mgr_idSeq (rootCancel m) = mgr_idSeq m" "mgr_workers (rootCancel m) = mgr_workers m"
  "mgr_queueCap (rootCancel m) = mgr_queueCap m" "mgr_rootCancelled (rootCancel m)"
  "mgr_totalCompleted (rootCancel m) = mgr_totalCompleted m" "mgr_totalFailed (rootCancel m) = mgr_totalFailed m"
  by (simp_all add: rootCancel_def)

lemma close_root_inv:
  assumes inv: "jobs_inv s" and d: "js_drained s = []" "js_closer s = Draining"
  shows "jobs_inv (s\<lparr>js_mgr := rootCancel (js_mgr s), js_closer := Waiting\<rparr>)"
proof -
  let ?m = "js_mgr s"
  have "map fst (mgr_jobs (rootCancel ?m)) = map fst (mgr_jobs ?m)"
    by (simp add: rootCancel_def case_prod_beta comp_def)
  then have "store_ok (mgr_jobs (rootCancel ?m)) (unat (mgr_idSeq ?m))"
    using inv by (auto simp: jobs_inv_def store_ok_def map_of_rootCancel)
  moreover have "sched_ok (mgr_jobs (rootCancel ?m)) (js_waiting s) (js_busy s)"
    using inv unfolding jobs_inv_def sched_ok_def map_of_rootCancel by auto metis
  moreover have "totals_ok (rootCancel ?m)"
    using inv by (simp add: jobs_inv_def totals_ok_def gm_count_rootCancel)
  ultimately show ?thesis using inv d by (simp add: jobs_inv_def limits_ok_def js_waiting_def)
qed

lemma take_job_inv:
  assumes inv: "jobs_inv s" and q: "mgr_queue (js_mgr s) = jid # q"
    and free: "int (js_exited s + length (js_held s) + length (js_busy s)) < mgr_workers (js_mgr s)"
  shows "jobs_inv (s\<lparr>js_mgr := (js_mgr s)\<lparr>mgr_queue := q\<rparr>, js_held := jid # js_held s\<rparr>)"
proof -
  let ?s' = "s\<lparr>js_mgr := (js_mgr s)\<lparr>mgr_queue := q\<rparr>, js_held := jid # js_held s\<rparr>"
  have "sched_ok (mgr_jobs (js_mgr s)) (js_waiting ?s') (js_busy s)"
    by (rule sched_ok_perm [where w = "js_waiting s"]) (use inv in \<open>simp_all add: jobs_inv_def js_waiting_def q\<close>)
  with inv q free show ?thesis by (simp add: jobs_inv_def limits_ok_def totals_ok_def)
qed

lemma drain_take_inv:
  assumes inv: "jobs_inv s" and q: "mgr_queue (js_mgr s) = jid # q"
    and d: "js_closer s = Draining" "js_drained s = []"
  shows "jobs_inv (s\<lparr>js_mgr := (js_mgr s)\<lparr>mgr_queue := q\<rparr>, js_drained := [jid]\<rparr>)"
proof -
  let ?s' = "s\<lparr>js_mgr := (js_mgr s)\<lparr>mgr_queue := q\<rparr>, js_drained := [jid]\<rparr>"
  have "sched_ok (mgr_jobs (js_mgr s)) (js_waiting ?s') (js_busy s)"
    by (rule sched_ok_perm [where w = "js_waiting s"]) (use inv in \<open>simp_all add: jobs_inv_def js_waiting_def q d\<close>)
  with inv q d show ?thesis by (simp add: jobs_inv_def limits_ok_def totals_ok_def)
qed

lemma jobs_step_inv: "jobs_step s s' \<Longrightarrow> jobs_inv s \<Longrightarrow> jobs_inv s'"
proof (induction rule: jobs_step.induct)
  case (cancel now jid s m' res)
  then show ?case using Cancel_inv [of s now jid] by simp
next
  case (close_begin s)
  then show ?case by (auto simp: jobs_inv_def limits_ok_def js_waiting_def totals_ok_def)
next
  case (enq_check req s)
  then show ?case by (simp add: jobs_inv_def limits_ok_def js_waiting_def)
next
  case (exit_worker s)
  then show ?case by (auto simp: jobs_inv_def limits_ok_def js_waiting_def)
next
  case (close_return s)
  then show ?case by (auto simp: jobs_inv_def limits_ok_def js_waiting_def)
qed (simp_all add: enq_insert_inv enq_send_inv ctx_expire_inv take_job_inv start_inv finish_inv
    drain_take_inv drain_mark_inv close_root_inv)

lemma jobs_init_inv: "NewManager cfg pub = Inr m \<Longrightarrow> jobs_inv (jobs_init m)"
  by (auto simp: NewManager_def Let_def jobs_inv_def jobs_init_def store_ok_def sched_ok_def
      totals_ok_def limits_ok_def js_waiting_def defaultWorkers_def defaultQueueSize_def split: if_splits)

lemma jobs_reachable_inv:
  assumes "NewManager cfg pub = Inr m" and "jobs_reachable m s"
  shows "jobs_inv s"
  using assms(2) unfolding jobs_reachable_def
  by (induction rule: rtranclp_induct) (auto intro: jobs_init_inv [OF assms(1)] jobs_step_inv)

section \<open>Evolution of one job\<close>

definition evolves :: "(string, job_record) gomap \<Rightarrow> (string, job_record) gomap \<Rightarrow> string \<Rightarrow> bool" where
  "evolves jobs jobs' jid \<longleftrightarrow> (\<forall>r. map_of jobs jid = Some r \<longrightarrow>
     (\<exists>r'. map_of jobs' jid = Some r' \<and>
        (rec_job r' = rec_job r \<or> canTransition (rec_state r) (rec_state r'))))"

lemma evolves_refl [simp]: "evolves jobs jobs jid"
  by (simp add: evolves_def)

lemma evolves_cancel_ctx: "evolves (mgr_jobs m) (mgr_jobs (cancel_ctx k m)) jid"
  by (simp add: evolves_def cancel_ctx_def split: option.splits)

lemma evolves_Cancel: "evolves (mgr_jobs m) (mgr_jobs (fst (Cancel now k m))) jid"
  by (auto simp: evolves_def Cancel_def Let_def canTransition_iff cancel_queued_job_def split: option.splits)

lemma evolves_transition: "evolves (mgr_jobs m) (mgr_jobs (fst (transitionWithResult now k st e res m))) jid"
  by (auto simp: evolves_def transitionWithResult_def Let_def split: option.splits)

lemma evolves_same_job:
  assumes "evolves mid fin jid"
    and "\<And>r. map_of jobs jid = Some r \<Longrightarrow> \<exists>r1. map_of mid jid = Some r1 \<and> rec_job r1 = rec_job r"
  shows "evolves jobs fin jid"
  using assms unfolding evolves_def by metis

lemma cancel_ctx_same_job:
  "map_of (mgr_jobs m) jid = Some r \<Longrightarrow> \<exists>r1. map_of (mgr_jobs (cancel_ctx k m)) jid = Some r1 \<and> rec_job r1 = rec_job r"
  by (auto simp: cancel_ctx_def split: option.splits)

lemma evolves_cancelQueuedRecord: "evolves (mgr_jobs m) (mgr_jobs (cancelQueuedRecord now k m)) jid"
proof (rule evolves_same_job)
  show "evolves (mgr_jobs (cancel_ctx k m)) (mgr_jobs (cancelQueuedRecord now k m)) jid"
    by (auto simp: evolves_def cancelQueuedRecord_def Let_def canTransition_iff cancel_queued_job_def
        split: option.splits)
qed (rule cancel_ctx_same_job)

lemma evolves_finish: "evolves (mgr_jobs m) (mgr_jobs (runRecord_finish now k res err m)) jid"
proof (rule evolves_same_job [where mid = "mgr_jobs (cancel_ctx k m)"])
  show "evolves (mgr_jobs (cancel_ctx k m)) (mgr_jobs (runRecord_finish now k res err m)) jid"
    using evolves_transition [of "cancel_ctx k m"] evolves_refl
    by (auto simp: runRecord_finish_def Let_def transition_def cancel_ctx_def split: option.splits run_err.splits)
qed (rule cancel_ctx_same_job)

lemma jobs_step_evolves:
  assumes "jobs_step s s'" and "jobs_inv s" and "jid \<notin> job_ID ` set (js_pend s)"
  shows "evolves (mgr_jobs (js_mgr s)) (mgr_jobs (js_mgr s')) jid \<and>
     (map_of (mgr_jobs (js_mgr s)) jid \<noteq> None \<longrightarrow> jid \<notin> job_ID ` set (js_pend s'))"
  using assms
proof (induction rule: jobs_step.induct)
  case (enq_insert s xs req ys now m' snap)
  let ?n = "unat (mgr_idSeq (js_mgr s))"
  have seq: "unat (mgr_idSeq (js_mgr s) + 1) = Suc ?n"
    using enq_insert by (simp add: unat_word_ariths)
  obtain r where m': "mgr_jobs m' = gm_set (issued_id now (Suc ?n)) r (mgr_jobs (js_mgr s))"
      "job_ID snap = issued_id now (Suc ?n)"
    using enq_insert(3) by (auto simp: enqueue_insert_def nextID_def Let_def seq issued_id_def)
  have "map_of (mgr_jobs (js_mgr s)) (issued_id now (Suc ?n)) = None"
    using enq_insert by (intro store_ok_fresh) (simp add: jobs_inv_def)
  with m' enq_insert.prems show ?case by (auto simp: evolves_def)
next
  case (enq_send s xs snap ys m' res)
  then show ?case by (auto simp: enqueue_send_def evolves_def split: if_splits)
next
  case (cancel now k s m' res)
  then show ?case using evolves_Cancel [of "js_mgr s" now k jid] by simp
next
  case (start s xs k ys now m' ok)
  then show ?case
    using evolves_transition [of "js_mgr s" now k StateRunning "''''" "''''" jid] by (simp add: runRecord_start_def transition_def)
next
  case (expire s k)
  then show ?case by (auto simp: ctx_expire_def evolves_def split: option.splits)
next
  case (close_root s)
  then show ?case by (auto simp: evolves_def map_of_rootCancel)
qed (simp_all add: evolves_finish evolves_cancelQueuedRecord)

lemma jobs_steps_evolve:
  assumes "jobs_step\<^sup>*\<^sup>* s s'" and "jobs_inv s" and "jid \<notin> job_ID ` set (js_pend s)"
    and "map_of (mgr_jobs (js_mgr s)) jid = Some r"
  shows "\<exists>r'. map_of (mgr_jobs (js_mgr s')) jid = Some r' \<and> jid \<notin> job_ID ` set (js_pend s') \<and> jobs_inv s' \<and>
     canTransition\<^sup>*\<^sup>* (rec_state r) (rec_state r') \<and> (isTerminal (rec_state r) \<longrightarrow> rec_job r' = rec_job r)"
  using assms(1)
proof (induction rule: rtranclp_induct)
  case base
  with assms show ?case by auto
next
  case (step t u)
  then obtain r' where r': "map_of (mgr_jobs (js_mgr t)) jid = Some r'" "jid \<notin> job_ID ` set (js_pend t)"
      "jobs_inv t" "canTransition\<^sup>*\<^sup>* (rec_state r) (rec_state r')"
      "isTerminal (rec_state r) \<longrightarrow> rec_job r' = rec_job r" by blast
  from jobs_step_evolves [OF step(2) r'(3,2)] r'(1) obtain r'' where
    r'': "map_of (mgr_jobs (js_mgr u)) jid = Some r''" "jid \<notin> job_ID ` set (js_pend u)"
      "rec_job r'' = rec_job r' \<or> canTransition (rec_state r') (rec_state r'')"
    by (auto simp: evolves_def)
  have "canTransition\<^sup>*\<^sup>* (rec_state r) (rec_state r'')"
    using r'(4) r''(3) by (auto intro: rtranclp.rtrancl_into_rtrancl)
  moreover have "isTerminal (rec_state r) \<longrightarrow> rec_job r'' = rec_job r"
    using r'(5) r''(3) job_lifecycle.terminal_stuck by auto
  ultimately show ?case using r'' jobs_step_inv [OF step(2) r'(3)] by blast
qed

section \<open>Properties\<close>

text \<open>
  C1. In every reachable interleaving of callers, workers and \<open>Close\<close>: the queue never holds more
  than its capacity; the bodies being executed are exactly the jobs in state running, at most as
  many as there are workers; timestamps, error and result of every job agree with its state; and
  every queued job is either in the queue or in the hands of the goroutine that will put it there,
  start it or cancel it.
\<close>

theorem jobs_manager_invariant:
  assumes "NewManager cfg pub = Inr m" and "jobs_reachable m s"
  shows "int (length (mgr_queue (js_mgr s))) \<le> mgr_queueCap (js_mgr s) \<and>
    snap_Active (Stats (js_mgr s)) = length (js_busy s) \<and>
    int (snap_Active (Stats (js_mgr s))) \<le> mgr_workers (js_mgr s) \<and>
    (\<forall>jid j. Get jid (js_mgr s) = Some j \<longrightarrow> job_coherent j \<and> job_ID j = jid \<and>
       (job_State j = StateQueued \<longrightarrow> jid \<in> set (js_waiting s)))"
proof -
  have inv: "jobs_inv s" using assms by (rule jobs_reachable_inv)
  let ?jobs = "mgr_jobs (js_mgr s)"
  have "{k. \<exists>r. map_of ?jobs k = Some r \<and> rec_state r = StateRunning} = set (js_busy s)"
    using inv unfolding jobs_inv_def sched_ok_def by fastforce
  then have "snap_Active (Stats (js_mgr s)) = length (js_busy s)"
    using inv by (simp add: Stats_def gm_count_card jobs_inv_def store_ok_def sched_ok_def distinct_card)
  then show ?thesis
    using inv unfolding jobs_inv_def limits_ok_def store_ok_def sched_ok_def Get_def by auto
qed

text \<open>
  C4. The observable state of a job whose \<open>Enqueue\<close> has returned only follows the lifecycle
  automaton, whatever the interleaving, the job is never lost, and once it is completed, failed
  or cancelled its whole snapshot never changes again.
\<close>

theorem jobs_lifecycle_refinement:
  assumes "NewManager cfg pub = Inr m" and "jobs_reachable m s" and "jobs_step\<^sup>*\<^sup>* s s'"
    and "Get jid (js_mgr s) = Some j" and "jid \<notin> job_ID ` set (js_pend s)"
  shows "\<exists>j'. Get jid (js_mgr s') = Some j' \<and> canTransition\<^sup>*\<^sup>* (job_State j) (job_State j') \<and>
     (isTerminal (job_State j) \<longrightarrow> j' = j)"
  using jobs_steps_evolve [OF assms(3) jobs_reachable_inv [OF assms(1,2)] assms(5)] assms(4)
  by (auto simp: Get_def)


section \<open>Shutdown\<close>

text \<open>No submission is in progress and none can begin.\<close>

definition quiesced :: "jsys \<Rightarrow> bool" where
  "quiesced s \<longleftrightarrow> mgr_closed (js_mgr s) \<and> js_checked s = [] \<and> js_pend s = [] \<and>
     (js_closer s \<in> {Waiting, Returned} \<longrightarrow> mgr_queue (js_mgr s) = [])"

lemma Cancel_frame [simp]: "mgr_frame (fst (Cancel now jid m)) = mgr_frame m"
  by (simp add: Cancel_def mgr_frame_def Let_def split: option.splits)

lemma transitionWithResult_frame [simp]: "mgr_frame (fst (transitionWithResult now jid st e res m)) = mgr_frame m"
  by (simp add: transitionWithResult_def mgr_frame_def Let_def split: option.splits)

lemma cancel_ctx_frame [simp]: "mgr_frame (cancel_ctx jid m) = mgr_frame m"
  by (simp add: cancel_ctx_def mgr_frame_def split: option.splits)

lemma ctx_expire_frame [simp]: "mgr_frame (ctx_expire jid m) = mgr_frame m"
  by (simp add: ctx_expire_def mgr_frame_def split: option.splits)

lemma runRecord_finish_frame [simp]: "mgr_frame (runRecord_finish now jid res err m) = mgr_frame m"
  by (simp add: runRecord_finish_def transition_def Let_def split: option.splits run_err.splits)

lemma cancelQueuedRecord_frame [simp]: "mgr_frame (cancelQueuedRecord now jid m) = mgr_frame m"
  using cancel_ctx_frame [of jid m]
  by (simp add: cancelQueuedRecord_def mgr_frame_def Let_def split: option.splits)

lemma mgr_frameD: "mgr_frame m' = mgr_frame m \<Longrightarrow> mgr_queue m' = mgr_queue m \<and> mgr_closed m' = mgr_closed m"
  by (simp add: mgr_frame_def)

lemma quiesced_step: "jobs_step s s' \<Longrightarrow> quiesced s \<Longrightarrow> quiesced s'"
proof (induction rule: jobs_step.induct)
  case (cancel now jid s m' res)
  then show ?case using mgr_frameD [OF Cancel_frame [of now jid "js_mgr s"]] by (simp add: quiesced_def)
next
  case (start s xs jid ys now m' ok)
  then show ?case
    using mgr_frameD [OF transitionWithResult_frame [of now jid StateRunning "''''" "''''" "js_mgr s"]]
    by (simp add: quiesced_def runRecord_start_def transition_def)
next
  case (finish s xs jid ys now res err)
  then show ?case using mgr_frameD [OF runRecord_finish_frame [of now jid res err "js_mgr s"]] by (simp add: quiesced_def)
next
  case (expire s jid)
  then show ?case using mgr_frameD [OF ctx_expire_frame [of jid "js_mgr s"]] by (simp add: quiesced_def)
next
  case (drain_mark s jid now)
  then show ?case using mgr_frameD [OF cancelQueuedRecord_frame [of now jid "js_mgr s"]] by (simp add: quiesced_def)
qed (auto simp: quiesced_def enqueue_check_def)

lemma quiesced_steps: "jobs_step\<^sup>*\<^sup>* s s' \<Longrightarrow> quiesced s \<Longrightarrow> quiesced s'"
  by (induction rule: rtranclp_induct) (auto dest: quiesced_step)

lemma returned_idle:
  assumes "jobs_inv s" and "js_closer s = Returned"
  shows "js_held s = [] \<and> js_busy s = [] \<and> js_drained s = []"
proof -
  have a: "int (js_exited s + length (js_held s) + length (js_busy s)) \<le> mgr_workers (js_mgr s)"
      "int (js_exited s) = mgr_workers (js_mgr s)" and d: "js_drained s = []"
    using assms unfolding jobs_inv_def limits_ok_def by simp_all
  from a have "length (js_held s) = 0 \<and> length (js_busy s) = 0" by linarith
  with d show ?thesis by simp
qed

text \<open>
  C7. When \<open>Close\<close> begins while no \<open>Enqueue\<close> is in progress, then in every state in which \<open>Close\<close>
  has returned all jobs are completed, failed or cancelled.
\<close>

theorem Close_settles_all_jobs:
  assumes "NewManager cfg pub = Inr m" and "jobs_reachable m s"
    and "mgr_closed (js_mgr s)" and "js_closer s = Draining" and "js_checked s = []" and "js_pend s = []"
    and "jobs_step\<^sup>*\<^sup>* s s'" and "js_closer s' = Returned" and "Get jid (js_mgr s') = Some j"
  shows "isTerminal (job_State j)"
proof -
  have "quiesced s" using assms by (simp add: quiesced_def)
  with assms(7) have "quiesced s'" by (rule quiesced_steps)
  moreover have inv: "jobs_inv s'"
    using assms(2,7) by (intro jobs_reachable_inv [OF assms(1)]) (simp add: jobs_reachable_def)
  ultimately have "js_waiting s' = []" "js_busy s' = []"
    using returned_idle [OF inv assms(8)] assms(8) by (simp_all add: quiesced_def js_waiting_def)
  then show ?thesis
    using inv assms(9) by (cases "job_State j") (auto simp: jobs_inv_def sched_ok_def Get_def)
qed

lemma returned_queue_grows:
  assumes "jobs_step s s'" and "jobs_inv s" and "js_closer s = Returned"
  shows "js_closer s' = Returned \<and> set (mgr_queue (js_mgr s)) \<subseteq> set (mgr_queue (js_mgr s'))"
  using assms
proof (induction rule: jobs_step.induct)
  case (cancel now jid s m' res)
  then show ?case using mgr_frameD [OF Cancel_frame [of now jid "js_mgr s"]] by simp
next
  case (finish s xs jid ys now res err)
  then show ?case using returned_idle by fastforce
next
  case (start s xs jid ys now m' ok)
  then show ?case using returned_idle by fastforce
next
  case (expire s jid)
  then show ?case using mgr_frameD [OF ctx_expire_frame [of jid "js_mgr s"]] by simp
next
  case (drain_mark s jid now)
  then show ?case using returned_idle by fastforce
qed (auto simp: jobs_inv_def limits_ok_def enqueue_insert_def enqueue_send_def nextID_def Let_def split: if_splits)

lemma returned_queue_stays:
  assumes "jobs_step\<^sup>*\<^sup>* s s'" and "jobs_inv s" and "js_closer s = Returned"
  shows "jobs_inv s' \<and> js_closer s' = Returned \<and> set (mgr_queue (js_mgr s)) \<subseteq> set (mgr_queue (js_mgr s'))"
  using assms(1)
proof (induction rule: rtranclp_induct)
  case base
  with assms show ?case by simp
next
  case (step t u)
  then show ?case using returned_queue_grows [OF step(2)] jobs_step_inv [OF step(2)] by blast
qed

text \<open>One worker, one queue slot and one submission, as a concrete run.\<close>

definition race_cfg :: jobs_config where
  "race_cfg = \<lparr>cfg_Workers = 1, cfg_QueueSize = 1\<rparr>"

definition race_mgr :: manager where
  "race_mgr = \<lparr>mgr_queue = [], mgr_publisher = False, mgr_events = [], mgr_rootCancelled = False,
     mgr_closed = False, mgr_idSeq = 0, mgr_totalCompleted = 0, mgr_totalFailed = 0,
     mgr_workers = 1, mgr_queueCap = 1, mgr_jobs = []\<rparr>"

definition race_req :: job_request where
  "race_req = \<lparr>req_Name = ''build'', req_Timeout = 0, req_Run = True, req_RunResult = False\<rparr>"

definition race_pending :: jsys where
  "race_pending = (jobs_init race_mgr)\<lparr>js_mgr := fst (enqueue_insert 0 race_req race_mgr),
     js_pend := [snd (enqueue_insert 0 race_req race_mgr)]\<rparr>"

lemma race_NewManager: "NewManager race_cfg False = Inr race_mgr"
  by (simp add: NewManager_def race_cfg_def race_mgr_def)

lemma race_pending_reachable: "jobs_reachable race_mgr race_pending"
proof -
  let ?s0 = "jobs_init race_mgr" and ?s1 = "(jobs_init race_mgr)\<lparr>js_checked := [race_req]\<rparr>"
  have "jobs_step ?s0 ?s1"
    using jobs_step.enq_check [of race_req ?s0]
    by (simp add: jobs_init_def race_mgr_def race_req_def enqueue_check_def)
  moreover have "jobs_step ?s1 race_pending"
    using jobs_step.enq_insert [of ?s1 "[]" race_req "[]" 0
        "fst (enqueue_insert 0 race_req race_mgr)" "snd (enqueue_insert 0 race_req race_mgr)"]
    by (simp add: race_pending_def jobs_init_def race_mgr_def)
  ultimately show ?thesis by (auto simp: jobs_reachable_def intro: rtranclp_trans)
qed

definition race_snap :: job where
  "race_snap = snd (enqueue_insert 0 race_req race_mgr)"

lemma race_pending_simps:
  "js_pend race_pending = [race_snap]" "js_checked race_pending = []" "js_held race_pending = []"
  "js_busy race_pending = []" "js_drained race_pending = []" "js_exited race_pending = 0"
  "mgr_queue (js_mgr race_pending) = []" "\<not> mgr_closed (js_mgr race_pending)"
  "mgr_workers (js_mgr race_pending) = 1" "mgr_queueCap (js_mgr race_pending) = 1"
  "map_option rec_state (map_of (mgr_jobs (js_mgr race_pending)) (job_ID race_snap)) = Some StateQueued"
  by (simp_all add: race_pending_def race_snap_def jobs_init_def race_mgr_def enqueue_insert_def nextID_def Let_def)

definition race_returned :: jsys where
  "race_returned = race_pending\<lparr>
     js_mgr := rootCancel ((js_mgr race_pending)\<lparr>mgr_closed := True\<rparr>), js_exited := 1, js_closer := Returned\<rparr>"

lemma race_returned_steps: "jobs_step\<^sup>*\<^sup>* race_pending race_returned"
proof -
  let ?m1 = "(js_mgr race_pending)\<lparr>mgr_closed := True\<rparr>"
  let ?s1 = "race_pending\<lparr>js_mgr := ?m1, js_closer := Draining\<rparr>"
  let ?s2 = "?s1\<lparr>js_mgr := rootCancel ?m1, js_closer := Waiting\<rparr>"
  let ?s3 = "?s2\<lparr>js_exited := 1\<rparr>"
  have "jobs_step race_pending ?s1" by (rule jobs_step.close_begin) (simp add: race_pending_simps)
  moreover have "jobs_step ?s1 ?s2"
    using jobs_step.close_root [of ?s1] by (simp add: race_pending_simps)
  moreover have "jobs_step ?s2 ?s3"
    using jobs_step.exit_worker [of ?s2] by (simp add: race_pending_simps)
  moreover have "jobs_step ?s3 race_returned"
    using jobs_step.close_return [of ?s3] by (simp add: race_pending_simps race_returned_def)
  ultimately show ?thesis by (meson converse_rtranclp_into_rtranclp rtranclp.rtrancl_refl)
qed

text \<open>
  C34. A submission that passes the closed check before \<open>Close\<close> runs and reaches the queue after it
  is lost: \<open>Enqueue\<close> returns it without an error, and in every later state it is still in the
  queue, with no worker left to take it.
\<close>

theorem Enqueue_Close_race_strands_job:
  "\<exists>m s j. NewManager race_cfg False = Inr m \<and> jobs_reachable m s \<and> js_closer s = Returned \<and>
     js_pend s = [j] \<and> snd (enqueue_send j (js_mgr s)) = Inr j \<and>
     (\<exists>t. jobs_step s t \<and> map_option job_State (Get (job_ID j) (js_mgr t)) = Some StateQueued \<and>
        (\<forall>u. jobs_step\<^sup>*\<^sup>* t u \<longrightarrow> job_ID j \<in> set (mgr_queue (js_mgr u)) \<and> js_busy u = [] \<and> js_held u = []))"
proof -
  let ?s = race_returned and ?j = race_snap
  let ?t = "?s\<lparr>js_mgr := fst (enqueue_send ?j (js_mgr ?s)), js_pend := []\<rparr>"
  have reach: "jobs_reachable race_mgr ?s"
    using race_pending_reachable race_returned_steps by (simp add: jobs_reachable_def)
  have s: "js_pend ?s = [?j]" "js_closer ?s = Returned" "mgr_queue (js_mgr ?s) = []" "mgr_queueCap (js_mgr ?s) = 1"
    by (simp_all add: race_returned_def race_pending_simps)
  have step: "jobs_step ?s ?t"
    using jobs_step.enq_send [of ?s "[]" ?j "[]"] s(1) by (simp add: prod_eq_iff)
  have t: "job_ID ?j \<in> set (mgr_queue (js_mgr ?t))" "snd (enqueue_send ?j (js_mgr ?s)) = Inr ?j"
      "map_option job_State (Get (job_ID ?j) (js_mgr ?t)) = Some StateQueued" "js_closer ?t = Returned"
    using s race_pending_simps(11)
    by (auto simp: enqueue_send_def Get_def race_returned_def map_of_rootCancel option.map_comp comp_def)
  have "jobs_inv ?t" using jobs_reachable_inv [OF race_NewManager reach] step by (blast intro: jobs_step_inv)
  from returned_queue_stays [OF _ this t(4)] t(1) returned_idle
  have "job_ID ?j \<in> set (mgr_queue (js_mgr u)) \<and> js_busy u = [] \<and> js_held u = []" if "jobs_step\<^sup>*\<^sup>* ?t u" for u
    using that by blast
  with reach s step t race_NewManager show ?thesis by blast
qed

theorem Enqueue_Close_race_strands_job_witness:
  "\<exists>m s. jobs_reachable m s \<and> js_closer s = Returned \<and> js_pend s \<noteq> []"
  using Enqueue_Close_race_strands_job by (metis list.distinct(1))

section \<open>Witnesses\<close>

theorem jobs_manager_invariant_witness:
  "int (length (mgr_queue (js_mgr race_pending))) \<le> mgr_queueCap (js_mgr race_pending) \<and>
   snap_Active (Stats (js_mgr race_pending)) = 0"
  using jobs_manager_invariant [OF race_NewManager race_pending_reachable] by (simp add: race_pending_simps)


definition race_queued :: jsys where
  "race_queued = race_pending\<lparr>js_mgr := fst (enqueue_send race_snap (js_mgr race_pending)), js_pend := []\<rparr>"

lemma race_queued_reachable: "jobs_reachable race_mgr race_queued"
proof -
  have "jobs_step race_pending race_queued"
    using jobs_step.enq_send [of race_pending "[]" race_snap "[]"]
    by (simp add: race_pending_simps race_queued_def prod_eq_iff)
  with race_pending_reachable show ?thesis by (simp add: jobs_reachable_def)
qed

lemma race_queued_simps:
  "js_pend race_queued = []" "js_checked race_queued = []" "js_held race_queued = []"
  "js_busy race_queued = []" "js_drained race_queued = []" "js_exited race_queued = 0"
  "mgr_queue (js_mgr race_queued) = [job_ID race_snap]" "\<not> mgr_closed (js_mgr race_queued)"
  "mgr_workers (js_mgr race_queued) = 1"
  "map_option job_State (Get (job_ID race_snap) (js_mgr race_queued)) = Some StateQueued"
  using race_pending_simps(11)
  by (simp_all add: race_queued_def race_pending_simps enqueue_send_def Get_def option.map_comp comp_def)

theorem jobs_lifecycle_refinement_witness:
  "\<exists>j'. Get (job_ID race_snap) (fst (Cancel 5 (job_ID race_snap) (js_mgr race_queued))) = Some j' \<and>
     canTransition\<^sup>*\<^sup>* StateQueued (job_State j')"
proof -
  let ?s' = "race_queued\<lparr>js_mgr := fst (Cancel 5 (job_ID race_snap) (js_mgr race_queued))\<rparr>"
  have "jobs_step\<^sup>*\<^sup>* race_queued ?s'"
    by (rule r_into_rtranclp, rule jobs_step.cancel) (rule prod.collapse [symmetric])
  moreover obtain j where "Get (job_ID race_snap) (js_mgr race_queued) = Some j" "job_State j = StateQueued"
    using race_queued_simps(10) by auto
  ultimately show ?thesis
    using jobs_lifecycle_refinement [OF race_NewManager race_queued_reachable, of ?s' "job_ID race_snap" j]
    by (auto simp: race_queued_simps)
qed

text \<open>The run in which \<open>Close\<close> finds the job in the queue.\<close>

definition drained_mgr :: manager where
  "drained_mgr = cancelQueuedRecord 9 (job_ID race_snap) ((js_mgr race_queued)\<lparr>mgr_closed := True, mgr_queue := []\<rparr>)"

lemma drained_mgr_frame:
  "mgr_queue drained_mgr = []" "mgr_workers drained_mgr = 1"
  using cancelQueuedRecord_frame [of 9 "job_ID race_snap" "(js_mgr race_queued)\<lparr>mgr_closed := True, mgr_queue := []\<rparr>"]
  by (simp_all add: drained_mgr_def mgr_frame_def race_queued_simps)

theorem Close_settles_all_jobs_witness:
  "\<exists>j. Get (job_ID race_snap) (rootCancel drained_mgr) = Some j \<and> isTerminal (job_State j)"
proof -
  let ?m1 = "(js_mgr race_queued)\<lparr>mgr_closed := True\<rparr>"
  let ?s1 = "race_queued\<lparr>js_mgr := ?m1, js_closer := Draining\<rparr>"
  let ?s2 = "?s1\<lparr>js_mgr := ?m1\<lparr>mgr_queue := []\<rparr>, js_drained := [job_ID race_snap]\<rparr>"
  let ?s3 = "?s2\<lparr>js_mgr := drained_mgr, js_drained := []\<rparr>"
  let ?s4 = "?s3\<lparr>js_mgr := rootCancel drained_mgr, js_closer := Waiting\<rparr>"
  let ?s5 = "?s4\<lparr>js_exited := 1\<rparr>"
  let ?s6 = "?s5\<lparr>js_closer := Returned\<rparr>"
  have "jobs_step race_queued ?s1" by (rule jobs_step.close_begin) (simp add: race_queued_simps)
  then have r1: "jobs_reachable race_mgr ?s1"
    using race_queued_reachable by (simp add: jobs_reachable_def)
  have "jobs_step ?s1 ?s2" using jobs_step.drain_take [of ?s1] by (simp add: race_queued_simps)
  moreover have "jobs_step ?s2 ?s3"
    using jobs_step.drain_mark [of ?s2 "job_ID race_snap" 9] by (simp add: drained_mgr_def)
  moreover have "jobs_step ?s3 ?s4" using jobs_step.close_root [of ?s3] by (simp add: drained_mgr_frame)
  moreover have "jobs_step ?s4 ?s5"
    using jobs_step.exit_worker [of ?s4] by (simp add: race_queued_simps drained_mgr_frame)
  moreover have "jobs_step ?s5 ?s6" using jobs_step.close_return [of ?s5] by (simp add: drained_mgr_frame)
  ultimately have steps: "jobs_step\<^sup>*\<^sup>* ?s1 ?s6"
    by (meson converse_rtranclp_into_rtranclp rtranclp.rtrancl_refl)
  have "Get (job_ID race_snap) (js_mgr race_queued) \<noteq> None" using race_queued_simps(10) by auto
  then obtain j where "Get (job_ID race_snap) (js_mgr ?s6) = Some j"
    using evolves_cancelQueuedRecord [of "?m1\<lparr>mgr_queue := []\<rparr>" 9 "job_ID race_snap" "job_ID race_snap"]
    by (auto simp: Get_def map_of_rootCancel drained_mgr_def evolves_def)
  with Close_settles_all_jobs [OF race_NewManager r1 _ _ _ _ steps]
  show ?thesis by (simp add: race_queued_simps)
qed

end
