(* ===== verification/Subscriber.thy ===== *)
theory Subscriber
  imports Go_Prelude
begin

text \<open>
  The contract of a bounded, drop-on-full subscriber queue, which the event bus
  (\<open>internal/eventbus/bus.go\<close>) and the memory broker (\<open>internal/memorybroker/broker.go\<close>) implement
  separately. A queue holds pairs of a message and its size; the pump goroutine receives a pair,
  hands the message over and then releases its bytes. The locale states what the four operations
  promise; its lemmas show that the byte accounting is exact, that both bounds hold, and that an
  offer to an open queue is either queued or counted as dropped.
\<close>

locale bounded_subscriber =
  fixes queue :: "'s \<Rightarrow> ('m \<times> int) list"
    and bytes :: "'s \<Rightarrow> int" and max_bytes :: "'s \<Rightarrow> int" and depth :: "'s \<Rightarrow> int"
    and closed :: "'s \<Rightarrow> bool" and dropped :: "'s \<Rightarrow> 64 word"
    and offer :: "'m \<Rightarrow> int \<Rightarrow> 's \<Rightarrow> 's"
    and receive :: "'s \<Rightarrow> 's"
    and on_dequeued :: "int \<Rightarrow> 's \<Rightarrow> 's"
    and close :: "'s \<Rightarrow> 's"
  assumes offer_closed: "closed s \<Longrightarrow> offer m n s = s"
    and offer_full: "\<not> closed s \<Longrightarrow> max_bytes s < bytes s + n \<or> depth s \<le> int (length (queue s)) \<Longrightarrow>
      queue (offer m n s) = queue s \<and> bytes (offer m n s) = bytes s \<and> dropped (offer m n s) = dropped s + 1"
    and offer_room: "\<not> closed s \<Longrightarrow> bytes s + n \<le> max_bytes s \<Longrightarrow> int (length (queue s)) < depth s \<Longrightarrow>
      queue (offer m n s) = queue s @ [(m, n)] \<and> bytes (offer m n s) = bytes s + n \<and>
      dropped (offer m n s) = dropped s"
    and offer_frame: "max_bytes (offer m n s) = max_bytes s \<and> depth (offer m n s) = depth s \<and>
      closed (offer m n s) = closed s"
    and receive: "queue (receive s) = tl (queue s) \<and> bytes (receive s) = bytes s \<and>
      max_bytes (receive s) = max_bytes s \<and> depth (receive s) = depth s \<and>
      closed (receive s) = closed s \<and> dropped (receive s) = dropped s"
    and on_dequeued: "bytes (on_dequeued n s) = max 0 (bytes s - n) \<and> queue (on_dequeued n s) = queue s \<and>
      max_bytes (on_dequeued n s) = max_bytes s \<and> depth (on_dequeued n s) = depth s \<and>
      closed (on_dequeued n s) = closed s \<and> dropped (on_dequeued n s) = dropped s"
    and close: "closed (close s) \<and> queue (close s) = queue s \<and> bytes (close s) = bytes s \<and>
      max_bytes (close s) = max_bytes s \<and> depth (close s) = depth s \<and> dropped (close s) = dropped s"
begin

text \<open>\<open>held\<close> is what the pump has received and not yet released.\<close>

definition ok :: "'s \<Rightarrow> ('m \<times> int) list \<Rightarrow> bool" where
  "ok s held \<longleftrightarrow> (\<forall>p \<in> set (held @ queue s). 0 \<le> snd p) \<and>
     bytes s = sum_list (map snd (held @ queue s)) \<and> bytes s \<le> max_bytes s \<and> int (length (queue s)) \<le> depth s"

lemma ok_offer:
  assumes "ok s held" and "0 \<le> n"
  shows "ok (offer m n s) held"
proof (cases "closed s \<or> max_bytes s < bytes s + n \<or> depth s \<le> int (length (queue s))")
  case True
  then show ?thesis
    using assms offer_closed [of s m n] offer_full [of s n m] offer_frame [of m n s]
    by (cases "closed s") (auto simp: ok_def)
next
  case False
  then show ?thesis
    using assms offer_room [of s n m] offer_frame [of m n s] by (auto simp: ok_def)
qed

lemma ok_receive: "ok s [] \<Longrightarrow> queue s = p # ps \<Longrightarrow> ok (receive s) [p]"
  using receive [of s] by (auto simp: ok_def)

lemma ok_release:
  assumes "ok s [(m, n)]"
  shows "ok (on_dequeued n s) []"
proof -
  have "0 \<le> sum_list (map snd (queue s))" using assms by (intro sum_list_nonneg) (auto simp: ok_def)
  with assms on_dequeued [of n s] show ?thesis by (auto simp: ok_def)
qed

lemma ok_close: "ok s held \<Longrightarrow> ok (close s) held"
  using close [of s] by (simp add: ok_def)

text \<open>An offer to an open queue is queued at the end or counted.\<close>

lemma offer_accounted:
  assumes "\<not> closed s"
  shows "(queue (offer m n s) = queue s @ [(m, n)] \<and> dropped (offer m n s) = dropped s) \<or>
    (queue (offer m n s) = queue s \<and> dropped (offer m n s) = dropped s + 1)"
  using assms offer_full [of s n m] offer_room [of s n m] by linarith

end

end
