(* ===== verification/EventBus.thy ===== *)
theory EventBus
  imports Go_Json Subscriber
begin

text \<open>
  The in-memory event bus, \<open>internal/eventbus/bus.go\<close>.

  A subscription object and its subscriber are one \<open>bus_subscription\<close>; \<open>bus_heap\<close> holds every
  subscription ever made under its identifier and \<open>bus_subs\<close> the identifiers that are keys of
  \<open>Bus.subs\<close>. A buffered channel is a list with a capacity; what has been handed to the reader of
  the unbuffered channel \<open>out\<close> is \<open>bss_out\<close>. The goroutine \<open>pump\<close> is split at its blocking
  operations into receive, deliver and abort. \<open>bus_run\<close> executes an arbitrary schedule of
  publishes, subscriptions, pump steps and closes.
\<close>

section \<open>Subscriber\<close>

record bus_message =
  msg_Topic :: string
  msg_Payload :: string

record bus_subscriber =
  bsub_id :: "64 word"
  bsub_ch :: "(bus_message \<times> int) list"
  bsub_cap :: int
  bsub_queuedBytes :: int
  bsub_maxBytes :: int
  bsub_closed :: bool
  bsub_dropped :: "64 word"

definition offer_bus :: "bus_message \<Rightarrow> int \<Rightarrow> bus_subscriber \<Rightarrow> bus_subscriber" where
  "offer_bus msg sz s =
     (if bsub_closed s then s
      else if bsub_queuedBytes s + sz > bsub_maxBytes s \<or> int (length (bsub_ch s)) \<ge> bsub_cap s
        then s\<lparr>bsub_dropped := bsub_dropped s + 1\<rparr>
      else if int (length (bsub_ch s)) < bsub_cap s
        then s\<lparr>bsub_ch := bsub_ch s @ [(msg, sz)], bsub_queuedBytes := bsub_queuedBytes s + sz\<rparr>
      else s\<lparr>bsub_dropped := bsub_dropped s + 1\<rparr>)"

definition onDequeued_bus :: "int \<Rightarrow> bus_subscriber \<Rightarrow> bus_subscriber" where
  "onDequeued_bus sz s =
     (let n = bsub_queuedBytes s - sz in s\<lparr>bsub_queuedBytes := (if n < 0 then 0 else n)\<rparr>)"

definition close_bus_sub :: "bus_subscriber \<Rightarrow> bus_subscriber" where
  "close_bus_sub s = (if bsub_closed s then s else s\<lparr>bsub_closed := True\<rparr>)"

definition receive_bus :: "bus_subscriber \<Rightarrow> bus_subscriber" where
  "receive_bus s = s\<lparr>bsub_ch := tl (bsub_ch s)\<rparr>"

interpretation bus_queue: bounded_subscriber bsub_ch bsub_queuedBytes bsub_maxBytes bsub_cap bsub_closed
  bsub_dropped offer_bus receive_bus onDequeued_bus close_bus_sub
  by unfold_locales
    (auto simp: offer_bus_def receive_bus_def onDequeued_bus_def close_bus_sub_def Let_def)

section \<open>Bus\<close>

record bus_subscription =
  bss_sub :: bus_subscriber
  bss_held :: "(bus_message \<times> int) option"
  bss_out :: "bus_message list"
  bss_done :: bool
  bss_exited :: bool

record bus =
  bus_nextID :: "64 word"
  bus_subs :: "64 word list"
  bus_heap :: "(64 word, bus_subscription) gomap"
  bus_queueDepth :: int
  bus_queueBytes :: int

datatype bus_option = WithQueueDepth int | WithSubscriberMaxBytes int

definition apply_bus_option :: "bus_option \<Rightarrow> bus \<Rightarrow> bus" where
  "apply_bus_option opt b = (case opt of
      WithQueueDepth depth \<Rightarrow> if depth > 0 then b\<lparr>bus_queueDepth := depth\<rparr> else b
    | WithSubscriberMaxBytes maxBytes \<Rightarrow> if maxBytes > 0 then b\<lparr>bus_queueBytes := maxBytes\<rparr> else b)"

definition New_bus :: "bus_option list \<Rightarrow> bus" where
  "New_bus opts = fold apply_bus_option opts
     \<lparr>bus_nextID = 0, bus_subs = [], bus_heap = [], bus_queueDepth = 256, bus_queueBytes = 1048576\<rparr>"

definition on_bus_stream :: "64 word \<Rightarrow> (bus_subscription \<Rightarrow> bus_subscription) \<Rightarrow> bus \<Rightarrow> bus" where
  "on_bus_stream i f b = (case map_of (bus_heap b) i of
      None \<Rightarrow> b
    | Some st \<Rightarrow> b\<lparr>bus_heap := gm_set i (f st) (bus_heap b)\<rparr>)"

definition publish_message :: "string \<Rightarrow> go_any \<Rightarrow> string + bus_message" where
  "publish_message topic payload =
     (if topic = '''' then Inl ''topic is required''
      else case json_marshal payload of
        Inl err \<Rightarrow> Inl err
      | Inr encoded \<Rightarrow> Inr \<lparr>msg_Topic = topic, msg_Payload = encoded\<rparr>)"

definition message_size :: "bus_message \<Rightarrow> int" where
  "message_size msg = int (length (msg_Topic msg) + length (msg_Payload msg))"

definition offer_stream :: "bus_message \<Rightarrow> bus_subscription \<Rightarrow> bus_subscription" where
  "offer_stream msg st = st\<lparr>bss_sub := offer_bus msg (message_size msg) (bss_sub st)\<rparr>"

definition Publish :: "string \<Rightarrow> go_any \<Rightarrow> bus \<Rightarrow> bus \<times> string option" where
  "Publish topic payload b = (case publish_message topic payload of
      Inl err \<Rightarrow> (b, Some err)
    | Inr msg \<Rightarrow> (fold (\<lambda>i. on_bus_stream i (offer_stream msg)) (bus_subs b) b, None))"

definition Subscribe :: "bus \<Rightarrow> bus \<times> 64 word" where
  "Subscribe b =
     (let i = bus_nextID b + 1;
          sub = \<lparr>bsub_id = i, bsub_ch = [], bsub_cap = bus_queueDepth b, bsub_queuedBytes = 0,
                 bsub_maxBytes = bus_queueBytes b, bsub_closed = False, bsub_dropped = 0\<rparr>;
          st = \<lparr>bss_sub = sub, bss_held = None, bss_out = [], bss_done = False, bss_exited = False\<rparr>
      in (b\<lparr>bus_nextID := i, bus_subs := List.insert i (bus_subs b),
           bus_heap := gm_set i st (bus_heap b)\<rparr>, i))"

datatype pump_choice = PumpReceive | PumpDeliver | PumpAbort

definition pump_bus :: "pump_choice \<Rightarrow> bus_subscription \<Rightarrow> bus_subscription" where
  "pump_bus c st =
     (if bss_exited st then st
      else case (c, bss_held st) of
        (PumpReceive, None) \<Rightarrow>
          (case bsub_ch (bss_sub st) of
             [] \<Rightarrow> if bsub_closed (bss_sub st) then st\<lparr>bss_exited := True\<rparr> else st
           | qm # _ \<Rightarrow> st\<lparr>bss_sub := receive_bus (bss_sub st), bss_held := Some qm\<rparr>)
      | (PumpDeliver, Some qm) \<Rightarrow>
          st\<lparr>bss_out := bss_out st @ [fst qm], bss_sub := onDequeued_bus (snd qm) (bss_sub st), bss_held := None\<rparr>
      | (PumpAbort, Some qm) \<Rightarrow> if bss_done st then st\<lparr>bss_exited := True\<rparr> else st
      | _ \<Rightarrow> st)"

definition Dropped_bus :: "bus_subscription \<Rightarrow> 64 word" where
  "Dropped_bus st = bsub_dropped (bss_sub st)"

definition close_stream :: "bus_subscription \<Rightarrow> bus_subscription" where
  "close_stream st = (if bss_done st then st
     else st\<lparr>bss_done := True, bss_sub := close_bus_sub (bss_sub st)\<rparr>)"

definition Close_bus :: "64 word \<Rightarrow> bus \<Rightarrow> bus" where
  "Close_bus i b =
     on_bus_stream i close_stream (b\<lparr>bus_subs := removeAll i (bus_subs b)\<rparr>)"

datatype bus_event =
  BusPublish string go_any | BusSubscribe | BusPump "64 word" pump_choice | BusClose "64 word"

definition bus_exec :: "bus_event \<Rightarrow> bus \<Rightarrow> bus" where
  "bus_exec e b = (case e of
      BusPublish topic payload \<Rightarrow> fst (Publish topic payload b)
    | BusSubscribe \<Rightarrow> fst (Subscribe b)
    | BusPump i c \<Rightarrow> on_bus_stream i (pump_bus c) b
    | BusClose i \<Rightarrow> Close_bus i b)"

definition bus_run :: "bus_event list \<Rightarrow> bus \<Rightarrow> bus" where
  "bus_run evs b = fold bus_exec evs b"

definition published :: "bus_event list \<Rightarrow> bus_message list" where
  "published evs = concat (map (\<lambda>e. case e of
      BusPublish topic payload \<Rightarrow> (case publish_message topic payload of Inl _ \<Rightarrow> [] | Inr msg \<Rightarrow> [msg])
    | _ \<Rightarrow> []) evs)"

text \<open>What a subscription has delivered, holds and has queued, oldest first.\<close>

definition bus_contents :: "bus_subscription \<Rightarrow> bus_message list" where
  "bus_contents st = bss_out st @ map fst (case bss_held st of None \<Rightarrow> [] | Some qm \<Rightarrow> [qm]) @ map fst (bsub_ch (bss_sub st))"

section \<open>Invariant\<close>

definition stream_ok :: "bus_subscription \<Rightarrow> bool" where
  "stream_ok st \<longleftrightarrow> bus_queue.ok (bss_sub st) (case bss_held st of None \<Rightarrow> [] | Some qm \<Rightarrow> [qm]) \<and>
     (bss_exited st \<longrightarrow> bsub_closed (bss_sub st)) \<and> (bsub_closed (bss_sub st) \<longleftrightarrow> bss_done st)"

definition bus_ok :: "bus \<Rightarrow> bool" where
  "bus_ok b \<longleftrightarrow> distinct (bus_subs b) \<and> 0 < bus_queueDepth b \<and> 0 < bus_queueBytes b \<and>
     (\<forall>i st. map_of (bus_heap b) i = Some st \<longrightarrow> stream_ok st) \<and>
     (\<forall>i st. map_of (bus_heap b) i = Some st \<longrightarrow> (i \<in> set (bus_subs b) \<longleftrightarrow> \<not> bss_done st)) \<and>
     (\<forall>i \<in> set (bus_subs b). map_of (bus_heap b) i \<noteq> None)"

lemma message_size_nonneg [simp]: "0 \<le> message_size msg"
  by (simp add: message_size_def)

lemma on_bus_stream_frame [simp]:
  "bus_subs (on_bus_stream i f b) = bus_subs b" "bus_nextID (on_bus_stream i f b) = bus_nextID b"
  "bus_queueDepth (on_bus_stream i f b) = bus_queueDepth b" "bus_queueBytes (on_bus_stream i f b) = bus_queueBytes b"
  by (simp_all add: on_bus_stream_def split: option.splits)

lemma on_bus_stream_get:
  "map_of (bus_heap (on_bus_stream i f b)) j =
     (if j = i then map_option f (map_of (bus_heap b) i) else map_of (bus_heap b) j)"
  by (simp add: on_bus_stream_def split: option.splits)

text \<open>The fan-out touches every registered subscriber once, independently of the order.\<close>

lemma fan_out_get:
  "distinct is \<Longrightarrow> map_of (bus_heap (fold (\<lambda>i. on_bus_stream i f) is b)) j =
     (if j \<in> set is then map_option f (map_of (bus_heap b) j) else map_of (bus_heap b) j)"
  by (induction "is" arbitrary: b) (auto simp: on_bus_stream_get)

lemma fan_out_frame [simp]:
  "bus_subs (fold (\<lambda>i. on_bus_stream i f) is b) = bus_subs b"
  "bus_queueDepth (fold (\<lambda>i. on_bus_stream i f) is b) = bus_queueDepth b"
  "bus_queueBytes (fold (\<lambda>i. on_bus_stream i f) is b) = bus_queueBytes b"
  by (induction "is" arbitrary: b) auto

lemma stream_ok_offer: "stream_ok st \<Longrightarrow> stream_ok (offer_stream msg st)"
  using bus_queue.ok_offer [of "bss_sub st" _ "message_size msg" msg] bus_queue.offer_frame [of msg "message_size msg" "bss_sub st"]
  by (auto simp: stream_ok_def offer_stream_def)

lemma offer_stream_frame [simp]:
  "bss_done (offer_stream msg st) = bss_done st" "bss_held (offer_stream msg st) = bss_held st"
  "bss_out (offer_stream msg st) = bss_out st" "bss_exited (offer_stream msg st) = bss_exited st"
  by (simp_all add: offer_stream_def)

lemma stream_ok_pump: "stream_ok st \<Longrightarrow> stream_ok (pump_bus c st) \<and> bss_done (pump_bus c st) = bss_done st"
  using bus_queue.ok_receive [of "bss_sub st"] bus_queue.receive [of "bss_sub st"]
    bus_queue.ok_release [of "bss_sub st"] bus_queue.on_dequeued [of _ "bss_sub st"]
  by (auto simp: stream_ok_def pump_bus_def split: pump_choice.splits option.splits list.splits)

lemma bus_ok_Publish [inv_intros]:
  assumes "bus_ok b"
  shows "bus_ok (fst (Publish topic payload b))"
proof (cases "publish_message topic payload")
  case (Inl err)
  then show ?thesis using assms by (simp add: Publish_def)
next
  case (Inr msg)
  with assms show ?thesis
    by (auto simp: Publish_def bus_ok_def fan_out_get stream_ok_offer split: if_splits)
qed

definition new_stream :: "64 word \<Rightarrow> bus \<Rightarrow> bus_subscription" where
  "new_stream i b = \<lparr>bss_sub = \<lparr>bsub_id = i, bsub_ch = [], bsub_cap = bus_queueDepth b,
       bsub_queuedBytes = 0, bsub_maxBytes = bus_queueBytes b, bsub_closed = False, bsub_dropped = 0\<rparr>,
     bss_held = None, bss_out = [], bss_done = False, bss_exited = False\<rparr>"

lemma Subscribe_eq:
  "Subscribe b = (b\<lparr>bus_nextID := bus_nextID b + 1, bus_subs := List.insert (bus_nextID b + 1) (bus_subs b),
     bus_heap := gm_set (bus_nextID b + 1) (new_stream (bus_nextID b + 1) b) (bus_heap b)\<rparr>, bus_nextID b + 1)"
  by (simp add: Subscribe_def Let_def new_stream_def)

lemma stream_ok_new:
  "0 < bus_queueDepth b \<Longrightarrow> 0 < bus_queueBytes b \<Longrightarrow> stream_ok (new_stream i b) \<and> \<not> bss_done (new_stream i b)"
  by (simp add: new_stream_def stream_ok_def bus_queue.ok_def)

lemma bus_ok_Subscribe [inv_intros]: "bus_ok b \<Longrightarrow> bus_ok (fst (Subscribe b))"
  by (auto simp: Subscribe_eq bus_ok_def stream_ok_new)

lemma bus_ok_pump [inv_intros]: "bus_ok b \<Longrightarrow> bus_ok (on_bus_stream i (pump_bus c) b)"
  by (auto simp: bus_ok_def on_bus_stream_get stream_ok_pump split: if_splits)

lemma stream_ok_close: "stream_ok st \<Longrightarrow> stream_ok (close_stream st) \<and> bss_done (close_stream st)"
  using bus_queue.ok_close [of "bss_sub st"] bus_queue.close [of "bss_sub st"]
  by (auto simp: stream_ok_def close_stream_def)

lemma bus_ok_Close [inv_intros]: "bus_ok b \<Longrightarrow> bus_ok (Close_bus i b)"
  by (auto simp: Close_bus_def bus_ok_def on_bus_stream_get distinct_removeAll stream_ok_close split: if_splits)

lemma bus_ok_exec [inv_intros]: "bus_ok b \<Longrightarrow> bus_ok (bus_exec e b)"
  by (cases e) (simp_all add: bus_exec_def inv_intros)

lemma bus_ok_run: "bus_ok b \<Longrightarrow> bus_ok (bus_run evs b)"
  unfolding bus_run_def by (induction evs arbitrary: b) (simp_all add: bus_ok_exec)

lemma bus_ok_option [inv_intros]: "bus_ok b \<Longrightarrow> bus_ok (apply_bus_option opt b)"
  by (cases opt) (simp_all add: apply_bus_option_def bus_ok_def)

lemma bus_ok_empty:
  "bus_ok \<lparr>bus_nextID = 0, bus_subs = [], bus_heap = [], bus_queueDepth = 256, bus_queueBytes = 1048576\<rparr>"
  by (simp add: bus_ok_def)

lemma bus_ok_New: "bus_ok (New_bus opts)"
proof -
  have "bus_ok (fold apply_bus_option opts b)" if "bus_ok b" for b
    using that by (induction opts arbitrary: b) (simp_all add: bus_ok_option)
  from this [of "\<lparr>bus_nextID = 0, bus_subs = [], bus_heap = [], bus_queueDepth = 256, bus_queueBytes = 1048576\<rparr>"]
  show ?thesis using bus_ok_empty by (simp only: New_bus_def)
qed

section \<open>Delivery\<close>

text \<open>What one event does to an open subscription.\<close>

lemma bus_exec_stream:
  assumes ok: "bus_ok b" and st: "map_of (bus_heap b) i = Some st" "\<not> bss_done st"
    and e: "e \<noteq> BusClose i" and fresh: "e = BusSubscribe \<longrightarrow> bus_nextID b + 1 \<noteq> i"
  shows "\<exists>st' acc. map_of (bus_heap (bus_exec e b)) i = Some st' \<and> \<not> bss_done st' \<and>
     bus_contents st' = bus_contents st @ acc \<and> subseq acc (published [e]) \<and>
     Dropped_bus st' = Dropped_bus st + of_nat (length (published [e]) - length acc)"
proof -
  have sok: "stream_ok st" and reg: "i \<in> set (bus_subs b)" and dist: "distinct (bus_subs b)"
    using ok st by (auto simp: bus_ok_def)
  have open_sub: "\<not> bsub_closed (bss_sub st)" using sok st(2) by (simp add: stream_ok_def)
  show ?thesis
  proof (cases e)
    case (BusPublish topic payload)
    show ?thesis
    proof (cases "publish_message topic payload")
      case (Inl err)
      with BusPublish st show ?thesis by (auto simp: bus_exec_def Publish_def published_def)
    next
      case (Inr msg)
      with BusPublish st reg dist
      have "map_of (bus_heap (bus_exec e b)) i = Some (offer_stream msg st)"
        by (simp add: bus_exec_def Publish_def fan_out_get)
      moreover have "published [e] = [msg]" using BusPublish Inr by (simp add: published_def)
      ultimately show ?thesis
        using bus_queue.offer_accounted [OF open_sub, of msg "message_size msg"] st(2)
        by (auto simp: bus_contents_def Dropped_bus_def offer_stream_def split: option.splits)
    qed
  next
    case BusSubscribe
    then show ?thesis using st fresh by (auto simp: bus_exec_def Subscribe_def Let_def published_def)
  next
    case (BusPump j c)
    have "bus_contents (pump_bus c st) = bus_contents st" "Dropped_bus (pump_bus c st) = Dropped_bus st"
      using bus_queue.receive [of "bss_sub st"] bus_queue.on_dequeued [of _ "bss_sub st"]
      by (auto simp: pump_bus_def bus_contents_def Dropped_bus_def split: pump_choice.splits option.splits list.splits)
    with BusPump st stream_ok_pump [OF sok, of c] show ?thesis
      by (auto simp: bus_exec_def on_bus_stream_get published_def)
  next
    case (BusClose j)
    with e st show ?thesis by (auto simp: bus_exec_def Close_bus_def on_bus_stream_get published_def)
  qed
qed

lemma published_Cons: "published (e # evs) = published [e] @ published evs"
  by (simp add: published_def)

lemma subseq_length_le: "subseq xs ys \<Longrightarrow> length xs \<le> length ys"
  by (rule list_emb_length)

definition subscribe_count :: "bus_event list \<Rightarrow> nat" where
  "subscribe_count evs = length (filter (\<lambda>e. e = BusSubscribe) evs)"

lemma bus_nextID_exec:
  "unat (bus_nextID b) + subscribe_count [e] < 2 ^ 64 \<Longrightarrow>
     unat (bus_nextID (bus_exec e b)) = unat (bus_nextID b) + subscribe_count [e]"
proof -
  have fan: "bus_nextID (fold (\<lambda>i. on_bus_stream i f) is b) = bus_nextID b" for f "is" and b :: bus
    by (induction "is" arbitrary: b) auto
  show "unat (bus_nextID b) + subscribe_count [e] < 2 ^ 64 \<Longrightarrow> ?thesis"
    by (cases e) (auto simp: bus_exec_def Publish_def Subscribe_eq Close_bus_def subscribe_count_def fan
        unat_word_ariths split: sum.splits)
qed

lemma subscribe_count_Cons: "subscribe_count (e # evs) = subscribe_count [e] + subscribe_count evs"
  by (simp add: subscribe_count_def)

lemma bus_run_stream:
  assumes "bus_ok b" and "map_of (bus_heap b) i = Some st" and "\<not> bss_done st"
    and "BusClose i \<notin> set evs" and "unat i \<le> unat (bus_nextID b)"
    and "unat (bus_nextID b) + subscribe_count evs < 2 ^ 64"
  shows "\<exists>st' acc. map_of (bus_heap (bus_run evs b)) i = Some st' \<and> \<not> bss_done st' \<and>
     bus_contents st' = bus_contents st @ acc \<and> subseq acc (published evs) \<and>
     Dropped_bus st' = Dropped_bus st + of_nat (length (published evs) - length acc)"
  using assms
proof (induction evs arbitrary: b st)
  case Nil
  then show ?case by (simp add: bus_run_def published_def)
next
  case (Cons e evs)
  have bound: "unat (bus_nextID b) + subscribe_count [e] + subscribe_count evs < 2 ^ 64"
    using Cons.prems(6) by (simp add: subscribe_count_Cons [of e evs])
  have "e = BusSubscribe \<longrightarrow> bus_nextID b + 1 \<noteq> i"
  proof
    assume "e = BusSubscribe"
    with bound have "unat (bus_nextID b + 1) = unat (bus_nextID b) + 1"
      by (simp add: subscribe_count_def unat_word_ariths)
    with Cons.prems(5) show "bus_nextID b + 1 \<noteq> i" by auto
  qed
  with Cons.prems obtain st1 acc1 where s1: "map_of (bus_heap (bus_exec e b)) i = Some st1" "\<not> bss_done st1"
      "bus_contents st1 = bus_contents st @ acc1" "subseq acc1 (published [e])"
      "Dropped_bus st1 = Dropped_bus st + of_nat (length (published [e]) - length acc1)"
    using bus_exec_stream [of b i st e] by auto
  have n: "unat (bus_nextID (bus_exec e b)) = unat (bus_nextID b) + subscribe_count [e]"
    by (rule bus_nextID_exec) (use bound in linarith)
  from Cons.IH [OF bus_ok_exec [OF Cons.prems(1)] s1(1,2)] Cons.prems(4,5) n bound
  obtain st2 acc2 where s2: "map_of (bus_heap (bus_run evs (bus_exec e b))) i = Some st2" "\<not> bss_done st2"
      "bus_contents st2 = bus_contents st1 @ acc2" "subseq acc2 (published evs)"
      "Dropped_bus st2 = Dropped_bus st1 + of_nat (length (published evs) - length acc2)"
    by auto
  have "subseq (acc1 @ acc2) (published (e # evs))"
    using s1(4) s2(4) by (simp add: published_Cons [of e evs] list_emb_append_mono)
  moreover have "length (published [e]) - length acc1 + (length (published evs) - length acc2) =
      length (published (e # evs)) - length (acc1 @ acc2)"
    using subseq_length_le [OF s1(4)] subseq_length_le [OF s2(4)] by (simp add: published_Cons [of e evs])
  then have "Dropped_bus st2 = Dropped_bus st + of_nat (length (published (e # evs)) - length (acc1 @ acc2))"
    using s1(5) s2(5) by (metis (no_types) add.assoc of_nat_add)
  ultimately show ?case
    using s1(3) s2 by (intro exI [of _ st2] exI [of _ "acc1 @ acc2"]) (simp add: bus_run_def)
qed

section \<open>Properties\<close>

text \<open>
  C10. Under every schedule of publishes, subscriptions, pump steps and closes, an open subscription
  neither reorders, duplicates nor loses silently: what it has delivered, holds and has queued is
  what it had before followed by a subsequence of the messages published since, and the number of
  published messages missing from it is exactly the increase of its drop counter, modulo \<open>2 ^ 64\<close>.
\<close>

theorem bus_delivery:
  assumes "map_of (bus_heap (bus_run pre (New_bus opts))) i = Some st" and "\<not> bss_done st"
    and "BusClose i \<notin> set evs" and "unat i \<le> unat (bus_nextID (bus_run pre (New_bus opts)))"
    and "unat (bus_nextID (bus_run pre (New_bus opts))) + subscribe_count evs < 2 ^ 64"
  shows "\<exists>st' acc. map_of (bus_heap (bus_run (pre @ evs) (New_bus opts))) i = Some st' \<and>
     bus_contents st' = bus_contents st @ acc \<and> subseq acc (published evs) \<and>
     Dropped_bus st' = Dropped_bus st + of_nat (length (published evs) - length acc)"
proof -
  have "bus_ok (bus_run pre (New_bus opts))" by (intro bus_ok_run bus_ok_New)
  from bus_run_stream [OF this assms] show ?thesis by (auto simp: bus_run_def)
qed

text \<open>
  Under every schedule the queue of every subscription respects its depth and byte limits, and
  its byte counter is exactly the number of bytes queued and held by the pump, so it never drifts.
\<close>

theorem bus_bounds:
  assumes "map_of (bus_heap (bus_run evs (New_bus opts))) i = Some st"
  shows "int (length (bsub_ch (bss_sub st))) \<le> bsub_cap (bss_sub st) \<and>
     bsub_queuedBytes (bss_sub st) \<le> bsub_maxBytes (bss_sub st) \<and>
     bsub_queuedBytes (bss_sub st) =
       sum_list (map snd ((case bss_held st of None \<Rightarrow> [] | Some qm \<Rightarrow> [qm]) @ bsub_ch (bss_sub st)))"
proof -
  have "stream_ok st" using bus_ok_run [OF bus_ok_New, of evs opts] assms by (simp add: bus_ok_def)
  then show ?thesis unfolding stream_ok_def bus_queue.ok_def by blast
qed

text \<open>
  A publish with an empty topic or a payload that cannot be encoded is refused and changes
  nothing; every other publish offers the message to each registered subscriber exactly once and
  to no other, whatever the iteration order of the subscriber map.
\<close>

theorem Publish_fan_out:
  assumes "mset (bus_subs b') = mset (bus_subs b)" and "bus_heap b' = bus_heap b" and "distinct (bus_subs b)"
  shows "(case publish_message topic payload of
      Inl err \<Rightarrow> Publish topic payload b' = (b', Some err)
    | Inr msg \<Rightarrow> snd (Publish topic payload b') = None \<and>
        (\<forall>i. map_of (bus_heap (fst (Publish topic payload b'))) i =
           (if i \<in> set (bus_subs b) then map_option (offer_stream msg) (map_of (bus_heap b) i)
            else map_of (bus_heap b) i)))"
proof -
  have "distinct (bus_subs b')" "set (bus_subs b') = set (bus_subs b)"
    using assms by (metis distinct_count_atmost_1 mset_eq_setD, metis set_mset_mset)
  then show ?thesis using assms(2) by (auto simp: Publish_def fan_out_get split: sum.splits)
qed

section \<open>Witnesses\<close>

definition demo_bus_events :: "bus_event list" where
  "demo_bus_events = [BusPublish ''t'' (AnyJson (JStr ''a'')), BusPublish ''t'' AnyNil, BusPump 1 PumpReceive, BusPump 1 PumpDeliver]"

lemma demo_bus_subscribed:
  "map_of (bus_heap (bus_run [BusSubscribe] (New_bus [WithQueueDepth 1]))) 1 =
     Some (new_stream 1 (New_bus [WithQueueDepth 1]))"
  "bus_nextID (bus_run [BusSubscribe] (New_bus [WithQueueDepth 1])) = 1"
  by (simp_all add: bus_run_def bus_exec_def Subscribe_eq New_bus_def apply_bus_option_def new_stream_def)

theorem bus_delivery_witness:
  "\<exists>st acc. map_of (bus_heap (bus_run ([BusSubscribe] @ demo_bus_events) (New_bus [WithQueueDepth 1]))) 1 = Some st \<and>
     bus_contents st = acc \<and> subseq acc (published demo_bus_events) \<and>
     Dropped_bus st = of_nat (length (published demo_bus_events) - length acc)"
  using bus_delivery [OF demo_bus_subscribed(1), of demo_bus_events]
  by (auto simp: demo_bus_subscribed(2) new_stream_def bus_contents_def Dropped_bus_def demo_bus_events_def
      subscribe_count_def)

theorem bus_bounds_witness:
  "int (length (bsub_ch (bss_sub (new_stream 1 (New_bus [WithQueueDepth 1]))))) \<le> 1"
  using bus_bounds [OF demo_bus_subscribed(1)] by (simp add: new_stream_def)

theorem Publish_fan_out_witness:
  "snd (Publish ''t'' AnyNil \<lparr>bus_nextID = 2, bus_subs = [2, 1], bus_heap = [], bus_queueDepth = 1, bus_queueBytes = 9\<rparr>) = None"
  using Publish_fan_out [of "\<lparr>bus_nextID = 2, bus_subs = [2, 1], bus_heap = [], bus_queueDepth = 1, bus_queueBytes = 9\<rparr>"
      "\<lparr>bus_nextID = 2, bus_subs = [1, 2], bus_heap = [], bus_queueDepth = 1, bus_queueBytes = 9\<rparr>" "''t''" AnyNil]
  by (simp add: publish_message_def json_marshal_def)

end
