(* ===== verification/MemoryBroker.thy ===== *)
theory MemoryBroker
  imports EventBus
begin

text \<open>
  The memory broker, \<open>internal/memorybroker/broker.go\<close> and \<open>publisher.go\<close>: a bounded append-only
  log kept in a ring buffer, fed by a non-blocking ingress queue, with filtered queries, live
  subscribers and redaction of sensitive keys.

  The ring buffer is shown to refine \<open>take_last capacity\<close> of everything appended (locale
  \<open>bounded_log\<close>); queries are characterised on that view; subscribers implement the same contract
  \<open>bounded_subscriber\<close> as those of the event bus. \<open>mb_run\<close> executes an arbitrary schedule of
  ingests, appends by the worker goroutine, subscriptions, pump steps and closes.
\<close>

section \<open>Redaction\<close>

definition sensitiveKeyMarkers :: "string list" where
  "sensitiveKeyMarkers = [''token'', ''secret'', ''password'', ''authorization'', ''api_key'', ''apikey'',
     ''access_key'', ''refresh_token'', ''jwt'', ''cookie'']"

definition isSensitiveKey :: "string \<Rightarrow> bool" where
  "isSensitiveKey key =
     (let norm = to_lower (trim_space key) in
      if norm = '''' then False else list_ex (contains_str norm) sensitiveKeyMarkers)"

fun sanitizeValue :: "json \<Rightarrow> json" where
  "sanitizeValue (JObj kvs) =
     JObj (map (\<lambda>(k, item). (k, if isSensitiveKey k then JStr ''[redacted]'' else sanitizeValue item)) kvs)"
| "sanitizeValue (JArr xs) = JArr (map sanitizeValue xs)"
| "sanitizeValue x = x"

definition sanitizePayload :: "go_any \<Rightarrow> json" where
  "sanitizePayload payload = (case payload of
      AnyNil \<Rightarrow> JObj []
    | AnyOpaque sprint err \<Rightarrow> JObj [(''value'', JStr sprint)]
    | AnyJson decoded \<Rightarrow> sanitizeValue decoded)"

definition extractJobID :: "json \<Rightarrow> string" where
  "extractJobID payload = (case payload of
      JObj kvs \<Rightarrow> (case map_of kvs ''job_id'' of Some (JStr s) \<Rightarrow> trim_space s | _ \<Rightarrow> '''')
    | _ \<Rightarrow> '''')"

definition mustMarshalFallback :: "string \<Rightarrow> string" where
  "mustMarshalFallback err =
     (case json_marshal (AnyJson (JObj [(''error'', JStr (''payload marshal failed: '' @ err))])) of
        Inl _ \<Rightarrow> CHR 0x7B # json_quote ''error'' @ '':'' @ json_quote ''payload marshal failed'' @ [CHR 0x7D]
      | Inr fallback \<Rightarrow> fallback)"

text \<open>No value under a sensitive key, at any depth, other than the placeholder.\<close>

fun redacted :: "json \<Rightarrow> bool" where
  "redacted (JObj kvs) =
     list_all (\<lambda>(k, v). if isSensitiveKey k then v = JStr ''[redacted]'' else redacted v) kvs"
| "redacted (JArr xs) = list_all redacted xs"
| "redacted _ = True"

section \<open>Records and subscribers\<close>

record mb_record =
  mr_Sequence :: "64 word"
  mr_Topic :: string
  mr_JobID :: string
  mr_At :: gotime
  mr_Payload :: string

record mb_query =
  q_Topics :: "string list"
  q_JobID :: string
  q_Since :: gotime
  q_Window :: duration
  q_Limit :: int

record mb_pending =
  pe_topic :: string
  pe_payload :: go_any
  pe_at :: gotime

record mb_subscriber =
  msub_id :: "64 word"
  msub_ch :: "(mb_record \<times> int) list"
  msub_cap :: int
  msub_queuedBytes :: int
  msub_maxBytes :: int
  msub_closed :: bool
  msub_dropped :: "64 word"

definition offer_mb :: "mb_record \<Rightarrow> int \<Rightarrow> mb_subscriber \<Rightarrow> mb_subscriber" where
  "offer_mb rec sz s =
     (if msub_closed s then s
      else if msub_queuedBytes s + sz > msub_maxBytes s \<or> int (length (msub_ch s)) \<ge> msub_cap s
        then s\<lparr>msub_dropped := msub_dropped s + 1\<rparr>
      else if int (length (msub_ch s)) < msub_cap s
        then s\<lparr>msub_ch := msub_ch s @ [(rec, sz)], msub_queuedBytes := msub_queuedBytes s + sz\<rparr>
      else s\<lparr>msub_dropped := msub_dropped s + 1\<rparr>)"

definition onDequeued_mb :: "int \<Rightarrow> mb_subscriber \<Rightarrow> mb_subscriber" where
  "onDequeued_mb sz s =
     (let n = msub_queuedBytes s - sz in s\<lparr>msub_queuedBytes := (if n < 0 then 0 else n)\<rparr>)"

definition close_mb_sub :: "mb_subscriber \<Rightarrow> mb_subscriber" where
  "close_mb_sub s = (if msub_closed s then s else s\<lparr>msub_closed := True\<rparr>)"

definition receive_mb :: "mb_subscriber \<Rightarrow> mb_subscriber" where
  "receive_mb s = s\<lparr>msub_ch := tl (msub_ch s)\<rparr>"

interpretation mb_queue: bounded_subscriber msub_ch msub_queuedBytes msub_maxBytes msub_cap msub_closed
  msub_dropped offer_mb receive_mb onDequeued_mb close_mb_sub
  by unfold_locales
    (auto simp: offer_mb_def receive_mb_def onDequeued_mb_def close_mb_sub_def Let_def)

record mb_subscription =
  mss_sub :: mb_subscriber
  mss_held :: "(mb_record \<times> int) option"
  mss_out :: "mb_record list"
  mss_done :: bool
  mss_exited :: bool

section \<open>Broker\<close>

record broker =
  mb_closed :: bool
  mb_ingest :: "mb_pending list"
  mb_ingestCap :: int
  mb_records :: "mb_record list"
  mb_head :: nat
  mb_count :: nat
  mb_capacity :: nat
  mb_nextSeq :: "64 word"
  mb_nextSubID :: "64 word"
  mb_subs :: "64 word list"
  mb_heap :: "(64 word, mb_subscription) gomap"
  mb_queueDepth :: int
  mb_queueBytes :: int
  mb_droppedIngress :: "64 word"
  mb_stopped :: bool

datatype mb_option =
  WithCapacity int | WithIngressQueueSize int | WithSubscriberQueueDepth int | WithSubscriberMaxBytes_mb int

definition apply_mb_option :: "mb_option \<Rightarrow> broker \<Rightarrow> broker" where
  "apply_mb_option opt b = (case opt of
      WithCapacity c \<Rightarrow> if c > 0 then b\<lparr>mb_capacity := nat c\<rparr> else b
    | WithIngressQueueSize n \<Rightarrow> if n > 0 then b\<lparr>mb_ingestCap := n\<rparr> else b
    | WithSubscriberQueueDepth d \<Rightarrow> if d > 0 then b\<lparr>mb_queueDepth := d\<rparr> else b
    | WithSubscriberMaxBytes_mb n \<Rightarrow> if n > 0 then b\<lparr>mb_queueBytes := n\<rparr> else b)"

definition zero_record :: mb_record where
  "zero_record = \<lparr>mr_Sequence = 0, mr_Topic = '''', mr_JobID = '''', mr_At = 0, mr_Payload = ''''\<rparr>"

definition New_mb :: "mb_option list \<Rightarrow> broker" where
  "New_mb opts =
     (let b = fold apply_mb_option opts
            \<lparr>mb_closed = False, mb_ingest = [], mb_ingestCap = 1024, mb_records = [], mb_head = 0, mb_count = 0,
             mb_capacity = 2048, mb_nextSeq = 0, mb_nextSubID = 0, mb_subs = [], mb_heap = [],
             mb_queueDepth = 256, mb_queueBytes = 1048576, mb_droppedIngress = 0, mb_stopped = False\<rparr>;
          b1 = (if mb_capacity b = 0 then b\<lparr>mb_capacity := 2048\<rparr> else b)
      in b1\<lparr>mb_records := replicate (mb_capacity b1) zero_record\<rparr>)"

definition Ingest :: "gotime \<Rightarrow> string \<Rightarrow> go_any \<Rightarrow> broker \<Rightarrow> broker \<times> bool" where
  "Ingest now topic payload b =
     (if trim_space topic = '''' then (b, False)
      else if mb_closed b then (b, False)
      else if int (length (mb_ingest b)) < mb_ingestCap b
        then (b\<lparr>mb_ingest := mb_ingest b @ [\<lparr>pe_topic = topic, pe_payload = payload, pe_at = now\<rparr>]\<rparr>, True)
      else (b\<lparr>mb_droppedIngress := mb_droppedIngress b + 1\<rparr>, False))"

definition Len_mb :: "broker \<Rightarrow> nat" where
  "Len_mb b = mb_count b"

text \<open>The write to the ring buffer in \<open>appendEvent\<close>.\<close>

definition ring_append :: "mb_record \<Rightarrow> broker \<Rightarrow> broker" where
  "ring_append rec b =
     (if mb_count b < mb_capacity b
      then b\<lparr>mb_records := (mb_records b)[(mb_head b + mb_count b) mod mb_capacity b := rec],
             mb_count := mb_count b + 1\<rparr>
      else b\<lparr>mb_records := (mb_records b)[mb_head b := rec],
             mb_head := (mb_head b + 1) mod mb_capacity b\<rparr>)"

definition event_record :: "64 word \<Rightarrow> mb_pending \<Rightarrow> mb_record" where
  "event_record sq e =
     (let safe = sanitizePayload (pe_payload e)
      in \<lparr>mr_Sequence = sq, mr_Topic = pe_topic e, mr_JobID = extractJobID safe, mr_At = pe_at e,
          mr_Payload = (case json_marshal (AnyJson safe) of Inl err \<Rightarrow> mustMarshalFallback err | Inr t \<Rightarrow> t)\<rparr>)"

definition on_mb_stream :: "64 word \<Rightarrow> (mb_subscription \<Rightarrow> mb_subscription) \<Rightarrow> broker \<Rightarrow> broker" where
  "on_mb_stream i f b = (case map_of (mb_heap b) i of
      None \<Rightarrow> b
    | Some st \<Rightarrow> b\<lparr>mb_heap := gm_set i (f st) (mb_heap b)\<rparr>)"

definition offer_mb_stream :: "mb_record \<Rightarrow> mb_subscription \<Rightarrow> mb_subscription" where
  "offer_mb_stream rec st =
     st\<lparr>mss_sub := offer_mb rec (int (length (mr_Topic rec) + length (mr_Payload rec))) (mss_sub st)\<rparr>"

definition offerSubscribers :: "mb_record \<Rightarrow> broker \<Rightarrow> broker" where
  "offerSubscribers rec b = fold (\<lambda>i. on_mb_stream i (offer_mb_stream rec)) (mb_subs b) b"

definition appendEvent :: "mb_pending \<Rightarrow> broker \<Rightarrow> broker" where
  "appendEvent e b =
     (let sq = mb_nextSeq b + 1;
          rec = event_record sq e
      in offerSubscribers rec (ring_append rec (b\<lparr>mb_nextSeq := sq\<rparr>)))"

definition run_mb :: "broker \<Rightarrow> broker" where
  "run_mb b = (if mb_stopped b then b
     else case mb_ingest b of [] \<Rightarrow> b | e # es \<Rightarrow> appendEvent e (b\<lparr>mb_ingest := es\<rparr>))"

definition query_cutoff :: "gotime \<Rightarrow> mb_query \<Rightarrow> gotime" where
  "query_cutoff now q =
     (let cutoff = (if q_Since q \<noteq> 0 then q_Since q else 0)
      in if q_Window q > 0
         then let w = now - q_Window q in if cutoff = 0 \<or> cutoff < w then w else cutoff
         else cutoff)"

definition query_match :: "gotime \<Rightarrow> mb_query \<Rightarrow> mb_record \<Rightarrow> bool" where
  "query_match cutoff q r =
     (let topicSet = filter (\<lambda>t. t \<noteq> '''') (map trim_space (q_Topics q))
      in \<not> (topicSet \<noteq> [] \<and> mr_Topic r \<notin> set topicSet) \<and>
         \<not> (q_JobID q \<noteq> '''' \<and> mr_JobID r \<noteq> q_JobID q) \<and>
         \<not> (cutoff \<noteq> 0 \<and> mr_At r < cutoff))"

fun query_scan :: "(mb_record \<Rightarrow> bool) \<Rightarrow> broker \<Rightarrow> nat \<Rightarrow> nat \<Rightarrow> mb_record list \<Rightarrow> mb_record list" where
  "query_scan P b i 0 out = out"
| "query_scan P b i (Suc n) out =
     (let r = mb_records b ! ((mb_head b + i) mod mb_capacity b)
      in query_scan P b (i + 1) n (if P r then out @ [r] else out))"

definition Query :: "gotime \<Rightarrow> mb_query \<Rightarrow> broker \<Rightarrow> mb_record list" where
  "Query now q b =
     (if mb_count b = 0 then []
      else let out = query_scan (query_match (query_cutoff now q) q) b 0 (mb_count b) []
           in if q_Limit q \<le> 0 \<or> int (length out) \<le> q_Limit q then out
              else drop (length out - nat (q_Limit q)) out)"

definition Subscribe_mb :: "broker \<Rightarrow> broker \<times> 64 word option" where
  "Subscribe_mb b =
     (if mb_closed b then (b, None)
      else let i = mb_nextSubID b + 1;
               sub = \<lparr>msub_id = i, msub_ch = [], msub_cap = mb_queueDepth b, msub_queuedBytes = 0,
                      msub_maxBytes = mb_queueBytes b, msub_closed = False, msub_dropped = 0\<rparr>;
               st = \<lparr>mss_sub = sub, mss_held = None, mss_out = [], mss_done = False, mss_exited = False\<rparr>
           in (b\<lparr>mb_nextSubID := i, mb_subs := List.insert i (mb_subs b), mb_heap := gm_set i st (mb_heap b)\<rparr>,
               Some i))"

definition pump_mb :: "pump_choice \<Rightarrow> mb_subscription \<Rightarrow> mb_subscription" where
  "pump_mb c st =
     (if mss_exited st then st
      else case (c, mss_held st) of
        (PumpReceive, None) \<Rightarrow>
          (case msub_ch (mss_sub st) of
             [] \<Rightarrow> if msub_closed (mss_sub st) then st\<lparr>mss_exited := True\<rparr> else st
           | qm # _ \<Rightarrow> st\<lparr>mss_sub := receive_mb (mss_sub st), mss_held := Some qm\<rparr>)
      | (PumpDeliver, Some qm) \<Rightarrow>
          st\<lparr>mss_out := mss_out st @ [fst qm], mss_sub := onDequeued_mb (snd qm) (mss_sub st), mss_held := None\<rparr>
      | (PumpAbort, Some qm) \<Rightarrow> if mss_done st then st\<lparr>mss_exited := True\<rparr> else st
      | _ \<Rightarrow> st)"

definition close_mb_stream :: "mb_subscription \<Rightarrow> mb_subscription" where
  "close_mb_stream st = (if mss_done st then st
     else st\<lparr>mss_done := True, mss_sub := close_mb_sub (mss_sub st)\<rparr>)"

definition Close_mb_subscription :: "64 word \<Rightarrow> broker \<Rightarrow> broker" where
  "Close_mb_subscription i b =
     on_mb_stream i close_mb_stream (b\<lparr>mb_subs := removeAll i (mb_subs b)\<rparr>)"

definition closeSubscribers :: "broker \<Rightarrow> broker" where
  "closeSubscribers b =
     fold (\<lambda>i. on_mb_stream i (\<lambda>st. st\<lparr>mss_sub := close_mb_sub (mss_sub st)\<rparr>)) (mb_subs b) (b\<lparr>mb_subs := []\<rparr>)"

definition Close_mb :: "broker \<Rightarrow> broker" where
  "Close_mb b = (if mb_closed b then b else closeSubscribers (b\<lparr>mb_closed := True\<rparr>))"

definition stop_mb :: "broker \<Rightarrow> broker" where
  "stop_mb b = (if mb_closed b then b\<lparr>mb_stopped := True\<rparr> else b)"

datatype mb_event =
  MbIngest gotime string go_any | MbRun | MbStop | MbSubscribe
| MbPump "64 word" pump_choice | MbCloseSubscription "64 word" | MbClose

definition mb_exec :: "mb_event \<Rightarrow> broker \<Rightarrow> broker" where
  "mb_exec e b = (case e of
      MbIngest now topic payload \<Rightarrow> fst (Ingest now topic payload b)
    | MbRun \<Rightarrow> run_mb b
    | MbStop \<Rightarrow> stop_mb b
    | MbSubscribe \<Rightarrow> fst (Subscribe_mb b)
    | MbPump i c \<Rightarrow> on_mb_stream i (pump_mb c) b
    | MbCloseSubscription i \<Rightarrow> Close_mb_subscription i b
    | MbClose \<Rightarrow> Close_mb b)"

definition mb_run :: "mb_event list \<Rightarrow> broker \<Rightarrow> broker" where
  "mb_run evs b = fold mb_exec evs b"

section \<open>Tee publisher\<close>

definition TeePublish ::
  "('u \<Rightarrow> 'u \<times> string option) option \<Rightarrow> ('i \<Rightarrow> 'i \<times> bool) option \<Rightarrow> 'u \<times> 'i \<Rightarrow> ('u \<times> 'i) \<times> string option" where
  "TeePublish upstream ingestor s =
     (let (u, err) = (case upstream of None \<Rightarrow> (fst s, None) | Some publish \<Rightarrow> publish (fst s));
          i = (case ingestor of None \<Rightarrow> snd s | Some ingest \<Rightarrow> fst (ingest (snd s)))
      in ((u, i), err))"

section \<open>Redaction properties\<close>

lemma sanitizeValue_redacted: "redacted (sanitizeValue j)"
  by (induction j rule: sanitizeValue.induct) (auto simp: list_all_iff)

lemma sanitizeValue_fixed: "redacted j \<Longrightarrow> sanitizeValue j = j"
proof (induction j rule: sanitizeValue.induct)
  case (1 kvs)
  then have "map (\<lambda>(k, item). (k, if isSensitiveKey k then JStr ''[redacted]'' else sanitizeValue item)) kvs = kvs"
    by (intro map_idI) (auto simp: list_all_iff)
  then show ?case by simp
next
  case (2 xs)
  then show ?case by (auto simp: list_all_iff intro: map_idI)
qed simp_all

text \<open>
  C28. Whatever payload is ingested, no value under a sensitive key survives at any depth of the
  payload that is logged, and redaction is idempotent.
\<close>

theorem sanitizePayload_redacts:
  "redacted (sanitizePayload payload) \<and> sanitizeValue (sanitizePayload payload) = sanitizePayload payload"
proof -
  have "isSensitiveKey ''value'' = False" by code_simp
  then have "redacted (sanitizePayload payload)"
    by (cases payload) (simp_all add: sanitizePayload_def sanitizeValue_redacted)
  then show ?thesis by (simp add: sanitizeValue_fixed)
qed

section \<open>The ring buffer as a bounded log\<close>

text \<open>What a log of bounded size promises: it holds the most recent entries, oldest first.\<close>

locale bounded_log =
  fixes contents :: "'b \<Rightarrow> 'a list" and cap :: "'b \<Rightarrow> nat" and append :: "'a \<Rightarrow> 'b \<Rightarrow> 'b" and wf :: "'b \<Rightarrow> bool"
  assumes bounded: "wf b \<Longrightarrow> length (contents b) \<le> cap b"
    and append_contents: "wf b \<Longrightarrow> contents (append x b) = take_last (cap b) (contents b @ [x])"
    and append_wf: "wf b \<Longrightarrow> wf (append x b)"
    and append_cap: "wf b \<Longrightarrow> cap (append x b) = cap b"
begin

lemma append_all: "wf b \<Longrightarrow> contents (fold append xs b) = take_last (cap b) (contents b @ xs)"
proof (induction xs arbitrary: b)
  case Nil
  then show ?case using bounded by simp
next
  case (Cons x xs)
  then show ?case by (simp add: append_wf append_cap append_contents take_last_absorb)
qed

end

definition ring_ok :: "broker \<Rightarrow> bool" where
  "ring_ok b \<longleftrightarrow> 0 < mb_capacity b \<and> length (mb_records b) = mb_capacity b \<and> mb_head b < mb_capacity b \<and>
     mb_count b \<le> mb_capacity b"

definition mb_view :: "broker \<Rightarrow> mb_record list" where
  "mb_view b = map (\<lambda>i. mb_records b ! ((mb_head b + i) mod mb_capacity b)) [0..<mb_count b]"

lemma ring_view_room:
  assumes "ring_ok b" and "mb_count b < mb_capacity b"
  shows "mb_view (ring_append rec b) = mb_view b @ [rec]"
proof -
  have "(mb_head b + mb_count b) mod mb_capacity b \<noteq> (mb_head b + i) mod mb_capacity b" if "i < mb_count b" for i
    using ring_index_inj [of "mb_head b" "mb_count b" "mb_capacity b" i] that assms by auto
  with assms show ?thesis by (auto simp: mb_view_def ring_append_def ring_ok_def)
qed

lemma ring_view_full:
  assumes "ring_ok b" and "\<not> mb_count b < mb_capacity b"
  shows "mb_view (ring_append rec b) = tl (mb_view b) @ [rec]"
proof (rule nth_equalityI)
  let ?c = "mb_capacity b" and ?h = "mb_head b"
  have c: "mb_count b = ?c" "0 < ?c" "?h < ?c" "length (mb_records b) = ?c" using assms by (auto simp: ring_ok_def)
  show len: "length (mb_view (ring_append rec b)) = length (tl (mb_view b) @ [rec])"
    using c by (simp add: mb_view_def ring_append_def)
  fix i assume "i < length (mb_view (ring_append rec b))"
  then have i: "i < ?c" using c by (simp add: mb_view_def ring_append_def)
  have view: "mb_view (ring_append rec b) ! i = (mb_records b)[?h := rec] ! ((?h + Suc i) mod ?c)"
    using c i by (simp add: mb_view_def ring_append_def mod_add_left_eq)
  show "mb_view (ring_append rec b) ! i = (tl (mb_view b) @ [rec]) ! i"
  proof (cases "Suc i < ?c")
    case True
    have "(?h + Suc i) mod ?c \<noteq> (?h + 0) mod ?c"
      using ring_index_inj [of ?h "Suc i" ?c 0] True c by auto
    then have "(?h + Suc i) mod ?c \<noteq> ?h" using c by simp
    then show ?thesis using True c view by (simp add: mb_view_def nth_append nth_tl)
  next
    case False
    then have s: "Suc i = ?c" using i by simp
    have "(?h + Suc i) mod ?c = ?h" unfolding s using c by simp
    moreover have "length (tl (mb_view b)) = i" using c s by (simp add: mb_view_def)
    ultimately show ?thesis using c view by (simp add: nth_append)
  qed
qed

lemma length_mb_view [simp]: "length (mb_view b) = mb_count b"
  by (simp add: mb_view_def)

lemma ring_append_frame [simp]:
  "mb_capacity (ring_append rec b) = mb_capacity b" "mb_subs (ring_append rec b) = mb_subs b"
  "mb_heap (ring_append rec b) = mb_heap b" "mb_nextSeq (ring_append rec b) = mb_nextSeq b"
  "mb_ingest (ring_append rec b) = mb_ingest b" "mb_closed (ring_append rec b) = mb_closed b"
  "mb_queueDepth (ring_append rec b) = mb_queueDepth b" "mb_queueBytes (ring_append rec b) = mb_queueBytes b"
  "mb_ingestCap (ring_append rec b) = mb_ingestCap b" "mb_droppedIngress (ring_append rec b) = mb_droppedIngress b"
  by (simp_all add: ring_append_def)

interpretation mb_log: bounded_log mb_view mb_capacity ring_append ring_ok
proof unfold_locales
  fix b and x :: mb_record
  assume ok: "ring_ok b"
  show "length (mb_view b) \<le> mb_capacity b" using ok by (simp add: ring_ok_def)
  show "ring_ok (ring_append x b)" using ok by (auto simp: ring_ok_def ring_append_def)
  show "mb_capacity (ring_append x b) = mb_capacity b" by simp
  show "mb_view (ring_append x b) = take_last (mb_capacity b) (mb_view b @ [x])"
  proof (cases "mb_count b < mb_capacity b")
    case True
    then show ?thesis by (simp add: ring_view_room [OF ok])
  next
    case False
    with ok have "mb_view b \<noteq> []" "length (mb_view b) = mb_capacity b" by (auto simp: ring_ok_def mb_view_def)
    then show ?thesis using ring_view_full [OF ok False]
      by (cases "mb_view b") (auto simp: take_last_def)
  qed
qed

section \<open>Queries\<close>

lemma query_scan_filter:
  "query_scan P b i n out =
     out @ filter P (map (\<lambda>k. mb_records b ! ((mb_head b + k) mod mb_capacity b)) [i..<i + n])"
proof (induction n arbitrary: i out)
  case (Suc n)
  have "[i..<i + Suc n] = i # [Suc i..<Suc i + n]" by (simp add: upt_rec)
  then show ?case by (simp add: Suc Let_def)
qed simp

text \<open>
  C29. A query returns exactly the retained records that match its topic, job and time filters, in
  the order in which they were appended, and with a positive limit only the most recent of them.
\<close>

theorem Query_correct:
  "Query now q b =
     (let out = filter (query_match (query_cutoff now q) q) (mb_view b)
      in if q_Limit q \<le> 0 then out else take_last (nat (q_Limit q)) out)"
proof (cases "mb_count b = 0")
  case True
  then show ?thesis by (simp add: Query_def mb_view_def take_last_def Let_def)
next
  case False
  have "query_scan (query_match (query_cutoff now q) q) b 0 (mb_count b) [] =
      filter (query_match (query_cutoff now q) q) (mb_view b)"
    by (simp add: query_scan_filter mb_view_def)
  with False show ?thesis by (auto simp: Query_def Let_def take_last_def)
qed

section \<open>The log under every schedule\<close>

lemma on_mb_stream_frame [simp]:
  "mb_records (on_mb_stream i f b) = mb_records b" "mb_head (on_mb_stream i f b) = mb_head b"
  "mb_count (on_mb_stream i f b) = mb_count b" "mb_capacity (on_mb_stream i f b) = mb_capacity b"
  "mb_nextSeq (on_mb_stream i f b) = mb_nextSeq b" "mb_ingest (on_mb_stream i f b) = mb_ingest b"
  "mb_closed (on_mb_stream i f b) = mb_closed b" "mb_subs (on_mb_stream i f b) = mb_subs b"
  "mb_queueDepth (on_mb_stream i f b) = mb_queueDepth b" "mb_queueBytes (on_mb_stream i f b) = mb_queueBytes b"
  "mb_ingestCap (on_mb_stream i f b) = mb_ingestCap b"
  by (simp_all add: on_mb_stream_def split: option.splits)

text \<open>The part of the broker that holds the log and its ingress queue.\<close>

definition log_part :: "broker \<Rightarrow> mb_record list \<times> nat \<times> nat \<times> nat \<times> 64 word \<times> mb_pending list \<times> int" where
  "log_part b = (mb_records b, mb_head b, mb_count b, mb_capacity b, mb_nextSeq b, mb_ingest b, mb_ingestCap b)"

lemma log_part_on_stream [simp]: "log_part (on_mb_stream i f b) = log_part b"
  by (simp add: log_part_def)

lemma log_part_fold [simp]: "log_part (fold (\<lambda>i. on_mb_stream i (f i)) is b) = log_part b"
  by (induction "is" arbitrary: b) simp_all

lemma log_part_eqD:
  assumes "log_part b' = log_part b"
  shows "mb_view b' = mb_view b" "ring_ok b' = ring_ok b" "mb_nextSeq b' = mb_nextSeq b"
    "mb_ingest b' = mb_ingest b" "mb_capacity b' = mb_capacity b" "mb_ingestCap b' = mb_ingestCap b"
  using assms by (simp_all add: log_part_def mb_view_def ring_ok_def)

definition ingest_event :: "mb_event \<Rightarrow> broker \<Rightarrow> mb_pending list" where
  "ingest_event e b = (case e of
      MbIngest now topic payload \<Rightarrow>
        if snd (Ingest now topic payload b) then [\<lparr>pe_topic = topic, pe_payload = payload, pe_at = now\<rparr>] else []
    | _ \<Rightarrow> [])"

fun mb_accepted :: "mb_event list \<Rightarrow> broker \<Rightarrow> mb_pending list" where
  "mb_accepted [] b = []"
| "mb_accepted (e # evs) b = ingest_event e b @ mb_accepted evs (mb_exec e b)"

definition numbered :: "mb_pending list \<Rightarrow> mb_record list" where
  "numbered es = map (\<lambda>(k, e). event_record (of_nat (Suc k)) e) (enumerate 0 es)"

lemma numbered_snoc: "numbered (es @ [e]) = numbered es @ [event_record (of_nat (Suc (length es))) e]"
  by (simp add: numbered_def enumerate_append_eq)

definition log_inv :: "nat \<Rightarrow> mb_pending list \<Rightarrow> broker \<Rightarrow> bool" where
  "log_inv cap acc b \<longleftrightarrow> (\<exists>done. acc = done @ mb_ingest b \<and> ring_ok b \<and> mb_capacity b = cap \<and>
     mb_nextSeq b = of_nat (length done) \<and> mb_view b = take_last cap (numbered done) \<and>
     int (length (mb_ingest b)) \<le> mb_ingestCap b)"

lemma log_inv_frame:
  assumes "log_part b' = log_part b" and "log_inv cap acc b"
  shows "log_inv cap acc b'"
  using assms(2) log_part_eqD [OF assms(1)] by (simp add: log_inv_def)

lemma log_inv_run:
  assumes "log_inv cap acc b"
  shows "log_inv cap acc (run_mb b)"
proof (cases "mb_stopped b \<or> mb_ingest b = []")
  case True
  then show ?thesis using assms by (auto simp: run_mb_def)
next
  case False
  then obtain e es where q: "mb_ingest b = e # es" and s: "\<not> mb_stopped b" by (cases "mb_ingest b") auto
  from assms obtain dn where d: "acc = dn @ mb_ingest b" "ring_ok b" "mb_capacity b = cap"
      "mb_nextSeq b = of_nat (length dn)" "mb_view b = take_last cap (numbered dn)"
      "int (length (mb_ingest b)) \<le> mb_ingestCap b"
    unfolding log_inv_def by blast
  let ?sq = "mb_nextSeq b + 1"
  let ?b1 = "b\<lparr>mb_ingest := es, mb_nextSeq := ?sq\<rparr>"
  let ?b2 = "ring_append (event_record ?sq e) ?b1"
  have b1: "ring_ok ?b1" "mb_view ?b1 = mb_view b" using d(2) by (simp_all add: ring_ok_def mb_view_def)
  have "0 < cap" using d(2,3) by (simp add: ring_ok_def)
  have "mb_view ?b2 = take_last cap (numbered (dn @ [e]))"
    using mb_log.append_contents [OF b1(1), of "event_record ?sq e"] b1(2) d(3,4,5) \<open>0 < cap\<close>
    by (simp add: take_last_append_snoc numbered_snoc add.commute)
  then have "log_inv cap acc ?b2"
    unfolding log_inv_def using mb_log.append_wf [OF b1(1)] d q
    by (intro exI [of _ "dn @ [e]"]) (simp add: add.commute)
  moreover have "log_part (run_mb b) = log_part ?b2"
    using q s by (simp add: run_mb_def appendEvent_def offerSubscribers_def Let_def)
  ultimately show ?thesis using log_inv_frame [of "run_mb b" ?b2] by simp
qed

lemma log_inv_exec:
  assumes "log_inv cap acc b"
  shows "log_inv cap (acc @ ingest_event e b) (mb_exec e b)"
proof (cases e)
  case (MbIngest now topic payload)
  show ?thesis
  proof (cases "snd (Ingest now topic payload b)")
    case True
    then have b': "fst (Ingest now topic payload b) =
        b\<lparr>mb_ingest := mb_ingest b @ [\<lparr>pe_topic = topic, pe_payload = payload, pe_at = now\<rparr>]\<rparr>"
      "int (length (mb_ingest b)) < mb_ingestCap b"
      by (auto simp: Ingest_def split: if_splits)
    with assms MbIngest True show ?thesis
      by (auto simp: log_inv_def mb_exec_def ingest_event_def ring_ok_def mb_view_def)
  next
    case False
    then have "log_part (fst (Ingest now topic payload b)) = log_part b"
      by (auto simp: Ingest_def log_part_def split: if_splits)
    from log_inv_frame [OF this assms] MbIngest False show ?thesis by (simp add: mb_exec_def ingest_event_def)
  qed
next
  case MbRun
  then show ?thesis using log_inv_run [OF assms] by (simp add: mb_exec_def ingest_event_def)
next
  case MbStop
  have "log_part (stop_mb b) = log_part b" by (simp add: stop_mb_def log_part_def)
  from log_inv_frame [OF this assms] MbStop show ?thesis by (simp add: mb_exec_def ingest_event_def)
next
  case MbSubscribe
  have "log_part (fst (Subscribe_mb b)) = log_part b" by (simp add: Subscribe_mb_def log_part_def Let_def)
  from log_inv_frame [OF this assms] MbSubscribe show ?thesis by (simp add: mb_exec_def ingest_event_def)
next
  case (MbPump i c)
  with log_inv_frame [OF log_part_on_stream assms] show ?thesis by (simp add: mb_exec_def ingest_event_def)
next
  case (MbCloseSubscription i)
  have "log_part (Close_mb_subscription i b) = log_part b"
    by (simp add: Close_mb_subscription_def log_part_def)
  from log_inv_frame [OF this assms] MbCloseSubscription show ?thesis by (simp add: mb_exec_def ingest_event_def)
next
  case MbClose
  have "log_part (Close_mb b) = log_part b"
    by (simp add: Close_mb_def closeSubscribers_def) (simp add: log_part_def)
  from log_inv_frame [OF this assms] MbClose show ?thesis by (simp add: mb_exec_def ingest_event_def)
qed

lemma log_inv_exec_all: "log_inv cap acc b \<Longrightarrow> log_inv cap (acc @ mb_accepted evs b) (mb_run evs b)"
proof (induction evs arbitrary: acc b)
  case (Cons e evs)
  from Cons.IH [OF log_inv_exec [OF Cons.prems, of e]] show ?case by (simp add: mb_run_def)
qed (simp add: mb_run_def)

lemma New_mb_log: "log_inv (mb_capacity (New_mb opts)) [] (New_mb opts)"
proof -
  let ?P = "\<lambda>b. mb_ingest b = [] \<and> mb_head b = 0 \<and> mb_count b = 0 \<and> mb_nextSeq b = 0 \<and> 0 < mb_ingestCap b \<and> 0 < mb_capacity b"
  have "?P (fold apply_mb_option opts b)" if "?P b" for b
    using that
  proof (induction opts arbitrary: b)
    case (Cons opt opts)
    have "?P (apply_mb_option opt b)" using Cons.prems by (cases opt) (simp_all add: apply_mb_option_def)
    from Cons.IH [OF this] show ?case by simp
  qed simp
  from this [of "\<lparr>mb_closed = False, mb_ingest = [], mb_ingestCap = 1024, mb_records = [], mb_head = 0, mb_count = 0,
             mb_capacity = 2048, mb_nextSeq = 0, mb_nextSubID = 0, mb_subs = [], mb_heap = [],
             mb_queueDepth = 256, mb_queueBytes = 1048576, mb_droppedIngress = 0, mb_stopped = False\<rparr>"]
  show ?thesis
    by (simp add: New_mb_def Let_def log_inv_def ring_ok_def mb_view_def numbered_def)
qed

text \<open>
  C11. Under every schedule the retained log is exactly the most recent records, up to the
  capacity, of the events accepted by \<open>Ingest\<close> and already processed, in the order of acceptance
  and with consecutive sequence numbers from 1; the accepted events still to be processed are the
  ingress queue, so no accepted event is lost or reordered before it is evicted.
\<close>

theorem broker_log_refinement:
  "\<exists>done. mb_accepted evs (New_mb opts) = done @ mb_ingest (mb_run evs (New_mb opts)) \<and>
     mb_view (mb_run evs (New_mb opts)) = take_last (mb_capacity (New_mb opts)) (numbered done) \<and>
     Len_mb (mb_run evs (New_mb opts)) = min (mb_capacity (New_mb opts)) (length done)"
proof -
  let ?b = "mb_run evs (New_mb opts)"
  obtain dn where d: "mb_accepted evs (New_mb opts) = dn @ mb_ingest ?b"
      "mb_view ?b = take_last (mb_capacity (New_mb opts)) (numbered dn)"
    using log_inv_exec_all [OF New_mb_log, of opts evs] by (auto simp: log_inv_def)
  have "Len_mb ?b = length (mb_view ?b)" by (simp add: Len_mb_def)
  also have "\<dots> = min (mb_capacity (New_mb opts)) (length dn)" by (simp add: d(2) numbered_def)
  finally show ?thesis using d by blast
qed

section \<open>Subscribers of the broker\<close>

definition mb_streams_ok :: "broker \<Rightarrow> bool" where
  "mb_streams_ok b \<longleftrightarrow> 0 < mb_queueDepth b \<and> 0 < mb_queueBytes b \<and>
     (\<forall>i st. map_of (mb_heap b) i = Some st \<longrightarrow>
        mb_queue.ok (mss_sub st) (case mss_held st of None \<Rightarrow> [] | Some qm \<Rightarrow> [qm]))"

lemma mb_streams_ok_on:
  assumes "mb_streams_ok b"
    and "\<And>st. mb_queue.ok (mss_sub st) (case mss_held st of None \<Rightarrow> [] | Some qm \<Rightarrow> [qm]) \<Longrightarrow>
      mb_queue.ok (mss_sub (f st)) (case mss_held (f st) of None \<Rightarrow> [] | Some qm \<Rightarrow> [qm])"
  shows "mb_streams_ok (on_mb_stream i f b)"
  using assms by (simp add: mb_streams_ok_def on_mb_stream_def split: option.splits)

lemma mb_streams_ok_fold:
  assumes "mb_streams_ok b"
    and "\<And>st. mb_queue.ok (mss_sub st) (case mss_held st of None \<Rightarrow> [] | Some qm \<Rightarrow> [qm]) \<Longrightarrow>
      mb_queue.ok (mss_sub (f st)) (case mss_held (f st) of None \<Rightarrow> [] | Some qm \<Rightarrow> [qm])"
  shows "mb_streams_ok (fold (\<lambda>i. on_mb_stream i f) is b)"
  using assms(1)
proof (induction "is" arbitrary: b)
  case (Cons i "is")
  from Cons.IH [OF mb_streams_ok_on [OF Cons.prems assms(2)]] show ?case by simp
qed simp

lemma mb_streams_ok_same:
  "mb_streams_ok b \<Longrightarrow> mb_heap b' = mb_heap b \<Longrightarrow> mb_queueDepth b' = mb_queueDepth b \<Longrightarrow>
     mb_queueBytes b' = mb_queueBytes b \<Longrightarrow> mb_streams_ok b'"
  by (simp add: mb_streams_ok_def)

lemma pump_mb_ok:
  "mb_queue.ok (mss_sub st) (case mss_held st of None \<Rightarrow> [] | Some qm \<Rightarrow> [qm]) \<Longrightarrow>
     mb_queue.ok (mss_sub (pump_mb c st)) (case mss_held (pump_mb c st) of None \<Rightarrow> [] | Some qm \<Rightarrow> [qm])"
  using mb_queue.ok_receive [of "mss_sub st"] mb_queue.ok_release [of "mss_sub st"]
  by (auto simp: pump_mb_def split: pump_choice.splits option.splits list.splits)

lemma mb_streams_ok_run:
  assumes ok: "mb_streams_ok b"
  shows "mb_streams_ok (run_mb b)"
proof (cases "mb_stopped b \<or> mb_ingest b = []")
  case True
  then show ?thesis using ok by (auto simp: run_mb_def)
next
  case False
  then obtain e es where q: "mb_ingest b = e # es" by (cases "mb_ingest b") auto
  let ?rec = "event_record (mb_nextSeq b + 1) e"
  let ?b1 = "ring_append ?rec (b\<lparr>mb_ingest := es, mb_nextSeq := mb_nextSeq b + 1\<rparr>)"
  have "mb_streams_ok ?b1" by (rule mb_streams_ok_same [OF ok]) simp_all
  then have "mb_streams_ok (offerSubscribers ?rec ?b1)" unfolding offerSubscribers_def
    by (rule mb_streams_ok_fold) (simp add: offer_mb_stream_def mb_queue.ok_offer)
  then show ?thesis using False q by (simp add: run_mb_def appendEvent_def Let_def)
qed

lemma mb_new_sub_ok:
  "0 < d \<Longrightarrow> 0 < n \<Longrightarrow> mb_queue.ok \<lparr>msub_id = i, msub_ch = [], msub_cap = d, msub_queuedBytes = 0,
     msub_maxBytes = n, msub_closed = False, msub_dropped = 0\<rparr> []"
  by (simp add: mb_queue.ok_def)

lemma mb_streams_ok_exec:
  assumes ok: "mb_streams_ok b"
  shows "mb_streams_ok (mb_exec e b)"
proof (cases e)
  case (MbIngest now topic payload)
  have "mb_streams_ok (fst (Ingest now topic payload b))"
    by (rule mb_streams_ok_same [OF ok]) (simp_all add: Ingest_def)
  with MbIngest show ?thesis by (simp add: mb_exec_def)
next
  case MbRun
  then show ?thesis by (simp add: mb_exec_def mb_streams_ok_run [OF ok])
next
  case MbStop
  have "mb_streams_ok (stop_mb b)" by (rule mb_streams_ok_same [OF ok]) (simp_all add: stop_mb_def)
  with MbStop show ?thesis by (simp add: mb_exec_def)
next
  case MbSubscribe
  then show ?thesis using ok
    by (simp add: mb_exec_def Subscribe_mb_def Let_def mb_streams_ok_def mb_new_sub_ok)
next
  case (MbPump i c)
  then show ?thesis by (simp add: mb_exec_def mb_streams_ok_on [OF ok] pump_mb_ok)
next
  case (MbCloseSubscription i)
  have "mb_streams_ok (b\<lparr>mb_subs := removeAll i (mb_subs b)\<rparr>)" by (rule mb_streams_ok_same [OF ok]) simp_all
  then have "mb_streams_ok (Close_mb_subscription i b)" unfolding Close_mb_subscription_def
    by (rule mb_streams_ok_on) (simp add: close_mb_stream_def mb_queue.ok_close)
  with MbCloseSubscription show ?thesis by (simp add: mb_exec_def)
next
  case MbClose
  have "mb_streams_ok (b\<lparr>mb_closed := True, mb_subs := []\<rparr>)" by (rule mb_streams_ok_same [OF ok]) simp_all
  then have "mb_streams_ok (closeSubscribers (b\<lparr>mb_closed := True\<rparr>))"
    unfolding closeSubscribers_def by simp (erule mb_streams_ok_fold, simp add: mb_queue.ok_close)
  with MbClose ok show ?thesis by (simp add: mb_exec_def Close_mb_def)
qed

lemma mb_streams_ok_New: "mb_streams_ok (New_mb opts)"
proof -
  let ?P = "\<lambda>b. mb_heap b = [] \<and> 0 < mb_queueDepth b \<and> 0 < mb_queueBytes b"
  have "?P (fold apply_mb_option opts b)" if "?P b" for b
    using that
  proof (induction opts arbitrary: b)
    case (Cons opt opts)
    have "?P (apply_mb_option opt b)" using Cons.prems by (cases opt) (simp_all add: apply_mb_option_def)
    from Cons.IH [OF this] show ?case by simp
  qed simp
  from this [of "\<lparr>mb_closed = False, mb_ingest = [], mb_ingestCap = 1024, mb_records = [], mb_head = 0, mb_count = 0,
             mb_capacity = 2048, mb_nextSeq = 0, mb_nextSubID = 0, mb_subs = [], mb_heap = [],
             mb_queueDepth = 256, mb_queueBytes = 1048576, mb_droppedIngress = 0, mb_stopped = False\<rparr>"]
  show ?thesis by (simp add: New_mb_def Let_def mb_streams_ok_def)
qed

text \<open>
  Under every schedule the queue of every broker subscription respects its depth and byte
  limits, and its byte counter is exactly the bytes queued and held by its pump.
\<close>

theorem broker_subscriber_bounds:
  assumes "map_of (mb_heap (mb_run evs (New_mb opts))) i = Some st"
  shows "int (length (msub_ch (mss_sub st))) \<le> msub_cap (mss_sub st) \<and>
     msub_queuedBytes (mss_sub st) \<le> msub_maxBytes (mss_sub st) \<and>
     msub_queuedBytes (mss_sub st) =
       sum_list (map snd ((case mss_held st of None \<Rightarrow> [] | Some qm \<Rightarrow> [qm]) @ msub_ch (mss_sub st)))"
proof -
  have "mb_streams_ok (fold mb_exec evs b)" if "mb_streams_ok b" for b
    using that by (induction evs arbitrary: b) (simp_all add: mb_streams_ok_exec)
  from this [OF mb_streams_ok_New] assms
  have "mb_queue.ok (mss_sub st) (case mss_held st of None \<Rightarrow> [] | Some qm \<Rightarrow> [qm])"
    by (simp add: mb_run_def mb_streams_ok_def)
  then show ?thesis unfolding mb_queue.ok_def by blast
qed

theorem broker_subscriber_bounds_witness:
  "\<exists>st. map_of (mb_heap (mb_run [MbSubscribe] (New_mb [WithCapacity 1]))) 1 = Some st \<and>
     int (length (msub_ch (mss_sub st))) \<le> msub_cap (mss_sub st)"
proof -
  obtain st where "map_of (mb_heap (mb_run [MbSubscribe] (New_mb [WithCapacity 1]))) 1 = Some st"
    by (simp add: mb_run_def mb_exec_def Subscribe_mb_def New_mb_def apply_mb_option_def Let_def)
  with broker_subscriber_bounds [OF this] show ?thesis by blast
qed

end
