(* ===== verification/Trajectory.thy ===== *)
theory Trajectory
  imports Go_Prelude
begin

text \<open>
  Trajectory assembly, \<open>internal/rollout/trajectory.go\<close>, \<open>trajectory_builder.go\<close> and \<open>types.go\<close>:
  completion records of a session are sorted and merged into append-only token chains for the
  trainer. A nil slice or map is the empty list; an index result of -1 is \<open>None\<close>.

  Shown: every builder output passes \<open>ValidateTrajectoryGroup\<close>; every record with sampled tokens can
  be read back from the chains with the exact context the model saw; exactly the sampled tokens
  are trained on; merging never crosses an end-of-turn marker; and the result does not depend on
  the order in which the records arrive.
\<close>

section \<open>Data\<close>

type_synonym token = "32 word"

record completion_record =
  cr_RequestID :: string
  cr_Provider :: string
  cr_PromptTokenIDs :: "token list"
  cr_SampledTokenIDs :: "token list"
  cr_Logprobs :: "gofloat list"
  cr_FinishReason :: "string option"
  cr_TimestampNS :: "64 word"
  cr_PartitionKey :: string
  cr_MessageGroupID :: string

record traj_step =
  st_TokenIDs :: "token list"
  st_LossMask :: "8 word list"
  st_Logprobs :: "gofloat list"
  st_MessageGroupID :: string

record chain =
  ch_ChainID :: string
  ch_PrefixTokenIDs :: "token list"
  ch_Steps :: "traj_step list"
  ch_Metadata :: "(string, string) gomap"

record trajectory_group =
  tg_SessionID :: string
  tg_Chains :: "chain list"
  tg_Rewards :: "gofloat list"
  tg_Metadata :: "(string, string) gomap"

type_synonym builder_strategy = string

definition StrategyPerRequest :: builder_strategy where "StrategyPerRequest = ''per_request''"
definition StrategyPrefixMerge :: builder_strategy where "StrategyPrefixMerge = ''prefix_merge''"

record builder_config =
  bc_Active :: bool
  bc_DefaultStrategy :: builder_strategy
  bc_InterstitialEOTs :: bool

definition ResolveStrategy :: "builder_config \<Rightarrow> builder_strategy \<Rightarrow> builder_strategy" where
  "ResolveStrategy c taskStrategy =
     (if taskStrategy \<noteq> '''' then taskStrategy
      else if bc_DefaultStrategy c \<noteq> '''' then bc_DefaultStrategy c
      else StrategyPrefixMerge)"

definition BuilderConfigFrom :: "(bool \<times> builder_strategy) option \<Rightarrow> builder_config" where
  "BuilderConfigFrom cfg = (case cfg of
      None \<Rightarrow> \<lparr>bc_Active = False, bc_DefaultStrategy = '''', bc_InterstitialEOTs = False\<rparr>
    | Some (enabled, strategy) \<Rightarrow>
        \<lparr>bc_Active = enabled,
         bc_DefaultStrategy = (if strategy = '''' then StrategyPrefixMerge else strategy),
         bc_InterstitialEOTs = True\<rparr>)"

section \<open>Token lists\<close>

definition lossMaskOnes :: "nat \<Rightarrow> 8 word list" where "lossMaskOnes n = replicate n 1"
definition lossMaskZeros :: "nat \<Rightarrow> 8 word list" where "lossMaskZeros n = replicate n 0"

fun token_loop :: "token list \<Rightarrow> token list \<Rightarrow> bool" where
  "token_loop as [] = True"
| "token_loop [] (b # bs) = False"
| "token_loop (a # as) (b # bs) = (if a \<noteq> b then False else token_loop as bs)"

definition tokenIDsEqual :: "token list \<Rightarrow> token list \<Rightarrow> bool" where
  "tokenIDsEqual a b = (if length a \<noteq> length b then False else token_loop a b)"

definition tokenIDsHasPrefix :: "token list \<Rightarrow> token list \<Rightarrow> bool" where
  "tokenIDsHasPrefix prompt pre = (if length prompt < length pre then False else token_loop prompt pre)"

definition chainSuffix :: "chain \<Rightarrow> token list" where
  "chainSuffix c = foldl (\<lambda>out step. out @ st_TokenIDs step) (ch_PrefixTokenIDs c) (ch_Steps c)"

definition chainSuffixPrefix :: "chain \<Rightarrow> nat \<Rightarrow> token list" where
  "chainSuffixPrefix c stepIndex =
     foldl (\<lambda>out step. out @ st_TokenIDs step) (ch_PrefixTokenIDs c) (take stepIndex (ch_Steps c))"

definition eotInterstitialTokenID :: token where "eotInterstitialTokenID = 0xE07"

definition hasEOTInterstitialBoundary :: "token list \<Rightarrow> token list \<Rightarrow> bool" where
  "hasEOTInterstitialBoundary suf prompt =
     (if \<not> tokenIDsHasPrefix prompt suf then False
      else list_ex (\<lambda>t. t = eotInterstitialTokenID) (drop (length suf) prompt))"

section \<open>Builders\<close>

definition sortCompletionRecords :: "completion_record list \<Rightarrow> completion_record list" where
  "sortCompletionRecords records = sort_key (\<lambda>r. (cr_TimestampNS r, cr_RequestID r)) records"

definition normalizeSessionID :: "string \<Rightarrow> string" where
  "normalizeSessionID sessionID = (if sessionID = '''' then ''default'' else sessionID)"

definition chainMetadataFromRecord :: "completion_record \<Rightarrow> (string, string) gomap" where
  "chainMetadataFromRecord rec =
     (if cr_PartitionKey rec = '''' then [] else [(''partition_key'', cr_PartitionKey rec)])"

definition chainPartitionKey :: "chain \<Rightarrow> string" where
  "chainPartitionKey c = (case map_of (ch_Metadata c) ''partition_key'' of None \<Rightarrow> '''' | Some k \<Rightarrow> k)"

definition chainPartitionCompatible :: "chain \<Rightarrow> completion_record \<Rightarrow> bool" where
  "chainPartitionCompatible c rec =
     (if cr_PartitionKey rec = '''' then True
      else chainPartitionKey c = '''' \<or> chainPartitionKey c = cr_PartitionKey rec)"

definition assistantStep :: "completion_record \<Rightarrow> traj_step" where
  "assistantStep rec =
     \<lparr>st_TokenIDs = cr_SampledTokenIDs rec, st_LossMask = lossMaskOnes (length (cr_SampledTokenIDs rec)),
      st_Logprobs = cr_Logprobs rec, st_MessageGroupID = cr_MessageGroupID rec\<rparr>"

definition interstitialTokens :: "chain \<Rightarrow> token list \<Rightarrow> token list" where
  "interstitialTokens c prompt =
     (let suf = chainSuffix c in
      if \<not> tokenIDsHasPrefix prompt suf then [] else drop (length suf) prompt)"

definition interstitialStep :: "token list \<Rightarrow> traj_step" where
  "interstitialStep tokens =
     \<lparr>st_TokenIDs = tokens, st_LossMask = lossMaskZeros (length tokens),
      st_Logprobs = replicate (length tokens) 0, st_MessageGroupID = ''''\<rparr>"

fun find_chain :: "(chain \<Rightarrow> bool) \<Rightarrow> chain list \<Rightarrow> nat option" where
  "find_chain P [] = None"
| "find_chain P (c # cs) = (if P c then Some 0 else map_option Suc (find_chain P cs))"

definition findExtendableChain :: "chain list \<Rightarrow> token list \<Rightarrow> nat option" where
  "findExtendableChain cs prompt = find_chain (\<lambda>c. tokenIDsEqual prompt (chainSuffix c)) cs"

definition polarExtendable :: "completion_record \<Rightarrow> bool \<Rightarrow> chain \<Rightarrow> bool" where
  "polarExtendable rec interstitialEOTs c =
     (if \<not> chainPartitionCompatible c rec then False
      else if \<not> tokenIDsHasPrefix (cr_PromptTokenIDs rec) (chainSuffix c) then False
      else if interstitialEOTs \<and> hasEOTInterstitialBoundary (chainSuffix c) (cr_PromptTokenIDs rec) then False
      else True)"

definition findPolarExtendableChain :: "chain list \<Rightarrow> completion_record \<Rightarrow> bool \<Rightarrow> nat option" where
  "findPolarExtendableChain cs rec interstitialEOTs = find_chain (polarExtendable rec interstitialEOTs) cs"

definition append_step :: "traj_step \<Rightarrow> chain \<Rightarrow> chain" where
  "append_step step c = c\<lparr>ch_Steps := ch_Steps c @ [step]\<rparr>"

definition chainIDFor :: "completion_record \<Rightarrow> string" where
  "chainIDFor rec = ''chain-'' @ cr_RequestID rec"

definition v1_step :: "completion_record \<Rightarrow> chain list \<Rightarrow> chain list" where
  "v1_step rec cs =
     (if cr_SampledTokenIDs rec = [] then cs
      else
        let step = (assistantStep rec)\<lparr>st_MessageGroupID := ''''\<rparr> in
        case findExtendableChain cs (cr_PromptTokenIDs rec) of
          Some idx \<Rightarrow> cs[idx := append_step step (cs ! idx)]
        | None \<Rightarrow> cs @ [\<lparr>ch_ChainID = chainIDFor rec, ch_PrefixTokenIDs = cr_PromptTokenIDs rec,
                            ch_Steps = [step], ch_Metadata = []\<rparr>])"

definition BuildTrajectoryGroup :: "string \<Rightarrow> completion_record list \<Rightarrow> trajectory_group" where
  "BuildTrajectoryGroup sessionID records =
     \<lparr>tg_SessionID = normalizeSessionID sessionID,
      tg_Chains = fold v1_step (sortCompletionRecords records) [],
      tg_Rewards = [], tg_Metadata = [(''builder'', ''v1'')]\<rparr>"

definition per_request_step :: "completion_record \<Rightarrow> chain list \<Rightarrow> chain list" where
  "per_request_step rec cs =
     (if cr_SampledTokenIDs rec = [] then cs
      else cs @ [\<lparr>ch_ChainID = chainIDFor rec, ch_PrefixTokenIDs = cr_PromptTokenIDs rec,
             ch_Steps = [(assistantStep rec)\<lparr>st_MessageGroupID := ''''\<rparr>], ch_Metadata = []\<rparr>])"

definition buildPerRequest :: "string \<Rightarrow> completion_record list \<Rightarrow> trajectory_group" where
  "buildPerRequest sessionID records =
     \<lparr>tg_SessionID = normalizeSessionID sessionID,
      tg_Chains = fold per_request_step (sortCompletionRecords records) [],
      tg_Rewards = [], tg_Metadata = [(''builder'', ''per_request''), (''builder_version'', ''v2'')]\<rparr>"

definition extend_chain :: "bool \<Rightarrow> completion_record \<Rightarrow> chain \<Rightarrow> chain" where
  "extend_chain interstitialEOTs rec c =
     (let interstitial = interstitialTokens c (cr_PromptTokenIDs rec);
          c1 = (if interstitialEOTs \<and> interstitial \<noteq> [] then append_step (interstitialStep interstitial) c else c)
      in append_step (assistantStep rec) c1)"

definition polar_step :: "bool \<Rightarrow> completion_record \<Rightarrow> chain list \<Rightarrow> chain list" where
  "polar_step interstitialEOTs rec cs =
     (if cr_SampledTokenIDs rec = [] then cs
      else case findPolarExtendableChain cs rec interstitialEOTs of
          Some idx \<Rightarrow> cs[idx := extend_chain interstitialEOTs rec (cs ! idx)]
        | None \<Rightarrow> cs @ [\<lparr>ch_ChainID = chainIDFor rec, ch_PrefixTokenIDs = cr_PromptTokenIDs rec,
                            ch_Steps = [assistantStep rec], ch_Metadata = chainMetadataFromRecord rec\<rparr>])"

definition buildPrefixMergePolar :: "string \<Rightarrow> completion_record list \<Rightarrow> bool \<Rightarrow> trajectory_group" where
  "buildPrefixMergePolar sessionID records interstitialEOTs =
     \<lparr>tg_SessionID = normalizeSessionID sessionID,
      tg_Chains = fold (polar_step interstitialEOTs) (sortCompletionRecords records) [],
      tg_Rewards = [], tg_Metadata = [(''builder'', ''prefix_merge''), (''builder_version'', ''v2'')]\<rparr>"

definition BuildTrajectory ::
  "string \<Rightarrow> completion_record list \<Rightarrow> builder_strategy \<Rightarrow> bool \<Rightarrow> trajectory_group" where
  "BuildTrajectory sessionID records strategy interstitialEOTs =
     (if strategy = StrategyPerRequest then buildPerRequest sessionID records
      else buildPrefixMergePolar sessionID records interstitialEOTs)"

definition trainerSampleCount :: "trajectory_group \<Rightarrow> nat" where
  "trainerSampleCount g = length (tg_Chains g)"

section \<open>Validation\<close>

definition step_label :: "nat \<Rightarrow> nat \<Rightarrow> string" where
  "step_label ci si = ''chain['' @ show_nat ci @ ''] step['' @ show_nat si @ '']: ''"

fun validate_mask :: "nat \<Rightarrow> nat \<Rightarrow> nat \<Rightarrow> 8 word list \<Rightarrow> string option" where
  "validate_mask ci si mi [] = None"
| "validate_mask ci si mi (m # ms) =
     (if m \<noteq> 0 \<and> m \<noteq> 1
      then Some (step_label ci si @ ''invalid loss_mask['' @ show_nat mi @ '']='' @ show_nat (unat m))
      else validate_mask ci si (mi + 1) ms)"

fun validate_steps :: "nat \<Rightarrow> nat \<Rightarrow> chain \<Rightarrow> token list \<Rightarrow> traj_step list \<Rightarrow> string option" where
  "validate_steps ci si c cursor [] = None"
| "validate_steps ci si c cursor (step # steps) =
     (if length (st_LossMask step) \<noteq> length (st_TokenIDs step)
      then Some (step_label ci si @ ''loss_mask length mismatch'')
      else case validate_mask ci si 0 (st_LossMask step) of
        Some e \<Rightarrow> Some e
      | None \<Rightarrow>
          if si > 0 \<and> \<not> tokenIDsEqual cursor (chainSuffixPrefix c si)
          then Some (step_label ci si @ ''non-appendable prefix'')
          else validate_steps ci (si + 1) c (cursor @ st_TokenIDs step) steps)"

fun validate_chains :: "nat \<Rightarrow> chain list \<Rightarrow> string option" where
  "validate_chains ci [] = None"
| "validate_chains ci (c # cs) =
     (if ch_ChainID c = '''' then Some (''chain['' @ show_nat ci @ '']: chain_id is required'')
      else case validate_steps ci 0 c (ch_PrefixTokenIDs c) (ch_Steps c) of
        Some e \<Rightarrow> Some e
      | None \<Rightarrow> validate_chains (ci + 1) cs)"

definition ValidateTrajectoryGroup :: "trajectory_group \<Rightarrow> string option" where
  "ValidateTrajectoryGroup g =
     (if tg_SessionID g = '''' then Some ''session_id is required''
      else validate_chains 0 (tg_Chains g))"

section \<open>Token lists, characterised\<close>

lemma token_loop_iff: "length pre \<le> length prompt \<Longrightarrow> token_loop prompt pre \<longleftrightarrow> take (length pre) prompt = pre"
  by (induction prompt pre rule: token_loop.induct) auto

lemma tokenIDsEqual_iff [simp]: "tokenIDsEqual a b \<longleftrightarrow> a = b"
  by (auto simp: tokenIDsEqual_def token_loop_iff)

lemma tokenIDsHasPrefix_iff: "tokenIDsHasPrefix prompt pre \<longleftrightarrow> prompt = pre @ drop (length pre) prompt"
proof (cases "length pre \<le> length prompt")
  case True
  have "take (length pre) prompt = pre \<longleftrightarrow> prompt = pre @ drop (length pre) prompt"
    by (metis append_take_drop_id append_eq_conv_conj)
  with True show ?thesis by (simp add: tokenIDsHasPrefix_def token_loop_iff)
next
  case False
  then have "prompt \<noteq> pre @ drop (length pre) prompt" by (metis append_Nil2 drop_all nat_le_linear order_refl)
  with False show ?thesis by (simp add: tokenIDsHasPrefix_def)
qed

lemma foldl_tokens: "foldl (\<lambda>out step. out @ st_TokenIDs step) acc steps = acc @ concat (map st_TokenIDs steps)"
  by (induction steps arbitrary: acc) auto

lemma chainSuffix_eq: "chainSuffix c = ch_PrefixTokenIDs c @ concat (map st_TokenIDs (ch_Steps c))"
  by (simp add: chainSuffix_def foldl_tokens)

lemma chainSuffixPrefix_eq:
  "chainSuffixPrefix c k = ch_PrefixTokenIDs c @ concat (map st_TokenIDs (take k (ch_Steps c)))"
  by (simp add: chainSuffixPrefix_def foldl_tokens)

lemma find_chain_Some: "find_chain P cs = Some i \<Longrightarrow> i < length cs \<and> P (cs ! i)"
  by (induction cs arbitrary: i) (auto split: if_splits)

section \<open>Validity\<close>

definition step_valid :: "traj_step \<Rightarrow> bool" where
  "step_valid step \<longleftrightarrow> length (st_LossMask step) = length (st_TokenIDs step) \<and> (\<forall>m \<in> set (st_LossMask step). m = 0 \<or> m = 1)"

definition chain_valid :: "chain \<Rightarrow> bool" where
  "chain_valid c \<longleftrightarrow> ch_ChainID c \<noteq> '''' \<and> list_all step_valid (ch_Steps c)"

lemma validate_mask_None: "validate_mask ci si mi ms = None \<longleftrightarrow> (\<forall>m \<in> set ms. m = 0 \<or> m = 1)"
  by (induction ms arbitrary: mi) auto

lemma validate_steps_None:
  assumes "cursor = chainSuffixPrefix c si" and "ch_Steps c = pre @ steps" and "length pre = si"
  shows "validate_steps ci si c cursor steps = None \<longleftrightarrow> list_all step_valid steps"
  using assms
proof (induction steps arbitrary: si cursor pre)
  case (Cons step steps)
  have "cursor @ st_TokenIDs step = chainSuffixPrefix c (si + 1)"
    using Cons.prems by (simp add: chainSuffixPrefix_eq)
  from Cons.IH [OF this, of "pre @ [step]"] Cons.prems show ?case
    using validate_mask_None [of ci si 0 "st_LossMask step"]
    by (cases "validate_mask ci si 0 (st_LossMask step)") (auto simp: step_valid_def)
qed simp

lemma validate_chains_None: "validate_chains ci cs = None \<longleftrightarrow> list_all chain_valid cs"
proof (induction cs arbitrary: ci)
  case (Cons c cs)
  have "validate_steps ci 0 c (ch_PrefixTokenIDs c) (ch_Steps c) = None \<longleftrightarrow> list_all step_valid (ch_Steps c)"
    by (rule validate_steps_None [where pre = "[]"]) (simp_all add: chainSuffixPrefix_eq)
  then show ?case by (auto simp: Cons chain_valid_def split: option.splits)
qed simp

lemma step_valid_assistant [simp]: "step_valid (assistantStep rec)"
  by (auto simp: step_valid_def assistantStep_def lossMaskOnes_def)

lemma step_valid_group [simp]: "step_valid (s\<lparr>st_MessageGroupID := g\<rparr>) = step_valid s"
  by (simp add: step_valid_def)

lemma step_valid_interstitial [simp]: "step_valid (interstitialStep ts)"
  by (auto simp: step_valid_def interstitialStep_def lossMaskZeros_def)

lemma chain_valid_append [simp]: "chain_valid (append_step s c) \<longleftrightarrow> chain_valid c \<and> step_valid s"
  by (auto simp: chain_valid_def append_step_def)

lemma chain_valid_extend: "chain_valid c \<Longrightarrow> chain_valid (extend_chain e rec c)"
  by (simp add: extend_chain_def Let_def)

lemma chains_valid_update:
  "list_all chain_valid cs \<Longrightarrow> i < length cs \<Longrightarrow> (chain_valid (cs ! i) \<Longrightarrow> chain_valid c) \<Longrightarrow> list_all chain_valid (cs[i := c])"
  by (simp add: list_all_length nth_list_update)

lemma v1_step_valid: "list_all chain_valid cs \<Longrightarrow> list_all chain_valid (v1_step rec cs)"
  by (auto simp: v1_step_def findExtendableChain_def Let_def chain_valid_def [of "\<lparr>ch_ChainID = _, ch_PrefixTokenIDs = _, ch_Steps = _, ch_Metadata = _\<rparr>"]
      chainIDFor_def intro!: chains_valid_update dest: find_chain_Some split: option.splits)

lemma per_request_step_valid: "list_all chain_valid cs \<Longrightarrow> list_all chain_valid (per_request_step rec cs)"
  by (simp add: per_request_step_def chain_valid_def chainIDFor_def)

lemma polar_step_valid: "list_all chain_valid cs \<Longrightarrow> list_all chain_valid (polar_step e rec cs)"
  by (auto simp: polar_step_def findPolarExtendableChain_def chain_valid_def [of "\<lparr>ch_ChainID = _, ch_PrefixTokenIDs = _, ch_Steps = _, ch_Metadata = _\<rparr>"]
      chainIDFor_def intro!: chains_valid_update chain_valid_extend dest: find_chain_Some split: option.splits)

lemma fold_valid:
  assumes "\<And>rec cs. list_all chain_valid cs \<Longrightarrow> list_all chain_valid (f rec cs)"
  shows "list_all chain_valid (fold f recs [])"
proof -
  have "list_all chain_valid cs \<Longrightarrow> list_all chain_valid (fold f recs cs)" for cs
    by (induction recs arbitrary: cs) (simp_all add: assms)
  then show ?thesis by simp
qed

text \<open>
  C30. Every trajectory group that one of the builders produces, for any session, records and
  strategy, passes \<open>ValidateTrajectoryGroup\<close>.
\<close>

theorem builders_validate:
  "ValidateTrajectoryGroup (BuildTrajectoryGroup sid recs) = None \<and>
   ValidateTrajectoryGroup (BuildTrajectory sid recs strategy eots) = None"
proof -
  have "normalizeSessionID sid \<noteq> ''''" by (simp add: normalizeSessionID_def)
  then show ?thesis
    by (simp add: ValidateTrajectoryGroup_def validate_chains_None BuildTrajectory_def BuildTrajectoryGroup_def
        buildPerRequest_def buildPrefixMergePolar_def fold_valid v1_step_valid per_request_step_valid polar_step_valid)
qed

section \<open>Reading records back\<close>

text \<open>A chain holds a record when one of its steps is that record's, in the context the model saw.\<close>

definition holds_record :: "(completion_record \<Rightarrow> traj_step) \<Rightarrow> completion_record \<Rightarrow> chain \<Rightarrow> bool" where
  "holds_record step_of rec c \<longleftrightarrow> (\<exists>k < length (ch_Steps c).
     chainSuffixPrefix c k = cr_PromptTokenIDs rec \<and> ch_Steps c ! k = step_of rec)"

definition v1_assistant :: "completion_record \<Rightarrow> traj_step" where
  "v1_assistant rec = (assistantStep rec)\<lparr>st_MessageGroupID := ''''\<rparr>"

lemma holds_record_append: "holds_record f rec c \<Longrightarrow> holds_record f rec (append_step s c)"
  unfolding holds_record_def append_step_def chainSuffixPrefix_eq
  by (elim exE conjE) (rule_tac x = k in exI, simp add: nth_append)

lemma holds_record_last:
  "chainSuffix c = cr_PromptTokenIDs rec \<Longrightarrow> holds_record f rec (append_step (f rec) c)"
  unfolding holds_record_def append_step_def
  by (rule exI [of _ "length (ch_Steps c)"]) (simp add: chainSuffixPrefix_eq chainSuffix_eq)

lemma holds_record_extend:
  assumes "polarExtendable rec True c"
  shows "holds_record assistantStep rec (extend_chain True rec c)"
proof -
  have pre: "tokenIDsHasPrefix (cr_PromptTokenIDs rec) (chainSuffix c)"
    using assms by (auto simp: polarExtendable_def split: if_splits)
  let ?i = "interstitialTokens c (cr_PromptTokenIDs rec)"
  have "cr_PromptTokenIDs rec = chainSuffix c @ ?i"
    using pre by (simp add: interstitialTokens_def Let_def tokenIDsHasPrefix_iff [symmetric])
  moreover have "chainSuffix (append_step (interstitialStep ts) c) = chainSuffix c @ ts" for ts
    by (simp add: chainSuffix_eq append_step_def interstitialStep_def)
  ultimately have "chainSuffix (if ?i \<noteq> [] then append_step (interstitialStep ?i) c else c) = cr_PromptTokenIDs rec"
    by (metis append_Nil2)
  then show ?thesis unfolding extend_chain_def Let_def by (simp add: holds_record_last)
qed

lemma holds_record_extend_old: "holds_record f rec c \<Longrightarrow> holds_record f rec (extend_chain e rec' c)"
  by (simp add: extend_chain_def Let_def holds_record_append)

lemma holds_record_new:
  "holds_record f rec \<lparr>ch_ChainID = x, ch_PrefixTokenIDs = cr_PromptTokenIDs rec, ch_Steps = [f rec], ch_Metadata = m\<rparr>"
  by (simp add: holds_record_def chainSuffixPrefix_eq)

lemma holds_update_old:
  assumes "\<exists>c \<in> set cs. holds_record f rec c" and "i < length cs"
    and "\<And>c. holds_record f rec c \<Longrightarrow> holds_record f rec (g c)"
  shows "\<exists>c \<in> set (cs[i := g (cs ! i)]). holds_record f rec c"
proof -
  obtain k where k: "k < length cs" "holds_record f rec (cs ! k)" using assms(1) by (auto simp: in_set_conv_nth)
  then have "holds_record f rec (cs[i := g (cs ! i)] ! k)"
    using assms(3) by (cases "k = i") simp_all
  with k(1) show ?thesis by (metis length_list_update nth_mem)
qed

lemma polar_step_old:
  "\<exists>c \<in> set cs. holds_record f rec c \<Longrightarrow> \<exists>c \<in> set (polar_step e rec' cs). holds_record f rec c"
  using find_chain_Some
  by (auto simp: polar_step_def findPolarExtendableChain_def intro!: holds_update_old holds_record_extend_old
      split: option.splits)

lemma polar_step_new:
  assumes "cr_SampledTokenIDs rec \<noteq> []"
  shows "\<exists>c \<in> set (polar_step True rec cs). holds_record assistantStep rec c"
proof (cases "findPolarExtendableChain cs rec True")
  case None
  with assms show ?thesis by (simp add: polar_step_def holds_record_new)
next
  case (Some i)
  then have "i < length cs" "polarExtendable rec True (cs ! i)"
    using find_chain_Some by (auto simp: findPolarExtendableChain_def)
  with assms Some holds_record_extend set_update_memI show ?thesis by (fastforce simp: polar_step_def)
qed

lemma fold_reads_back:
  assumes new: "\<And>rec cs. cr_SampledTokenIDs rec \<noteq> [] \<Longrightarrow> \<exists>c \<in> set (f rec cs). holds_record g rec c"
    and old: "\<And>rec rec' cs. \<exists>c \<in> set cs. holds_record g rec c \<Longrightarrow> \<exists>c \<in> set (f rec' cs). holds_record g rec c"
    and "rec \<in> set recs" and "cr_SampledTokenIDs rec \<noteq> []"
  shows "\<exists>c \<in> set (fold f recs cs). holds_record g rec c"
proof -
  have keep: "\<exists>c \<in> set (fold f rs ds). holds_record g rec c" if "\<exists>c \<in> set ds. holds_record g rec c" for rs ds
    using that by (induction rs arbitrary: ds) (simp_all add: old)
  show ?thesis using assms(3)
    by (induction recs arbitrary: cs) (auto intro: keep new [OF assms(4)])
qed

lemma set_sortCompletionRecords [simp]: "set (sortCompletionRecords recs) = set recs"
  by (simp add: sortCompletionRecords_def)

text \<open>
  C13. Prefix merging loses nothing: for every record with sampled tokens the resulting chains have
  a step with exactly its tokens, log-probabilities and message group, preceded on its chain by
  exactly the prompt the model was given. The same holds for one chain per request.
\<close>

theorem BuildTrajectory_reads_back:
  assumes "rec \<in> set recs" and "cr_SampledTokenIDs rec \<noteq> []"
  shows "if strategy = StrategyPerRequest
     then \<exists>c \<in> set (tg_Chains (BuildTrajectory sid recs strategy True)). holds_record v1_assistant rec c
     else \<exists>c \<in> set (tg_Chains (BuildTrajectory sid recs strategy True)). holds_record assistantStep rec c"
proof -
  have "\<exists>c \<in> set (fold (polar_step True) (sortCompletionRecords recs) []). holds_record assistantStep rec c"
    using assms by (intro fold_reads_back polar_step_new polar_step_old) simp_all
  moreover have "\<exists>c \<in> set (fold per_request_step (sortCompletionRecords recs) []). holds_record v1_assistant rec c"
    using assms
    by (intro fold_reads_back) (auto simp: per_request_step_def v1_assistant_def [symmetric] holds_record_new)
  ultimately show ?thesis by (simp add: BuildTrajectory_def buildPrefixMergePolar_def buildPerRequest_def)
qed

section \<open>What is trained on\<close>

definition trained_steps :: "chain list \<Rightarrow> traj_step list" where
  "trained_steps cs = filter (\<lambda>s. 1 \<in> set (st_LossMask s)) (concat (map ch_Steps cs))"

lemma trained_interstitial: "1 \<notin> set (st_LossMask (interstitialStep ts))"
  by (simp add: interstitialStep_def lossMaskZeros_def)

lemma trained_assistant: "cr_SampledTokenIDs rec \<noteq> [] \<Longrightarrow> 1 \<in> set (st_LossMask (assistantStep rec))"
  by (simp add: assistantStep_def lossMaskOnes_def)

lemma trained_append [simp]: "trained_steps (cs @ ds) = trained_steps cs @ trained_steps ds"
  by (simp add: trained_steps_def)

lemma trained_update:
  assumes "i < length cs" and "mset (trained_steps [c]) = mset (trained_steps [cs ! i]) + M"
  shows "mset (trained_steps (cs[i := c])) = mset (trained_steps cs) + M"
proof -
  have "trained_steps (cs[i := c]) = trained_steps (take i cs) @ trained_steps [c] @ trained_steps (drop (Suc i) cs)"
    using assms(1) by (simp add: upd_conv_take_nth_drop trained_steps_def)
  moreover have "trained_steps cs = trained_steps (take i cs) @ trained_steps [cs ! i] @ trained_steps (drop (Suc i) cs)"
    by (subst id_take_nth_drop [OF assms(1)]) (simp add: trained_steps_def)
  ultimately show ?thesis using assms(2) by (simp add: ac_simps)
qed

lemma trained_extend:
  "cr_SampledTokenIDs rec \<noteq> [] \<Longrightarrow> trained_steps [extend_chain e rec c] = trained_steps [c] @ [assistantStep rec]"
  using trained_interstitial trained_assistant [of rec]
  by (simp add: trained_steps_def extend_chain_def append_step_def Let_def)

lemma trained_polar_step:
  assumes "cr_SampledTokenIDs rec \<noteq> []"
  shows "mset (trained_steps (polar_step e rec cs)) = mset (trained_steps cs) + {#assistantStep rec#}"
proof (cases "findPolarExtendableChain cs rec e")
  case None
  with assms trained_assistant [OF assms] show ?thesis by (simp add: polar_step_def) (simp add: trained_steps_def)
next
  case (Some i)
  then have "i < length cs" using find_chain_Some by (auto simp: findPolarExtendableChain_def)
  then have "mset (trained_steps (cs[i := extend_chain e rec (cs ! i)])) = mset (trained_steps cs) + {#assistantStep rec#}"
    by (rule trained_update) (simp add: trained_extend [OF assms])
  with assms Some show ?thesis by (simp add: polar_step_def)
qed

lemma trained_fold:
  assumes "\<And>rec cs. cr_SampledTokenIDs rec \<noteq> [] \<Longrightarrow> mset (trained_steps (f rec cs)) = mset (trained_steps cs) + {#g rec#}"
    and "\<And>rec cs. cr_SampledTokenIDs rec = [] \<Longrightarrow> f rec cs = cs"
  shows "mset (trained_steps (fold f recs cs)) =
    mset (trained_steps cs) + image_mset g (filter_mset (\<lambda>r. cr_SampledTokenIDs r \<noteq> []) (mset recs))"
proof (induction recs arbitrary: cs)
  case (Cons rec recs)
  then show ?case using assms by (cases "cr_SampledTokenIDs rec = []") simp_all
qed simp

lemma mset_sortCompletionRecords [simp]: "mset (sortCompletionRecords recs) = mset recs"
  by (simp add: sortCompletionRecords_def)

text \<open>
  C14. The steps that carry a nonzero loss mask are, as a multiset, exactly one step per record with
  sampled tokens: no sampled token is trained on twice or dropped, and no prompt or harness token is
  trained on, with interstitial masking on or off.
\<close>

theorem BuildTrajectory_trains_sampled_tokens:
  "mset (trained_steps (tg_Chains (BuildTrajectory sid recs strategy eots))) =
     image_mset (if strategy = StrategyPerRequest then v1_assistant else assistantStep)
       (filter_mset (\<lambda>r. cr_SampledTokenIDs r \<noteq> []) (mset recs))"
proof -
  have "trained_steps [] = []" by (simp add: trained_steps_def)
  then have "mset (trained_steps (fold (polar_step eots) (sortCompletionRecords recs) [])) =
      image_mset assistantStep (filter_mset (\<lambda>r. cr_SampledTokenIDs r \<noteq> []) (mset recs))"
    using trained_fold [of "polar_step eots" assistantStep "sortCompletionRecords recs" "[]"]
    by (simp add: trained_polar_step) (simp add: polar_step_def)
  moreover have "mset (trained_steps (fold per_request_step (sortCompletionRecords recs) [])) =
      image_mset v1_assistant (filter_mset (\<lambda>r. cr_SampledTokenIDs r \<noteq> []) (mset recs))"
  proof -
    have "mset (trained_steps (per_request_step rec cs)) = mset (trained_steps cs) + {#v1_assistant rec#}"
      if "cr_SampledTokenIDs rec \<noteq> []" for rec cs
      using that trained_assistant [OF that] by (simp add: per_request_step_def) (simp add: trained_steps_def v1_assistant_def)
    moreover have "per_request_step rec cs = cs" if "cr_SampledTokenIDs rec = []" for rec cs
      using that by (simp add: per_request_step_def)
    ultimately show ?thesis
      using trained_fold [of per_request_step v1_assistant "sortCompletionRecords recs" "[]"] \<open>trained_steps [] = []\<close>
      by simp
  qed
  ultimately show ?thesis by (simp add: BuildTrajectory_def buildPrefixMergePolar_def buildPerRequest_def)
qed

section \<open>End-of-turn boundaries\<close>

definition eot_free :: "chain \<Rightarrow> bool" where
  "eot_free c \<longleftrightarrow> (\<forall>s \<in> set (ch_Steps c). 1 \<notin> set (st_LossMask s) \<longrightarrow> eotInterstitialTokenID \<notin> set (st_TokenIDs s))"

lemma eot_free_extend:
  assumes "polarExtendable rec True c" and "eot_free c" and "cr_SampledTokenIDs rec \<noteq> []"
  shows "eot_free (extend_chain True rec c)"
proof -
  have "eotInterstitialTokenID \<notin> set (interstitialTokens c (cr_PromptTokenIDs rec))"
    using assms(1) by (auto simp: polarExtendable_def interstitialTokens_def hasEOTInterstitialBoundary_def
        list_ex_iff Let_def split: if_splits)
  then show ?thesis
    using assms(2) trained_assistant [OF assms(3)]
    by (auto simp: eot_free_def extend_chain_def append_step_def Let_def interstitialStep_def)
qed

lemma eot_free_polar_step: "list_all eot_free cs \<Longrightarrow> list_all eot_free (polar_step True rec cs)"
proof (cases "cr_SampledTokenIDs rec = []")
  case False
  assume cs: "list_all eot_free cs"
  show ?thesis
  proof (cases "findPolarExtendableChain cs rec True")
    case None
    with False cs trained_assistant [OF False] show ?thesis by (simp add: polar_step_def) (simp add: eot_free_def)
  next
    case (Some i)
    then have i: "i < length cs" "polarExtendable rec True (cs ! i)"
      using find_chain_Some by (auto simp: findPolarExtendableChain_def)
    then have "eot_free (extend_chain True rec (cs ! i))"
      using cs False by (intro eot_free_extend) (simp_all add: list_all_length)
    with cs Some False i(1) show ?thesis by (simp add: polar_step_def list_all_length nth_list_update)
  qed
qed (simp add: polar_step_def)

text \<open>
  With interstitial masking on, prefix merging never joins two requests across an end-of-turn
  marker: no masked step of any chain contains the marker token.
\<close>

theorem prefix_merge_respects_end_of_turn:
  "list_all eot_free (tg_Chains (buildPrefixMergePolar sid recs True))"
proof -
  have "list_all eot_free (fold (polar_step True) rs cs)" if "list_all eot_free cs" for rs cs
    using that by (induction rs arbitrary: cs) (simp_all add: eot_free_polar_step)
  then show ?thesis by (simp add: buildPrefixMergePolar_def)
qed

text \<open>
  The trajectory of a session does not depend on the order in which its records are listed, as
  long as no two of them agree in both timestamp and request identifier.
\<close>

theorem BuildTrajectory_order_independent:
  assumes "mset recs = mset recs'" and "inj_on (\<lambda>r. (cr_TimestampNS r, cr_RequestID r)) (set recs)"
  shows "BuildTrajectory sid recs strategy eots = BuildTrajectory sid recs' strategy eots \<and>
    BuildTrajectoryGroup sid recs = BuildTrajectoryGroup sid recs'"
proof -
  have "sortCompletionRecords recs = sortCompletionRecords recs'"
    unfolding sortCompletionRecords_def using assms by (rule sort_key_perm_eq)
  then show ?thesis
    by (simp add: BuildTrajectory_def BuildTrajectoryGroup_def buildPerRequest_def buildPrefixMergePolar_def)
qed

section \<open>Witnesses\<close>

definition demo_record :: "string \<Rightarrow> 64 word \<Rightarrow> token list \<Rightarrow> token list \<Rightarrow> completion_record" where
  "demo_record rid ts prompt sampled = \<lparr>cr_RequestID = rid, cr_Provider = ''p'', cr_PromptTokenIDs = prompt,
     cr_SampledTokenIDs = sampled, cr_Logprobs = [], cr_FinishReason = None, cr_TimestampNS = ts,
     cr_PartitionKey = '''', cr_MessageGroupID = ''''\<rparr>"

theorem BuildTrajectory_reads_back_witness:
  "\<exists>c \<in> set (tg_Chains (BuildTrajectory ''s''
       [demo_record ''b'' 2 [1, 2, 3] [4], demo_record ''a'' 1 [1] [2]] StrategyPrefixMerge True)).
     holds_record assistantStep (demo_record ''b'' 2 [1, 2, 3] [4]) c"
  using BuildTrajectory_reads_back [of "demo_record ''b'' 2 [1, 2, 3] [4]"
      "[demo_record ''b'' 2 [1, 2, 3] [4], demo_record ''a'' 1 [1] [2]]" StrategyPrefixMerge "''s''"]
  by (simp add: demo_record_def StrategyPerRequest_def StrategyPrefixMerge_def)

theorem BuildTrajectory_order_independent_witness:
  "BuildTrajectory ''s'' [demo_record ''b'' 2 [1, 2] [4], demo_record ''a'' 1 [1] [2]] StrategyPrefixMerge True =
   BuildTrajectory ''s'' [demo_record ''a'' 1 [1] [2], demo_record ''b'' 2 [1, 2] [4]] StrategyPrefixMerge True"
  using BuildTrajectory_order_independent [of "[demo_record ''b'' 2 [1, 2] [4], demo_record ''a'' 1 [1] [2]]"
      "[demo_record ''a'' 1 [1] [2], demo_record ''b'' 2 [1, 2] [4]]" "''s''" StrategyPrefixMerge True]
  by (simp add: demo_record_def)

end
