(* ===== verification/NodeRegistry.thy ===== *)
theory NodeRegistry
  imports Go_Prelude
begin

text \<open>
  The registry of executor nodes, \<open>internal/rollout/node_registry.go\<close>: registration, heartbeats,
  removal of stale nodes and round-robin assignment. Clock readings are arguments. The index
  \<open>lastAssignedIdx\<close> is a wrapping 64-bit integer, and indexing with a negative remainder panics as
  in Go. Shown: the choice does not depend on the iteration order of the node map, a full round
  gives every active node exactly one task, and only stale nodes are removed.
\<close>

record registry_node =
  rn_NodeID :: string
  rn_RegisteredAt :: gotime
  rn_LastHeartbeat :: gotime
  rn_Status :: string

record task_assignment =
  ta_TaskID :: string
  ta_SessionID :: string
  ta_NodeID :: string
  ta_AssignedAt :: gotime
  ta_Status :: string

record node_registry =
  nr_nodes :: "(string, registry_node) gomap"
  nr_assignments :: "(string, task_assignment) gomap"
  nr_lastAssignedIdx :: int

definition NewNodeRegistry :: node_registry where
  "NewNodeRegistry = \<lparr>nr_nodes = [], nr_assignments = [], nr_lastAssignedIdx = 0\<rparr>"

definition RegisterNode :: "gotime \<Rightarrow> string \<Rightarrow> node_registry \<Rightarrow> node_registry \<times> string option" where
  "RegisterNode now nodeID nr =
     (if nodeID = '''' then (nr, Some ''node_id required'')
      else (nr\<lparr>nr_nodes := gm_set nodeID \<lparr>rn_NodeID = nodeID, rn_RegisteredAt = now,
                  rn_LastHeartbeat = now, rn_Status = ''active''\<rparr> (nr_nodes nr)\<rparr>, None))"

definition DeregisterNode :: "string \<Rightarrow> node_registry \<Rightarrow> node_registry \<times> string option" where
  "DeregisterNode nodeID nr =
     (if nodeID = '''' then (nr, Some ''node_id required'')
      else case map_of (nr_nodes nr) nodeID of
        None \<Rightarrow> (nr, Some (''node not found: '' @ nodeID))
      | Some node \<Rightarrow> (nr\<lparr>nr_nodes := gm_del nodeID (nr_nodes nr)\<rparr>, None))"

definition HeartbeatNode :: "gotime \<Rightarrow> string \<Rightarrow> node_registry \<Rightarrow> node_registry \<times> string option" where
  "HeartbeatNode now nodeID nr =
     (case map_of (nr_nodes nr) nodeID of
        None \<Rightarrow> (nr, Some (''node not found: '' @ nodeID))
      | Some node \<Rightarrow>
          (nr\<lparr>nr_nodes := gm_set nodeID (node\<lparr>rn_LastHeartbeat := now, rn_Status := ''active''\<rparr>) (nr_nodes nr)\<rparr>, None))"

definition GetActiveNodes :: "node_registry \<Rightarrow> registry_node list" where
  "GetActiveNodes nr = filter (\<lambda>n. rn_Status n = ''active'') (map snd (nr_nodes nr))"

definition getActiveNodesLocked :: "node_registry \<Rightarrow> registry_node list" where
  "getActiveNodesLocked nr =
     sort_key rn_NodeID (filter (\<lambda>n. rn_Status n = ''active'') (map snd (nr_nodes nr)))"

definition AssignTask :: "gotime \<Rightarrow> string \<Rightarrow> string \<Rightarrow> node_registry \<Rightarrow> node_registry \<times> string outcome" where
  "AssignTask now taskID sessionID nr =
     (if taskID = '''' then (nr, Err ''task_id required'')
      else if sessionID = '''' then (nr, Err ''session_id required'')
      else
        let activeNodes = getActiveNodesLocked nr in
        if activeNodes = [] then (nr, Err ''no available executor nodes'')
        else
          let n = int (length activeNodes);
              i = (if 0 \<le> nr_lastAssignedIdx nr then nr_lastAssignedIdx nr mod n
                   else - ((- nr_lastAssignedIdx nr) mod n))
          in if i < 0 then (nr, Panic)
             else
               let nodeID = rn_NodeID (activeNodes ! nat i) in
               (nr\<lparr>nr_lastAssignedIdx := int_inc (nr_lastAssignedIdx nr),
                   nr_assignments := gm_set taskID \<lparr>ta_TaskID = taskID, ta_SessionID = sessionID,
                      ta_NodeID = nodeID, ta_AssignedAt = now, ta_Status = ''pending''\<rparr> (nr_assignments nr)\<rparr>,
                Ok nodeID))"

definition GetAssignedTasks :: "string \<Rightarrow> node_registry \<Rightarrow> task_assignment list" where
  "GetAssignedTasks nodeID nr =
     filter (\<lambda>a. ta_NodeID a = nodeID \<and> ta_Status a = ''pending'') (map snd (nr_assignments nr))"

definition set_assignment_status :: "string \<Rightarrow> string \<Rightarrow> node_registry \<Rightarrow> node_registry \<times> string option" where
  "set_assignment_status status taskID nr =
     (case map_of (nr_assignments nr) taskID of
        None \<Rightarrow> (nr, Some (''task not assigned: '' @ taskID))
      | Some a \<Rightarrow> (nr\<lparr>nr_assignments := gm_set taskID (a\<lparr>ta_Status := status\<rparr>) (nr_assignments nr)\<rparr>, None))"

definition MarkTaskAcknowledged :: "string \<Rightarrow> node_registry \<Rightarrow> node_registry \<times> string option" where
  "MarkTaskAcknowledged taskID nr = set_assignment_status ''acknowledged'' taskID nr"

definition MarkTaskCompleted :: "string \<Rightarrow> node_registry \<Rightarrow> node_registry \<times> string option" where
  "MarkTaskCompleted taskID nr = set_assignment_status ''completed'' taskID nr"

definition NodeCount :: "node_registry \<Rightarrow> nat" where
  "NodeCount nr = length (nr_nodes nr)"

definition DeregisterStaleNodes :: "gotime \<Rightarrow> duration \<Rightarrow> node_registry \<Rightarrow> node_registry \<times> string list" where
  "DeregisterStaleNodes now maxAge nr =
     (let stale = (\<lambda>(i, node). time_sub now (rn_LastHeartbeat node) > maxAge)
      in (nr\<lparr>nr_nodes := filter (\<lambda>p. \<not> stale p) (nr_nodes nr)\<rparr>, map fst (filter stale (nr_nodes nr))))"

section \<open>Invariant\<close>

definition registry_ok :: "node_registry \<Rightarrow> bool" where
  "registry_ok nr \<longleftrightarrow> gm_wf (nr_nodes nr) \<and> gm_wf (nr_assignments nr) \<and>
     (\<forall>i node. map_of (nr_nodes nr) i = Some node \<longrightarrow> rn_NodeID node = i \<and> i \<noteq> '''' \<and> rn_Status node = ''active'') \<and>
     (\<forall>t a. map_of (nr_assignments nr) t = Some a \<longrightarrow> ta_TaskID a = t)"

lemma registry_ok_ops [inv_intros]:
  assumes "registry_ok nr"
  shows "registry_ok (fst (RegisterNode now nodeID nr))" "registry_ok (fst (DeregisterNode nodeID nr))"
    "registry_ok (fst (HeartbeatNode now nodeID nr))" "registry_ok (fst (AssignTask now taskID sessionID nr))"
    "registry_ok (fst (MarkTaskAcknowledged taskID nr))" "registry_ok (fst (MarkTaskCompleted taskID nr))"
    "registry_ok (fst (DeregisterStaleNodes now maxAge nr))"
proof -
  show "registry_ok (fst (DeregisterStaleNodes now maxAge nr))"
    using assms by (auto simp: registry_ok_def DeregisterStaleNodes_def Let_def gm_get_filter
        intro: distinct_map_filter split: option.splits if_splits)
qed (use assms in \<open>auto simp: registry_ok_def RegisterNode_def DeregisterNode_def HeartbeatNode_def AssignTask_def
      MarkTaskAcknowledged_def MarkTaskCompleted_def set_assignment_status_def Let_def split: option.splits\<close>)

lemma registry_ids:
  assumes "registry_ok nr"
  shows "map rn_NodeID (filter (\<lambda>n. rn_Status n = ''active'') (map snd (nr_nodes nr))) = map fst (nr_nodes nr)"
proof -
  have all: "rn_NodeID (snd p) = fst p \<and> rn_Status (snd p) = ''active''" if "p \<in> set (nr_nodes nr)" for p
    using assms that unfolding registry_ok_def by (metis map_of_is_SomeI prod.collapse)
  then have "filter (\<lambda>n. rn_Status n = ''active'') (map snd (nr_nodes nr)) = map snd (nr_nodes nr)" by auto
  with all show ?thesis by simp
qed

lemma active_sorted_ids:
  assumes "registry_ok nr"
  shows "map rn_NodeID (getActiveNodesLocked nr) = sort (map fst (nr_nodes nr))"
proof -
  have "map rn_NodeID (sort_key rn_NodeID xs) = sort (map rn_NodeID xs)" for xs :: "registry_node list"
    by (rule properties_for_sort [symmetric]) simp_all
  then show ?thesis by (simp only: getActiveNodesLocked_def registry_ids [OF assms])
qed

section \<open>Round-robin\<close>

lemma AssignTask_pick:
  assumes ok: "registry_ok nr" and ne: "nr_nodes nr \<noteq> []" and ids: "taskID \<noteq> ''''" "sessionID \<noteq> ''''"
    and idx: "0 \<le> nr_lastAssignedIdx nr"
  shows "snd (AssignTask now taskID sessionID nr) =
      Ok (sort (map fst (nr_nodes nr)) ! nat (nr_lastAssignedIdx nr mod int (length (nr_nodes nr))))"
    and "nr_nodes (fst (AssignTask now taskID sessionID nr)) = nr_nodes nr"
    and "nr_lastAssignedIdx (fst (AssignTask now taskID sessionID nr)) = int_inc (nr_lastAssignedIdx nr)"
proof -
  have s: "map rn_NodeID (getActiveNodesLocked nr) = sort (map fst (nr_nodes nr))"
    using ok by (rule active_sorted_ids)
  then have len: "length (getActiveNodesLocked nr) = length (nr_nodes nr)"
    by (metis length_map length_sort)
  with ne have ne': "getActiveNodesLocked nr \<noteq> []" by auto
  have pos: "\<not> nr_lastAssignedIdx nr mod int (length (nr_nodes nr)) < 0"
    using ne pos_mod_sign [of "int (length (nr_nodes nr))"] by (simp add: not_less)
  have "nat (nr_lastAssignedIdx nr mod int (length (nr_nodes nr))) < length (getActiveNodesLocked nr)"
    using ne len by (simp add: nat_less_iff)
  then have nth: "rn_NodeID (getActiveNodesLocked nr ! nat (nr_lastAssignedIdx nr mod int (length (nr_nodes nr)))) =
      sort (map fst (nr_nodes nr)) ! nat (nr_lastAssignedIdx nr mod int (length (nr_nodes nr)))"
    by (simp add: s [symmetric])
  show "snd (AssignTask now taskID sessionID nr) =
      Ok (sort (map fst (nr_nodes nr)) ! nat (nr_lastAssignedIdx nr mod int (length (nr_nodes nr))))"
    "nr_nodes (fst (AssignTask now taskID sessionID nr)) = nr_nodes nr"
    "nr_lastAssignedIdx (fst (AssignTask now taskID sessionID nr)) = int_inc (nr_lastAssignedIdx nr)"
    using ids idx ne' len pos nth by (simp_all add: AssignTask_def Let_def)
qed

text \<open>The nodes chosen for a list of (time, task, session) requests.\<close>

fun assign_all :: "(gotime \<times> string \<times> string) list \<Rightarrow> node_registry \<Rightarrow> string outcome list" where
  "assign_all [] nr = []"
| "assign_all ((now, t, s) # rs) nr =
     (case AssignTask now t s nr of (nr', out) \<Rightarrow> out # assign_all rs nr')"

lemma assign_all_picks:
  assumes "registry_ok nr" and "nr_nodes nr \<noteq> []" and "\<forall>(now, t, s) \<in> set rs. t \<noteq> '''' \<and> s \<noteq> ''''"
    and "0 \<le> nr_lastAssignedIdx nr" and "nr_lastAssignedIdx nr + int (length rs) < 2 ^ 63"
  shows "assign_all rs nr = map (\<lambda>k. Ok (sort (map fst (nr_nodes nr)) !
     nat ((nr_lastAssignedIdx nr + int k) mod int (length (nr_nodes nr))))) [0..<length rs]"
  using assms
proof (induction rs arbitrary: nr)
  case (Cons r rs)
  obtain now t s where r: "r = (now, t, s)" by (cases r)
  let ?nr = "fst (AssignTask now t s nr)"
  have ids: "t \<noteq> ''''" "s \<noteq> ''''" using Cons.prems(3) r by auto
  note pick = AssignTask_pick [OF Cons.prems(1,2) ids Cons.prems(4), of now]
  have inc: "int_inc (nr_lastAssignedIdx nr) = nr_lastAssignedIdx nr + 1"
    using Cons.prems(5) by (simp add: int_inc_def)
  have "assign_all rs ?nr = map (\<lambda>k. Ok (sort (map fst (nr_nodes ?nr)) !
     nat ((nr_lastAssignedIdx ?nr + int k) mod int (length (nr_nodes ?nr))))) [0..<length rs]"
    by (rule Cons.IH) (use Cons.prems pick inc registry_ok_ops(4) [OF Cons.prems(1), of now t s] in auto)
  then have IH: "assign_all rs ?nr = map (\<lambda>k. Ok (sort (map fst (nr_nodes nr)) !
     nat ((nr_lastAssignedIdx nr + int (Suc k)) mod int (length (nr_nodes nr))))) [0..<length rs]"
    by (simp add: pick inc ac_simps)
  have "assign_all (r # rs) nr = snd (AssignTask now t s nr) # assign_all rs ?nr"
    by (simp add: r split: prod.splits)
  then show ?case
    by (simp add: IH pick(1) upt_conv_Cons map_Suc_upt [symmetric] del: upt_Suc)
qed simp

lemma residues_round:
  assumes "0 < n" and "0 \<le> (i :: int)"
  shows "mset (map (\<lambda>k. nat ((i + int k) mod int n)) [0..<n]) = mset [0..<n]"
proof -
  let ?f = "\<lambda>k. nat ((i + int k) mod int n)"
  have eq: "?f k = (nat i + k) mod n" for k
    using assms by (simp add: nat_mod_distrib nat_add_distrib)
  have "inj_on ?f {0..<n}"
  proof (rule inj_onI)
    fix a b assume "a \<in> {0..<n}" "b \<in> {0..<n}" and "?f a = ?f b"
    then have "(nat i + a) mod n = (nat i + b) mod n" "a < n" "b < n" by (simp_all add: eq)
    then show "a = b" by (rule ring_index_inj)
  qed
  moreover have "?f ` {0..<n} = {0..<n}"
    by (rule endo_inj_surj) (use assms calculation in \<open>auto simp: eq\<close>)
  ultimately show ?thesis
    by (metis (no_types, lifting) atLeastLessThan_upt distinct_map distinct_upt list.set_map set_eq_iff_mset_eq_distinct)
qed

text \<open>
  C15. Round-robin is fair: with \<open>n\<close> registered nodes, any \<open>n\<close> consecutive assignments all succeed and
  choose every node exactly once, as long as the 64-bit index does not overflow.
\<close>

theorem AssignTask_round_robin:
  assumes "registry_ok nr" and "nr_nodes nr \<noteq> []" and "length rs = NodeCount nr"
    and "\<forall>(now, t, s) \<in> set rs. t \<noteq> '''' \<and> s \<noteq> ''''"
    and "0 \<le> nr_lastAssignedIdx nr" and "nr_lastAssignedIdx nr + int (NodeCount nr) < 2 ^ 63"
  shows "mset (assign_all rs nr) = mset (map Ok (map fst (nr_nodes nr)))"
proof -
  let ?n = "length (nr_nodes nr)" and ?ids = "sort (map fst (nr_nodes nr))"
  let ?f = "\<lambda>k. nat ((nr_lastAssignedIdx nr + int k) mod int ?n)"
  have "assign_all rs nr = map (\<lambda>k. Ok (?ids ! ?f k)) [0..<?n]"
    using assign_all_picks [OF assms(1,2,4,5)] assms(3,6) by (simp add: NodeCount_def)
  also have "\<dots> = map (\<lambda>k. Ok (?ids ! k)) (map ?f [0..<?n])" by simp
  also have "mset \<dots> = image_mset (\<lambda>k. Ok (?ids ! k)) (mset (map ?f [0..<?n]))" by (simp only: mset_map)
  also have "\<dots> = image_mset (\<lambda>k. Ok (?ids ! k)) (mset [0..<?n])"
    using residues_round [of ?n "nr_lastAssignedIdx nr"] assms(2,5) by simp
  also have "\<dots> = mset (map Ok (map ((!) ?ids) [0..<?n]))" by (simp add: multiset.map_comp comp_def)
  also have "map ((!) ?ids) [0..<?n] = ?ids" using map_nth [of ?ids] by simp
  finally show ?thesis by (simp add: multiset.map_comp)
qed

text \<open>
  The node an assignment chooses, and whether it succeeds, does not depend on the iteration order
  of the node map, and a chosen node is registered; without nodes the call reports an error.
\<close>

theorem AssignTask_deterministic:
  assumes "registry_ok nr" and "registry_ok nr'" and "mset (nr_nodes nr') = mset (nr_nodes nr)"
    and "nr_lastAssignedIdx nr' = nr_lastAssignedIdx nr"
  shows "snd (AssignTask now t s nr') = snd (AssignTask now t s nr) \<and>
    (\<forall>i. snd (AssignTask now t s nr) = Ok i \<longrightarrow> map_of (nr_nodes nr) i \<noteq> None) \<and>
    (nr_nodes nr = [] \<longrightarrow> (\<exists>e. snd (AssignTask now t s nr) = Err e))"
proof -
  let ?as = "filter (\<lambda>n. rn_Status n = ''active'') (map snd (nr_nodes nr))"
  let ?as' = "filter (\<lambda>n. rn_Status n = ''active'') (map snd (nr_nodes nr'))"
  have "mset ?as' = mset ?as" using assms(3) by (simp add: mset_filter)
  moreover have "inj_on rn_NodeID (set ?as')"
  proof -
    have "distinct (map rn_NodeID ?as')" using registry_ids [OF assms(2)] assms(2) by (simp add: registry_ok_def)
    then show ?thesis by (simp add: distinct_map)
  qed
  ultimately have act: "getActiveNodesLocked nr' = getActiveNodesLocked nr"
    unfolding getActiveNodesLocked_def by (rule sort_key_perm_eq)
  have mem: "map_of (nr_nodes nr) (rn_NodeID n) \<noteq> None" if "n \<in> set (getActiveNodesLocked nr)" for n
  proof -
    have "rn_NodeID n \<in> set (map rn_NodeID (getActiveNodesLocked nr))" using that by simp
    then show ?thesis by (simp add: active_sorted_ids [OF assms(1)] map_of_eq_None_iff)
  qed
  have "map_of (nr_nodes nr) i \<noteq> None" if pick: "snd (AssignTask now t s nr) = Ok i" for i
  proof -
    let ?a = "getActiveNodesLocked nr" and ?n = "int (length (getActiveNodesLocked nr))"
    define k where "k = (if 0 \<le> nr_lastAssignedIdx nr then nr_lastAssignedIdx nr mod ?n
      else - ((- nr_lastAssignedIdx nr) mod ?n))"
    have k: "i = rn_NodeID (?a ! nat k)" "0 \<le> k" "?a \<noteq> []"
      using pick by (simp_all add: AssignTask_def k_def [symmetric] Let_def not_less split: if_splits)
    have pos: "0 < ?n" using k(3) by simp
    have "k < ?n"
      using pos_mod_bound [OF pos, of "nr_lastAssignedIdx nr"] pos_mod_sign [OF pos, of "- nr_lastAssignedIdx nr"] pos
      unfolding k_def by (split if_split, intro conjI impI; linarith)
    with k(1,2) mem show ?thesis by (simp add: nat_less_iff)
  qed
  moreover have "snd (AssignTask now t s nr') = snd (AssignTask now t s nr)"
    using act assms(4) by (simp add: AssignTask_def Let_def)
  moreover have "nr_nodes nr = [] \<longrightarrow> (\<exists>e. snd (AssignTask now t s nr) = Err e)"
    by (auto simp: AssignTask_def getActiveNodesLocked_def)
  ultimately show ?thesis by blast
qed

text \<open>
  C36. Removal of stale nodes removes exactly the nodes whose last heartbeat is more than \<open>maxAge\<close>
  old, reports each once, and leaves the other nodes untouched.
\<close>

theorem DeregisterStaleNodes_exact:
  assumes "gm_wf (nr_nodes nr)" and "0 \<le> maxAge" and "maxAge < 2 ^ 63 - 1"
  shows "map_of (nr_nodes (fst (DeregisterStaleNodes now maxAge nr))) i =
      (case map_of (nr_nodes nr) i of None \<Rightarrow> None
       | Some node \<Rightarrow> if now - rn_LastHeartbeat node > maxAge then None else Some node) \<and>
    distinct (snd (DeregisterStaleNodes now maxAge nr)) \<and>
    (i \<in> set (snd (DeregisterStaleNodes now maxAge nr)) \<longleftrightarrow>
      (\<exists>node. map_of (nr_nodes nr) i = Some node \<and> now - rn_LastHeartbeat node > maxAge))"
proof -
  have sub: "time_sub now h > maxAge \<longleftrightarrow> now - h > maxAge" for h
    using assms(2,3) by (intro time_sub_gt) simp_all
  have "i \<in> set (snd (DeregisterStaleNodes now maxAge nr)) \<longleftrightarrow>
      (\<exists>node. map_of (nr_nodes nr) i = Some node \<and> now - rn_LastHeartbeat node > maxAge)"
    using assms(1) by (auto simp: DeregisterStaleNodes_def Let_def sub map_of_eq_Some_iff image_iff)
  then show ?thesis
    using assms(1) by (auto simp: DeregisterStaleNodes_def Let_def sub gm_get_filter intro: distinct_map_filter
        split: option.splits)
qed

text \<open>
  C38. Assignments are keyed by task: assigning a second session of a task discards the assignment of
  its first session, which no node is then told about.
\<close>

theorem AssignTask_overwrites_session:
  assumes "snd (AssignTask now' t s' (fst (AssignTask now t s nr))) = Ok j" and "s \<noteq> s'"
    and "\<forall>a \<in> set (map snd (nr_assignments nr)). ta_SessionID a \<noteq> s" and "gm_wf (nr_assignments nr)"
  shows "\<forall>n. \<forall>a \<in> set (GetAssignedTasks n (fst (AssignTask now' t s' (fst (AssignTask now t s nr))))). ta_SessionID a \<noteq> s"
proof -
  let ?nr1 = "fst (AssignTask now t s nr)" and ?nr2 = "fst (AssignTask now' t s' (fst (AssignTask now t s nr)))"
  have a1: "nr_assignments ?nr1 = nr_assignments nr \<or> (\<exists>a. nr_assignments ?nr1 = gm_set t a (nr_assignments nr))"
    by (auto simp: AssignTask_def Let_def)
  obtain b where b: "nr_assignments ?nr2 = gm_set t b (nr_assignments ?nr1)" "ta_SessionID b = s'"
    using assms(1) by (auto simp: AssignTask_def [of now'] Let_def split: if_splits)
  have wf: "gm_wf (nr_assignments ?nr2)" using a1 b(1) assms(4) by (auto simp: distinct_update)
  have "ta_SessionID a \<noteq> s" if mem: "a \<in> set (map snd (nr_assignments ?nr2))" for a
  proof -
    obtain k where "map_of (nr_assignments ?nr2) k = Some a" using mem wf by (auto simp: map_of_eq_Some_iff)
    then have "a = b \<or> map_of (nr_assignments nr) k = Some a"
      using a1 b(1) by (auto split: if_splits)
    then show ?thesis using b(2) assms(2,3) map_of_SomeD by fastforce
  qed
  then show ?thesis by (auto simp: GetAssignedTasks_def)
qed

section \<open>Witnesses\<close>

definition demo_registry :: node_registry where
  "demo_registry = fst (RegisterNode 5 ''n1'' (fst (RegisterNode 5 ''n2'' NewNodeRegistry)))"

lemma demo_registry_ok: "registry_ok demo_registry"
  unfolding demo_registry_def
  by (intro registry_ok_ops) (simp add: registry_ok_def NewNodeRegistry_def)

lemma demo_registry_eq:
  "nr_nodes demo_registry = [(''n2'', \<lparr>rn_NodeID = ''n2'', rn_RegisteredAt = 5, rn_LastHeartbeat = 5, rn_Status = ''active''\<rparr>),
     (''n1'', \<lparr>rn_NodeID = ''n1'', rn_RegisteredAt = 5, rn_LastHeartbeat = 5, rn_Status = ''active''\<rparr>)]"
  "nr_lastAssignedIdx demo_registry = 0" "nr_assignments demo_registry = []"
  by (simp_all add: demo_registry_def RegisterNode_def NewNodeRegistry_def)

theorem AssignTask_round_robin_witness:
  "mset (assign_all [(6, ''t1'', ''s''), (7, ''t2'', ''s'')] demo_registry) = {#Ok ''n1'', Ok ''n2''#}"
  using AssignTask_round_robin [OF demo_registry_ok, of "[(6, ''t1'', ''s''), (7, ''t2'', ''s'')]"]
  by (simp add: demo_registry_eq NodeCount_def add_mset_commute)

theorem AssignTask_deterministic_witness:
  "snd (AssignTask 6 ''t'' ''s'' (demo_registry\<lparr>nr_nodes := rev (nr_nodes demo_registry)\<rparr>)) =
   snd (AssignTask 6 ''t'' ''s'' demo_registry)"
proof -
  have "registry_ok (demo_registry\<lparr>nr_nodes := rev (nr_nodes demo_registry)\<rparr>)"
    by (simp add: registry_ok_def demo_registry_eq)
  from AssignTask_deterministic [OF demo_registry_ok this, of 6 "''t''" "''s''"] show ?thesis by simp
qed

theorem DeregisterStaleNodes_exact_witness:
  "map_of (nr_nodes (fst (DeregisterStaleNodes 100 10 demo_registry))) ''n1'' = None"
  using DeregisterStaleNodes_exact [of demo_registry 10 100 "''n1''"] by (simp add: demo_registry_eq)

theorem AssignTask_overwrites_session_witness:
  "''s1'' \<notin> ta_SessionID ` set (GetAssignedTasks ''n1'' (fst (AssignTask 7 ''t'' ''s2'' (fst (AssignTask 6 ''t'' ''s1'' demo_registry)))))"
proof -
  have ok1: "registry_ok (fst (AssignTask 6 ''t'' ''s1'' demo_registry))" by (rule registry_ok_ops(4) [OF demo_registry_ok])
  have n1: "nr_nodes (fst (AssignTask 6 ''t'' ''s1'' demo_registry)) \<noteq> []"
      "nr_lastAssignedIdx (fst (AssignTask 6 ''t'' ''s1'' demo_registry)) = 1"
    using AssignTask_pick(2,3) [OF demo_registry_ok, of "''t''" "''s1''" 6] by (simp_all add: demo_registry_eq int_inc_def)
  have "\<forall>n. \<forall>a \<in> set (GetAssignedTasks n (fst (AssignTask 7 ''t'' ''s2'' (fst (AssignTask 6 ''t'' ''s1'' demo_registry))))).
     ta_SessionID a \<noteq> ''s1''"
    by (rule AssignTask_overwrites_session [OF AssignTask_pick(1) [OF ok1 n1(1)]])
      (simp_all add: n1 demo_registry_eq)
  then have n1: "\<forall>a \<in> set (GetAssignedTasks ''n1'' (fst (AssignTask 7 ''t'' ''s2'' (fst (AssignTask 6 ''t'' ''s1'' demo_registry))))).
     ta_SessionID a \<noteq> ''s1''" ..
  have "x \<notin> f ` S" if "\<forall>a \<in> S. f a \<noteq> x" for x S and f :: "task_assignment \<Rightarrow> string" using that by auto
  from this [OF n1] show ?thesis .
qed

end
