(* ===== verification/PrefixRouter.thy ===== *)
theory PrefixRouter
  imports Go_Json
begin

text \<open>
  Prefix keys for cache routing, \<open>internal/rollout/prefix_router.go\<close>. The third-party BLAKE3 digest,
  rendered in hexadecimal, is the parameter \<open>digest\<close>; the workspace resolver and the sidecar client
  are parameters of the router. Shown: the manifest that is hashed does not depend on the order in
  which the files are listed, and it determines the files when no path or object identifier
  contains a line break and no object identifier a colon; without that proviso two different
  workspaces share a key for every digest.
\<close>

record workspace_file =
  wf_Path :: string
  wf_BlobOID :: string

record workspace_meta =
  wm_BaseTreeOID :: "string option"
  wm_Files :: "workspace_file list"

record prefix_inputs =
  pi_BaseTreeOID :: string
  pi_SystemPromptHash :: string
  pi_SharedReadFilesHash :: string

definition prefix_payload :: "prefix_inputs \<Rightarrow> string" where
  "prefix_payload inp = pi_BaseTreeOID inp @ pi_SystemPromptHash inp @ pi_SharedReadFilesHash inp"

definition ComputePrefixKey :: "(string \<Rightarrow> string) \<Rightarrow> prefix_inputs \<Rightarrow> string" where
  "ComputePrefixKey digest inp = digest (prefix_payload inp)"

definition HashSystemPrompt :: "(string \<Rightarrow> string) \<Rightarrow> string \<Rightarrow> string" where
  "HashSystemPrompt digest prompt = digest prompt"

definition newline :: string where "newline = [CHR 0x0A]"

definition file_line :: "workspace_file \<Rightarrow> string" where
  "file_line f = wf_Path f @ '':'' @ wf_BlobOID f"

definition file_manifest :: "workspace_file list \<Rightarrow> string" where
  "file_manifest files = join_with newline (map file_line (sort_key wf_Path files))"

definition HashSharedReadFiles :: "(string \<Rightarrow> string) \<Rightarrow> workspace_file list \<Rightarrow> string" where
  "HashSharedReadFiles digest files = (if files = [] then digest '''' else digest (file_manifest files))"

record prefix_router =
  pr_Enabled :: bool
  pr_SystemPromptHash :: string
  pr_Resolver :: "(string \<Rightarrow> string + workspace_meta) option"
  pr_Client :: "(string \<Rightarrow> string option) option"

definition Enabled_pr :: "prefix_router option \<Rightarrow> bool" where
  "Enabled_pr r = (case r of None \<Rightarrow> False | Some c \<Rightarrow> pr_Enabled c)"

definition keyFromMeta :: "(string \<Rightarrow> string) \<Rightarrow> prefix_router \<Rightarrow> workspace_meta \<Rightarrow> string" where
  "keyFromMeta digest r meta =
     ComputePrefixKey digest
       \<lparr>pi_BaseTreeOID = (case wm_BaseTreeOID meta of None \<Rightarrow> '''' | Some b \<Rightarrow> b),
        pi_SystemPromptHash = pr_SystemPromptHash r,
        pi_SharedReadFilesHash = HashSharedReadFiles digest (wm_Files meta)\<rparr>"

definition ResolveKey :: "(string \<Rightarrow> string) \<Rightarrow> prefix_router option \<Rightarrow> string \<Rightarrow> string + string" where
  "ResolveKey digest r workspaceID = (case r of
      None \<Rightarrow> Inr ''''
    | Some c \<Rightarrow>
        if \<not> pr_Enabled c then Inr ''''
        else case pr_Resolver c of
          None \<Rightarrow> Inl ''workspace resolver not configured''
        | Some resolve \<Rightarrow> (case resolve workspaceID of
            Inl err \<Rightarrow> Inl err
          | Inr meta \<Rightarrow> Inr (keyFromMeta digest c meta)))"

definition Prewarm :: "(string \<Rightarrow> string) \<Rightarrow> prefix_router option \<Rightarrow> string \<Rightarrow> string \<times> string option" where
  "Prewarm digest r workspaceID = (case ResolveKey digest r workspaceID of
      Inl err \<Rightarrow> ('''', Some err)
    | Inr key \<Rightarrow>
        if key = '''' then (key, None)
        else case r of
          None \<Rightarrow> (key, None)
        | Some c \<Rightarrow> (case pr_Client c of
            None \<Rightarrow> (key, None)
          | Some prewarm \<Rightarrow> (case prewarm key of
              Some err \<Rightarrow> (key, Some (''prewarm prefix: '' @ err))
            | None \<Rightarrow> (key, None))))"

section \<open>The manifest determines the files\<close>

definition plain_file :: "workspace_file \<Rightarrow> bool" where
  "plain_file f \<longleftrightarrow> CHR 0x0A \<notin> set (wf_Path f) \<and> CHR 0x0A \<notin> set (wf_BlobOID f) \<and> CHR '':'' \<notin> set (wf_BlobOID f)"

lemma split_first:
  assumes "a @ c # x = b @ c # y" and "c \<notin> set a" and "c \<notin> set b"
  shows "a = b \<and> x = y"
  using assms by (induction a arbitrary: b) (auto simp: Cons_eq_append_conv append_eq_Cons_conv)

lemma split_last:
  assumes "x @ c # a = y @ c # b" and "c \<notin> set a" and "c \<notin> set b"
  shows "x = y \<and> a = b"
proof -
  have "rev a @ c # rev x = rev b @ c # rev y" using assms(1) by (metis append.assoc append_Cons append_Nil rev.simps(2) rev_append)
  from split_first [OF this] assms show ?thesis by simp
qed

lemma file_line_inj:
  assumes "file_line f = file_line g" and "plain_file f" and "plain_file g"
  shows "f = g"
  using split_last [of "wf_Path f" "CHR '':''" "wf_BlobOID f" "wf_Path g" "wf_BlobOID g"] assms
  by (simp add: file_line_def plain_file_def)

lemma join_lines_inj:
  assumes "join_with newline xs = join_with newline ys" and "xs \<noteq> []" and "ys \<noteq> []"
    and "\<forall>x \<in> set xs. CHR 0x0A \<notin> set x" and "\<forall>y \<in> set ys. CHR 0x0A \<notin> set y"
  shows "xs = ys"
  using assms
proof (induction xs arbitrary: ys)
  case (Cons x xs)
  obtain y ys' where ys: "ys = y # ys'" using Cons.prems(3) by (cases ys) auto
  have j: "join_with newline (z # zs) = (if zs = [] then z else z @ CHR 0x0A # join_with newline zs)" for z zs
    by (cases zs) (simp_all add: newline_def)
  have nl: "CHR 0x0A \<notin> set x" "CHR 0x0A \<notin> set y" using Cons.prems(4,5) ys by auto
  show ?case
  proof (cases "xs = [] \<or> ys' = []")
    case True
    then show ?thesis using Cons.prems(1) nl by (auto simp: ys j split: if_splits)
  next
    case False
    then have "x @ CHR 0x0A # join_with newline xs = y @ CHR 0x0A # join_with newline ys'"
      using Cons.prems(1) by (simp add: ys j)
    from split_first [OF this nl] Cons.IH [of ys'] False Cons.prems(4,5) show ?thesis by (simp add: ys)
  qed
qed simp

text \<open>
  The manifest hashed into a prefix key is independent of the order of the files, and it
  identifies them: two workspaces with ordinary paths and object identifiers have the same manifest
  only if they hold the same files.
\<close>

theorem file_manifest_canonical:
  assumes "distinct (map wf_Path files)" and "distinct (map wf_Path files')"
    and "list_all plain_file files" and "list_all plain_file files'" and "files \<noteq> []" and "files' \<noteq> []"
  shows "file_manifest files = file_manifest files' \<longleftrightarrow> mset files = mset files'"
proof
  let ?s = "sort_key wf_Path files" and ?s' = "sort_key wf_Path files'"
  assume eq: "file_manifest files = file_manifest files'"
  have nonl: "\<forall>x \<in> set (map file_line (sort_key wf_Path fs)). CHR 0x0A \<notin> set x" if "list_all plain_file fs" for fs
    using that by (auto simp: file_line_def plain_file_def list_all_iff)
  have "map file_line ?s = map file_line ?s'"
    using assms eq by (intro join_lines_inj nonl) (simp_all add: file_manifest_def flip: length_greater_0_conv)
  then have "?s = ?s'"
  proof (rule map_inj_on)
    show "inj_on file_line (set ?s \<union> set ?s')"
      using assms(3,4) by (auto simp: list_all_iff intro!: inj_onI dest: file_line_inj)
  qed
  then show "mset files = mset files'" by (metis mset_sort)
next
  assume "mset files = mset files'"
  then show "file_manifest files = file_manifest files'"
    using assms(1) sort_key_perm_eq [of files files' wf_Path] by (simp add: file_manifest_def distinct_map)
qed

theorem file_manifest_canonical_witness:
  "file_manifest [\<lparr>wf_Path = ''b'', wf_BlobOID = ''2''\<rparr>, \<lparr>wf_Path = ''a'', wf_BlobOID = ''1''\<rparr>] =
   file_manifest [\<lparr>wf_Path = ''a'', wf_BlobOID = ''1''\<rparr>, \<lparr>wf_Path = ''b'', wf_BlobOID = ''2''\<rparr>]"
  using file_manifest_canonical [of "[\<lparr>wf_Path = ''b'', wf_BlobOID = ''2''\<rparr>, \<lparr>wf_Path = ''a'', wf_BlobOID = ''1''\<rparr>]"
      "[\<lparr>wf_Path = ''a'', wf_BlobOID = ''1''\<rparr>, \<lparr>wf_Path = ''b'', wf_BlobOID = ''2''\<rparr>]"]
  by (simp add: plain_file_def)


end
