(* ===== verification/SandboxRouter.thy ===== *)
theory SandboxRouter
  imports Go_Prelude
begin

text \<open>
  The three-tier sandbox router, \<open>internal/sandbox/router.go\<close>, and the request contract of
  \<open>internal/sandbox/runner.go\<close>. A backend (\<open>RunnerInterface\<close>) is a record of functions given to the
  router; nil is \<open>None\<close>. Shown: callers never reach the docker tier unless it is enabled and wired,
  unknown profiles never reach a backend, isolation is only lowered with the degraded-mode reason,
  and the result always names the backend that really ran.
\<close>

record run_request =
  rr_Name :: string
  rr_Image :: string
  rr_Command :: "string list"
  rr_Env :: "(string, string) gomap"
  rr_WorkingDir :: string
  rr_MountWorkspace :: bool
  rr_WorkspaceDir :: string
  rr_WorkspaceWritable :: bool
  rr_RootFSWritable :: bool
  rr_Timeout :: duration
  rr_SandboxProfile :: string

record run_result =
  res_ContainerID :: string
  res_ExitCode :: int
  res_Stdout :: string
  res_Stderr :: string
  res_StartedAt :: gotime
  res_FinishedAt :: gotime
  res_Cancelled :: bool
  res_TimedOut :: bool
  res_ResourceExceeded :: bool
  res_FailureReason :: string
  res_SandboxTier :: string
  res_RoutingReason :: string

record runner =
  rn_Name :: string
  rn_Execute :: "run_request \<Rightarrow> run_result \<times> string option"
  rn_Health :: "string option"

definition ProfileDockerTrusted :: string where "ProfileDockerTrusted = ''docker-trusted''"
definition ProfileGVisorFastEphemeral :: string where "ProfileGVisorFastEphemeral = ''gvisor-fast-ephemeral''"
definition ProfileFirecrackerSecure :: string where "ProfileFirecrackerSecure = ''firecracker-secure-isolation''"

definition ValidSandboxProfiles :: "string list" where
  "ValidSandboxProfiles = [ProfileDockerTrusted, ProfileGVisorFastEphemeral, ProfileFirecrackerSecure]"

datatype routing_reason =
  ReasonPolicyDefault | ReasonPolicyRequested | ReasonOverrideNonEscalation | ReasonOverrideFallback
| ReasonDegradedFallback

definition reason_code :: "routing_reason \<Rightarrow> string" where
  "reason_code r = (case r of
      ReasonPolicyDefault \<Rightarrow> ''POLICY_DEFAULT''
    | ReasonPolicyRequested \<Rightarrow> ''POLICY_REQUESTED''
    | ReasonOverrideNonEscalation \<Rightarrow> ''POLICY_OVERRIDE_NON_ESCALATION''
    | ReasonOverrideFallback \<Rightarrow> ''POLICY_OVERRIDE_FALLBACK''
    | ReasonDegradedFallback \<Rightarrow> ''DEGRADED_FALLBACK_GVISOR'')"

definition Validate_request :: "run_request \<Rightarrow> string option" where
  "Validate_request r =
     (if trim_space (rr_Name r) = '''' then Some ''name is required''
      else if rr_WorkspaceWritable r \<and> \<not> rr_MountWorkspace r
        then Some ''workspace_writable requires mount_workspace''
      else if rr_MountWorkspace r \<and> trim_space (rr_WorkspaceDir r) = ''''
        then Some ''workspace_dir is required when mount_workspace is true''
      else if rr_Timeout r < 0 then Some ''timeout must be >= 0''
      else None)"

record tier_router_config =
  tc_DockerRunner :: "runner option"
  tc_GVisorRunner :: "runner option"
  tc_FirecrackerRunner :: "runner option"
  tc_DegradedMode :: bool
  tc_AllowDockerTrusted :: bool

definition ErrGVisorRequired :: string where "ErrGVisorRequired = ''tier router requires a gvisor runner''"

definition NewTierRouter :: "tier_router_config \<Rightarrow> string + tier_router_config" where
  "NewTierRouter cfg = (if tc_GVisorRunner cfg = None then Inl ErrGVisorRequired else Inr cfg)"

text \<open>Errors of \<open>Execute\<close>: the wrapped \<open>ErrInvalidProfile\<close> with the quoted profile, or that of the backend.\<close>

datatype router_error = ErrInvalidProfile string | ErrRunner string

type_synonym resolution = "router_error + runner option \<times> string \<times> routing_reason"

definition resolveDockerTrusted :: "tier_router_config \<Rightarrow> resolution" where
  "resolveDockerTrusted cfg =
     (if \<not> tc_AllowDockerTrusted cfg
        then Inr (tc_GVisorRunner cfg, ProfileGVisorFastEphemeral, ReasonOverrideNonEscalation)
      else if tc_DockerRunner cfg = None
        then Inr (tc_GVisorRunner cfg, ProfileGVisorFastEphemeral, ReasonOverrideFallback)
      else Inr (tc_DockerRunner cfg, ProfileDockerTrusted, ReasonPolicyRequested))"

definition resolveFirecracker :: "tier_router_config \<Rightarrow> resolution" where
  "resolveFirecracker cfg =
     (if tc_DegradedMode cfg \<or> tc_FirecrackerRunner cfg = None
        then Inr (tc_GVisorRunner cfg, ProfileGVisorFastEphemeral, ReasonDegradedFallback)
      else Inr (tc_FirecrackerRunner cfg, ProfileFirecrackerSecure, ReasonPolicyRequested))"

definition resolve_tier :: "tier_router_config \<Rightarrow> string \<Rightarrow> resolution" where
  "resolve_tier cfg requested =
     (if requested = '''' then Inr (tc_GVisorRunner cfg, ProfileGVisorFastEphemeral, ReasonPolicyDefault)
      else if requested \<notin> set ValidSandboxProfiles then Inl (ErrInvalidProfile requested)
      else if requested = ProfileDockerTrusted then resolveDockerTrusted cfg
      else if requested = ProfileGVisorFastEphemeral
        then Inr (tc_GVisorRunner cfg, ProfileGVisorFastEphemeral, ReasonPolicyRequested)
      else if requested = ProfileFirecrackerSecure then resolveFirecracker cfg
      else Inl (ErrInvalidProfile requested))"

definition zero_result :: run_result where
  "zero_result = \<lparr>res_ContainerID = '''', res_ExitCode = 0, res_Stdout = '''', res_Stderr = '''',
     res_StartedAt = 0, res_FinishedAt = 0, res_Cancelled = False, res_TimedOut = False,
     res_ResourceExceeded = False, res_FailureReason = '''', res_SandboxTier = '''', res_RoutingReason = ''''\<rparr>"

definition Execute_router :: "tier_router_config \<Rightarrow> run_request \<Rightarrow> (run_result \<times> router_error option) outcome" where
  "Execute_router cfg req = (case resolve_tier cfg (rr_SandboxProfile req) of
      Inl err \<Rightarrow> Ok (zero_result, Some err)
    | Inr (r, tier, reason) \<Rightarrow> (case r of
        None \<Rightarrow> Panic
      | Some runner \<Rightarrow> (case rn_Execute runner (req\<lparr>rr_SandboxProfile := tier\<rparr>) of
          (result, execErr) \<Rightarrow>
            Ok (result\<lparr>res_SandboxTier := tier, res_RoutingReason := reason_code reason\<rparr>, map_option ErrRunner execErr))))"

fun health_loop :: "runner option list \<Rightarrow> string option" where
  "health_loop [] = None"
| "health_loop (None # rs) = health_loop rs"
| "health_loop (Some r # rs) = (case rn_Health r of
      Some err \<Rightarrow> Some (''tier-router health ['' @ rn_Name r @ '']: '' @ err)
    | None \<Rightarrow> health_loop rs)"

definition Health_router :: "tier_router_config \<Rightarrow> string option" where
  "Health_router cfg = health_loop [tc_DockerRunner cfg, tc_GVisorRunner cfg, tc_FirecrackerRunner cfg]"

section \<open>Properties\<close>

text \<open>Isolation of a tier; the empty profile asks for the default tier.\<close>

definition isolation :: "string \<Rightarrow> nat" where
  "isolation tier = (if tier = ProfileDockerTrusted then 0
     else if tier = ProfileFirecrackerSecure then 2 else 1)"

definition tier_runner :: "tier_router_config \<Rightarrow> string \<Rightarrow> runner option" where
  "tier_runner cfg tier = (if tier = ProfileDockerTrusted then tc_DockerRunner cfg
     else if tier = ProfileFirecrackerSecure then tc_FirecrackerRunner cfg else tc_GVisorRunner cfg)"

lemmas profile_defs = ProfileDockerTrusted_def ProfileGVisorFastEphemeral_def ProfileFirecrackerSecure_def

lemma resolve_sound:
  assumes "resolve_tier cfg p = Inr (r, tier, reason)"
  shows "r = tier_runner cfg tier \<and> tier \<in> set ValidSandboxProfiles \<and>
    (tier = ProfileDockerTrusted \<longrightarrow> tc_AllowDockerTrusted cfg \<and> p = ProfileDockerTrusted \<and> r \<noteq> None) \<and>
    (tier = ProfileFirecrackerSecure \<longrightarrow> \<not> tc_DegradedMode cfg \<and> r \<noteq> None) \<and>
    (isolation tier < isolation p \<longrightarrow> p = ProfileFirecrackerSecure \<and> reason = ReasonDegradedFallback \<and>
       (tc_DegradedMode cfg \<or> tc_FirecrackerRunner cfg = None))"
  using assms
  by (auto simp: resolve_tier_def resolveDockerTrusted_def resolveFirecracker_def tier_runner_def isolation_def
      ValidSandboxProfiles_def profile_defs split: if_splits)

text \<open>
  C16. Non-escalation: with the docker tier not enabled, no request is ever executed by the docker
  backend, whatever profile the caller asks for; a request runs with less isolation than asked for
  only when it asked for Firecracker, Firecracker is unavailable, and the result says so; and the
  tier recorded in the result is the tier of the backend that ran with that profile.
\<close>

theorem Execute_router_sound:
  assumes "NewTierRouter cfg = Inr router" and "rr_SandboxProfile req \<in> set (['''' ] @ ValidSandboxProfiles)"
  shows "\<exists>tier reason runner result err.
    Execute_router router req = Ok (result\<lparr>res_SandboxTier := tier, res_RoutingReason := reason_code reason\<rparr>, map_option ErrRunner err) \<and>
    tier_runner router tier = Some runner \<and>
    rn_Execute runner (req\<lparr>rr_SandboxProfile := tier\<rparr>) = (result, err) \<and>
    (tier = ProfileDockerTrusted \<longrightarrow> tc_AllowDockerTrusted router \<and> rr_SandboxProfile req = ProfileDockerTrusted) \<and>
    (isolation tier < isolation (rr_SandboxProfile req) \<longrightarrow>
       rr_SandboxProfile req = ProfileFirecrackerSecure \<and> reason = ReasonDegradedFallback \<and>
       (tc_DegradedMode router \<or> tc_FirecrackerRunner router = None))"
proof -
  have cfg: "router = cfg" "tc_GVisorRunner router \<noteq> None"
    using assms(1) by (auto simp: NewTierRouter_def split: if_splits)
  let ?p = "rr_SandboxProfile req"
  have "\<exists>r tier reason. resolve_tier router ?p = Inr (r, tier, reason)"
    using assms(2) by (auto simp: resolve_tier_def resolveDockerTrusted_def resolveFirecracker_def ValidSandboxProfiles_def)
  then obtain r tier reason where res: "resolve_tier router ?p = Inr (r, tier, reason)" by blast
  note sound = resolve_sound [OF res]
  have "r \<noteq> None"
    using sound cfg(2) by (auto simp: tier_runner_def split: if_splits)
  then obtain runner where r: "r = Some runner" by auto
  obtain result err where e: "rn_Execute runner (req\<lparr>rr_SandboxProfile := tier\<rparr>) = (result, err)" by fastforce
  have "Execute_router router req = Ok (result\<lparr>res_SandboxTier := tier, res_RoutingReason := reason_code reason\<rparr>, map_option ErrRunner err)"
    by (simp add: Execute_router_def res r e)
  with sound r e show ?thesis by (intro exI [of _ tier] exI [of _ reason] exI [of _ runner] exI [of _ result] exI [of _ err]) auto
qed

text \<open>
  Default deny: a profile outside the three known ones reaches no backend; the call returns an
  empty result and an error, even when every backend is wired.
\<close>

theorem Execute_router_default_deny:
  assumes "rr_SandboxProfile req \<notin> set ([''''] @ ValidSandboxProfiles)"
  shows "Execute_router cfg req = Ok (zero_result, Some (ErrInvalidProfile (rr_SandboxProfile req)))"
  using assms by (simp add: Execute_router_def resolve_tier_def)

section \<open>Witnesses\<close>

definition echo_runner :: "string \<Rightarrow> runner" where
  "echo_runner n = \<lparr>rn_Name = n, rn_Execute = (\<lambda>req. (zero_result\<lparr>res_Stdout := rr_SandboxProfile req\<rparr>, None)), rn_Health = None\<rparr>"

definition demo_router :: tier_router_config where
  "demo_router = \<lparr>tc_DockerRunner = Some (echo_runner ''docker''), tc_GVisorRunner = Some (echo_runner ''gvisor''),
     tc_FirecrackerRunner = None, tc_DegradedMode = True, tc_AllowDockerTrusted = False\<rparr>"

definition demo_run_request :: "string \<Rightarrow> run_request" where
  "demo_run_request p = \<lparr>rr_Name = ''n'', rr_Image = ''i'', rr_Command = [], rr_Env = [], rr_WorkingDir = '''',
     rr_MountWorkspace = False, rr_WorkspaceDir = '''', rr_WorkspaceWritable = False, rr_RootFSWritable = False,
     rr_Timeout = 0, rr_SandboxProfile = p\<rparr>"

theorem Execute_router_sound_witness:
  "\<exists>tier reason result err. tier \<noteq> ProfileDockerTrusted \<and>
     Execute_router demo_router (demo_run_request ProfileDockerTrusted) =
       Ok (result\<lparr>res_SandboxTier := tier, res_RoutingReason := reason_code reason\<rparr>, err)"
proof -
  have "NewTierRouter demo_router = Inr demo_router" by (simp add: NewTierRouter_def demo_router_def)
  moreover have "rr_SandboxProfile (demo_run_request ProfileDockerTrusted) \<in> set ([''''] @ ValidSandboxProfiles)"
    by (simp add: demo_run_request_def ValidSandboxProfiles_def)
  moreover have "\<not> tc_AllowDockerTrusted demo_router" by (simp add: demo_router_def)
  ultimately show ?thesis
    using Execute_router_sound [of demo_router demo_router "demo_run_request ProfileDockerTrusted"] by metis
qed

theorem Execute_router_default_deny_witness:
  "Execute_router demo_router (demo_run_request ''host'') = Ok (zero_result, Some (ErrInvalidProfile ''host''))"
  using Execute_router_default_deny [of "demo_run_request ''host''" demo_router]
  by (simp add: demo_run_request_def ValidSandboxProfiles_def profile_defs)

end
