(* ===== verification/CapabilityRegistry.thy ===== *)
theory CapabilityRegistry
  imports Go_Prelude
begin

text \<open>
  The provider capability registry, \<open>internal/dispatch/capability_registry.go\<close>: validation,
  normalisation, staleness and ordered snapshots. The injected clock is an argument of each call.
\<close>

record provider_capability =
  pc_ProviderID :: string
  pc_ContractVersion :: string
  pc_HealthState :: string
  pc_LatencyClass :: string
  pc_CostClass :: string
  pc_QueueDepth :: int
  pc_SupportedWorkloadTags :: "string list"
  pc_ReliabilityClass :: string
  pc_FeatureFlags :: "string list"
  pc_LastUpdatedAt :: gotime

record capability_snapshot =
  cs_Epoch :: "64 word"
  cs_CapturedAt :: gotime
  cs_Providers :: "provider_capability list"

record capability_registry =
  creg_ttl :: duration
  creg_epoch :: "64 word"
  creg_items :: "(string, provider_capability) gomap"

definition HealthHealthy :: string where "HealthHealthy = ''healthy''"
definition HealthDegraded :: string where "HealthDegraded = ''degraded''"
definition HealthUnavailable :: string where "HealthUnavailable = ''unavailable''"

definition NewCapabilityRegistry :: "duration \<Rightarrow> capability_registry" where
  "NewCapabilityRegistry snapshotTTL =
     \<lparr>creg_ttl = (if snapshotTTL \<le> 0 then 30 * second else snapshotTTL), creg_epoch = 0, creg_items = []\<rparr>"

definition validateCapability :: "provider_capability \<Rightarrow> string option" where
  "validateCapability c =
     (if trim_space (pc_ProviderID c) = '''' then Some ''provider_id is required''
      else if trim_space (pc_ContractVersion c) = '''' then Some ''contract_version is required''
      else if trim_space (pc_LatencyClass c) = '''' then Some ''latency_class is required''
      else if trim_space (pc_CostClass c) = '''' then Some ''cost_class is required''
      else if trim_space (pc_ReliabilityClass c) = '''' then Some ''reliability_class is required''
      else if pc_QueueDepth c < 0 then Some ''queue_depth must be >= 0''
      else
        let h = to_lower (trim_space (pc_HealthState c)) in
        if h = HealthHealthy \<or> h = HealthDegraded \<or> h = HealthUnavailable then None
        else Some ''health_state must be one of: healthy, degraded, unavailable'')"

definition applyStaleness :: "provider_capability \<Rightarrow> gotime \<Rightarrow> duration \<Rightarrow> provider_capability" where
  "applyStaleness c now ttl =
     (if ttl \<le> 0 \<or> pc_LastUpdatedAt c = 0 then c
      else if time_sub now (pc_LastUpdatedAt c) > ttl \<and> equal_fold (pc_HealthState c) HealthHealthy
        then c\<lparr>pc_HealthState := HealthDegraded\<rparr>
      else c)"

fun dedupe_loop :: "string list \<Rightarrow> string list \<Rightarrow> string list" where
  "dedupe_loop out [] = out"
| "dedupe_loop out (v # vs) =
     (let trimmed = trim_space v in
      if trimmed = '''' then dedupe_loop out vs
      else if trimmed \<in> set out then dedupe_loop out vs
      else dedupe_loop (out @ [trimmed]) vs)"

definition dedupeAndSort :: "string list \<Rightarrow> string list" where
  "dedupeAndSort values = (if values = [] then [] else sort (dedupe_loop [] values))"

definition normalizeCapability :: "gotime \<Rightarrow> provider_capability \<Rightarrow> provider_capability" where
  "normalizeCapability now c =
     c\<lparr>pc_LastUpdatedAt := (if pc_LastUpdatedAt c = 0 then now else pc_LastUpdatedAt c),
       pc_SupportedWorkloadTags := dedupeAndSort (pc_SupportedWorkloadTags c),
       pc_FeatureFlags := dedupeAndSort (pc_FeatureFlags c)\<rparr>"

definition Upsert :: "gotime \<Rightarrow> provider_capability \<Rightarrow> capability_registry \<Rightarrow> capability_registry \<times> string option" where
  "Upsert now c r = (case validateCapability c of
      Some err \<Rightarrow> (r, Some err)
    | None \<Rightarrow> (r\<lparr>creg_epoch := creg_epoch r + 1,
                creg_items := gm_set (pc_ProviderID c) (normalizeCapability now c) (creg_items r)\<rparr>, None))"

definition Get_capability :: "gotime \<Rightarrow> string \<Rightarrow> capability_registry \<Rightarrow> provider_capability option" where
  "Get_capability now providerID r =
     (let pid = trim_space providerID in
      if pid = '''' then None
      else case map_of (creg_items r) pid of
        None \<Rightarrow> None
      | Some c \<Rightarrow> Some (applyStaleness c now (creg_ttl r)))"

definition Snapshot :: "gotime \<Rightarrow> capability_registry \<Rightarrow> capability_snapshot" where
  "Snapshot now r =
     \<lparr>cs_Epoch = creg_epoch r, cs_CapturedAt = now,
      cs_Providers = sort_key pc_ProviderID (map (\<lambda>(i, c). applyStaleness c now (creg_ttl r)) (creg_items r))\<rparr>"

section \<open>Tags\<close>

lemma dedupe_loop_set: "set (dedupe_loop out vs) = set out \<union> (trim_space ` set vs - {''''})"
  by (induction out vs rule: dedupe_loop.induct) (auto simp: Let_def)

lemma dedupe_loop_distinct: "distinct out \<Longrightarrow> distinct (dedupe_loop out vs)"
  by (induction out vs rule: dedupe_loop.induct) (auto simp: Let_def)

lemma dedupeAndSort_set: "set (dedupeAndSort vs) = trim_space ` set vs - {''''}"
  by (simp add: dedupeAndSort_def dedupe_loop_set)

lemma dedupeAndSort_canonical: "distinct (dedupeAndSort vs) \<and> sorted (dedupeAndSort vs)"
  by (simp add: dedupeAndSort_def dedupe_loop_distinct)

lemma dedupeAndSort_cong: "set vs = set ws \<Longrightarrow> dedupeAndSort vs = dedupeAndSort ws"
  by (intro sorted_distinct_set_unique) (simp_all add: dedupeAndSort_canonical dedupeAndSort_set)

section \<open>Invariant and properties\<close>

definition registry_inv :: "capability_registry \<Rightarrow> bool" where
  "registry_inv r \<longleftrightarrow> gm_wf (creg_items r) \<and> 0 < creg_ttl r \<and>
     (\<forall>i c. map_of (creg_items r) i = Some c \<longrightarrow> pc_ProviderID c = i \<and> validateCapability c = None)"

lemma validate_normalize [simp]: "validateCapability (normalizeCapability now c) = validateCapability c"
  by (simp add: validateCapability_def normalizeCapability_def)

lemma registry_inv_New: "registry_inv (NewCapabilityRegistry ttl)"
  by (simp add: registry_inv_def NewCapabilityRegistry_def)

lemma normalize_ID [simp]: "pc_ProviderID (normalizeCapability now c) = pc_ProviderID c"
  by (simp add: normalizeCapability_def)

lemma registry_inv_Upsert [inv_intros]: "registry_inv r \<Longrightarrow> registry_inv (fst (Upsert now c r))"
  by (cases "validateCapability c") (simp_all add: registry_inv_def Upsert_def)

lemma applyStaleness_ID [simp]: "pc_ProviderID (applyStaleness c now ttl) = pc_ProviderID c"
  by (simp add: applyStaleness_def)

text \<open>
  The snapshot handed to the policy engine is sorted by provider identifier, lists every
  registered provider exactly once, and is the same for every iteration order of the registry map.
\<close>

theorem Snapshot_canonical:
  assumes "registry_inv r" and "mset (creg_items r') = mset (creg_items r)"
    and "creg_ttl r' = creg_ttl r" and "creg_epoch r' = creg_epoch r"
  shows "Snapshot now r' = Snapshot now r \<and>
    map pc_ProviderID (cs_Providers (Snapshot now r)) = sort (map fst (creg_items r)) \<and>
    distinct (map pc_ProviderID (cs_Providers (Snapshot now r)))"
proof -
  let ?f = "\<lambda>(i :: string, c). applyStaleness c now (creg_ttl r)"
  have ids: "map pc_ProviderID (map ?f (creg_items r)) = map fst (creg_items r)"
    using assms(1) by (auto simp: registry_inv_def intro: map_of_is_SomeI)
  have "distinct (map pc_ProviderID (map ?f (creg_items r)))"
    unfolding ids using assms(1) by (simp add: registry_inv_def)
  then have inj: "inj_on pc_ProviderID (set (map ?f (creg_items r)))"
    using distinct_map by blast
  have m: "mset (map ?f (creg_items r)) = mset (map ?f (creg_items r'))" using assms(2) by (simp only: mset_map)
  have "Snapshot now r' = Snapshot now r"
    using sort_key_perm_eq [OF m inj] assms(3,4) by (simp add: Snapshot_def)
  moreover have s: "map pc_ProviderID (cs_Providers (Snapshot now r)) = sort (map fst (creg_items r))"
    unfolding ids [symmetric] by (rule properties_for_sort [symmetric]) (simp_all add: Snapshot_def multiset.map_comp)
  moreover have "distinct (map pc_ProviderID (cs_Providers (Snapshot now r)))"
    unfolding s using assms(1) by (simp add: registry_inv_def)
  ultimately show ?thesis by blast
qed

text \<open>
  A valid capability whose identifier has no surrounding blanks can be read back after an upsert,
  with canonical tags and flags; a healthy provider whose last update is older than the time to live
  is reported degraded, every other field is unchanged, and other providers are not affected.
\<close>

theorem Upsert_Get:
  assumes "validateCapability c = None" and "trim_space (pc_ProviderID c) = pc_ProviderID c"
    and "0 < creg_ttl r" and "creg_ttl r < 2 ^ 63 - 1" and "now \<noteq> 0"
  shows "\<exists>c'. Get_capability later (pc_ProviderID c) (fst (Upsert now c r)) = Some c' \<and>
      pc_HealthState c' =
        (if later - (if pc_LastUpdatedAt c = 0 then now else pc_LastUpdatedAt c) > creg_ttl r \<and>
            equal_fold (pc_HealthState c) HealthHealthy then HealthDegraded else pc_HealthState c) \<and>
      c'\<lparr>pc_HealthState := pc_HealthState c\<rparr> = normalizeCapability now c \<and>
      (\<forall>i. trim_space i \<noteq> pc_ProviderID c \<longrightarrow>
         Get_capability later i (fst (Upsert now c r)) = Get_capability later i r)"
proof -
  have ne: "pc_ProviderID c \<noteq> ''''" using assms(1,2) by (auto simp: validateCapability_def split: if_splits)
  have sub: "time_sub later h > creg_ttl r \<longleftrightarrow> later - h > creg_ttl r" for h
    using assms(3,4) by (intro time_sub_gt) simp_all
  have "Get_capability later i (fst (Upsert now c r)) = Get_capability later i r" if "trim_space i \<noteq> pc_ProviderID c" for i
    using assms(1) that by (simp add: Get_capability_def Upsert_def Let_def split: option.splits)
  moreover have "Get_capability later (pc_ProviderID c) (fst (Upsert now c r)) =
      Some (applyStaleness (normalizeCapability now c) later (creg_ttl r))"
    using assms(1,2) ne by (simp add: Get_capability_def Upsert_def Let_def)
  ultimately show ?thesis
    using assms(3,5) by (auto simp: applyStaleness_def normalizeCapability_def sub)
qed

text \<open>
  An upsert validates the trimmed identifier and stores the capability under the untrimmed one,
  while lookups trim: a capability whose identifier has surrounding blanks is accepted and can then
  not be found under any spelling.
\<close>

theorem Upsert_padded_unreachable:
  assumes "validateCapability c = None" and "trim_space (pc_ProviderID c) \<noteq> pc_ProviderID c"
  shows "snd (Upsert now c (NewCapabilityRegistry ttl)) = None \<and>
    length (cs_Providers (Snapshot later (fst (Upsert now c (NewCapabilityRegistry ttl))))) = 1 \<and>
    (\<forall>i. Get_capability later i (fst (Upsert now c (NewCapabilityRegistry ttl))) = None)"
proof -
  have "trim_space i \<noteq> pc_ProviderID c" for i using assms(2) by (metis trim_space_idem)
  then show ?thesis
    using assms(1) by (auto simp: Upsert_def NewCapabilityRegistry_def Get_capability_def Snapshot_def Let_def)
qed

section \<open>Witnesses\<close>

definition demo_capability :: "string \<Rightarrow> provider_capability" where
  "demo_capability i = \<lparr>pc_ProviderID = i, pc_ContractVersion = ''v1'', pc_HealthState = ''healthy'',
     pc_LatencyClass = ''fast'', pc_CostClass = ''low'', pc_QueueDepth = 0, pc_SupportedWorkloadTags = [],
     pc_ReliabilityClass = ''gold'', pc_FeatureFlags = [], pc_LastUpdatedAt = 0\<rparr>"

lemma demo_capability_valid: "validateCapability (demo_capability ''gpu'') = None" "validateCapability (demo_capability '' gpu'') = None"
  by code_simp+

lemma demo_trim: "trim_space ''gpu'' = ''gpu''" "trim_space '' gpu'' \<noteq> '' gpu''"
  by code_simp+

definition demo_capabilities :: capability_registry where
  "demo_capabilities = fst (Upsert 6 (demo_capability ''cpu'') (fst (Upsert 5 (demo_capability ''gpu'') (NewCapabilityRegistry 1))))"

theorem Snapshot_canonical_witness:
  "Snapshot 9 (demo_capabilities\<lparr>creg_items := rev (creg_items demo_capabilities)\<rparr>) = Snapshot 9 demo_capabilities"
proof -
  have "registry_inv demo_capabilities"
    unfolding demo_capabilities_def by (rule registry_inv_Upsert [OF registry_inv_Upsert [OF registry_inv_New]])
  from Snapshot_canonical [OF this, of "demo_capabilities\<lparr>creg_items := rev (creg_items demo_capabilities)\<rparr>" 9]
  show ?thesis by simp
qed

theorem Upsert_Get_witness:
  "\<exists>c'. Get_capability 9 ''gpu'' (fst (Upsert 5 (demo_capability ''gpu'') (NewCapabilityRegistry 1))) = Some c' \<and>
     pc_HealthState c' = HealthDegraded"
  using Upsert_Get [OF demo_capability_valid(1), of "NewCapabilityRegistry 1" 5 9]
  by (auto simp: NewCapabilityRegistry_def demo_capability_def demo_trim equal_fold_def HealthHealthy_def)

theorem Upsert_padded_unreachable_witness:
  "\<forall>i. Get_capability 9 i (fst (Upsert 5 (demo_capability '' gpu'') (NewCapabilityRegistry 1))) = None"
  using Upsert_padded_unreachable [OF demo_capability_valid(2), of 5 1 9] demo_trim(2) by (simp add: demo_capability_def)

end
