(* ===== verification/PolicyEngine.thy ===== *)
theory PolicyEngine
  imports CapabilityRegistry
begin

text \<open>
  The dispatch policy engine, \<open>internal/dispatch/policy_engine_v2.go\<close>, and the dense escalation of
  \<open>sparse_escalation.go\<close>. Scores are exact rationals. The score adjuster (a plugin) is a function
  in the configuration, nil being \<open>None\<close>; the only state of an engine is its auto-disable latch.

  Shown: every decision is well formed (the selected provider heads a duplicate-free fallback chain
  that contains the baseline and otherwise only eligible providers, with a confidence between the
  configured minimum and one), it does not depend on the order of the providers, walking the chain
  on failures visits every provider once, a breached quality guardrail switches the sparse assist
  off for good, and configuration normalisation is idempotent.
\<close>

section \<open>Configuration\<close>

definition DefaultBaselineProviderID :: string where "DefaultBaselineProviderID = ''cpu-baseline''"
definition DefaultPolicyVersionV2 :: string where "DefaultPolicyVersionV2 = ''policy-v2''"
definition ReasonQualityGuardrailAutodisable :: string where
  "ReasonQualityGuardrailAutodisable = ''quality_guardrail_autodisable''"

record policy_input =
  in_WorkloadTags :: "string list"
  in_QualityScore :: "gofloat option"
  in_RequestLabels :: "string list"

record policy_weights =
  w_Health :: gofloat
  w_Reliability :: gofloat
  w_Cost :: gofloat
  w_Latency :: gofloat
  w_QueueDepth :: gofloat
  w_Workload :: gofloat

record sparse_config =
  sq_Enabled :: bool
  sq_ProviderFeatureFlag :: string
  sq_CostLatencyTradeoff :: gofloat
  sq_QualityGuardrailMinScore :: gofloat

record ssm_config =
  ssm_Enabled :: bool
  ssm_ProviderFeatureFlag :: string
  ssm_ThroughputBias :: gofloat
  ssm_MinSequenceLength :: int
  ssm_MaxSequenceLength :: int
  ssm_SequenceSensitivity :: gofloat

type_synonym score_adjuster = "string \<Rightarrow> gofloat \<Rightarrow> string list \<Rightarrow> string + gofloat"

record policy_config =
  pcfg_Enabled :: bool
  pcfg_PolicyVersion :: string
  pcfg_BaselineProviderID :: string
  pcfg_MinConfidence :: gofloat
  pcfg_MaxQueueDepth :: int
  pcfg_Weights :: policy_weights
  pcfg_ScoreAdjuster :: "score_adjuster option"
  pcfg_SparseQuantized :: sparse_config
  pcfg_SSM :: ssm_config

record policy_decision =
  pd_PolicyVersion :: string
  pd_CapabilityEpoch :: "64 word"
  pd_SelectedProvider :: string
  pd_RankedFallbackChain :: "string list"
  pd_Confidence :: gofloat
  pd_ReasonCode :: string

record policy_engine =
  pe_cfg :: policy_config
  pe_autoDisabled :: bool

definition DefaultPolicyV2Config :: policy_config where
  "DefaultPolicyV2Config =
     \<lparr>pcfg_Enabled = False, pcfg_PolicyVersion = DefaultPolicyVersionV2,
      pcfg_BaselineProviderID = DefaultBaselineProviderID, pcfg_MinConfidence = 1 / 2, pcfg_MaxQueueDepth = 32,
      pcfg_Weights = \<lparr>w_Health = 35 / 100, w_Reliability = 25 / 100, w_Cost = 10 / 100, w_Latency = 10 / 100,
        w_QueueDepth = 10 / 100, w_Workload = 10 / 100\<rparr>,
      pcfg_ScoreAdjuster = None,
      pcfg_SparseQuantized = \<lparr>sq_Enabled = False, sq_ProviderFeatureFlag = ''hhd.sparse_quantized_assist'',
        sq_CostLatencyTradeoff = 0, sq_QualityGuardrailMinScore = 98 / 100\<rparr>,
      pcfg_SSM = \<lparr>ssm_Enabled = False, ssm_ProviderFeatureFlag = ''hhd.ssm_sequence_assist'',
        ssm_ThroughputBias = 0, ssm_MinSequenceLength = 2048, ssm_MaxSequenceLength = 32768,
        ssm_SequenceSensitivity = 1\<rparr>\<rparr>"

definition weight_sum :: "policy_weights \<Rightarrow> gofloat" where
  "weight_sum w = w_Health w + w_Reliability w + w_Cost w + w_Latency w + w_QueueDepth w + w_Workload w"

definition normalizeWeights :: "policy_weights \<Rightarrow> policy_weights \<Rightarrow> policy_weights" where
  "normalizeWeights raw fallback =
     (let pick = (\<lambda>sel. if sel raw < 0 then sel fallback else sel raw);
          out = \<lparr>w_Health = pick w_Health, w_Reliability = pick w_Reliability, w_Cost = pick w_Cost,
                 w_Latency = pick w_Latency, w_QueueDepth = pick w_QueueDepth, w_Workload = pick w_Workload\<rparr>
      in if weight_sum out = 0 then fallback else out)"

definition normalize_sparse :: "sparse_config \<Rightarrow> sparse_config \<Rightarrow> sparse_config" where
  "normalize_sparse def c =
     c\<lparr>sq_ProviderFeatureFlag := (if sq_ProviderFeatureFlag c = '''' then sq_ProviderFeatureFlag def else sq_ProviderFeatureFlag c),
       sq_QualityGuardrailMinScore :=
         (if sq_QualityGuardrailMinScore c < 0 \<or> sq_QualityGuardrailMinScore c > 1
          then sq_QualityGuardrailMinScore def else sq_QualityGuardrailMinScore c),
       sq_CostLatencyTradeoff :=
         (if sq_CostLatencyTradeoff c < -1 \<or> sq_CostLatencyTradeoff c > 1
          then sq_CostLatencyTradeoff def else sq_CostLatencyTradeoff c)\<rparr>"

definition normalize_ssm :: "ssm_config \<Rightarrow> ssm_config \<Rightarrow> ssm_config" where
  "normalize_ssm def c =
     (let mn = (if ssm_MinSequenceLength c \<le> 0 then ssm_MinSequenceLength def else ssm_MinSequenceLength c)
      in c\<lparr>ssm_ProviderFeatureFlag := (if ssm_ProviderFeatureFlag c = '''' then ssm_ProviderFeatureFlag def else ssm_ProviderFeatureFlag c),
           ssm_ThroughputBias :=
             (if ssm_ThroughputBias c < -1 \<or> ssm_ThroughputBias c > 1 then ssm_ThroughputBias def else ssm_ThroughputBias c),
           ssm_MinSequenceLength := mn,
           ssm_MaxSequenceLength := (if ssm_MaxSequenceLength c \<le> mn then ssm_MaxSequenceLength def else ssm_MaxSequenceLength c),
           ssm_SequenceSensitivity :=
             (if ssm_SequenceSensitivity c < 0 \<or> ssm_SequenceSensitivity c > 2
              then ssm_SequenceSensitivity def else ssm_SequenceSensitivity c)\<rparr>)"

definition normalizePolicyV2Config :: "policy_config \<Rightarrow> policy_config" where
  "normalizePolicyV2Config cfg =
     (let def = DefaultPolicyV2Config
      in cfg\<lparr>pcfg_PolicyVersion := (if trim_space (pcfg_PolicyVersion cfg) = '''' then pcfg_PolicyVersion def else pcfg_PolicyVersion cfg),
             pcfg_BaselineProviderID :=
               (if trim_space (pcfg_BaselineProviderID cfg) = '''' then pcfg_BaselineProviderID def else pcfg_BaselineProviderID cfg),
             pcfg_MinConfidence :=
               (if pcfg_MinConfidence cfg < 0 \<or> pcfg_MinConfidence cfg > 1 then pcfg_MinConfidence def else pcfg_MinConfidence cfg),
             pcfg_MaxQueueDepth := (if pcfg_MaxQueueDepth cfg \<le> 0 then pcfg_MaxQueueDepth def else pcfg_MaxQueueDepth cfg),
             pcfg_SparseQuantized := normalize_sparse (pcfg_SparseQuantized def) (pcfg_SparseQuantized cfg),
             pcfg_SSM := normalize_ssm (pcfg_SSM def) (pcfg_SSM cfg),
             pcfg_Weights := normalizeWeights (pcfg_Weights cfg) (pcfg_Weights def)\<rparr>)"

definition NewPolicyEngineV2 :: "policy_config \<Rightarrow> policy_engine" where
  "NewPolicyEngineV2 cfg = \<lparr>pe_cfg = normalizePolicyV2Config cfg, pe_autoDisabled = False\<rparr>"

section \<open>Scores\<close>

definition clamp01 :: "gofloat \<Rightarrow> gofloat" where
  "clamp01 v = (if v < 0 then 0 else if v > 1 then 1 else v)"

definition norm_class :: "string \<Rightarrow> string" where
  "norm_class raw = to_lower (trim_space raw)"

definition healthScore :: "string \<Rightarrow> gofloat" where
  "healthScore raw = (if norm_class raw = HealthHealthy then 1 else if norm_class raw = HealthDegraded then 1 / 2 else 0)"

definition healthRank :: "string \<Rightarrow> int" where
  "healthRank raw = (if norm_class raw = HealthHealthy then 2 else if norm_class raw = HealthDegraded then 1 else 0)"

definition reliabilityScore :: "string \<Rightarrow> gofloat" where
  "reliabilityScore raw =
     (if norm_class raw = ''platinum'' then 1
      else if norm_class raw = ''gold'' then 9 / 10
      else if norm_class raw = ''standard'' then 7 / 10
      else if norm_class raw = ''silver'' then 6 / 10
      else if norm_class raw = ''bronze'' then 4 / 10
      else 5 / 10)"

definition reliabilityRank :: "string \<Rightarrow> int" where
  "reliabilityRank raw =
     (if norm_class raw = ''platinum'' then 5
      else if norm_class raw = ''gold'' then 4
      else if norm_class raw = ''standard'' then 3
      else if norm_class raw = ''silver'' then 2
      else if norm_class raw = ''bronze'' then 1
      else 0)"

definition costScore :: "string \<Rightarrow> gofloat" where
  "costScore raw =
     (if norm_class raw = ''low'' then 1
      else if norm_class raw = ''medium'' then 7 / 10
      else if norm_class raw = ''high'' then 4 / 10
      else 6 / 10)"

definition latencyScore :: "string \<Rightarrow> gofloat" where
  "latencyScore raw =
     (if norm_class raw = ''ultra'' then 1
      else if norm_class raw = ''fast'' then 9 / 10
      else if norm_class raw = ''baseline'' then 7 / 10
      else if norm_class raw = ''slow'' then 4 / 10
      else 6 / 10)"

definition queueDepthScore :: "int \<Rightarrow> int \<Rightarrow> gofloat" where
  "queueDepthScore depth maxDepth =
     (let m = (if maxDepth \<le> 0 then 1 else maxDepth)
      in if depth \<le> 0 then 1 else clamp01 (1 - of_int depth / of_int m))"

definition supported_tags :: "string list \<Rightarrow> string list" where
  "supported_tags tags = filter (\<lambda>t. t \<noteq> '''') (map (\<lambda>t. trim_space (to_lower t)) tags)"

definition workloadScore :: "string list \<Rightarrow> string list \<Rightarrow> gofloat" where
  "workloadScore requiredTags supportedTags =
     (if requiredTags = [] then 1
      else if supportedTags = [] then 0
      else
        let matched = length (filter (\<lambda>t. trim_space (to_lower t) \<in> set (supported_tags supportedTags)) requiredTags)
        in clamp01 (of_nat matched / of_nat (length requiredTags)))"

definition isPolicyEligible :: "provider_capability \<Rightarrow> string list \<Rightarrow> string \<Rightarrow> bool" where
  "isPolicyEligible provider requiredTags baselineProviderID =
     (if trim_space (pc_ProviderID provider) = '''' then False
      else if equal_fold (pc_HealthState provider) HealthUnavailable then False
      else if pc_ProviderID provider = baselineProviderID then True
      else if requiredTags = [] then True
      else list_ex (\<lambda>t. let tag = trim_space (to_lower t) in
              tag \<noteq> '''' \<and> tag \<in> set (supported_tags (pc_SupportedWorkloadTags provider))) requiredTags)"

record scored_candidate =
  sc_providerID :: string
  sc_score :: gofloat
  sc_confidence :: gofloat
  sc_healthRank :: int
  sc_reliabilityRank :: int
  sc_costScore :: gofloat
  sc_latencyScore :: gofloat
  sc_queueScore :: gofloat
  sc_featureFlags :: "string list"

definition scoreProvider :: "string list \<Rightarrow> policy_config \<Rightarrow> provider_capability \<Rightarrow> scored_candidate" where
  "scoreProvider tags cfg provider =
     (let health = healthScore (pc_HealthState provider);
          reliability = reliabilityScore (pc_ReliabilityClass provider);
          cost = costScore (pc_CostClass provider);
          latency = latencyScore (pc_LatencyClass provider);
          queue = queueDepthScore (pc_QueueDepth provider) (pcfg_MaxQueueDepth cfg);
          workload = workloadScore tags (pc_SupportedWorkloadTags provider);
          w = pcfg_Weights cfg;
          totalWeight = (if weight_sum w \<le> 0 then 1 else weight_sum w);
          score = w_Health w * health + w_Reliability w * reliability + w_Cost w * cost + w_Latency w * latency +
                  w_QueueDepth w * queue + w_Workload w * workload
      in \<lparr>sc_providerID = pc_ProviderID provider, sc_score = score, sc_confidence = clamp01 (score / totalWeight),
          sc_healthRank = healthRank (pc_HealthState provider),
          sc_reliabilityRank = reliabilityRank (pc_ReliabilityClass provider),
          sc_costScore = cost, sc_latencyScore = latency, sc_queueScore = queue,
          sc_featureFlags = pc_FeatureFlags provider\<rparr>)"

definition scoreCandidates ::
  "provider_capability list \<Rightarrow> policy_input \<Rightarrow> policy_config \<Rightarrow> scored_candidate list" where
  "scoreCandidates providers input cfg =
     (let tags = dedupeAndSort (in_WorkloadTags input)
      in map (scoreProvider tags cfg)
           (filter (\<lambda>p. isPolicyEligible p tags (pcfg_BaselineProviderID cfg)) providers))"

section \<open>Assists\<close>

definition QualityGuardrailBreached :: "gofloat option \<Rightarrow> gofloat \<Rightarrow> bool" where
  "QualityGuardrailBreached qualityScore minScore =
     (case qualityScore of None \<Rightarrow> False | Some q \<Rightarrow> q < minScore)"

definition isSparseQuantizedActive :: "policy_engine \<Rightarrow> bool" where
  "isSparseQuantizedActive e =
     (if \<not> sq_Enabled (pcfg_SparseQuantized (pe_cfg e)) then False else \<not> pe_autoDisabled e)"

definition shouldAutoDisableSparseQuantized :: "policy_engine \<Rightarrow> policy_input \<Rightarrow> bool" where
  "shouldAutoDisableSparseQuantized e input =
     (if \<not> isSparseQuantizedActive e then False
      else QualityGuardrailBreached (in_QualityScore input)
             (sq_QualityGuardrailMinScore (pcfg_SparseQuantized (pe_cfg e))))"

definition isSSMAssistActive :: "policy_engine \<Rightarrow> bool" where
  "isSSMAssistActive e = ssm_Enabled (pcfg_SSM (pe_cfg e))"

definition providerHasFeatureFlag :: "string list \<Rightarrow> string \<Rightarrow> bool" where
  "providerHasFeatureFlag flags target =
     (let t = trim_space (to_lower target)
      in if t = '''' then False else list_ex (\<lambda>f. to_lower (trim_space f) = t) flags)"

definition sparseQuantizedTradeoffDelta :: "gofloat \<Rightarrow> gofloat \<Rightarrow> gofloat \<Rightarrow> string list \<Rightarrow> gofloat" where
  "sparseQuantizedTradeoffDelta tradeoff cost latency workloadTags =
     (if tradeoff = 0 then 0
      else if \<not> list_ex (\<lambda>t. norm_class t = ''merge-assist'' \<or> norm_class t = ''inference-heavy'') workloadTags then 0
      else tradeoff * (cost - latency))"

definition hasLongContextWorkload :: "string list \<Rightarrow> bool" where
  "hasLongContextWorkload workloadTags =
     list_ex (\<lambda>t. norm_class t \<in> set [''long-context'', ''sequence-heavy'', ''ssm-assist'']) workloadTags"

definition parseLabelKeyValue :: "string \<Rightarrow> (string \<times> string) option" where
  "parseLabelKeyValue raw0 =
     (let raw = trim_space (to_lower raw0);
          sep = (if CHR ''='' \<in> set raw then CHR ''='' else CHR '':'')
      in if raw = '''' then None
         else case split_once sep raw of
           None \<Rightarrow> None
         | Some (a, b) \<Rightarrow>
             let key = trim_space a; v = trim_space b
             in if key = '''' \<or> v = '''' then None else Some (key, v))"

datatype sequence_signal = NoSignal | InvalidSignal | SequenceLength int

fun extractSequenceLengthSignal :: "string list \<Rightarrow> sequence_signal" where
  "extractSequenceLengthSignal [] = NoSignal"
| "extractSequenceLengthSignal (label # labels) = (case parseLabelKeyValue label of
      None \<Rightarrow> extractSequenceLengthSignal labels
    | Some (key, v) \<Rightarrow>
        if key \<in> set [''sequence_length'', ''sequence.length'', ''context_tokens'', ''context.tokens'']
        then (case atoi v of
                None \<Rightarrow> InvalidSignal
              | Some parsed \<Rightarrow> if parsed \<le> 0 then InvalidSignal else SequenceLength parsed)
        else extractSequenceLengthSignal labels)"

definition normalizeSequenceLength :: "int \<Rightarrow> int \<Rightarrow> int \<Rightarrow> gofloat" where
  "normalizeSequenceLength n mn mx = (if mx \<le> mn then 1 else clamp01 (of_int (n - mn) / of_int (mx - mn)))"

definition ssmThroughputDelta :: "gofloat \<Rightarrow> gofloat \<Rightarrow> gofloat \<Rightarrow> gofloat \<Rightarrow> gofloat \<Rightarrow> gofloat" where
  "ssmThroughputDelta bias sensitivity n latency queue =
     (if bias = 0 then 0
      else bias * clamp01 ((latency + queue) / 2) * (1 + clamp01 n * sensitivity))"

definition add_delta :: "gofloat \<Rightarrow> scored_candidate \<Rightarrow> scored_candidate" where
  "add_delta d c = c\<lparr>sc_score := sc_score c + d, sc_confidence := clamp01 (sc_confidence c + d)\<rparr>"

definition sparse_adjust :: "sparse_config \<Rightarrow> string list \<Rightarrow> scored_candidate \<Rightarrow> scored_candidate" where
  "sparse_adjust cfg tags c =
     (if \<not> providerHasFeatureFlag (sc_featureFlags c) (sq_ProviderFeatureFlag cfg) then c
      else add_delta (sparseQuantizedTradeoffDelta (sq_CostLatencyTradeoff cfg) (sc_costScore c) (sc_latencyScore c) tags) c)"

definition ssm_delta :: "ssm_config \<Rightarrow> gofloat \<Rightarrow> scored_candidate \<Rightarrow> gofloat" where
  "ssm_delta cfg n c =
     (if \<not> providerHasFeatureFlag (sc_featureFlags c) (ssm_ProviderFeatureFlag cfg) then 0
      else ssmThroughputDelta (ssm_ThroughputBias cfg) (ssm_SequenceSensitivity cfg) n (sc_latencyScore c) (sc_queueScore c))"

definition ssm_adjust :: "ssm_config \<Rightarrow> gofloat \<Rightarrow> scored_candidate \<Rightarrow> scored_candidate" where
  "ssm_adjust cfg n c = (let d = ssm_delta cfg n c in if d = 0 then c else add_delta d c)"

text \<open>The sequence assist: the reason of an early baseline decision, or the candidates and whether any changed.\<close>

definition ssm_phase ::
  "policy_engine \<Rightarrow> policy_input \<Rightarrow> scored_candidate list \<Rightarrow> string + scored_candidate list \<times> bool" where
  "ssm_phase e input cands =
     (let cfg = pcfg_SSM (pe_cfg e) in
      if \<not> (isSSMAssistActive e \<and> hasLongContextWorkload (in_WorkloadTags input)) then Inr (cands, False)
      else case extractSequenceLengthSignal (in_RequestLabels input) of
        InvalidSignal \<Rightarrow> Inl ''ssm_signal_invalid_fallback''
      | NoSignal \<Rightarrow> Inr (cands, False)
      | SequenceLength n \<Rightarrow>
          if n < ssm_MinSequenceLength cfg \<or> n > ssm_MaxSequenceLength cfg
          then Inl ''ssm_signal_out_of_threshold_fallback''
          else
            let norm = normalizeSequenceLength n (ssm_MinSequenceLength cfg) (ssm_MaxSequenceLength cfg)
            in Inr (map (ssm_adjust cfg norm) cands, list_ex (\<lambda>c. ssm_delta cfg norm c \<noteq> 0) cands))"

fun applyScoreAdjustments ::
  "score_adjuster \<Rightarrow> string list \<Rightarrow> scored_candidate list \<Rightarrow> string + scored_candidate list" where
  "applyScoreAdjustments adj tags [] = Inr []"
| "applyScoreAdjustments adj tags (c # cs) = (case adj (sc_providerID c) (sc_score c) tags of
      Inl err \<Rightarrow> Inl err
    | Inr score \<Rightarrow> (case applyScoreAdjustments adj tags cs of
        Inl err \<Rightarrow> Inl err
      | Inr cs' \<Rightarrow> Inr (c\<lparr>sc_score := score, sc_confidence := clamp01 score\<rparr> # cs')))"

definition plugin_phase :: "policy_engine \<Rightarrow> policy_input \<Rightarrow> scored_candidate list \<Rightarrow> scored_candidate list \<times> bool" where
  "plugin_phase e input cands = (case pcfg_ScoreAdjuster (pe_cfg e) of
      None \<Rightarrow> (cands, False)
    | Some adj \<Rightarrow> (case applyScoreAdjustments adj (dedupeAndSort (in_WorkloadTags input)) cands of
        Inl err \<Rightarrow> (cands, True)
      | Inr adjusted \<Rightarrow> (adjusted, False)))"

section \<open>Decision\<close>

definition rank_key :: "scored_candidate \<Rightarrow> gofloat \<times> int \<times> int \<times> string" where
  "rank_key c = (- sc_score c, - sc_healthRank c, - sc_reliabilityRank c, sc_providerID c)"

definition rank_candidates :: "scored_candidate list \<Rightarrow> scored_candidate list" where
  "rank_candidates cands = sort_key rank_key cands"

definition baselineDecision :: "policy_engine \<Rightarrow> 64 word \<Rightarrow> string \<Rightarrow> string \<Rightarrow> policy_decision" where
  "baselineDecision e epoch policyVersion reasonCode =
     (let baseline = pcfg_BaselineProviderID (pe_cfg e)
      in \<lparr>pd_PolicyVersion = (if trim_space policyVersion = '''' then pcfg_PolicyVersion (pe_cfg e) else policyVersion),
          pd_CapabilityEpoch = epoch, pd_SelectedProvider = baseline, pd_RankedFallbackChain = [baseline],
          pd_Confidence = 1, pd_ReasonCode = reasonCode\<rparr>)"

fun chain_loop :: "string list \<Rightarrow> scored_candidate list \<Rightarrow> string list" where
  "chain_loop chain [] = chain"
| "chain_loop chain (c # cs) =
     (if sc_providerID c \<in> set chain then chain_loop chain cs else chain_loop (chain @ [sc_providerID c]) cs)"

definition fallback_chain :: "string \<Rightarrow> string \<Rightarrow> scored_candidate list \<Rightarrow> string list" where
  "fallback_chain baseline selected cands =
     (let chain0 = (if selected = baseline then [baseline] else []);
          chain1 = chain_loop chain0 cands;
          chain2 = (if baseline \<in> set chain1 then chain1 else chain1 @ [baseline])
      in if chain2 = [] then [baseline] else chain2)"

definition rank_decision ::
  "policy_engine \<Rightarrow> 64 word \<Rightarrow> bool \<Rightarrow> bool \<Rightarrow> bool \<Rightarrow> scored_candidate list \<Rightarrow> policy_decision" where
  "rank_decision e epoch assistActive ssmApplied pluginFailed cands =
     (let cfg = pe_cfg e;
          ranked = rank_candidates cands;
          top = hd ranked;
          baseline = pcfg_BaselineProviderID cfg;
          low = sc_confidence top < pcfg_MinConfidence cfg;
          selected = (if low then baseline else sc_providerID top);
          confidence = (if low then 1 else sc_confidence top);
          reason = (if low then ''low_confidence_baseline''
                    else if pluginFailed then ''plugin_failed_fallback''
                    else if sq_Enabled (pcfg_SparseQuantized cfg) \<and> pe_autoDisabled e then ''sparse_quantized_auto_disabled''
                    else if assistActive then ''sparse_quantized_assist_selected''
                    else if ssmApplied then ''ssm_assist_selected''
                    else ''selected'');
          chain = fallback_chain baseline selected ranked
      in \<lparr>pd_PolicyVersion = pcfg_PolicyVersion cfg, pd_CapabilityEpoch = epoch,
          pd_SelectedProvider = (if selected = '''' then hd chain else selected),
          pd_RankedFallbackChain = chain, pd_Confidence = confidence, pd_ReasonCode = reason\<rparr>)"

definition Select :: "capability_snapshot \<Rightarrow> policy_input \<Rightarrow> policy_engine \<Rightarrow> policy_engine \<times> policy_decision" where
  "Select snapshot input e =
     (let cfg = pe_cfg e; epoch = cs_Epoch snapshot in
      if \<not> pcfg_Enabled cfg then (e, baselineDecision e epoch ''cpu-baseline-default'' ''feature_disabled'')
      else
        let cands = scoreCandidates (cs_Providers snapshot) input cfg in
        if cands = [] then (e, baselineDecision e epoch (pcfg_PolicyVersion cfg) ''no_eligible_provider'')
        else if shouldAutoDisableSparseQuantized e input
          then (e\<lparr>pe_autoDisabled := True\<rparr>,
                baselineDecision e epoch (pcfg_PolicyVersion cfg) ReasonQualityGuardrailAutodisable)
        else
          let assistActive = isSparseQuantizedActive e;
              cands1 = (if assistActive
                        then map (sparse_adjust (pcfg_SparseQuantized cfg) (dedupeAndSort (in_WorkloadTags input))) cands
                        else cands)
          in case ssm_phase e input cands1 of
               Inl reason \<Rightarrow> (e, baselineDecision e epoch (pcfg_PolicyVersion cfg) reason)
             | Inr (cands2, ssmApplied) \<Rightarrow>
                 let (cands3, pluginFailed) = plugin_phase e input cands2
                 in (e, rank_decision e epoch assistActive ssmApplied pluginFailed cands3))"

section \<open>Fallback\<close>

definition normalizeFailureClass :: "string \<Rightarrow> string" where
  "normalizeFailureClass raw0 =
     (let raw = to_lower (trim_space raw0)
      in if raw \<in> set [''unavailable'', ''capacity_exhausted'', ''timeout'', ''contract_incompatible'', ''quality_guardrail'']
         then raw else ''provider_failure'')"

fun next_in_chain :: "string \<Rightarrow> string \<Rightarrow> string list \<Rightarrow> string" where
  "next_in_chain baseline failed [] = baseline"
| "next_in_chain baseline failed (x # xs) =
     (if x = failed then (case xs of [] \<Rightarrow> baseline | y # _ \<Rightarrow> y) else next_in_chain baseline failed xs)"

definition FallbackOnFailure :: "policy_engine \<Rightarrow> policy_decision \<Rightarrow> string \<Rightarrow> string \<Rightarrow> policy_decision" where
  "FallbackOnFailure e decision failedProviderID failureClass =
     (let baseline = pcfg_BaselineProviderID (pe_cfg e);
          chain = (if pd_RankedFallbackChain decision = [] then [baseline] else pd_RankedFallbackChain decision);
          failed = (if trim_space failedProviderID = '''' then pd_SelectedProvider decision else trim_space failedProviderID);
          next = next_in_chain baseline failed chain;
          next' = (if trim_space next = '''' then baseline else next)
      in decision\<lparr>pd_RankedFallbackChain := chain, pd_SelectedProvider := next', pd_Confidence := 1,
                  pd_ReasonCode := ''fallback_'' @ normalizeFailureClass failureClass\<rparr>)"

section \<open>Dense escalation\<close>

definition sparseEscalationWorkloadTags :: "string list" where
  "sparseEscalationWorkloadTags = [''inference-heavy'', ''deterministic-edit'']"

definition stringsTrimLower :: "string \<Rightarrow> string" where
  "stringsTrimLower s = to_lower (trim_space s)"

definition stringsEqualFold :: "string \<Rightarrow> string \<Rightarrow> bool" where
  "stringsEqualFold a b = (stringsTrimLower a = stringsTrimLower b)"

definition providerSupportsDenseInference :: "provider_capability \<Rightarrow> bool" where
  "providerSupportsDenseInference p =
     list_ex (\<lambda>t. stringsTrimLower t \<in> set [''inference-heavy'', ''deterministic-edit'', ''default'']) (pc_SupportedWorkloadTags p)"

definition denseCandidate :: "provider_capability \<Rightarrow> bool" where
  "denseCandidate p = (pc_ProviderID p \<noteq> DefaultBaselineProviderID \<and>
     stringsEqualFold (pc_HealthState p) HealthHealthy \<and> providerSupportsDenseInference p)"

definition FirstDenseGPUProvider :: "capability_snapshot \<Rightarrow> string" where
  "FirstDenseGPUProvider snapshot =
     (let candidates = map pc_ProviderID (filter denseCandidate (cs_Providers snapshot))
      in if candidates = [] then '''' else hd (sort candidates))"

definition EscalationEngineForDenseGPU :: "policy_config \<Rightarrow> policy_engine" where
  "EscalationEngineForDenseGPU base =
     NewPolicyEngineV2 (base\<lparr>pcfg_SparseQuantized := (pcfg_SparseQuantized base)\<lparr>sq_Enabled := False\<rparr>\<rparr>)"

definition escalate_decision :: "policy_engine \<Rightarrow> capability_snapshot \<Rightarrow> policy_decision \<Rightarrow> policy_decision" where
  "escalate_decision e snapshot d0 =
     (let baseline = pcfg_BaselineProviderID (pe_cfg e);
          d1 = d0\<lparr>pd_ReasonCode := ReasonQualityGuardrailAutodisable\<rparr>;
          dense = FirstDenseGPUProvider snapshot;
          d2 = (if (pd_SelectedProvider d1 = '''' \<or> pd_SelectedProvider d1 = baseline) \<and> dense \<noteq> ''''
                then d1\<lparr>pd_SelectedProvider := dense,
                        pd_RankedFallbackChain := dense # filter (\<lambda>i. i \<noteq> dense) (pd_RankedFallbackChain d1)\<rparr>
                else d1);
          d3 = (if pd_SelectedProvider d2 = '''' then d2\<lparr>pd_SelectedProvider := baseline\<rparr> else d2)
      in if pd_RankedFallbackChain d3 = [] then d3\<lparr>pd_RankedFallbackChain := [pd_SelectedProvider d3]\<rparr> else d3)"

definition SelectDenseGPUEscalation :: "policy_engine option \<Rightarrow> capability_snapshot \<Rightarrow> policy_engine option \<times> policy_decision" where
  "SelectDenseGPUEscalation engine snapshot = (case engine of
      None \<Rightarrow> (None, \<lparr>pd_PolicyVersion = DefaultPolicyVersionV2, pd_CapabilityEpoch = cs_Epoch snapshot,
                pd_SelectedProvider = DefaultBaselineProviderID, pd_RankedFallbackChain = [DefaultBaselineProviderID],
                pd_Confidence = 1, pd_ReasonCode = ReasonQualityGuardrailAutodisable\<rparr>)
    | Some e \<Rightarrow>
        let (e', d) = Select snapshot \<lparr>in_WorkloadTags = sparseEscalationWorkloadTags, in_QualityScore = None, in_RequestLabels = []\<rparr> e
        in (Some e', escalate_decision e' snapshot d))"

section \<open>Bounds and normal forms\<close>

lemma clamp01_bounds [simp]: "0 \<le> clamp01 v" "clamp01 v \<le> 1"
  by (simp_all add: clamp01_def)

lemma normalize_config_simps [simp]:
  "pcfg_Enabled (normalizePolicyV2Config cfg) = pcfg_Enabled cfg"
  "pcfg_ScoreAdjuster (normalizePolicyV2Config cfg) = pcfg_ScoreAdjuster cfg"
  "pcfg_SSM (normalizePolicyV2Config cfg) = normalize_ssm (pcfg_SSM DefaultPolicyV2Config) (pcfg_SSM cfg)"
  "pcfg_SparseQuantized (normalizePolicyV2Config cfg) =
     normalize_sparse (pcfg_SparseQuantized DefaultPolicyV2Config) (pcfg_SparseQuantized cfg)"
  by (simp_all add: normalizePolicyV2Config_def Let_def)

lemma normalize_MinConfidence:
  "0 \<le> pcfg_MinConfidence (normalizePolicyV2Config cfg) \<and> pcfg_MinConfidence (normalizePolicyV2Config cfg) \<le> 1"
  by (simp add: normalizePolicyV2Config_def DefaultPolicyV2Config_def Let_def)

lemma normalize_baseline_nonblank: "trim_space (pcfg_BaselineProviderID (normalizePolicyV2Config cfg)) \<noteq> ''''"
proof -
  have "trim_space DefaultBaselineProviderID \<noteq> ''''" by code_simp
  then show ?thesis by (simp add: normalizePolicyV2Config_def DefaultPolicyV2Config_def Let_def)
qed

definition weights_ok :: "policy_weights \<Rightarrow> bool" where
  "weights_ok w \<longleftrightarrow> 0 \<le> w_Health w \<and> 0 \<le> w_Reliability w \<and> 0 \<le> w_Cost w \<and> 0 \<le> w_Latency w \<and>
     0 \<le> w_QueueDepth w \<and> 0 \<le> w_Workload w \<and> weight_sum w \<noteq> 0"

lemma normalizeWeights_ok: "weights_ok d \<Longrightarrow> weights_ok (normalizeWeights w d)"
  by (simp add: normalizeWeights_def Let_def) (simp add: weights_ok_def)

lemma normalizeWeights_fix: "weights_ok w \<Longrightarrow> normalizeWeights w d = w"
  by (cases w) (simp add: normalizeWeights_def weights_ok_def Let_def not_less)

lemma normalize_sparse_idem: "normalize_sparse d (normalize_sparse d c) = normalize_sparse d c"
  by (cases c) (auto simp: normalize_sparse_def)

lemma normalize_ssm_idem: "normalize_ssm d (normalize_ssm d c) = normalize_ssm d c"
  by (rule ssm_config.equality) (simp_all add: normalize_ssm_def Let_def)

lemma default_weights_ok: "weights_ok (pcfg_Weights DefaultPolicyV2Config)"
  by (simp add: DefaultPolicyV2Config_def weights_ok_def weight_sum_def)

lemma normalize_config_idem: "normalizePolicyV2Config (normalizePolicyV2Config cfg) = normalizePolicyV2Config cfg"
proof -
  define w where "w = normalizeWeights (pcfg_Weights cfg) (pcfg_Weights DefaultPolicyV2Config)"
  have "normalizeWeights w (pcfg_Weights DefaultPolicyV2Config) = w"
    unfolding w_def by (rule normalizeWeights_fix [OF normalizeWeights_ok [OF default_weights_ok]])
  then show ?thesis
    by (simp add: normalizePolicyV2Config_def Let_def normalize_sparse_idem normalize_ssm_idem w_def)
qed

section \<open>The candidates of a decision\<close>

definition conf_ok :: "scored_candidate \<Rightarrow> bool" where
  "conf_ok c \<longleftrightarrow> 0 \<le> sc_confidence c \<and> sc_confidence c \<le> 1"

definition phase_ok :: "scored_candidate list \<Rightarrow> scored_candidate list \<Rightarrow> bool" where
  "phase_ok cs cs' \<longleftrightarrow> map sc_providerID cs' = map sc_providerID cs \<and> (list_all conf_ok cs \<longrightarrow> list_all conf_ok cs')"

lemma phase_ok_refl [simp]: "phase_ok cs cs"
  by (simp add: phase_ok_def)

lemma phase_ok_trans: "phase_ok a b \<Longrightarrow> phase_ok b c \<Longrightarrow> phase_ok a c"
  by (simp add: phase_ok_def)

lemma phase_ok_map:
  assumes "\<And>c. sc_providerID (f c) = sc_providerID c" and "\<And>c. conf_ok c \<Longrightarrow> conf_ok (f c)"
  shows "phase_ok cs (map f cs)"
  using assms by (auto simp: phase_ok_def list_all_iff)

lemma add_delta_simps [simp]: "sc_providerID (add_delta d c) = sc_providerID c" "conf_ok (add_delta d c)"
  by (simp_all add: add_delta_def conf_ok_def)

lemma sparse_phase_ok: "phase_ok cs (map (sparse_adjust cfg tags) cs)"
  by (rule phase_ok_map) (simp_all add: sparse_adjust_def)

lemma ssm_phase_ok: "ssm_phase e input cs = Inr (cs', b) \<Longrightarrow> phase_ok cs cs'"
  by (auto simp: ssm_phase_def Let_def ssm_adjust_def intro!: phase_ok_map split: if_splits sequence_signal.splits)

definition adjust_one :: "score_adjuster \<Rightarrow> string list \<Rightarrow> scored_candidate \<Rightarrow> scored_candidate" where
  "adjust_one adj tags c = (let score = projr (adj (sc_providerID c) (sc_score c) tags)
     in c\<lparr>sc_score := score, sc_confidence := clamp01 score\<rparr>)"

lemma applyScoreAdjustments_eq:
  "(case applyScoreAdjustments adj tags cs of Inl _ \<Rightarrow> None | Inr r \<Rightarrow> Some r) =
   (if list_ex (\<lambda>c. isl (adj (sc_providerID c) (sc_score c) tags)) cs then None else Some (map (adjust_one adj tags) cs))"
proof (induction cs)
  case (Cons c cs)
  then show ?case
    by (cases "adj (sc_providerID c) (sc_score c) tags"; cases "applyScoreAdjustments adj tags cs")
      (auto simp: adjust_one_def split: if_splits)
qed simp

lemma plugin_phase_eq:
  "plugin_phase e input cs = (case pcfg_ScoreAdjuster (pe_cfg e) of
     None \<Rightarrow> (cs, False)
   | Some adj \<Rightarrow>
       let tags = dedupeAndSort (in_WorkloadTags input)
       in if list_ex (\<lambda>c. isl (adj (sc_providerID c) (sc_score c) tags)) cs then (cs, True)
          else (map (adjust_one adj tags) cs, False))"
proof (cases "pcfg_ScoreAdjuster (pe_cfg e)")
  case (Some adj)
  then show ?thesis
    using applyScoreAdjustments_eq [of adj "dedupeAndSort (in_WorkloadTags input)" cs]
    by (auto simp: plugin_phase_def Let_def split: sum.splits if_splits)
qed (simp add: plugin_phase_def)

lemma plugin_phase_ok: "phase_ok cs (fst (plugin_phase e input cs))"
  by (auto simp: plugin_phase_eq Let_def adjust_one_def conf_ok_def intro!: phase_ok_map split: option.splits)

definition eligible_ids :: "policy_engine \<Rightarrow> policy_input \<Rightarrow> capability_snapshot \<Rightarrow> string list" where
  "eligible_ids e input snapshot =
     map pc_ProviderID (filter (\<lambda>p. isPolicyEligible p (dedupeAndSort (in_WorkloadTags input)) (pcfg_BaselineProviderID (pe_cfg e)))
       (cs_Providers snapshot))"

lemma scoreProvider_simps [simp]:
  "sc_providerID (scoreProvider tags cfg p) = pc_ProviderID p" "conf_ok (scoreProvider tags cfg p)"
  by (simp_all add: scoreProvider_def Let_def conf_ok_def)

lemma scoreCandidates_ids:
  "map sc_providerID (scoreCandidates (cs_Providers snapshot) input (pe_cfg e)) = eligible_ids e input snapshot"
  by (simp add: scoreCandidates_def eligible_ids_def Let_def)

lemma scoreCandidates_conf: "list_all conf_ok (scoreCandidates ps input cfg)"
  by (auto simp: scoreCandidates_def Let_def list_all_iff)

lemma eligible_ids_nonblank: "i \<in> set (eligible_ids e input snapshot) \<Longrightarrow> trim_space i \<noteq> ''''"
  by (auto simp: eligible_ids_def isPolicyEligible_def split: if_splits)

section \<open>Chains\<close>

lemma chain_loop_props:
  assumes "distinct chain"
  shows "distinct (chain_loop chain cs)"
    and "set (chain_loop chain cs) = set chain \<union> sc_providerID ` set cs"
    and "\<exists>ys. chain_loop chain cs = chain @ ys"
  using assms by (induction chain cs rule: chain_loop.induct) auto

lemma fallback_chain_props:
  assumes ne: "cs \<noteq> []" and sel: "selected = baseline \<or> selected = sc_providerID (hd cs)"
  shows "fallback_chain baseline selected cs \<noteq> []"
    and "hd (fallback_chain baseline selected cs) = selected"
    and "distinct (fallback_chain baseline selected cs)"
    and "set (fallback_chain baseline selected cs) = insert baseline (sc_providerID ` set cs)"
proof -
  define ch0 where "ch0 = (if selected = baseline then [baseline] else [])"
  define ch1 where "ch1 = chain_loop ch0 cs"
  have d0: "distinct ch0" by (simp add: ch0_def)
  obtain c cs' where cs: "cs = c # cs'" using ne by (cases cs) auto
  have d1: "distinct ch1" and s1: "set ch1 = set ch0 \<union> sc_providerID ` set cs"
    using chain_loop_props(1,2) [OF d0] by (simp_all add: ch1_def)
  have "ch1 \<noteq> [] \<and> hd ch1 = selected"
  proof (cases "selected = baseline")
    case True
    then obtain ys where "ch1 = [baseline] @ ys"
      using chain_loop_props(3) [OF d0, of cs] by (auto simp: ch1_def ch0_def)
    then show ?thesis using True by simp
  next
    case False
    then have "ch1 = chain_loop [sc_providerID c] cs'" "selected = sc_providerID c"
      using sel by (simp_all add: ch1_def ch0_def cs)
    then show ?thesis using chain_loop_props(3) [of "[sc_providerID c]" cs'] by auto
  qed
  moreover have "fallback_chain baseline selected cs = (if baseline \<in> set ch1 then ch1 else ch1 @ [baseline])"
    using calculation by (simp add: fallback_chain_def Let_def ch0_def ch1_def)
  ultimately show "fallback_chain baseline selected cs \<noteq> []"
    and "hd (fallback_chain baseline selected cs) = selected"
    and "distinct (fallback_chain baseline selected cs)"
    and "set (fallback_chain baseline selected cs) = insert baseline (sc_providerID ` set cs)"
    using d1 s1 by (auto simp: ch0_def split: if_splits)
qed

section \<open>Well-formed decisions\<close>

definition decision_ok :: "policy_engine \<Rightarrow> string list \<Rightarrow> policy_decision \<Rightarrow> bool" where
  "decision_ok e ids d \<longleftrightarrow>
     pd_RankedFallbackChain d \<noteq> [] \<and> hd (pd_RankedFallbackChain d) = pd_SelectedProvider d \<and>
     distinct (pd_RankedFallbackChain d) \<and>
     pcfg_BaselineProviderID (pe_cfg e) \<in> set (pd_RankedFallbackChain d) \<and>
     set (pd_RankedFallbackChain d) \<subseteq> insert (pcfg_BaselineProviderID (pe_cfg e)) (set ids) \<and>
     pcfg_MinConfidence (pe_cfg e) \<le> pd_Confidence d \<and> pd_Confidence d \<le> 1"

lemma baselineDecision_ok:
  "pcfg_MinConfidence (pe_cfg e) \<le> 1 \<Longrightarrow> decision_ok e ids (baselineDecision e epoch v r)"
  by (simp add: decision_ok_def baselineDecision_def Let_def)

lemma rank_candidates_simps [simp]:
  "set (rank_candidates cs) = set cs" "rank_candidates cs = [] \<longleftrightarrow> cs = []"
  by (auto simp: rank_candidates_def) (metis set_empty set_sort)

lemma rank_decision_ok:
  assumes "cs \<noteq> []" "list_all conf_ok cs" "map sc_providerID cs = ids"
    and "\<And>i. i \<in> set ids \<Longrightarrow> i \<noteq> ''''" "pcfg_BaselineProviderID (pe_cfg e) \<noteq> ''''"
    and "pcfg_MinConfidence (pe_cfg e) \<le> 1"
  shows "decision_ok e ids (rank_decision e epoch a b c cs)"
proof -
  have ne: "rank_candidates cs \<noteq> []" using assms(1) by simp
  then have top: "hd (rank_candidates cs) \<in> set cs" using list.set_sel(1) rank_candidates_simps(1) by metis
  then have conf: "sc_confidence (hd (rank_candidates cs)) \<le> 1" using assms(2) by (auto simp: list_all_iff conf_ok_def)
  have topid: "sc_providerID (hd (rank_candidates cs)) \<noteq> ''''" using top assms(3,4) by auto
  have "set ids = sc_providerID ` set cs" using assms(3) by auto
  then show ?thesis
    using fallback_chain_props [OF ne] conf topid assms(5,6)
    by (auto simp: decision_ok_def rank_decision_def Let_def)
qed

definition policy_engine_at :: "policy_config \<Rightarrow> bool \<Rightarrow> policy_engine" where
  "policy_engine_at cfg latched = (NewPolicyEngineV2 cfg)\<lparr>pe_autoDisabled := latched\<rparr>"

lemma Select_ok_gen:
  assumes m: "pcfg_MinConfidence (pe_cfg e) \<le> 1" and b: "pcfg_BaselineProviderID (pe_cfg e) \<noteq> ''''"
  shows "decision_ok e (eligible_ids e input snapshot) (snd (Select snapshot input e))"
proof -
  let ?cs = "scoreCandidates (cs_Providers snapshot) input (pe_cfg e)"
  let ?ids = "eligible_ids e input snapshot"
  let ?sp = "\<lambda>cs. if isSparseQuantizedActive e
    then map (sparse_adjust (pcfg_SparseQuantized (pe_cfg e)) (dedupeAndSort (in_WorkloadTags input))) cs else cs"
  have rank: "decision_ok e ?ids (rank_decision e ep x y z (fst (plugin_phase e input cs2)))"
    if "ssm_phase e input (?sp ?cs) = Inr (cs2, f)" "?cs \<noteq> []" for cs2 f ep x y z
  proof -
    have "phase_ok ?cs (fst (plugin_phase e input cs2))"
      using phase_ok_trans [OF phase_ok_trans [OF _ ssm_phase_ok [OF that(1)]] plugin_phase_ok]
        sparse_phase_ok by (metis phase_ok_refl)
    then have "map sc_providerID (fst (plugin_phase e input cs2)) = ?ids" "list_all conf_ok (fst (plugin_phase e input cs2))"
      by (simp_all add: phase_ok_def scoreCandidates_ids scoreCandidates_conf)
    moreover have "i \<noteq> ''''" if "i \<in> set ?ids" for i
      using eligible_ids_nonblank [OF that] by (metis trim_space_Nil)
    moreover have "fst (plugin_phase e input cs2) \<noteq> []"
      using calculation(1) \<open>?cs \<noteq> []\<close> scoreCandidates_ids by (metis Nil_is_map_conv)
    ultimately show ?thesis using rank_decision_ok b m by blast
  qed
  show ?thesis
  proof (cases "pcfg_Enabled (pe_cfg e) \<and> ?cs \<noteq> [] \<and> \<not> shouldAutoDisableSparseQuantized e input")
    case False
    then consider "\<not> pcfg_Enabled (pe_cfg e)" | "?cs = []" | "shouldAutoDisableSparseQuantized e input" by blast
    then show ?thesis using baselineDecision_ok [OF m] by cases (simp_all add: Select_def Let_def)
  next
    case True
    show ?thesis
    proof (cases "ssm_phase e input (?sp ?cs)")
      case (Inl r)
      then show ?thesis using True baselineDecision_ok [OF m] by (simp add: Select_def Let_def)
    next
      case (Inr r)
      then show ?thesis
        using True rank [of "fst r" "snd r"] by (simp add: Select_def Let_def case_prod_beta)
    qed
  qed
qed


section \<open>Independence of the provider order\<close>

lemma rank_candidates_perm:
  assumes "mset cs = mset cs'" and "distinct (map sc_providerID cs)"
  shows "rank_candidates cs = rank_candidates cs'"
  unfolding rank_candidates_def
proof (rule sort_key_perm_eq [OF assms(1)])
  show "inj_on rank_key (set cs)"
    using assms(2) by (auto simp: rank_key_def inj_on_def distinct_map)
qed

lemma rank_decision_perm:
  assumes "mset cs = mset cs'" and "distinct (map sc_providerID cs)"
  shows "rank_decision e ep a b c cs = rank_decision e ep a b c cs'"
  by (simp add: rank_decision_def rank_candidates_perm [OF assms])

lemma list_ex_perm: "mset xs = mset ys \<Longrightarrow> list_ex P xs = list_ex P ys"
  by (metis list_ex_iff set_mset_mset)

definition sum_related :: "string + scored_candidate list \<times> bool \<Rightarrow> string + scored_candidate list \<times> bool \<Rightarrow> bool" where
  "sum_related r r' \<longleftrightarrow> (case r of
      Inl x \<Rightarrow> r' = Inl x
    | Inr (cs, b) \<Rightarrow> (\<exists>cs'. r' = Inr (cs', b) \<and> mset cs = mset cs'))"

lemma ssm_phase_perm:
  assumes "mset cs = mset cs'"
  shows "sum_related (ssm_phase e input cs) (ssm_phase e input cs')"
  using assms
  by (auto simp: ssm_phase_def sum_related_def Let_def list_ex_perm [OF assms] split: sequence_signal.splits)

lemma plugin_phase_perm:
  assumes "mset cs = mset cs'"
  shows "mset (fst (plugin_phase e input cs)) = mset (fst (plugin_phase e input cs')) \<and>
    snd (plugin_phase e input cs) = snd (plugin_phase e input cs')"
  using assms by (auto simp: plugin_phase_eq Let_def list_ex_perm [OF assms] split: option.splits)

lemma scoreCandidates_perm:
  "mset ps = mset qs \<Longrightarrow> mset (scoreCandidates ps input cfg) = mset (scoreCandidates qs input cfg)"
  by (simp add: scoreCandidates_def Let_def)

text \<open>The whole of \<open>Select\<close> after the early returns, as one function of the scored candidates.\<close>

definition select_tail ::
  "policy_engine \<Rightarrow> 64 word \<Rightarrow> policy_input \<Rightarrow> scored_candidate list \<Rightarrow> policy_engine \<times> policy_decision" where
  "select_tail e epoch input cands = (case ssm_phase e input
        (if isSparseQuantizedActive e
         then map (sparse_adjust (pcfg_SparseQuantized (pe_cfg e)) (dedupeAndSort (in_WorkloadTags input))) cands else cands) of
      Inl reason \<Rightarrow> (e, baselineDecision e epoch (pcfg_PolicyVersion (pe_cfg e)) reason)
    | Inr (cands2, ssmApplied) \<Rightarrow>
        let (cands3, pluginFailed) = plugin_phase e input cands2
        in (e, rank_decision e epoch (isSparseQuantizedActive e) ssmApplied pluginFailed cands3))"

lemma Select_eq:
  "Select snapshot input e =
     (if \<not> pcfg_Enabled (pe_cfg e) then (e, baselineDecision e (cs_Epoch snapshot) ''cpu-baseline-default'' ''feature_disabled'')
      else if scoreCandidates (cs_Providers snapshot) input (pe_cfg e) = []
        then (e, baselineDecision e (cs_Epoch snapshot) (pcfg_PolicyVersion (pe_cfg e)) ''no_eligible_provider'')
      else if shouldAutoDisableSparseQuantized e input
        then (e\<lparr>pe_autoDisabled := True\<rparr>,
              baselineDecision e (cs_Epoch snapshot) (pcfg_PolicyVersion (pe_cfg e)) ReasonQualityGuardrailAutodisable)
      else select_tail e (cs_Epoch snapshot) input (scoreCandidates (cs_Providers snapshot) input (pe_cfg e)))"
  by (simp add: Select_def select_tail_def Let_def)

lemma select_tail_perm:
  assumes m: "mset cs = mset cs'" and d: "distinct (map sc_providerID cs)"
  shows "select_tail e ep input cs = select_tail e ep input cs'"
proof -
  let ?sp = "\<lambda>cs. if isSparseQuantizedActive e
    then map (sparse_adjust (pcfg_SparseQuantized (pe_cfg e)) (dedupeAndSort (in_WorkloadTags input))) cs else cs"
  have sp: "phase_ok cs (?sp cs)" by (simp add: sparse_phase_ok)
  have rel: "sum_related (ssm_phase e input (?sp cs)) (ssm_phase e input (?sp cs'))"
    by (rule ssm_phase_perm) (simp add: m)
  show ?thesis
  proof (cases "ssm_phase e input (?sp cs)")
    case (Inl r)
    then show ?thesis using rel by (simp add: select_tail_def sum_related_def)
  next
    case (Inr r)
    obtain cs2 b where r: "r = (cs2, b)" by (cases r)
    then obtain cs2' where 2: "ssm_phase e input (?sp cs') = Inr (cs2', b)" "mset cs2 = mset cs2'"
      using rel Inr by (auto simp: sum_related_def)
    have "phase_ok cs (fst (plugin_phase e input cs2))"
      using phase_ok_trans [OF phase_ok_trans [OF sp ssm_phase_ok] plugin_phase_ok] Inr r by blast
    then have "distinct (map sc_providerID (fst (plugin_phase e input cs2)))" using d by (simp add: phase_ok_def)
    then show ?thesis
      using Inr r 2(1) plugin_phase_perm [OF 2(2)] rank_decision_perm
      by (simp add: select_tail_def case_prod_beta)
  qed
qed


section \<open>The fallback walk\<close>

text \<open>The decision in force after \<open>k\<close> failures of the then selected provider.\<close>

definition after_failures :: "policy_engine \<Rightarrow> string \<Rightarrow> nat \<Rightarrow> policy_decision \<Rightarrow> policy_decision" where
  "after_failures e cls k d = ((\<lambda>d. FallbackOnFailure e d '''' cls) ^^ k) d"

lemma next_in_chain_nth:
  "distinct xs \<Longrightarrow> k < length xs \<Longrightarrow>
   next_in_chain b (xs ! k) xs = (if Suc k < length xs then xs ! Suc k else b)"
proof (induction xs arbitrary: k)
  case (Cons x xs)
  show ?case
  proof (cases k)
    case 0
    then show ?thesis by (cases xs) auto
  next
    case (Suc j)
    then have "(x # xs) ! k \<noteq> x" using Cons.prems by auto
    then show ?thesis using Cons Suc by simp
  qed
qed simp

lemma FallbackOnFailure_step:
  assumes "pd_RankedFallbackChain d = chain" "distinct chain" "k < length chain" "pd_SelectedProvider d = chain ! k"
    and "\<And>i. i \<in> set chain \<Longrightarrow> trim_space i \<noteq> ''''" "trim_space (pcfg_BaselineProviderID (pe_cfg e)) \<noteq> ''''"
  shows "pd_SelectedProvider (FallbackOnFailure e d '''' cls) =
      (if Suc k < length chain then chain ! Suc k else pcfg_BaselineProviderID (pe_cfg e))"
    and "pd_RankedFallbackChain (FallbackOnFailure e d '''' cls) = chain"
  using assms next_in_chain_nth [OF assms(2,3)] by (auto simp: FallbackOnFailure_def Let_def)

lemma FallbackOnFailure_walk:
  assumes d: "pd_RankedFallbackChain d = chain" "distinct chain" "chain \<noteq> []" "hd chain = pd_SelectedProvider d"
    and nb: "\<And>i. i \<in> set chain \<Longrightarrow> trim_space i \<noteq> ''''" "trim_space (pcfg_BaselineProviderID (pe_cfg e)) \<noteq> ''''"
  shows "k \<le> length chain \<Longrightarrow>
    pd_RankedFallbackChain (after_failures e cls k d) = chain \<and>
    pd_SelectedProvider (after_failures e cls k d) =
      (if k < length chain then chain ! k else pcfg_BaselineProviderID (pe_cfg e))"
proof (induction k)
  case 0
  then show ?case using d by (simp add: hd_conv_nth after_failures_def)
next
  case (Suc k)
  then show ?case using FallbackOnFailure_step [OF _ d(2), where k = k] nb by (simp add: after_failures_def)
qed


section \<open>The auto-disable latch\<close>

definition without_sparse :: "policy_engine \<Rightarrow> policy_engine" where
  "without_sparse e = e\<lparr>pe_cfg := (pe_cfg e)\<lparr>pcfg_SparseQuantized := (pcfg_SparseQuantized (pe_cfg e))\<lparr>sq_Enabled := False\<rparr>\<rparr>\<rparr>"

lemma Select_breach:
  assumes "pcfg_Enabled (pe_cfg e)" "eligible_ids e input snapshot \<noteq> []" "isSparseQuantizedActive e"
    and "in_QualityScore input = Some q" "q < sq_QualityGuardrailMinScore (pcfg_SparseQuantized (pe_cfg e))"
  shows "Select snapshot input e = (e\<lparr>pe_autoDisabled := True\<rparr>,
    baselineDecision e (cs_Epoch snapshot) (pcfg_PolicyVersion (pe_cfg e)) ReasonQualityGuardrailAutodisable)"
proof -
  have "scoreCandidates (cs_Providers snapshot) input (pe_cfg e) \<noteq> []"
    using assms(2) scoreCandidates_ids by (metis list.map_disc_iff)
  then show ?thesis
    using assms by (simp add: Select_eq shouldAutoDisableSparseQuantized_def QualityGuardrailBreached_def)
qed

lemma latched_inactive [simp]:
  "pe_autoDisabled e \<Longrightarrow> \<not> isSparseQuantizedActive e" "\<not> isSparseQuantizedActive (without_sparse e)"
  "pe_autoDisabled e \<Longrightarrow> \<not> shouldAutoDisableSparseQuantized e input"
  "\<not> shouldAutoDisableSparseQuantized (without_sparse e) input"
  by (simp_all add: isSparseQuantizedActive_def shouldAutoDisableSparseQuantized_def without_sparse_def)

lemma scoreProvider_sparse [simp]:
  "scoreProvider tags (cfg\<lparr>pcfg_SparseQuantized := x\<rparr>) = scoreProvider tags cfg"
  by (rule ext) (simp add: scoreProvider_def)

lemma without_sparse_phases [simp]:
  "ssm_phase (without_sparse e) input cs = ssm_phase e input cs"
  "plugin_phase (without_sparse e) input cs = plugin_phase e input cs"
  "baselineDecision (without_sparse e) ep v r = baselineDecision e ep v r"
  "scoreCandidates ps input (pe_cfg (without_sparse e)) = scoreCandidates ps input (pe_cfg e)"
  "pcfg_Enabled (pe_cfg (without_sparse e)) = pcfg_Enabled (pe_cfg e)"
  "pcfg_PolicyVersion (pe_cfg (without_sparse e)) = pcfg_PolicyVersion (pe_cfg e)"
  by (simp_all add: without_sparse_def ssm_phase_def plugin_phase_def baselineDecision_def scoreCandidates_def
      isSSMAssistActive_def)

lemma rank_decision_without_sparse:
  "(rank_decision (without_sparse e) ep a b c cs)\<lparr>pd_ReasonCode := r\<rparr> = (rank_decision e ep a b c cs)\<lparr>pd_ReasonCode := r\<rparr>"
  by (simp add: rank_decision_def without_sparse_def Let_def)

text \<open>
  C23. A quality score below the guardrail switches the sparse assist off for good: the breaching
  request latches the engine and is answered by the baseline, no request ever clears the latch, and
  a latched engine decides every request as an engine configured without the assist does, up to
  the reason code.
\<close>

theorem guardrail_latch:
  "(pcfg_Enabled (pe_cfg e) \<and> eligible_ids e input snapshot \<noteq> [] \<and> isSparseQuantizedActive e \<and>
    in_QualityScore input = Some q \<and> q < sq_QualityGuardrailMinScore (pcfg_SparseQuantized (pe_cfg e)) \<longrightarrow>
      pe_autoDisabled (fst (Select snapshot input e)) \<and>
      pd_SelectedProvider (snd (Select snapshot input e)) = pcfg_BaselineProviderID (pe_cfg e)) \<and>
   fst (Select snapshot' input' (e\<lparr>pe_autoDisabled := True\<rparr>)) = e\<lparr>pe_autoDisabled := True\<rparr> \<and>
   (snd (Select snapshot' input' (e\<lparr>pe_autoDisabled := True\<rparr>)))\<lparr>pd_ReasonCode := r\<rparr> =
   (snd (Select snapshot' input' (without_sparse (e\<lparr>pe_autoDisabled := True\<rparr>))))\<lparr>pd_ReasonCode := r\<rparr>"
proof (intro conjI impI; (elim conjE)?)
  assume "pcfg_Enabled (pe_cfg e)" "eligible_ids e input snapshot \<noteq> []" "isSparseQuantizedActive e"
    "in_QualityScore input = Some q" "q < sq_QualityGuardrailMinScore (pcfg_SparseQuantized (pe_cfg e))"
  note s = Select_breach [OF this]
  show "pe_autoDisabled (fst (Select snapshot input e))" by (simp add: s)
  show "pd_SelectedProvider (snd (Select snapshot input e)) = pcfg_BaselineProviderID (pe_cfg e)"
    by (simp add: s baselineDecision_def Let_def)
next
  define l where "l = e\<lparr>pe_autoDisabled := True\<rparr>"
  have l: "pe_autoDisabled l" by (simp add: l_def)
  show "fst (Select snapshot' input' (e\<lparr>pe_autoDisabled := True\<rparr>)) = e\<lparr>pe_autoDisabled := True\<rparr>"
    using l unfolding l_def [symmetric]
    by (simp add: Select_eq select_tail_def case_prod_beta split: sum.splits)
  show "(snd (Select snapshot' input' (e\<lparr>pe_autoDisabled := True\<rparr>)))\<lparr>pd_ReasonCode := r\<rparr> =
    (snd (Select snapshot' input' (without_sparse (e\<lparr>pe_autoDisabled := True\<rparr>))))\<lparr>pd_ReasonCode := r\<rparr>"
    using l unfolding l_def [symmetric]
    by (simp add: Select_eq select_tail_def case_prod_beta rank_decision_without_sparse split: sum.splits)
qed


section \<open>Concrete decisions\<close>

definition w_provider :: "string \<Rightarrow> string list \<Rightarrow> string \<Rightarrow> provider_capability" where
  "w_provider i tags health =
     \<lparr>pc_ProviderID = i, pc_ContractVersion = ''v1'', pc_HealthState = health, pc_LatencyClass = ''fast'',
      pc_CostClass = ''low'', pc_QueueDepth = 2, pc_SupportedWorkloadTags = tags, pc_ReliabilityClass = ''gold'',
      pc_FeatureFlags = [], pc_LastUpdatedAt = 0\<rparr>"

definition w_gpu :: provider_capability where "w_gpu = w_provider ''gpu-1'' [''inference-heavy''] ''healthy''"
definition w_cpu :: provider_capability where "w_cpu = w_provider ''cpu-baseline'' [''default''] ''degraded''"

definition w_snapshot :: capability_snapshot where
  "w_snapshot = \<lparr>cs_Epoch = 7, cs_CapturedAt = 0, cs_Providers = [w_gpu, w_cpu]\<rparr>"

definition w_input :: policy_input where
  "w_input = \<lparr>in_WorkloadTags = [''inference-heavy''], in_QualityScore = Some (1 / 2), in_RequestLabels = []\<rparr>"

definition w_engine :: "bool \<Rightarrow> policy_engine" where
  "w_engine sparse = NewPolicyEngineV2 (DefaultPolicyV2Config\<lparr>pcfg_Enabled := True,
     pcfg_SparseQuantized := (pcfg_SparseQuantized DefaultPolicyV2Config)\<lparr>sq_Enabled := sparse\<rparr>\<rparr>)"


text \<open>A quality score of one half breaches the default guardrail of 0.98.\<close>

theorem guardrail_latch_witness:
  "pe_autoDisabled (fst (Select w_snapshot w_input (w_engine True))) \<and>
   pd_SelectedProvider (snd (Select w_snapshot w_input (w_engine True))) = pcfg_BaselineProviderID (pe_cfg (w_engine True))"
proof -
  have "pcfg_Enabled (pe_cfg (w_engine True))" "eligible_ids (w_engine True) w_input w_snapshot \<noteq> []"
    "isSparseQuantizedActive (w_engine True)" "in_QualityScore w_input = Some (1 / 2)"
    "1 / 2 < sq_QualityGuardrailMinScore (pcfg_SparseQuantized (pe_cfg (w_engine True)))"
    by code_simp+
  then show ?thesis using guardrail_latch [of "w_engine True" w_input w_snapshot "1 / 2"] by blast
qed

section \<open>Dense escalation and the sequence window\<close>

lemma FirstDenseGPUProvider_first:
  assumes "filter denseCandidate (cs_Providers s) \<noteq> []"
  shows "FirstDenseGPUProvider s \<in> pc_ProviderID ` set (filter denseCandidate (cs_Providers s))"
    and "p \<in> set (filter denseCandidate (cs_Providers s)) \<Longrightarrow> FirstDenseGPUProvider s \<le> pc_ProviderID p"
proof -
  define ids where "ids = map pc_ProviderID (filter denseCandidate (cs_Providers s))"
  have ne: "sort ids \<noteq> []" using assms by (metis ids_def list.map_disc_iff set_empty set_sort)
  have f: "FirstDenseGPUProvider s = hd (sort ids)" using ne by (auto simp: FirstDenseGPUProvider_def Let_def ids_def)
  have "hd (sort ids) \<in> set ids" using list.set_sel(1) [OF ne] by simp
  then show "FirstDenseGPUProvider s \<in> pc_ProviderID ` set (filter denseCandidate (cs_Providers s))"
    by (simp add: f) (simp add: ids_def image_def)
  have "sorted (sort ids)" by simp
  then have "i \<in> set ids \<Longrightarrow> hd (sort ids) \<le> i" for i
    using ne by (metis list.exhaust_sel order_refl set_ConsD set_sort sorted_simps(2))
  then show "p \<in> set (filter denseCandidate (cs_Providers s)) \<Longrightarrow> FirstDenseGPUProvider s \<le> pc_ProviderID p"
    by (simp add: f ids_def)
qed

lemma escalate_decision_ok:
  fixes s :: capability_snapshot
  assumes "decision_ok e ids d" and "pcfg_BaselineProviderID (pe_cfg e) \<noteq> ''''" and "'''' \<notin> set ids"
  defines "d' \<equiv> escalate_decision e s d"
  shows "hd (pd_RankedFallbackChain d') = pd_SelectedProvider d' \<and> distinct (pd_RankedFallbackChain d') \<and>
    pcfg_BaselineProviderID (pe_cfg e) \<in> set (pd_RankedFallbackChain d') \<and>
    pd_ReasonCode d' = ReasonQualityGuardrailAutodisable \<and>
    (FirstDenseGPUProvider s \<noteq> '''' \<longrightarrow>
       pd_SelectedProvider d' = FirstDenseGPUProvider s \<or> pd_SelectedProvider d' \<noteq> pcfg_BaselineProviderID (pe_cfg e))"
proof -
  have "pd_SelectedProvider d \<in> set (pd_RankedFallbackChain d)"
    using assms(1) list.set_sel(1) unfolding decision_ok_def by metis
  then have "pd_SelectedProvider d \<noteq> ''''" using assms(1-3) by (auto simp: decision_ok_def)
  then show ?thesis
    using assms(1,2) unfolding d'_def decision_ok_def escalate_decision_def Let_def by auto
qed

text \<open>
  When the configured minimum exceeds the default maximum and the configured maximum does not exceed
  it, normalisation leaves an empty window: every sequence-length signal falls back to the baseline.
\<close>

lemma normalize_ssm_empty_window:
  assumes "ssm_MinSequenceLength c > 32768" and "ssm_MaxSequenceLength c \<le> ssm_MinSequenceLength c"
    and "ssm_Enabled c" "hasLongContextWorkload (in_WorkloadTags input)"
    and "extractSequenceLengthSignal (in_RequestLabels input) = SequenceLength n"
    and "pe_cfg e = normalizePolicyV2Config (cfg\<lparr>pcfg_SSM := c\<rparr>)"
  shows "ssm_phase e input cands = Inl ''ssm_signal_out_of_threshold_fallback''"
  using assms
  by (auto simp: ssm_phase_def isSSMAssistActive_def normalize_ssm_def Let_def DefaultPolicyV2Config_def)

end
