(* ===== verification/Telemetry.thy ===== *)
theory Telemetry
  imports PolicyEngine Go_Json
begin

text \<open>
  Dispatch telemetry: the signal path of \<open>internal/dispatch/signal_path.go\<close>, the redaction and the
  decision emitter of \<open>telemetry.go\<close> and the anomaly monitor of \<open>anomaly_monitor.go\<close>.

  A publisher is a function from a topic, a payload and its own state to the new state and an
  optional error. The RFC 3339 text of an instant and its parser are the two functions of a
  \<open>time_codec\<close>, the SHA-256 digest is a function argument, and the readings of the clock are
  arguments. Shown: redaction keeps request ids and notes out of everything that is published, a
  failing publisher stops the emitter before the anomaly monitor, and every decision whose chain has
  a second provider raises a fallback anomaly.
\<close>

section \<open>Signal paths\<close>

record time_codec =
  tc_format :: "gotime \<Rightarrow> string"
  tc_parse :: "string \<Rightarrow> gotime option"

definition signalPathEBPF :: string where "signalPathEBPF = ''ebpf-hook''"
definition signalPathUserspace :: string where "signalPathUserspace = ''fallback-userspace''"
definition detectionModeAdvisory :: string where "detectionModeAdvisory = ''advisory''"
definition detectionModeMeasured :: string where "detectionModeMeasured = ''measured''"
definition detectionModeEstimated :: string where "detectionModeEstimated = ''estimated''"

text \<open>The host facts the default checker reads: linux, effective root, a mounted bpffs.\<close>

record host_facts =
  hf_linux :: bool
  hf_root :: bool
  hf_bpffs :: bool

definition defaultEBPFChecker :: "host_facts \<Rightarrow> bool \<times> string" where
  "defaultEBPFChecker h =
     (if \<not> hf_linux h then (False, ''non-linux host'')
      else if \<not> hf_root h then (False, ''missing root/CAP_BPF privileges'')
      else if \<not> hf_bpffs h then (False, ''bpffs is unavailable'')
      else (True, ''''))"

record signal_path_resolver =
  sp_preferEBPF :: bool
  sp_checkEBPF :: "bool \<times> string"

definition newSignalPathResolver :: "host_facts \<Rightarrow> bool \<Rightarrow> (bool \<times> string) option \<Rightarrow> signal_path_resolver" where
  "newSignalPathResolver h prefer checker =
     \<lparr>sp_preferEBPF = prefer, sp_checkEBPF = (case checker of None \<Rightarrow> defaultEBPFChecker h | Some c \<Rightarrow> c)\<rparr>"

definition resolve :: "signal_path_resolver \<Rightarrow> string \<times> string \<times> string" where
  "resolve r =
     (if sp_preferEBPF r
      then (let (ok, reason) = sp_checkEBPF r
            in if ok then (signalPathEBPF, ''CAP_BPF/CAP_PERFMON or root'', '''')
               else (signalPathUserspace, ''none'', ''ebpf unavailable: '' @ trim_space reason))
      else (signalPathUserspace, ''none'', ''''))"

definition milliseconds :: "duration \<Rightarrow> int" where
  "milliseconds d = (if 0 \<le> d then d div 1000000 else - ((- d) div 1000000))"

definition detectionLatency :: "time_codec \<Rightarrow> string \<Rightarrow> gotime \<Rightarrow> string \<Rightarrow> int \<times> string \<times> bool" where
  "detectionLatency tc emittedAt detectedAt path =
     (if path = signalPathEBPF then (0, detectionModeAdvisory, True)
      else if trim_space emittedAt = '''' then (0, detectionModeEstimated, False)
      else case tc_parse tc (trim_space emittedAt) of
        None \<Rightarrow> (0, detectionModeEstimated, False)
      | Some ts \<Rightarrow>
          let delta = time_sub detectedAt ts
          in (milliseconds (if delta < 0 then 0 else delta), detectionModeMeasured, False))"

section \<open>Redaction\<close>

definition TopicDispatchCapabilities :: string where "TopicDispatchCapabilities = ''dispatch/capabilities''"
definition TopicDispatchDecision :: string where "TopicDispatchDecision = ''dispatch/decision''"
definition TopicDispatchAnomaly :: string where "TopicDispatchAnomaly = ''dispatch/anomaly''"
definition TopicASTSpike :: string where "TopicASTSpike = ''ast/spike''"
definition TopicASTSemanticSpike :: string where "TopicASTSemanticSpike = ''ast/semantic-spike''"
definition TopicASTConflictWarning :: string where "TopicASTConflictWarning = ''ast/conflict-warning''"

record redaction_config =
  rc_Enabled :: bool
  rc_RequestIDMode :: string
  rc_AnomalyNotesMode :: string
  rc_RequestIDSalt :: string

record redactor =
  rd_enabled :: bool
  rd_requestIDMode :: string
  rd_anomalyNotesMode :: string
  rd_requestIDSalt :: string

definition normalizeRequestIDMode :: "string \<Rightarrow> string" where
  "normalizeRequestIDMode mode =
     (let m = to_lower (trim_space mode)
      in if m = ''allow'' then ''allow'' else if m = ''hash'' then ''hash'' else if m = ''drop'' then ''drop'' else '''')"

definition normalizeAnomalyNotesMode :: "string \<Rightarrow> string" where
  "normalizeAnomalyNotesMode mode =
     (let m = to_lower (trim_space mode)
      in if m = ''allow'' then ''allow'' else if m = ''drop'' then ''drop'' else '''')"

definition newTelemetryRedactor :: "redaction_config \<Rightarrow> redactor" where
  "newTelemetryRedactor cfg =
     (let rm = normalizeRequestIDMode (rc_RequestIDMode cfg);
          nm = normalizeAnomalyNotesMode (rc_AnomalyNotesMode cfg)
      in \<lparr>rd_enabled = rc_Enabled cfg, rd_requestIDMode = (if rm = '''' then ''allow'' else rm),
          rd_anomalyNotesMode = (if nm = '''' then ''allow'' else nm),
          rd_requestIDSalt = trim_space (rc_RequestIDSalt cfg)\<rparr>)"

record decision_event =
  de_DecisionID :: string
  de_RequestID :: string
  de_PolicyVersion :: string
  de_CapabilityEpoch :: "64 word"
  de_SelectedProvider :: string
  de_FallbackChain :: "string list"
  de_FallbackCount :: int
  de_ReasonCode :: string
  de_Confidence :: gofloat
  de_EstimatedLatencyMS :: int
  de_ActualLatencyMS :: int
  de_FeatureFlagsApplied :: "string list"
  de_QualityGuardrailState :: string
  de_EmittedAt :: string

text \<open>\<open>digest12\<close> is the hexadecimal form of the first 12 bytes of the SHA-256 digest.\<close>

definition hashRequestID :: "(string \<Rightarrow> string) \<Rightarrow> redactor \<Rightarrow> string \<Rightarrow> string" where
  "hashRequestID digest12 r requestID0 =
     (let requestID = trim_space requestID0
      in if requestID = '''' then ''''
         else ''sha256:'' @ digest12 (if rd_requestIDSalt r \<noteq> '''' then rd_requestIDSalt r @ '':'' @ requestID else requestID))"

definition redactDecision :: "(string \<Rightarrow> string) \<Rightarrow> redactor \<Rightarrow> decision_event \<Rightarrow> decision_event" where
  "redactDecision digest12 r event =
     (if \<not> rd_enabled r then event
      else if rd_requestIDMode r = ''drop'' then event\<lparr>de_RequestID := ''''\<rparr>
      else if rd_requestIDMode r = ''hash'' then event\<lparr>de_RequestID := hashRequestID digest12 r (de_RequestID event)\<rparr>
      else event)"

definition redactAnomalyNotes :: "redactor \<Rightarrow> string \<Rightarrow> string" where
  "redactAnomalyNotes r notes =
     (if \<not> rd_enabled r then notes else if rd_anomalyNotesMode r = ''drop'' then '''' else notes)"

section \<open>Anomaly monitor\<close>

record anomaly_event =
  ae_AnomalyID :: string
  ae_DecisionID :: string
  ae_CapabilityEpoch :: "64 word"
  ae_SelectedProvider :: string
  ae_ReasonCode :: string
  ae_Severity :: string
  ae_ObservedValue :: gofloat
  ae_ThresholdValue :: gofloat
  ae_SignalPath :: string
  ae_PrivilegeRequirement :: string
  ae_DetectionLatencyMS :: int
  ae_DetectionLatencyMode :: string
  ae_DetectionLatencyIsAdvisory :: bool
  ae_FeatureFlagsApplied :: "string list"
  ae_QualityGuardrailState :: string
  ae_DetectedAt :: string
  ae_Notes :: string

datatype dispatch_payload =
    CapabilitiesPayload "64 word" string "provider_capability list"
  | DecisionPayload decision_event
  | AnomalyPayload anomaly_event

type_synonym ('p, 'e) publisher = "string \<Rightarrow> 'e \<Rightarrow> 'p \<Rightarrow> 'p \<times> string option"

record anomaly_monitor =
  am_nextID :: "64 word"
  am_latencyThresholdMS :: int
  am_resolver :: signal_path_resolver
  am_redactor :: redactor

definition NewDecisionAnomalyMonitor ::
  "('p, dispatch_payload) publisher option \<Rightarrow> signal_path_resolver \<Rightarrow> int \<Rightarrow> redaction_config \<Rightarrow> anomaly_monitor option" where
  "NewDecisionAnomalyMonitor publisher resolver threshold redaction = (case publisher of
      None \<Rightarrow> None
    | Some _ \<Rightarrow> Some \<lparr>am_nextID = 0, am_latencyThresholdMS = (if threshold \<le> 0 then 1200 else threshold),
        am_resolver = resolver, am_redactor = newTelemetryRedactor redaction\<rparr>)"

definition newAnomaly ::
  "time_codec \<Rightarrow> decision_event \<Rightarrow> gotime \<Rightarrow> string \<times> string \<times> string \<Rightarrow> string \<Rightarrow> gofloat \<Rightarrow> gofloat \<Rightarrow>
   anomaly_monitor \<Rightarrow> anomaly_monitor \<times> anomaly_event" where
  "newAnomaly tc event detectedAt signal reasonCode observed threshold m =
     (let (signalPath, privilege, notes) = signal;
          (latencyMS, mode, advisory) = detectionLatency tc (de_EmittedAt event) detectedAt signalPath;
          k = am_nextID m + 1
      in (m\<lparr>am_nextID := k\<rparr>,
          \<lparr>ae_AnomalyID = ''anomaly-'' @ show_nat (unat k), ae_DecisionID = de_DecisionID event,
           ae_CapabilityEpoch = de_CapabilityEpoch event, ae_SelectedProvider = de_SelectedProvider event,
           ae_ReasonCode = reasonCode, ae_Severity = ''warning'', ae_ObservedValue = observed,
           ae_ThresholdValue = threshold, ae_SignalPath = signalPath, ae_PrivilegeRequirement = privilege,
           ae_DetectionLatencyMS = latencyMS, ae_DetectionLatencyMode = mode,
           ae_DetectionLatencyIsAdvisory = advisory, ae_FeatureFlagsApplied = de_FeatureFlagsApplied event,
           ae_QualityGuardrailState = de_QualityGuardrailState event, ae_DetectedAt = tc_format tc detectedAt,
           ae_Notes = redactAnomalyNotes (am_redactor m) notes\<rparr>))"

definition decision_anomalies ::
  "time_codec \<Rightarrow> gotime \<Rightarrow> decision_event \<Rightarrow> anomaly_monitor \<Rightarrow> anomaly_monitor \<times> anomaly_event list" where
  "decision_anomalies tc now event m0 =
     (let signal = resolve (am_resolver m0);
          (m1, as1) = (if de_ActualLatencyMS event \<ge> am_latencyThresholdMS m0
             then (let (m, a) = newAnomaly tc event now signal ''latency_threshold_exceeded''
                        (of_int (de_ActualLatencyMS event)) (of_int (am_latencyThresholdMS m0)) m0 in (m, [a]))
             else (m0, []))
      in if de_FallbackCount event > 0
         then (let (m, a) = newAnomaly tc event now signal ''fallback_engaged'' (of_int (de_FallbackCount event)) 0 m1
               in (m, as1 @ [a]))
         else (m1, as1))"

fun publish_all :: "('p, 'e) publisher \<Rightarrow> string \<Rightarrow> 'e list \<Rightarrow> 'p \<Rightarrow> 'p \<times> string option" where
  "publish_all pub topic [] p = (p, None)"
| "publish_all pub topic (x # xs) p = (case pub topic x p of
      (p', Some err) \<Rightarrow> (p', Some err)
    | (p', None) \<Rightarrow> publish_all pub topic xs p')"

definition ObserveDecision ::
  "time_codec \<Rightarrow> ('p, dispatch_payload) publisher \<Rightarrow> gotime \<Rightarrow> decision_event \<Rightarrow> anomaly_monitor \<times> 'p \<Rightarrow>
   (anomaly_monitor \<times> 'p) \<times> string option" where
  "ObserveDecision tc pub now event s =
     (let (m, anomalies) = decision_anomalies tc now event (fst s);
          (p, err) = publish_all pub TopicDispatchAnomaly (map AnomalyPayload anomalies) (snd s)
      in ((m, p), err))"

section \<open>Decision emitter\<close>

record decision_emitter =
  em_nextID :: "64 word"
  em_anomaly :: "anomaly_monitor option"
  em_redactor :: redactor

definition NewDecisionEmitter :: "anomaly_monitor option \<Rightarrow> redaction_config \<Rightarrow> decision_emitter" where
  "NewDecisionEmitter anomaly redaction =
     \<lparr>em_nextID = 0, em_anomaly = anomaly, em_redactor = newTelemetryRedactor redaction\<rparr>"

definition EmitCapabilitySnapshot ::
  "time_codec \<Rightarrow> ('p, dispatch_payload) publisher option \<Rightarrow> capability_snapshot \<Rightarrow> 'p \<Rightarrow> 'p \<times> string option" where
  "EmitCapabilitySnapshot tc publisher snapshot p = (case publisher of
      None \<Rightarrow> (p, None)
    | Some pub \<Rightarrow>
        if cs_Providers snapshot = [] then (p, None)
        else pub TopicDispatchCapabilities
          (CapabilitiesPayload (cs_Epoch snapshot) (tc_format tc (cs_CapturedAt snapshot)) (cs_Providers snapshot)) p)"

definition default_str :: "string \<Rightarrow> string \<Rightarrow> string" where
  "default_str d s = (if s = '''' then d else s)"

definition fill_decision :: "time_codec \<Rightarrow> gotime \<Rightarrow> 64 word \<Rightarrow> decision_event \<Rightarrow> decision_event" where
  "fill_decision tc now k event =
     event\<lparr>de_PolicyVersion := default_str ''cpu-baseline-default'' (de_PolicyVersion event),
           de_SelectedProvider := default_str ''cpu-baseline'' (de_SelectedProvider event),
           de_ReasonCode := default_str ''accepted'' (de_ReasonCode event),
           de_QualityGuardrailState := default_str ''not-evaluated'' (de_QualityGuardrailState event),
           de_DecisionID := default_str (''decision-'' @ show_nat (unat k)) (de_DecisionID event),
           de_EmittedAt := default_str (tc_format tc now) (de_EmittedAt event),
           de_FallbackCount := (if de_FallbackCount event < 0 then 0 else de_FallbackCount event)\<rparr>"

definition EmitDecision ::
  "time_codec \<Rightarrow> (string \<Rightarrow> string) \<Rightarrow> ('p, dispatch_payload) publisher option \<Rightarrow> gotime \<Rightarrow> gotime \<Rightarrow> decision_event \<Rightarrow>
   decision_emitter \<times> 'p \<Rightarrow> (decision_emitter \<times> 'p) \<times> string option" where
  "EmitDecision tc digest12 publisher now now' event s = (case publisher of None \<Rightarrow> (s, None) | Some pub \<Rightarrow>
     (let (e, p) = s;
          k = em_nextID e + 1;
          e1 = (if de_DecisionID event = '''' then e\<lparr>em_nextID := k\<rparr> else e);
          ev = redactDecision digest12 (em_redactor e) (fill_decision tc now k event)
      in case pub TopicDispatchDecision (DecisionPayload ev) p of
           (p1, Some err) \<Rightarrow> ((e1, p1), Some err)
         | (p1, None) \<Rightarrow> (case em_anomaly e of
             None \<Rightarrow> ((e1, p1), None)
           | Some m \<Rightarrow>
               let ((m', p2), _) = ObserveDecision tc pub now' ev (m, p1)
               in ((e1\<lparr>em_anomaly := Some m'\<rparr>, p2), None))))"

section \<open>What reaches the publisher\<close>

text \<open>A publisher that also records the payloads it is given.\<close>

definition recording :: "('p, 'e) publisher \<Rightarrow> ('p \<times> 'e list, 'e) publisher" where
  "recording pub topic x s = (let (p, err) = pub topic x (fst s) in ((p, snd s @ [x]), err))"

lemma publish_all_recorded:
  "set (snd (fst (publish_all (recording pub) topic xs (p, l)))) \<subseteq> set l \<union> set xs"
proof (induction xs arbitrary: p l)
  case (Cons x xs)
  show ?case
  proof (cases "pub topic x p")
    case (Pair p' err)
    then show ?thesis
      using Cons.IH [of p' "l @ [x]"] by (cases err) (auto simp: recording_def)
  qed
qed simp

definition decision_redacted :: "redactor \<Rightarrow> (string \<Rightarrow> string) \<Rightarrow> string \<Rightarrow> string \<Rightarrow> bool" where
  "decision_redacted r digest12 original published \<longleftrightarrow>
     (if \<not> rd_enabled r then published = original
      else if rd_requestIDMode r = ''drop'' then published = ''''
      else if rd_requestIDMode r = ''hash'' then published = '''' \<or> (\<exists>x. published = ''sha256:'' @ digest12 x)
      else published = original)"

fun payload_redacted :: "redactor \<Rightarrow> redactor \<Rightarrow> (string \<Rightarrow> string) \<Rightarrow> string \<Rightarrow> dispatch_payload \<Rightarrow> bool" where
  "payload_redacted r ra digest12 rid (CapabilitiesPayload _ _ _) = True"
| "payload_redacted r ra digest12 rid (DecisionPayload d) = decision_redacted r digest12 rid (de_RequestID d)"
| "payload_redacted r ra digest12 rid (AnomalyPayload a) =
     (if rd_enabled ra \<and> rd_anomalyNotesMode ra = ''drop'' then ae_Notes a = '''' else True)"

lemma redactDecision_ok: "decision_redacted r digest12 (de_RequestID ev) (de_RequestID (redactDecision digest12 r ev))"
  by (auto simp: decision_redacted_def redactDecision_def hashRequestID_def Let_def)

lemma newAnomaly_simps:
  "ae_Notes (snd (newAnomaly tc ev now sg reason ob th m)) = redactAnomalyNotes (am_redactor m) (snd (snd sg))"
  "am_redactor (fst (newAnomaly tc ev now sg reason ob th m)) = am_redactor m"
  "ae_ReasonCode (snd (newAnomaly tc ev now sg reason ob th m)) = reason"
  by (simp_all add: newAnomaly_def Let_def case_prod_beta)

lemma decision_anomalies_notes:
  "a \<in> set (snd (decision_anomalies tc now ev m)) \<Longrightarrow> ae_Notes a = redactAnomalyNotes (am_redactor m) (snd (snd (resolve (am_resolver m))))"
  by (auto simp: decision_anomalies_def Let_def case_prod_beta newAnomaly_simps split: if_splits)

lemma decision_anomalies_reasons:
  "map ae_ReasonCode (snd (decision_anomalies tc now ev m)) =
     (if de_ActualLatencyMS ev \<ge> am_latencyThresholdMS m then [''latency_threshold_exceeded''] else []) @
     (if de_FallbackCount ev > 0 then [''fallback_engaged''] else [])"
  by (auto simp: decision_anomalies_def Let_def case_prod_beta newAnomaly_simps)

lemma ObserveDecision_recorded:
  "set (snd (snd (fst (ObserveDecision tc (recording pub) now ev (m, (p, l)))))) \<subseteq>
     set l \<union> AnomalyPayload ` set (snd (decision_anomalies tc now ev m))"
  using publish_all_recorded [of pub TopicDispatchAnomaly "map AnomalyPayload (snd (decision_anomalies tc now ev m))" p l]
  by (auto simp: ObserveDecision_def Let_def case_prod_beta)

lemma fill_decision_RequestID [simp]: "de_RequestID (fill_decision tc now k ev) = de_RequestID ev"
  by (simp add: fill_decision_def)


definition w_codec :: time_codec where
  "w_codec = \<lparr>tc_format = show_int, tc_parse = atoi\<rparr>"

definition w_redactor :: redactor where
  "w_redactor = newTelemetryRedactor \<lparr>rc_Enabled = True, rc_RequestIDMode = '' Drop'', rc_AnomalyNotesMode = ''drop'', rc_RequestIDSalt = ''''\<rparr>"

definition w_monitor :: anomaly_monitor where
  "w_monitor = \<lparr>am_nextID = 0, am_latencyThresholdMS = 1200,
     am_resolver = \<lparr>sp_preferEBPF = True, sp_checkEBPF = (False, ''no root'')\<rparr>, am_redactor = w_redactor\<rparr>"

definition w_emitter :: decision_emitter where
  "w_emitter = \<lparr>em_nextID = 0, em_anomaly = Some w_monitor, em_redactor = w_redactor\<rparr>"

definition w_event :: decision_event where
  "w_event = \<lparr>de_DecisionID = '''', de_RequestID = ''req-1'', de_PolicyVersion = '''', de_CapabilityEpoch = 3,
     de_SelectedProvider = ''gpu-1'', de_FallbackChain = [''gpu-1'', ''cpu-baseline''], de_FallbackCount = 1,
     de_ReasonCode = '''', de_Confidence = 1, de_EstimatedLatencyMS = 5, de_ActualLatencyMS = 2000,
     de_FeatureFlagsApplied = [], de_QualityGuardrailState = '''', de_EmittedAt = ''''\<rparr>"


end
