(* ===== verification/AstSpikes.thy ===== *)
theory AstSpikes
  imports Telemetry
begin

text \<open>
  The write-spike pipeline: the volume monitor of \<open>internal/dispatch/ast_spike_monitor.go\<close>, the
  semantic filter of \<open>ast_spike_filter.go\<close> and the fan-out of \<open>write_event_sink.go\<close>.

  Both stages keep sliding windows that are pruned only when a write arrives. They are shown to
  refine stateless specifications over the whole history of writes: the monitor fires exactly when
  enough writes of the workspace lie in the window and no spike of that workspace lies within the
  debounce interval, with the number of those writes, and the filter warns with exactly the other
  workspaces that changed the same symbol inside the conflict window.
\<close>

section \<open>Events\<close>

definition SpikeKindNone :: string where "SpikeKindNone = ''none''"
definition SpikeKindCosmetic :: string where "SpikeKindCosmetic = ''cosmetic''"
definition SpikeKindSymbolAdded :: string where "SpikeKindSymbolAdded = ''symbol_added''"
definition SpikeKindSymbolRemoved :: string where "SpikeKindSymbolRemoved = ''symbol_removed''"
definition SpikeKindSignatureChange :: string where "SpikeKindSignatureChange = ''signature_change''"
definition SpikeThresholdAny :: string where "SpikeThresholdAny = ''any''"

lemmas spike_kind_defs = SpikeKindNone_def SpikeKindCosmetic_def SpikeKindSymbolAdded_def
  SpikeKindSymbolRemoved_def SpikeKindSignatureChange_def SpikeThresholdAny_def

record write_event =
  we_Path :: string
  we_Workspace :: string
  we_Language :: string
  we_At :: gotime
  we_Symbol :: string
  we_NodePath :: string
  we_SignatureHash :: string
  we_ChangeKind :: string

record ast_spike_event =
  as_SpikeID :: string
  as_Workspace :: string
  as_WindowMS :: int
  as_Threshold :: int
  as_ObservedWrites :: nat
  as_DistinctPaths :: nat
  as_HotPaths :: "string list"
  as_Languages :: "string list"
  as_Severity :: string
  as_SignalPath :: string
  as_PrivilegeRequirement :: string
  as_DetectionLatencyMS :: int
  as_DetectionLatencyMode :: string
  as_DetectionLatencyIsAdvisory :: bool
  as_DetectedAt :: string
  as_Notes :: string

record semantic_spike_event =
  ss_SpikeID :: string
  ss_Workspace :: string
  ss_Path :: string
  ss_Symbol :: string
  ss_NodePath :: string
  ss_SpikeKind :: string
  ss_Confidence :: gofloat
  ss_SemanticThreshold :: string
  ss_SignalPath :: string
  ss_PrivilegeRequirement :: string
  ss_DetectionLatencyMS :: int
  ss_DetectionLatencyMode :: string
  ss_DetectionLatencyIsAdvisory :: bool
  ss_DetectedAt :: string
  ss_Notes :: string

record conflict_warning =
  cw_WarningID :: string
  cw_Symbol :: string
  cw_Path :: string
  cw_SpikeKind :: string
  cw_Confidence :: gofloat
  cw_Workspaces :: "string list"
  cw_PotentialConflictWith :: "string list"
  cw_Severity :: string
  cw_SignalPath :: string
  cw_PrivilegeRequirement :: string
  cw_DetectedAt :: string
  cw_Notes :: string

datatype spike_payload =
    VolumeSpike ast_spike_event
  | SemanticSpike semantic_spike_event
  | ConflictWarning conflict_warning

section \<open>The volume monitor\<close>

record write_sample =
  ws_path :: string
  ws_language :: string
  ws_at :: gotime

record spike_window =
  sw_samples :: "write_sample list"
  sw_lastSpikeAt :: gotime

record spike_monitor =
  wm_nextID :: "64 word"
  wm_resolver :: signal_path_resolver
  wm_redactor :: redactor
  wm_window :: duration
  wm_threshold :: int
  wm_debounce :: duration
  wm_maxHotPaths :: int
  wm_windows :: "(string, spike_window) gomap"
  wm_notesDrop :: bool

definition NewASTWriteSpikeMonitor ::
  "signal_path_resolver \<Rightarrow> int \<Rightarrow> int \<Rightarrow> int \<Rightarrow> int \<Rightarrow> redaction_config \<Rightarrow> spike_monitor" where
  "NewASTWriteSpikeMonitor resolver windowMS0 threshold0 debounceMS0 maxHotPaths0 redaction =
     (let windowMS = (if windowMS0 \<le> 0 then 1000 else windowMS0);
          debounceMS = (if debounceMS0 \<le> 0 then windowMS else debounceMS0);
          rd = newTelemetryRedactor redaction
      in \<lparr>wm_nextID = 0, wm_resolver = resolver, wm_redactor = rd,
          wm_window = wrap64 (windowMS * 1000000),
          wm_threshold = (if threshold0 \<le> 0 then 8 else threshold0),
          wm_debounce = wrap64 (debounceMS * 1000000),
          wm_maxHotPaths = (if maxHotPaths0 \<le> 0 then 5 else maxHotPaths0),
          wm_windows = [], wm_notesDrop = (rd_enabled rd \<and> rd_anomalyNotesMode rd = ''drop'')\<rparr>)"

fun path_order :: "string list \<Rightarrow> write_sample list \<Rightarrow> string list" where
  "path_order order [] = order"
| "path_order order (s # ss) =
     (if ws_path s = '''' \<or> ws_path s \<in> set order then path_order order ss else path_order (order @ [ws_path s]) ss)"

definition path_count :: "write_sample list \<Rightarrow> string \<Rightarrow> nat" where
  "path_count samples p = length (filter (\<lambda>s. ws_path s = p) samples)"

definition topPaths :: "write_sample list \<Rightarrow> int \<Rightarrow> string list \<times> nat" where
  "topPaths samples limit =
     (let order = path_order [] samples;
          sorted_order = sort_key (\<lambda>p. (- int (path_count samples p), p)) order
      in (if limit > 0 \<and> int (length order) > limit then take (nat limit) sorted_order else sorted_order, length order))"

fun language_order :: "string list \<Rightarrow> write_sample list \<Rightarrow> string list" where
  "language_order langs [] = langs"
| "language_order langs (s # ss) =
     (if ws_language s = '''' \<or> ws_language s \<in> set langs then language_order langs ss
      else language_order (langs @ [ws_language s]) ss)"

definition distinctLanguages :: "write_sample list \<Rightarrow> string list" where
  "distinctLanguages samples = sort (language_order [] samples)"

definition spikeSeverity :: "int \<Rightarrow> int \<Rightarrow> string" where
  "spikeSeverity n threshold = (if threshold > 0 \<and> n \<ge> 2 * threshold then ''critical'' else ''warning'')"

definition buildSpike :: "time_codec \<Rightarrow> string \<Rightarrow> write_sample list \<Rightarrow> gotime \<Rightarrow> spike_monitor \<Rightarrow> spike_monitor \<times> ast_spike_event" where
  "buildSpike tc workspace samples detectedAt m =
     (let (signalPath, privilege, notes) = resolve (wm_resolver m);
          triggerAt = ws_at (last samples);
          (latencyMS, mode, advisory) = detectionLatency tc (tc_format tc triggerAt) detectedAt signalPath;
          (hotPaths, distinctPaths) = topPaths samples (wm_maxHotPaths m);
          k = wm_nextID m + 1
      in (m\<lparr>wm_nextID := k\<rparr>,
          \<lparr>as_SpikeID = ''ast-spike-'' @ show_nat (unat k), as_Workspace = workspace,
           as_WindowMS = milliseconds (wm_window m), as_Threshold = wm_threshold m,
           as_ObservedWrites = length samples, as_DistinctPaths = distinctPaths,
           as_HotPaths = (if wm_notesDrop m then [] else hotPaths), as_Languages = distinctLanguages samples,
           as_Severity = spikeSeverity (int (length samples)) (wm_threshold m), as_SignalPath = signalPath,
           as_PrivilegeRequirement = privilege, as_DetectionLatencyMS = latencyMS, as_DetectionLatencyMode = mode,
           as_DetectionLatencyIsAdvisory = advisory, as_DetectedAt = tc_format tc detectedAt,
           as_Notes = redactAnomalyNotes (wm_redactor m) notes\<rparr>))"

definition recent_in :: "('a \<Rightarrow> gotime) \<Rightarrow> duration \<Rightarrow> gotime \<Rightarrow> 'a list \<Rightarrow> 'a list" where
  "recent_in at_of w now xs = filter (\<lambda>y. at_of y > now - w) xs"

definition window_of :: "spike_monitor \<Rightarrow> string \<Rightarrow> spike_window" where
  "window_of m ws = (case map_of (wm_windows m) ws of
      None \<Rightarrow> \<lparr>sw_samples = [], sw_lastSpikeAt = 0\<rparr>
    | Some w \<Rightarrow> w)"

definition record_write :: "time_codec \<Rightarrow> write_event \<Rightarrow> gotime \<Rightarrow> spike_monitor \<Rightarrow> spike_monitor \<times> ast_spike_event option" where
  "record_write tc event now m =
     (let ws = we_Workspace event;
          win = window_of m ws;
          samples = recent_in ws_at (wm_window m) now (sw_samples win) @
            [\<lparr>ws_path = we_Path event, ws_language = we_Language event, ws_at = now\<rparr>];
          win1 = win\<lparr>sw_samples := samples\<rparr>
      in if int (length samples) < wm_threshold m then (m\<lparr>wm_windows := gm_set ws win1 (wm_windows m)\<rparr>, None)
         else if sw_lastSpikeAt win \<noteq> 0 \<and> time_sub now (sw_lastSpikeAt win) < wm_debounce m
           then (m\<lparr>wm_windows := gm_set ws win1 (wm_windows m)\<rparr>, None)
         else
           let (m', spike) = buildSpike tc ws samples now
                 (m\<lparr>wm_windows := gm_set ws (win1\<lparr>sw_lastSpikeAt := now\<rparr>) (wm_windows m)\<rparr>)
           in (m', Some spike))"

definition ObserveWrite_monitor ::
  "time_codec \<Rightarrow> ('p, spike_payload) publisher \<Rightarrow> gotime \<Rightarrow> write_event \<Rightarrow> spike_monitor \<times> 'p \<Rightarrow>
   (spike_monitor \<times> 'p) \<times> string option" where
  "ObserveWrite_monitor tc pub now event s =
     (let t = (if we_At event = 0 then now else we_At event)
      in case record_write tc event t (fst s) of
           (m, None) \<Rightarrow> ((m, snd s), None)
         | (m, Some spike) \<Rightarrow> (let (p, err) = pub TopicASTSpike (VolumeSpike spike) (snd s) in ((m, p), err)))"

section \<open>The semantic filter\<close>

definition kind_rank :: "string \<Rightarrow> int" where
  "kind_rank k =
     (if k = SpikeKindCosmetic then 1
      else if k = SpikeKindSymbolAdded \<or> k = SpikeKindSymbolRemoved then 2
      else if k = SpikeKindSignatureChange then 3
      else 0)"

definition thresholdRank :: "string \<Rightarrow> int" where
  "thresholdRank threshold =
     (if threshold = SpikeThresholdAny then 1
      else if kind_rank threshold > 0 then kind_rank threshold
      else kind_rank SpikeKindSignatureChange)"

type_synonym scorer = "write_event \<Rightarrow> string \<Rightarrow> bool \<Rightarrow> string \<times> gofloat"

definition HeuristicSemanticScorer :: scorer where
  "HeuristicSemanticScorer ev priorSignature seenSymbol =
     (let k = we_ChangeKind ev in
      if k \<noteq> '''' \<and> kind_rank k \<ge> 0 \<and> k = SpikeKindSignatureChange then (SpikeKindSignatureChange, 95 / 100)
      else if k \<noteq> '''' \<and> kind_rank k \<ge> 0 \<and> (k = SpikeKindSymbolAdded \<or> k = SpikeKindSymbolRemoved) then (k, 9 / 10)
      else if k \<noteq> '''' \<and> kind_rank k \<ge> 0 \<and> k = SpikeKindCosmetic then (SpikeKindCosmetic, 6 / 10)
      else if k \<noteq> '''' \<and> kind_rank k \<ge> 0 \<and> k = SpikeKindNone then (SpikeKindNone, 0)
      else if we_Symbol ev = '''' \<or> we_SignatureHash ev = '''' then (SpikeKindNone, 0)
      else if \<not> seenSymbol then (SpikeKindSymbolAdded, 75 / 100)
      else if priorSignature \<noteq> we_SignatureHash ev then (SpikeKindSignatureChange, 9 / 10)
      else (SpikeKindCosmetic, 3 / 10))"

record symbol_signature =
  sg_signature :: string
  sg_updatedAt :: gotime

record symbol_writer =
  sy_workspace :: string
  sy_kind :: string
  sy_confidence :: gofloat
  sy_at :: gotime

record spike_filter =
  sf_nextSpikeID :: "64 word"
  sf_nextWarnID :: "64 word"
  sf_resolver :: signal_path_resolver
  sf_redactor :: redactor
  sf_scorer :: scorer
  sf_threshold :: string
  sf_thresholdRank :: int
  sf_conflictWindow :: duration
  sf_signatureTTL :: duration
  sf_maxConflictPeers :: int
  sf_notesDrop :: bool
  sf_signatures :: "(string, symbol_signature) gomap"
  sf_writers :: "(string, symbol_writer list) gomap"

definition NewASTSpikeFilter ::
  "signal_path_resolver \<Rightarrow> string \<Rightarrow> int \<Rightarrow> int \<Rightarrow> int \<Rightarrow> scorer option \<Rightarrow> redaction_config \<Rightarrow> spike_filter" where
  "NewASTSpikeFilter resolver threshold0 conflictMS0 ttlMS0 peers0 scorer redaction =
     (let threshold = (if threshold0 = '''' then SpikeKindSignatureChange else threshold0);
          rd = newTelemetryRedactor redaction
      in \<lparr>sf_nextSpikeID = 0, sf_nextWarnID = 0, sf_resolver = resolver, sf_redactor = rd,
          sf_scorer = (case scorer of None \<Rightarrow> HeuristicSemanticScorer | Some f \<Rightarrow> f),
          sf_threshold = threshold, sf_thresholdRank = thresholdRank threshold,
          sf_conflictWindow = wrap64 ((if conflictMS0 \<le> 0 then 2000 else conflictMS0) * 1000000),
          sf_signatureTTL = wrap64 ((if ttlMS0 \<le> 0 then 30000 else ttlMS0) * 1000000),
          sf_maxConflictPeers = (if peers0 \<le> 0 then 8 else peers0),
          sf_notesDrop = (rd_enabled rd \<and> rd_anomalyNotesMode rd = ''drop''),
          sf_signatures = [], sf_writers = []\<rparr>)"

definition conflictSeverity :: "string \<Rightarrow> string" where
  "conflictSeverity kind = (if kind = SpikeKindSignatureChange then ''critical'' else ''warning'')"

definition pruneSignatures :: "gotime \<Rightarrow> spike_filter \<Rightarrow> spike_filter" where
  "pruneSignatures now f =
     f\<lparr>sf_signatures := filter (\<lambda>(_, sg). sg_updatedAt sg > now - sf_signatureTTL f) (sf_signatures f)\<rparr>"

definition writers_of :: "spike_filter \<Rightarrow> string \<Rightarrow> symbol_writer list" where
  "writers_of f symbol = (case map_of (sf_writers f) symbol of None \<Rightarrow> [] | Some w \<Rightarrow> w)"

fun peer_set :: "string \<Rightarrow> symbol_writer list \<Rightarrow> string list \<Rightarrow> string list" where
  "peer_set ws [] peers = peers"
| "peer_set ws (w # rest) peers =
     (if sy_workspace w \<noteq> '''' \<and> sy_workspace w \<noteq> ws \<and> sy_workspace w \<notin> set peers
      then peer_set ws rest (peers @ [sy_workspace w]) else peer_set ws rest peers)"

definition detectConflict ::
  "time_codec \<Rightarrow> write_event \<Rightarrow> string \<Rightarrow> gofloat \<Rightarrow> gotime \<Rightarrow> string \<times> string \<times> string \<Rightarrow> spike_filter \<Rightarrow>
   spike_filter \<times> conflict_warning option" where
  "detectConflict tc event kind confidence now signal f =
     (if we_Symbol event = '''' then (f, None)
      else
        let (signalPath, privilege, notes) = signal;
            recent = recent_in sy_at (sf_conflictWindow f) now (writers_of f (we_Symbol event));
            peers = peer_set (we_Workspace event) recent [];
            f1 = f\<lparr>sf_writers := gm_set (we_Symbol event)
              (recent @ [\<lparr>sy_workspace = we_Workspace event, sy_kind = kind, sy_confidence = confidence, sy_at = now\<rparr>])
              (sf_writers f)\<rparr>;
            peerList0 = sort peers;
            peerList = (if int (length peerList0) > sf_maxConflictPeers f
                        then take (nat (sf_maxConflictPeers f)) peerList0 else peerList0);
            k = sf_nextWarnID f + 1
        in if peers = [] then (f1, None)
           else (f1\<lparr>sf_nextWarnID := k\<rparr>,
             Some \<lparr>cw_WarningID = ''ast-conflict-'' @ show_nat (unat k), cw_Symbol = we_Symbol event,
               cw_Path = we_Path event, cw_SpikeKind = kind, cw_Confidence = confidence,
               cw_Workspaces = (if we_Workspace event \<noteq> '''' then sort (peerList @ [we_Workspace event]) else peerList),
               cw_PotentialConflictWith = peerList, cw_Severity = conflictSeverity kind, cw_SignalPath = signalPath,
               cw_PrivilegeRequirement = privilege, cw_DetectedAt = tc_format tc now,
               cw_Notes = redactAnomalyNotes (sf_redactor f) notes\<rparr>))"

definition note_signature :: "write_event \<Rightarrow> gotime \<Rightarrow> spike_filter \<Rightarrow> spike_filter" where
  "note_signature event now f =
     (if we_Symbol event \<noteq> '''' \<and> we_SignatureHash event \<noteq> ''''
      then f\<lparr>sf_signatures := gm_set (we_Symbol event)
             \<lparr>sg_signature = we_SignatureHash event, sg_updatedAt = now\<rparr> (sf_signatures f)\<rparr>
      else f)"

definition score_write :: "write_event \<Rightarrow> spike_filter \<Rightarrow> string \<times> gofloat" where
  "score_write event f = (case map_of (sf_signatures f) (we_Symbol event) of
      None \<Rightarrow> sf_scorer f event '''' False
    | Some prior \<Rightarrow> sf_scorer f event (sg_signature prior) (we_Symbol event \<noteq> ''''))"

definition classify ::
  "time_codec \<Rightarrow> write_event \<Rightarrow> gotime \<Rightarrow> spike_filter \<Rightarrow>
   spike_filter \<times> (semantic_spike_event \<times> conflict_warning option) option" where
  "classify tc event now f =
     (let (kind, confidence) = score_write event f;
          f1 = pruneSignatures now (note_signature event now f)
      in if kind_rank kind < sf_thresholdRank f then (f1, None)
         else
           let signal = resolve (sf_resolver f);
               (signalPath, privilege, notes) = signal;
               (latencyMS, mode, advisory) = detectionLatency tc (tc_format tc now) now signalPath;
               k = sf_nextSpikeID f + 1;
               hide = (\<lambda>s. if sf_notesDrop f then '''' else s);
               spike = \<lparr>ss_SpikeID = ''semantic-spike-'' @ show_nat (unat k), ss_Workspace = we_Workspace event,
                 ss_Path = hide (we_Path event), ss_Symbol = hide (we_Symbol event), ss_NodePath = hide (we_NodePath event),
                 ss_SpikeKind = kind, ss_Confidence = confidence, ss_SemanticThreshold = sf_threshold f,
                 ss_SignalPath = signalPath, ss_PrivilegeRequirement = privilege, ss_DetectionLatencyMS = latencyMS,
                 ss_DetectionLatencyMode = mode, ss_DetectionLatencyIsAdvisory = advisory,
                 ss_DetectedAt = tc_format tc now, ss_Notes = redactAnomalyNotes (sf_redactor f) notes\<rparr>;
               (f2, warning) = detectConflict tc event kind confidence now signal (f1\<lparr>sf_nextSpikeID := k\<rparr>)
           in (f2, Some (spike, map_option (\<lambda>w. w\<lparr>cw_Path := hide (cw_Path w), cw_Symbol := hide (cw_Symbol w)\<rparr>) warning)))"

definition ObserveWrite_filter ::
  "time_codec \<Rightarrow> ('p, spike_payload) publisher \<Rightarrow> gotime \<Rightarrow> write_event \<Rightarrow> spike_filter \<times> 'p \<Rightarrow>
   (spike_filter \<times> 'p) \<times> string option" where
  "ObserveWrite_filter tc pub now event s =
     (let t = (if we_At event = 0 then now else we_At event)
      in case classify tc event t (fst s) of
           (f, None) \<Rightarrow> ((f, snd s), None)
         | (f, Some (spike, warning)) \<Rightarrow> (case pub TopicASTSemanticSpike (SemanticSpike spike) (snd s) of
             (p, Some err) \<Rightarrow> ((f, p), Some err)
           | (p, None) \<Rightarrow> (case warning of
               None \<Rightarrow> ((f, p), None)
             | Some w \<Rightarrow> (let (p', err) = pub TopicASTConflictWarning (ConflictWarning w) p in ((f, p'), err)))))"

section \<open>The fan-out\<close>

type_synonym 's sink = "write_event \<Rightarrow> 's \<Rightarrow> 's \<times> string option"

definition NewWriteEventFanout :: "'s sink option list \<Rightarrow> 's sink list option" where
  "NewWriteEventFanout sinks =
     (let live = map the (filter (\<lambda>s. s \<noteq> None) sinks) in if live = [] then None else Some live)"

fun ObserveWrite_fanout :: "'s sink list \<Rightarrow> write_event \<Rightarrow> string option \<Rightarrow> 's \<Rightarrow> 's \<times> string option" where
  "ObserveWrite_fanout [] ev firstErr s = (s, firstErr)"
| "ObserveWrite_fanout (k # ks) ev firstErr s =
     (let (s', err) = k ev s
      in ObserveWrite_fanout ks ev (if err \<noteq> None \<and> firstErr = None then err else firstErr) s')"

section \<open>Sliding windows over the history\<close>

text \<open>Histories are lists of timed events, the newest first; \<open>later t h\<close> says that \<open>t\<close> is not before any of them.\<close>

type_synonym history = "(write_event \<times> gotime) list"

definition later :: "gotime \<Rightarrow> history \<Rightarrow> bool" where
  "later t h \<longleftrightarrow> (\<forall>(ev, u) \<in> set h. u \<le> t)"

fun chronological :: "history \<Rightarrow> bool" where
  "chronological [] = True"
| "chronological ((ev, t) # h) \<longleftrightarrow> 0 < t \<and> later t h \<and> chronological h"

lemma later_Cons [simp]: "later t ((ev, u) # h) \<longleftrightarrow> u \<le> t \<and> later t h"
  by (simp add: later_def)

lemma later_trans: "later t h \<Longrightarrow> t \<le> u \<Longrightarrow> later u h"
  by (auto simp: later_def)

lemma recent_in_mono: "t \<le> u \<Longrightarrow> recent_in f w u (recent_in f w t xs) = recent_in f w u xs"
  by (auto simp: recent_in_def intro: filter_cong)

lemma recent_in_append: "recent_in f w t (xs @ ys) = recent_in f w t xs @ recent_in f w t ys"
  by (simp add: recent_in_def)

section \<open>The monitor refines its specification\<close>

fun spec_spikes :: "duration \<Rightarrow> int \<Rightarrow> duration \<Rightarrow> history \<Rightarrow> nat option list" where
  "spec_spikes W T D [] = []"
| "spec_spikes W T D ((ev, t) # past) =
     (let prev = spec_spikes W T D past;
          n = Suc (length (filter (\<lambda>(e, u). we_Workspace e = we_Workspace ev \<and> t - W < u) past));
          silenced = list_ex (\<lambda>((e, u), s). s \<noteq> None \<and> we_Workspace e = we_Workspace ev \<and> t - u < D) (zip past prev)
      in (if T \<le> int n \<and> \<not> silenced then Some n else None) # prev)"

fun monitor_run :: "time_codec \<Rightarrow> spike_monitor \<Rightarrow> history \<Rightarrow> spike_monitor \<times> ast_spike_event option list" where
  "monitor_run tc m [] = (m, [])"
| "monitor_run tc m ((ev, t) # past) =
     (let (m', outs) = monitor_run tc m past; (m'', out) = record_write tc ev t m' in (m'', out # outs))"

definition sample_of :: "write_event \<times> gotime \<Rightarrow> write_sample" where
  "sample_of x = \<lparr>ws_path = we_Path (fst x), ws_language = we_Language (fst x), ws_at = snd x\<rparr>"

definition monitor_inv :: "spike_monitor \<Rightarrow> history \<Rightarrow> nat option list \<Rightarrow> bool" where
  "monitor_inv m h outs \<longleftrightarrow> (\<forall>ws t. later t h \<longrightarrow>
     recent_in ws_at (wm_window m) t (sw_samples (window_of m ws)) =
       map sample_of (rev (filter (\<lambda>(e, u). we_Workspace e = ws \<and> t - wm_window m < u) h)) \<and>
     (sw_lastSpikeAt (window_of m ws) \<noteq> 0 \<and> t - sw_lastSpikeAt (window_of m ws) < wm_debounce m \<longleftrightarrow>
       list_ex (\<lambda>((e, u), s). s \<noteq> None \<and> we_Workspace e = ws \<and> t - u < wm_debounce m) (zip h outs)))"

definition monitor_ok :: "spike_monitor \<Rightarrow> bool" where
  "monitor_ok m \<longleftrightarrow> 0 < wm_window m \<and> 0 < wm_debounce m \<and> wm_debounce m < 2 ^ 63"

lemma recent_in_sample: "recent_in ws_at w u [sample_of (ev, t)] = (if u - w < t then [sample_of (ev, t)] else [])"
  by (simp add: recent_in_def sample_of_def)

lemma buildSpike_simps:
  "fst (buildSpike tc ws ss t m) = m\<lparr>wm_nextID := wm_nextID m + 1\<rparr>"
  "as_ObservedWrites (snd (buildSpike tc ws ss t m)) = length ss"
  by (simp_all add: buildSpike_def Let_def case_prod_beta)

lemma window_of_set:
  "window_of (m\<lparr>wm_windows := gm_set ws w (wm_windows m)\<rparr>) ws' = (if ws' = ws then w else window_of m ws')"
  "window_of (m\<lparr>wm_windows := gm_set ws w (wm_windows m), wm_nextID := k\<rparr>) ws' = (if ws' = ws then w else window_of m ws')"
  by (simp_all add: window_of_def)

text \<open>One write: what is reported, and the new window of its workspace.\<close>

lemma record_write_step:
  fixes m :: spike_monitor and ev :: write_event and t :: gotime
  defines "win \<equiv> window_of m (we_Workspace ev)"
  defines "samples \<equiv> recent_in ws_at (wm_window m) t (sw_samples win) @ [sample_of (ev, t)]"
  defines "fires \<equiv> wm_threshold m \<le> int (length samples) \<and>
    \<not> (sw_lastSpikeAt win \<noteq> 0 \<and> time_sub t (sw_lastSpikeAt win) < wm_debounce m)"
  shows "map_option as_ObservedWrites (snd (record_write tc ev t m)) = (if fires then Some (length samples) else None)"
    and "window_of (fst (record_write tc ev t m)) ws =
      (if ws = we_Workspace ev then win\<lparr>sw_samples := samples, sw_lastSpikeAt := (if fires then t else sw_lastSpikeAt win)\<rparr>
       else window_of m ws)"
    and "wm_window (fst (record_write tc ev t m)) = wm_window m"
    and "wm_debounce (fst (record_write tc ev t m)) = wm_debounce m"
    and "wm_threshold (fst (record_write tc ev t m)) = wm_threshold m"
  unfolding record_write_def Let_def fires_def samples_def win_def sample_of_def fst_conv snd_conv
  by (simp_all add: buildSpike_simps window_of_set case_prod_beta)

lemma monitor_inv_step:
  fixes ev :: write_event
  assumes inv: "monitor_inv m h outs" and ok: "monitor_ok m" and t: "0 < t" "later t h"
    and len: "length outs = length h"
  defines "spec \<equiv> (let n = Suc (length (filter (\<lambda>(e, u). we_Workspace e = we_Workspace ev \<and> t - wm_window m < u) h));
      silenced = list_ex (\<lambda>((e, u), s). s \<noteq> None \<and> we_Workspace e = we_Workspace ev \<and> t - u < wm_debounce m) (zip h outs)
    in if wm_threshold m \<le> int n \<and> \<not> silenced then Some n else None)"
  shows "map_option as_ObservedWrites (snd (record_write tc ev t m)) = spec"
    and "monitor_inv (fst (record_write tc ev t m)) ((ev, t) # h) (spec # outs)"
proof -
  let ?ws = "we_Workspace ev" and ?W = "wm_window m" and ?D = "wm_debounce m"
  define win where "win = window_of m ?ws"
  define samples where "samples = recent_in ws_at ?W t (sw_samples win) @ [sample_of (ev, t)]"
  define fires where "fires \<longleftrightarrow> wm_threshold m \<le> int (length samples) \<and>
    \<not> (sw_lastSpikeAt win \<noteq> 0 \<and> time_sub t (sw_lastSpikeAt win) < ?D)"
  note step = record_write_step [of tc ev t m, folded win_def, folded samples_def, folded fires_def]
  have W: "0 < ?W" and D: "0 < ?D" "?D < 2 ^ 63" using ok by (simp_all add: monitor_ok_def)
  have sub: "time_sub t x < ?D \<longleftrightarrow> t - x < ?D" for x using D by (intro time_sub_lt) auto
  have I1: "recent_in ws_at ?W u (sw_samples (window_of m ws)) =
      map sample_of (rev (filter (\<lambda>(e, v). we_Workspace e = ws \<and> u - ?W < v) h))" if "later u h" for u ws
    using inv that by (simp add: monitor_inv_def)
  have I2: "(sw_lastSpikeAt (window_of m ws) \<noteq> 0 \<and> u - sw_lastSpikeAt (window_of m ws) < ?D) =
      list_ex (\<lambda>((e, v), s). s \<noteq> None \<and> we_Workspace e = ws \<and> u - v < ?D) (zip h outs)" if "later u h" for u ws
    using inv that by (simp add: monitor_inv_def)
  have n: "length samples = Suc (length (filter (\<lambda>(e, u). we_Workspace e = ?ws \<and> t - ?W < u) h))"
    using I1 [OF t(2), of ?ws] by (simp add: samples_def win_def)
  have f: "spec = (if fires then Some (length samples) else None)"
    using I2 [OF t(2), of ?ws] unfolding spec_def fires_def sub n win_def Let_def by presburger
  then show "map_option as_ObservedWrites (snd (record_write tc ev t m)) = spec" by (simp add: step(1))
  show "monitor_inv (fst (record_write tc ev t m)) ((ev, t) # h) (spec # outs)"
    unfolding monitor_inv_def step(3,4)
  proof (intro allI impI conjI)
    fix ws u
    assume "later u ((ev, t) # h)"
    then have u: "t \<le> u" "later u h" by simp_all
    show "recent_in ws_at ?W u (sw_samples (window_of (fst (record_write tc ev t m)) ws)) =
      map sample_of (rev (filter (\<lambda>(e, v). we_Workspace e = ws \<and> u - ?W < v) ((ev, t) # h)))"
      using I1 [OF u(2), of ws]
      by (auto simp: step(2) samples_def win_def recent_in_append recent_in_sample recent_in_mono [OF u(1)])
    show "(sw_lastSpikeAt (window_of (fst (record_write tc ev t m)) ws) \<noteq> 0 \<and>
        u - sw_lastSpikeAt (window_of (fst (record_write tc ev t m)) ws) < ?D) =
      list_ex (\<lambda>((e, v), s). s \<noteq> None \<and> we_Workspace e = ws \<and> u - v < ?D) (zip ((ev, t) # h) (spec # outs))"
    proof (cases "ws = ?ws \<and> fires")
      case True
      have "u - t < ?D" if "list_ex (\<lambda>((e, v), s). s \<noteq> None \<and> we_Workspace e = ws \<and> u - v < ?D) (zip h outs)"
      proof -
        note ex = that
        obtain e v s where "((e, v), s) \<in> set (zip h outs)" "u - v < ?D" using ex by (auto simp: list_ex_iff)
        moreover have "v \<le> t" using calculation(1) t(2) by (auto simp: later_def dest: set_zip_leftD)
        ultimately show ?thesis by simp
      qed
      then show ?thesis using True t(1) by (auto simp: step(2) f)
    next
      case False
      then show ?thesis using I2 [OF u(2), of ws] by (auto simp: step(2) f win_def)
    qed
  qed
qed

lemma monitor_run_refines:
  assumes "wm_windows m = []" "monitor_ok m" "chronological h"
  shows "map (map_option as_ObservedWrites) (snd (monitor_run tc m h)) =
      spec_spikes (wm_window m) (wm_threshold m) (wm_debounce m) h \<and>
    monitor_inv (fst (monitor_run tc m h)) h (spec_spikes (wm_window m) (wm_threshold m) (wm_debounce m) h) \<and>
    wm_window (fst (monitor_run tc m h)) = wm_window m \<and> wm_debounce (fst (monitor_run tc m h)) = wm_debounce m \<and>
    wm_threshold (fst (monitor_run tc m h)) = wm_threshold m \<and>
    length (spec_spikes (wm_window m) (wm_threshold m) (wm_debounce m) h) = length h"
  using assms(3)
proof (induction h)
  case Nil
  show ?case using assms(1) by (simp add: monitor_inv_def window_of_def recent_in_def)
next
  case (Cons x h)
  obtain ev t where x: "x = (ev, t)" by (cases x)
  define m' where "m' = fst (monitor_run tc m h)"
  have IH: "map (map_option as_ObservedWrites) (snd (monitor_run tc m h)) =
      spec_spikes (wm_window m) (wm_threshold m) (wm_debounce m) h"
    "monitor_inv m' h (spec_spikes (wm_window m) (wm_threshold m) (wm_debounce m) h)"
    "wm_window m' = wm_window m" "wm_debounce m' = wm_debounce m" "wm_threshold m' = wm_threshold m"
    "length (spec_spikes (wm_window m) (wm_threshold m) (wm_debounce m) h) = length h"
    using Cons by (simp_all add: x m'_def)
  have "monitor_ok m'" using assms(2) by (simp add: monitor_ok_def IH)
  note step = monitor_inv_step [OF IH(2) this, of t tc ev, unfolded IH(3-5)]
  show ?case
    using step Cons.prems IH record_write_step(3-5) [of tc ev t m']
    by (simp add: x case_prod_beta Let_def flip: m'_def)
qed

text \<open>
  C24. For every chronological history of writes, a fresh monitor reports a spike exactly when the
  write and the earlier writes of its workspace inside the window reach the threshold and no spike
  of that workspace was reported within the debounce interval, and the spike carries the exact
  number of these writes, although the monitor only keeps and prunes one window per workspace.
\<close>

theorem monitor_refines_spec:
  assumes "wm_windows m = []" "monitor_ok m" "chronological h"
  shows "map (map_option as_ObservedWrites) (snd (monitor_run tc m h)) =
    spec_spikes (wm_window m) (wm_threshold m) (wm_debounce m) h"
  using monitor_run_refines [OF assms] by blast

section \<open>The filter refines its specification\<close>

text \<open>
  Every history entry is paired with whether a semantic spike was emitted for it; the specification
  of the peers of a write looks at all earlier entries.
\<close>

definition spec_peers :: "duration \<Rightarrow> int \<Rightarrow> write_event \<Rightarrow> gotime \<Rightarrow> ((write_event \<times> gotime) \<times> bool) list \<Rightarrow> string list" where
  "spec_peers W mx ev t past =
     take (nat mx) (sorted_list_of_set {we_Workspace e | e u. ((e, u), True) \<in> set past \<and> we_Symbol e = we_Symbol ev \<and>
       we_Workspace e \<noteq> '''' \<and> we_Workspace e \<noteq> we_Workspace ev \<and> t - W < u})"

fun spec_warnings :: "duration \<Rightarrow> int \<Rightarrow> ((write_event \<times> gotime) \<times> bool) list \<Rightarrow> string list list" where
  "spec_warnings W mx [] = []"
| "spec_warnings W mx (((ev, t), spiked) # past) =
     (if spiked \<and> we_Symbol ev \<noteq> '''' then spec_peers W mx ev t past else []) # spec_warnings W mx past"

fun filter_run :: "time_codec \<Rightarrow> spike_filter \<Rightarrow> history \<Rightarrow>
  spike_filter \<times> (semantic_spike_event \<times> conflict_warning option) option list" where
  "filter_run tc f [] = (f, [])"
| "filter_run tc f ((ev, t) # past) =
     (let (f', outs) = filter_run tc f past; (f'', out) = classify tc ev t f' in (f'', out # outs))"

definition warned :: "(semantic_spike_event \<times> conflict_warning option) option \<Rightarrow> string list" where
  "warned out = (case out of Some (_, Some w) \<Rightarrow> cw_PotentialConflictWith w | _ \<Rightarrow> [])"

lemma peer_set_props:
  "distinct peers \<Longrightarrow> distinct (peer_set ws xs peers) \<and>
   set (peer_set ws xs peers) = set peers \<union> {sy_workspace w | w. w \<in> set xs \<and> sy_workspace w \<noteq> '''' \<and> sy_workspace w \<noteq> ws}"
  by (induction ws xs peers rule: peer_set.induct) auto

definition filter_inv :: "spike_filter \<Rightarrow> history \<Rightarrow> bool list \<Rightarrow> bool" where
  "filter_inv f h spiked \<longleftrightarrow> (\<forall>symbol t. symbol \<noteq> '''' \<and> later t h \<longrightarrow>
     (\<lambda>w. (sy_workspace w, sy_at w)) ` set (recent_in sy_at (sf_conflictWindow f) t (writers_of f symbol)) =
     {(we_Workspace e, u) | e u. ((e, u), True) \<in> set (zip h spiked) \<and> we_Symbol e = symbol \<and> t - sf_conflictWindow f < u})"

lemma writers_of_simps:
  "writers_of (f\<lparr>sf_writers := gm_set s x (sf_writers f)\<rparr>) s' = (if s' = s then x else writers_of f s')"
  by (simp add: writers_of_def)

lemma sort_distinct_set: "distinct xs \<Longrightarrow> sort xs = sorted_list_of_set (set xs)"
  by (simp add: sorted_list_of_set_sort_remdups distinct_remdups_id)

lemma detectConflict_step:
  fixes f :: spike_filter and ev :: write_event and t :: gotime
  defines "recent \<equiv> recent_in sy_at (sf_conflictWindow f) t (writers_of f (we_Symbol ev))"
  shows "writers_of (fst (detectConflict tc ev kind conf t sg f)) s =
      (if we_Symbol ev \<noteq> '''' \<and> s = we_Symbol ev
       then recent @ [\<lparr>sy_workspace = we_Workspace ev, sy_kind = kind, sy_confidence = conf, sy_at = t\<rparr>]
       else writers_of f s)"
    and "(case snd (detectConflict tc ev kind conf t sg f) of None \<Rightarrow> [] | Some w \<Rightarrow> cw_PotentialConflictWith w) =
      (if we_Symbol ev = '''' then [] else take (nat (sf_maxConflictPeers f)) (sort (peer_set (we_Workspace ev) recent [])))"
    and "sf_conflictWindow (fst (detectConflict tc ev kind conf t sg f)) = sf_conflictWindow f"
    and "sf_maxConflictPeers (fst (detectConflict tc ev kind conf t sg f)) = sf_maxConflictPeers f"
  by (auto simp: detectConflict_def recent_def Let_def case_prod_beta writers_of_def)

lemma prune_note_simps:
  "sf_conflictWindow (pruneSignatures t (note_signature ev t f)) = sf_conflictWindow f"
  "sf_maxConflictPeers (pruneSignatures t (note_signature ev t f)) = sf_maxConflictPeers f"
  "writers_of (pruneSignatures t (note_signature ev t f)) s = writers_of f s"
  "writers_of (f\<lparr>sf_nextSpikeID := k\<rparr>) s = writers_of f s"
  by (simp_all add: pruneSignatures_def note_signature_def writers_of_def)

text \<open>One write: whether a spike is emitted, the peers it warns about, and the new writers of its symbol.\<close>

lemma classify_step:
  fixes f :: spike_filter and ev :: write_event and t :: gotime
  defines "recent \<equiv> recent_in sy_at (sf_conflictWindow f) t (writers_of f (we_Symbol ev))"
  defines "spiked \<equiv> sf_thresholdRank f \<le> kind_rank (fst (score_write ev f))"
  shows "snd (classify tc ev t f) \<noteq> None \<longleftrightarrow> spiked"
    and "warned (snd (classify tc ev t f)) = (if spiked \<and> we_Symbol ev \<noteq> ''''
      then take (nat (sf_maxConflictPeers f)) (sort (peer_set (we_Workspace ev) recent [])) else [])"
    and "(\<lambda>w. (sy_workspace w, sy_at w)) ` set (recent_in sy_at W u (writers_of (fst (classify tc ev t f)) s)) =
      (if spiked \<and> we_Symbol ev \<noteq> '''' \<and> s = we_Symbol ev
       then (\<lambda>w. (sy_workspace w, sy_at w)) ` set (recent_in sy_at W u recent) \<union>
         (if u - W < t then {(we_Workspace ev, t)} else {})
       else (\<lambda>w. (sy_workspace w, sy_at w)) ` set (recent_in sy_at W u (writers_of f s)))"
    and "sf_conflictWindow (fst (classify tc ev t f)) = sf_conflictWindow f"
    and "sf_maxConflictPeers (fst (classify tc ev t f)) = sf_maxConflictPeers f"
proof -
  define f1 where "f1 = (pruneSignatures t (note_signature ev t f))\<lparr>sf_nextSpikeID := sf_nextSpikeID f + 1\<rparr>"
  define d where "d = detectConflict tc ev (fst (score_write ev f)) (snd (score_write ev f)) t (resolve (sf_resolver f)) f1"
  have f1: "sf_conflictWindow f1 = sf_conflictWindow f" "sf_maxConflictPeers f1 = sf_maxConflictPeers f"
    "writers_of f1 s = writers_of f s" for s
    by (simp_all add: f1_def prune_note_simps)
  note dd = detectConflict_step [where f = f1 and ev = ev and tc = tc and t = t and kind = "fst (score_write ev f)"
      and conf = "snd (score_write ev f)" and sg = "resolve (sf_resolver f)", folded d_def, unfolded f1, folded recent_def]
  have c: "fst (classify tc ev t f) = (if spiked then fst d else pruneSignatures t (note_signature ev t f))"
    "snd (classify tc ev t f) \<noteq> None \<longleftrightarrow> spiked"
    "warned (snd (classify tc ev t f)) =
      (if spiked then (case snd d of None \<Rightarrow> [] | Some w \<Rightarrow> cw_PotentialConflictWith w) else [])"
    by (auto simp: classify_def spiked_def d_def f1_def Let_def case_prod_beta warned_def split: option.split)
  show "snd (classify tc ev t f) \<noteq> None \<longleftrightarrow> spiked" by (rule c(2))
  show "warned (snd (classify tc ev t f)) = (if spiked \<and> we_Symbol ev \<noteq> ''''
      then take (nat (sf_maxConflictPeers f)) (sort (peer_set (we_Workspace ev) recent [])) else [])"
    by (simp add: c(3) dd(2))
  show "(\<lambda>w. (sy_workspace w, sy_at w)) ` set (recent_in sy_at W u (writers_of (fst (classify tc ev t f)) s)) =
      (if spiked \<and> we_Symbol ev \<noteq> '''' \<and> s = we_Symbol ev
       then (\<lambda>w. (sy_workspace w, sy_at w)) ` set (recent_in sy_at W u recent) \<union>
         (if u - W < t then {(we_Workspace ev, t)} else {})
       else (\<lambda>w. (sy_workspace w, sy_at w)) ` set (recent_in sy_at W u (writers_of f s)))"
    by (auto simp: c(1) dd(1) prune_note_simps recent_in_append) (auto simp: recent_in_def)
  show "sf_conflictWindow (fst (classify tc ev t f)) = sf_conflictWindow f"
    and "sf_maxConflictPeers (fst (classify tc ev t f)) = sf_maxConflictPeers f"
    by (simp_all add: c(1) dd(3,4) prune_note_simps)
qed

lemma filter_inv_step:
  fixes ev :: write_event
  assumes inv: "filter_inv f h spiked" and t: "later t h" and len: "length spiked = length h"
  shows "warned (snd (classify tc ev t f)) =
      (if snd (classify tc ev t f) \<noteq> None \<and> we_Symbol ev \<noteq> ''''
       then spec_peers (sf_conflictWindow f) (sf_maxConflictPeers f) ev t (zip h spiked) else [])"
    and "filter_inv (fst (classify tc ev t f)) ((ev, t) # h) ((snd (classify tc ev t f) \<noteq> None) # spiked)"
proof -
  let ?W = "sf_conflictWindow f" and ?pair = "\<lambda>w. (sy_workspace w, sy_at w)"
  have I: "?pair ` set (recent_in sy_at ?W u (writers_of f s)) =
    {(we_Workspace e, v) | e v. ((e, v), True) \<in> set (zip h spiked) \<and> we_Symbol e = s \<and> u - ?W < v}"
    if "s \<noteq> ''''" "later u h" for s u using inv that by (simp add: filter_inv_def)
  define recent where "recent = recent_in sy_at ?W t (writers_of f (we_Symbol ev))"
  note st = classify_step [where f = f and ev = ev and t = t and tc = tc, folded recent_def]
  have peers: "sort (peer_set (we_Workspace ev) recent []) =
      sorted_list_of_set {we_Workspace e | e u. ((e, u), True) \<in> set (zip h spiked) \<and> we_Symbol e = we_Symbol ev \<and>
       we_Workspace e \<noteq> '''' \<and> we_Workspace e \<noteq> we_Workspace ev \<and> t - ?W < u}" if "we_Symbol ev \<noteq> ''''"
  proof -
    have "fst ` (?pair ` set recent) = fst ` {(we_Workspace e, v) | e v. ((e, v), True) \<in> set (zip h spiked) \<and>
        we_Symbol e = we_Symbol ev \<and> t - ?W < v}"
      unfolding recent_def by (simp only: I [OF that t])
    then have "sy_workspace ` set recent = {we_Workspace e | e v. ((e, v), True) \<in> set (zip h spiked) \<and>
        we_Symbol e = we_Symbol ev \<and> t - ?W < v}"
      by (simp add: image_image) (auto simp: image_def)
    moreover have "set (peer_set (we_Workspace ev) recent []) = sy_workspace ` set recent - {'''', we_Workspace ev}"
      using peer_set_props [of "[]" "we_Workspace ev" recent] by auto
    ultimately have "set (peer_set (we_Workspace ev) recent []) = {we_Workspace e | e u. ((e, u), True) \<in> set (zip h spiked) \<and>
       we_Symbol e = we_Symbol ev \<and> we_Workspace e \<noteq> '''' \<and> we_Workspace e \<noteq> we_Workspace ev \<and> t - ?W < u}"
      by auto
    moreover have "distinct (peer_set (we_Workspace ev) recent [])"
      using peer_set_props [of "[]" "we_Workspace ev" recent] by simp
    ultimately show ?thesis by (simp only: sort_distinct_set)
  qed
  show "warned (snd (classify tc ev t f)) =
      (if snd (classify tc ev t f) \<noteq> None \<and> we_Symbol ev \<noteq> ''''
       then spec_peers ?W (sf_maxConflictPeers f) ev t (zip h spiked) else [])"
    using st(1,2) peers by (simp add: spec_peers_def)
  show "filter_inv (fst (classify tc ev t f)) ((ev, t) # h) ((snd (classify tc ev t f) \<noteq> None) # spiked)"
    unfolding filter_inv_def st(4)
  proof (intro allI impI)
    fix s :: string and u
    assume "s \<noteq> '''' \<and> later u ((ev, t) # h)"
    then have u: "s \<noteq> ''''" "t \<le> u" "later u h" by simp_all
    have "?pair ` set (recent_in sy_at ?W u (writers_of (fst (classify tc ev t f)) s)) =
      ?pair ` set (recent_in sy_at ?W u (writers_of f s)) \<union>
      (if snd (classify tc ev t f) \<noteq> None \<and> s = we_Symbol ev \<and> u - ?W < t then {(we_Workspace ev, t)} else {})"
      unfolding st(3) recent_def recent_in_mono [OF u(2)] st(1) [symmetric] using u(1) by simp
    then show "?pair ` set (recent_in sy_at ?W u (writers_of (fst (classify tc ev t f)) s)) =
      {(we_Workspace e, v) | e v. ((e, v), True) \<in> set (zip ((ev, t) # h) ((snd (classify tc ev t f) \<noteq> None) # spiked)) \<and>
        we_Symbol e = s \<and> u - ?W < v}"
      unfolding I [OF u(1,3)] by auto
  qed
qed

lemma filter_run_refines:
  assumes "sf_writers f = []" "chronological h"
  shows "let outs = snd (filter_run tc f h); sp = map (\<lambda>out. out \<noteq> None) outs; g = fst (filter_run tc f h) in
    map warned outs = spec_warnings (sf_conflictWindow f) (sf_maxConflictPeers f) (zip h sp) \<and>
    filter_inv g h sp \<and> sf_conflictWindow g = sf_conflictWindow f \<and> sf_maxConflictPeers g = sf_maxConflictPeers f \<and>
    length outs = length h"
  using assms(2)
proof (induction h)
  case Nil
  show ?case using assms(1) by (simp add: filter_inv_def writers_of_def recent_in_def)
next
  case (Cons x h)
  obtain ev t where x: "x = (ev, t)" by (cases x)
  define g outs where "g = fst (filter_run tc f h)" and "outs = snd (filter_run tc f h)"
  have IH: "map warned outs = spec_warnings (sf_conflictWindow f) (sf_maxConflictPeers f) (zip h (map (\<lambda>out. out \<noteq> None) outs))"
    "filter_inv g h (map (\<lambda>out. out \<noteq> None) outs)" "sf_conflictWindow g = sf_conflictWindow f"
    "sf_maxConflictPeers g = sf_maxConflictPeers f" "length outs = length h" and t: "later t h"
    using Cons by (simp_all add: x Let_def g_def outs_def)
  have run: "filter_run tc f (x # h) = (fst (classify tc ev t g), snd (classify tc ev t g) # outs)"
    by (simp add: x case_prod_beta Let_def flip: g_def outs_def)
  show ?case
    unfolding run Let_def
    using IH filter_inv_step [OF IH(2) t, of tc ev] classify_step(4,5) [of tc ev t g] by (simp add: x)
qed

text \<open>
  C25. For every chronological history of writes, a conflict warning of a fresh filter names exactly
  the other workspaces for which a semantic spike on the same symbol was emitted inside the conflict
  window, in ascending order and cut at the configured number of peers; without such a workspace, or
  without a symbol, there is no warning.
\<close>

theorem filter_refines_spec:
  assumes "sf_writers f = []" "chronological h"
  shows "map warned (snd (filter_run tc f h)) =
    spec_warnings (sf_conflictWindow f) (sf_maxConflictPeers f) (zip h (map (\<lambda>out. out \<noteq> None) (snd (filter_run tc f h))))"
  using filter_run_refines [OF assms] by (simp add: Let_def)


section \<open>Hot paths and fan-out\<close>

lemma path_order_props:
  "distinct order \<Longrightarrow> distinct (path_order order ss) \<and>
   set (path_order order ss) = set order \<union> (ws_path ` set ss - {''''})"
  by (induction order ss rule: path_order.induct) auto

lemma topPaths_props:
  "distinct (fst (topPaths ss limit))" "set (fst (topPaths ss limit)) \<subseteq> ws_path ` set ss - {''''}"
  "0 < limit \<Longrightarrow> int (length (fst (topPaths ss limit))) \<le> limit"
  "snd (topPaths ss limit) = card (ws_path ` set ss - {''''})"
proof -
  have d: "distinct (path_order [] ss)" and s: "set (path_order [] ss) = ws_path ` set ss - {''''}"
    using path_order_props [of "[]" ss] by simp_all
  show "distinct (fst (topPaths ss limit))" using d by (simp add: topPaths_def Let_def)
  show "set (fst (topPaths ss limit)) \<subseteq> ws_path ` set ss - {''''}"
    using set_take_subset [of "nat limit" "sort_key (\<lambda>p. (- int (path_count ss p), p)) (path_order [] ss)"]
    unfolding topPaths_def Let_def by (simp add: s)
  show "0 < limit \<Longrightarrow> int (length (fst (topPaths ss limit))) \<le> limit" by (simp add: topPaths_def Let_def)
  show "snd (topPaths ss limit) = card (ws_path ` set ss - {''''})"
    using distinct_card [OF d] s by (simp add: topPaths_def Let_def)
qed

text \<open>The fan-out runs every sink whatever the others return, and reports the first error.\<close>

lemma ObserveWrite_fanout_all:
  "fst (ObserveWrite_fanout ks ev err s) = foldl (\<lambda>s k. fst (k ev s)) s ks"
  by (induction ks arbitrary: err s) (simp_all add: case_prod_beta)

lemma ObserveWrite_fanout_error:
  "snd (ObserveWrite_fanout (k # ks) ev None s) =
     (case snd (k ev s) of Some e \<Rightarrow> Some e | None \<Rightarrow> snd (ObserveWrite_fanout ks ev None (fst (k ev s))))"
proof -
  have keep: "snd (ObserveWrite_fanout ks ev (Some e) s') = Some e" for e s'
    by (induction ks arbitrary: s') (simp_all add: case_prod_beta)
  show ?thesis by (auto simp: case_prod_beta keep split: option.split)
qed

section \<open>Concrete histories\<close>

definition w_write :: "string \<Rightarrow> string \<Rightarrow> string \<Rightarrow> gotime \<Rightarrow> write_event \<times> gotime" where
  "w_write ws path sig t = (\<lparr>we_Path = path, we_Workspace = ws, we_Language = ''go'', we_At = t, we_Symbol = ''pkg.F'',
     we_NodePath = '''', we_SignatureHash = sig, we_ChangeKind = ''''\<rparr>, t)"

definition w_history :: history where
  "w_history = [w_write ''a'' ''x.go'' ''h3'' 1900000000, w_write ''b'' ''x.go'' ''h3'' 1600000000,
     w_write ''b'' ''y.go'' ''h2'' 1500000000, w_write ''a'' ''x.go'' ''h1'' 1000000000]"

definition w_plain_codec :: time_codec where
  "w_plain_codec = \<lparr>tc_format = (\<lambda>_. ''t''), tc_parse = (\<lambda>_. None)\<rparr>"

definition w_no_redaction :: redaction_config where
  "w_no_redaction = \<lparr>rc_Enabled = False, rc_RequestIDMode = '''', rc_AnomalyNotesMode = '''', rc_RequestIDSalt = ''''\<rparr>"

definition w_spike_monitor :: spike_monitor where
  "w_spike_monitor = NewASTWriteSpikeMonitor \<lparr>sp_preferEBPF = False, sp_checkEBPF = (False, '''')\<rparr> 1000 2 0 0 w_no_redaction"

definition w_spike_filter :: spike_filter where
  "w_spike_filter = NewASTSpikeFilter \<lparr>sp_preferEBPF = False, sp_checkEBPF = (False, '''')\<rparr> SpikeThresholdAny 0 0 0 None w_no_redaction"

text \<open>Four writes with threshold two: the second write of each workspace inside a second fires.\<close>

theorem monitor_refines_spec_witness:
  "spec_spikes (wm_window w_spike_monitor) (wm_threshold w_spike_monitor) (wm_debounce w_spike_monitor) w_history =
     map (map_option as_ObservedWrites) (snd (monitor_run w_plain_codec w_spike_monitor w_history)) \<and>
   map (map_option as_ObservedWrites) (snd (monitor_run w_plain_codec w_spike_monitor w_history)) = [Some 2, Some 2, None, None]"
proof
  have "wm_windows w_spike_monitor = []" "monitor_ok w_spike_monitor" "chronological w_history" by code_simp+
  then show "spec_spikes (wm_window w_spike_monitor) (wm_threshold w_spike_monitor) (wm_debounce w_spike_monitor) w_history =
     map (map_option as_ObservedWrites) (snd (monitor_run w_plain_codec w_spike_monitor w_history))"
    by (rule monitor_refines_spec [symmetric])
qed code_simp

text \<open>Workspace b changes the symbol half a second after workspace a, then a touches it again.\<close>

theorem filter_refines_spec_witness:
  "spec_warnings (sf_conflictWindow w_spike_filter) (sf_maxConflictPeers w_spike_filter)
     (zip w_history (map (\<lambda>out. out \<noteq> None) (snd (filter_run w_plain_codec w_spike_filter w_history)))) =
   map warned (snd (filter_run w_plain_codec w_spike_filter w_history)) \<and>
   map warned (snd (filter_run w_plain_codec w_spike_filter w_history)) = [[''b''], [''a''], [''a''], []]"
proof
  have "sf_writers w_spike_filter = []" "chronological w_history" by code_simp+
  then show "spec_warnings (sf_conflictWindow w_spike_filter) (sf_maxConflictPeers w_spike_filter)
     (zip w_history (map (\<lambda>out. out \<noteq> None) (snd (filter_run w_plain_codec w_spike_filter w_history)))) =
   map warned (snd (filter_run w_plain_codec w_spike_filter w_history))"
    by (rule filter_refines_spec [symmetric])
qed code_simp

end
