(* ===== verification/PathMatch.thy ===== *)
theory PathMatch
  imports Go_Prelude
begin

text \<open>
  The glob matcher \<open>path.Match\<close> of Go, on bytes: \<open>None\<close> is \<open>ErrBadPattern\<close>. A pattern is cut into chunks
  at its stars; each chunk is matched literally, with \<open>?\<close>, character classes and escapes, and is
  checked to the end even after a mismatch. Shown: whether a pattern is malformed does not depend
  on the name it is matched against, so a pattern probed once never fails later.
\<close>

definition getEsc :: "string \<Rightarrow> (char \<times> string) option" where
  "getEsc chunk = (case chunk of
      [] \<Rightarrow> None
    | c # cs \<Rightarrow>
        if c = CHR ''-'' \<or> c = CHR '']'' then None
        else case (if c = CHR 0x5C then cs else chunk) of
          [] \<Rightarrow> None
        | r # rest \<Rightarrow> if rest = [] then None else Some (r, rest))"

lemma getEsc_length: "getEsc chunk = Some (r, rest) \<Longrightarrow> length rest < length chunk"
  by (auto simp: getEsc_def split: list.splits if_splits)

lemma getEsc_nonempty: "getEsc chunk = Some (r, rest) \<Longrightarrow> rest \<noteq> []"
  by (auto simp: getEsc_def split: list.splits if_splits)

lemma getEsc_twice:
  assumes "getEsc chunk = Some (lo, rest)" "getEsc (tl rest) = Some (hi, rest')"
  shows "length rest' < length chunk"
  using getEsc_length [OF assms(1)] getEsc_length [OF assms(2)] by simp

text \<open>The ranges of a character class after its opening bracket and negation.\<close>

function class_ranges :: "char \<Rightarrow> string \<Rightarrow> nat \<Rightarrow> bool \<Rightarrow> (bool \<times> string) option" where
  "class_ranges r chunk nrange matched =
     (if chunk \<noteq> [] \<and> hd chunk = CHR '']'' \<and> 0 < nrange then Some (matched, tl chunk)
      else case getEsc chunk of
        None \<Rightarrow> None
      | Some (lo, rest) \<Rightarrow>
          if hd rest = CHR ''-''
          then (case getEsc (tl rest) of
                  None \<Rightarrow> None
                | Some (hi, rest') \<Rightarrow> class_ranges r rest' (Suc nrange) (matched \<or> (lo \<le> r \<and> r \<le> hi)))
          else class_ranges r rest (Suc nrange) (matched \<or> lo = r))"
  by pat_completeness auto

termination
  by (relation "measure (\<lambda>(r, chunk, n, m). length chunk)") (auto dest: getEsc_length getEsc_twice)

declare class_ranges.simps [simp del]

lemma class_ranges_length:
  "class_ranges r chunk n m = Some (b, rest) \<Longrightarrow> length rest < length chunk"
proof (induction r chunk n m arbitrary: b rest rule: class_ranges.induct)
  case (1 r chunk n m)
  show ?case
  proof (cases "chunk \<noteq> [] \<and> hd chunk = CHR '']'' \<and> 0 < n")
    case True
    then show ?thesis using "1.prems" by (subst (asm) class_ranges.simps) auto
  next
    case False
    then obtain lo rest1 where g: "getEsc chunk = Some (lo, rest1)"
      using "1.prems" by (subst (asm) class_ranges.simps) (auto split: option.splits)
    show ?thesis
    proof (cases "hd rest1 = CHR ''-''")
      case True
      then obtain hi rest2 where h: "getEsc (tl rest1) = Some (hi, rest2)"
        using "1.prems" False g by (subst (asm) class_ranges.simps) (auto split: option.splits)
      have "class_ranges r rest2 (Suc n) (m \<or> (lo \<le> r \<and> r \<le> hi)) = Some (b, rest)"
        using "1.prems" False g h True by (subst (asm) class_ranges.simps) simp
      then have "length rest < length rest2" using "1.IH"(1) [OF False g refl True h refl] by blast
      then show ?thesis using getEsc_length [OF g] getEsc_length [OF h] by simp
    next
      case nodash: False
      have "class_ranges r rest1 (Suc n) (m \<or> lo = r) = Some (b, rest)"
        using "1.prems" False g nodash by (subst (asm) class_ranges.simps) simp
      then have "length rest < length rest1" using "1.IH"(2) [OF False g refl nodash] by blast
      then show ?thesis using getEsc_length [OF g] by simp
    qed
  qed
qed

text \<open>One chunk against the front of a string: \<open>Some (Some rest)\<close> on a match, \<open>Some None\<close> on a mismatch.\<close>

function match_chunk :: "bool \<Rightarrow> string \<Rightarrow> string \<Rightarrow> string option option" where
  "match_chunk failed [] s = Some (if failed then None else Some s)"
| "match_chunk failed (c # cs) s =
     (let f = (failed \<or> s = []);
          s' = (if f then s else tl s) in
      if c = CHR ''['' then
        (let neg = (cs \<noteq> [] \<and> hd cs = CHR ''^'');
             cs' = (if neg then tl cs else cs)
         in case class_ranges (if f then CHR 0x00 else hd s) cs' 0 False of
              None \<Rightarrow> None
            | Some (m, rest) \<Rightarrow> match_chunk (f \<or> m = neg) rest s')
      else if c = CHR ''?'' then match_chunk (f \<or> hd s = CHR ''/'') cs s'
      else if c = CHR 0x5C then
        (if cs = [] then None else match_chunk (f \<or> hd cs \<noteq> hd s) (tl cs) s')
      else match_chunk (f \<or> c \<noteq> hd s) cs s')"
  by pat_completeness auto

termination
proof (relation "measure (\<lambda>(failed, chunk, s). length chunk)", goal_cases)
  case (2 failed c cs s f s' neg cs' x m rest)
  then have "length rest < length cs'" using class_ranges_length by metis
  then show ?case using 2 by (auto split: if_splits)
qed auto

declare match_chunk.simps(2) [simp del]

text \<open>A chunk up to the next star outside a class, after dropping leading stars.\<close>

fun scan_rest :: "bool \<Rightarrow> string \<Rightarrow> string \<times> string" where
  "scan_rest inrange [] = ([], [])"
| "scan_rest inrange (c # cs) =
     (if c = CHR 0x5C then
        (case cs of
           [] \<Rightarrow> ([c], [])
         | d # ds \<Rightarrow> (let (a, b) = scan_rest inrange ds in (c # d # a, b)))
      else if c = CHR ''*'' \<and> \<not> inrange then ([], c # cs)
      else (let (a, b) = scan_rest (if c = CHR ''['' then True else if c = CHR '']'' then False else inrange) cs
            in (c # a, b)))"

definition scan_chunk :: "string \<Rightarrow> bool \<times> string \<times> string" where
  "scan_chunk p = (let q = dropWhile (\<lambda>c. c = CHR ''*'') p in (q \<noteq> p, scan_rest False q))"

lemma scan_rest_append: "fst (scan_rest i p) @ snd (scan_rest i p) = p"
  by (induction i p rule: scan_rest.induct) (auto simp: case_prod_beta split: list.split)

lemma scan_rest_fst_Nil: "fst (scan_rest False p) = [] \<Longrightarrow> p \<noteq> [] \<Longrightarrow> hd p = CHR ''*''"
  by (cases p) (auto simp: case_prod_beta split: list.splits if_splits)

lemma scan_chunk_shorter:
  assumes "p \<noteq> []" "scan_chunk p = (star, chunk, rest)"
  shows "length rest < length p"
proof -
  define q where "q = dropWhile (\<lambda>c. c = CHR ''*'') p"
  have s: "star = (q \<noteq> p)" "chunk @ rest = q"
    using assms(2) scan_rest_append [of False q] by (auto simp: scan_chunk_def Let_def q_def)
  have q: "length q \<le> length p" by (simp add: q_def length_dropWhile_le)
  show ?thesis
  proof (cases "q = p")
    case True
    then have "hd p \<noteq> CHR ''*''" using assms(1) hd_dropWhile [of "\<lambda>c. c = CHR ''*''" p] by (auto simp: q_def)
    then have "chunk \<noteq> []" using scan_rest_fst_Nil [of p] assms True by (auto simp: scan_chunk_def Let_def q_def)
    then show ?thesis using s True by (cases chunk) auto
  next
    case False
    then have "length q < length p"
      using q takeWhile_dropWhile_id [of "\<lambda>c. c = CHR ''*''" p] unfolding q_def
      by (metis append_Nil length_append length_greater_0_conv less_add_same_cancel2 )
    then show ?thesis using arg_cong [OF s(2), of length] by simp
  qed
qed

text \<open>Trying a chunk after skipping one or more bytes, none of them a slash.\<close>

fun star_skip :: "string \<Rightarrow> bool \<Rightarrow> string \<Rightarrow> string option option" where
  "star_skip chunk is_last [] = Some None"
| "star_skip chunk is_last (c # cs) =
     (if c = CHR ''/'' then Some None
      else case match_chunk False chunk cs of
        None \<Rightarrow> None
      | Some (Some t) \<Rightarrow> if is_last \<and> t \<noteq> [] then star_skip chunk is_last cs else Some (Some t)
      | Some None \<Rightarrow> star_skip chunk is_last cs)"

function validate_rest :: "string \<Rightarrow> bool option" where
  "validate_rest p =
     (if p = [] then Some False
      else case scan_chunk p of (star, chunk, rest) \<Rightarrow>
        (case match_chunk False chunk '''' of None \<Rightarrow> None | Some _ \<Rightarrow> validate_rest rest))"
  by pat_completeness auto

termination by (relation "measure length") (auto intro: scan_chunk_shorter [OF _ sym])

declare validate_rest.simps [simp del]

function path_Match :: "string \<Rightarrow> string \<Rightarrow> bool option" where
  "path_Match p name =
     (if p = [] then Some (name = [])
      else case scan_chunk p of (star, chunk, rest) \<Rightarrow>
        if star \<and> chunk = [] then Some (CHR ''/'' \<notin> set name)
        else case match_chunk False chunk name of
          None \<Rightarrow> None
        | Some r \<Rightarrow>
            if r \<noteq> None \<and> (the r = [] \<or> rest \<noteq> []) then path_Match rest (the r)
            else if star then
              (case star_skip chunk (rest = []) name of
                 None \<Rightarrow> None
               | Some None \<Rightarrow> validate_rest rest
               | Some (Some t) \<Rightarrow> path_Match rest t)
            else validate_rest rest)"
  by pat_completeness auto

termination by (relation "measure (length \<circ> fst)") (auto intro: scan_chunk_shorter [OF _ sym])

declare path_Match.simps [simp del]

section \<open>Malformed patterns\<close>

lemma class_ranges_rest:
  "map_option snd (class_ranges r chunk n m) = map_option snd (class_ranges r' chunk n m')"
proof (induction r chunk n m arbitrary: m' rule: class_ranges.induct)
  case (1 r chunk n m)
  show ?case
  proof (cases "chunk \<noteq> [] \<and> hd chunk = CHR '']'' \<and> 0 < n")
    case True
    then show ?thesis by (auto simp: class_ranges.simps [of _ chunk])
  next
    case F: False
    show ?thesis
    proof (cases "getEsc chunk")
      case None
      with F show ?thesis by (auto simp: class_ranges.simps [of _ chunk])
    next
      case (Some x)
      obtain lo rest where x: "x = (lo, rest)" by (cases x)
      show ?thesis
      proof (cases "hd rest = CHR ''-''")
        case dash: True
        show ?thesis
        proof (cases "getEsc (tl rest)")
          case None
          with F Some x dash show ?thesis by (auto simp: class_ranges.simps [of _ chunk])
        next
          case h: (Some y)
          obtain hi rest' where y: "y = (hi, rest')" by (cases y)
          from "1.IH"(1) [OF F Some x [symmetric] dash h y [symmetric]] F Some x dash h y show ?thesis
            by (auto simp: class_ranges.simps [of _ chunk])
        qed
      next
        case dash: False
        from "1.IH"(2) [OF F Some x [symmetric] dash] F Some x dash show ?thesis
          by (auto simp: class_ranges.simps [of _ chunk])
      qed
    qed
  qed
qed

definition bad_chunk :: "string \<Rightarrow> bool" where
  "bad_chunk chunk \<longleftrightarrow> match_chunk True chunk [] = None"

lemma match_chunk_bad: "match_chunk failed chunk s = None \<longleftrightarrow> bad_chunk chunk"
proof (induction failed chunk s rule: match_chunk.induct)
  case (1 failed s)
  show ?case by (simp add: bad_chunk_def)
next
  case (2 failed c cs s)
  define f s' where "f = (failed \<or> s = [])" and "s' = (if f then s else tl s)"
  consider (cls) "c = CHR ''[''" | (any) "c = CHR ''?''" | (esc) "c = CHR 0x5C"
    | (lit) "c \<noteq> CHR ''[''" "c \<noteq> CHR ''?''" "c \<noteq> CHR 0x5C" by blast
  then show ?case
  proof cases
    case cls
    define neg cs' where "neg = (cs \<noteq> [] \<and> hd cs = CHR ''^'')" and "cs' = (if neg then tl cs else cs)"
    define r where "r = (if f then CHR 0x00 else hd s)"
    have m: "match_chunk failed (c # cs) s = (case class_ranges r cs' 0 False of None \<Rightarrow> None
        | Some (m, rest) \<Rightarrow> match_chunk (f \<or> m = neg) rest s')"
      unfolding match_chunk.simps(2) Let_def f_def s'_def neg_def cs'_def r_def by (simp only: cls simp_thms if_True)
    have b: "match_chunk True (c # cs) [] = (case class_ranges (CHR 0x00) cs' 0 False of None \<Rightarrow> None
        | Some (m, rest) \<Rightarrow> match_chunk True rest [])"
      using cls by (simp add: match_chunk.simps(2) Let_def neg_def cs'_def split: option.split)
    have e: "map_option snd (class_ranges r cs' 0 False) = map_option snd (class_ranges (CHR 0x00) cs' 0 False)"
      by (rule class_ranges_rest)
    show ?thesis
    proof (cases "class_ranges r cs' 0 False")
      case None
      with e m b show ?thesis by (simp add: bad_chunk_def)
    next
      case (Some x)
      obtain m' rest where x: "x = (m', rest)" by (cases x)
      have "map_option snd (class_ranges (CHR 0x00) cs' 0 False) = Some rest"
        unfolding e [symmetric] Some x by simp
      then obtain m0 where z: "class_ranges (CHR 0x00) cs' 0 False = Some (m0, rest)" by fastforce
      have "match_chunk (f \<or> m' = neg) rest s' = None \<longleftrightarrow> bad_chunk rest"
        by (rule "2.IH"(1) [OF f_def s'_def cls neg_def cs'_def Some [unfolded r_def] x [symmetric]])
      with m b Some x z show ?thesis by (simp add: bad_chunk_def)
    qed
  next
    case any
    have "match_chunk failed (c # cs) s = match_chunk (f \<or> hd s = CHR ''/'') cs s'"
      unfolding match_chunk.simps(2) Let_def f_def s'_def using any by simp
    moreover have "match_chunk True (c # cs) [] = match_chunk True cs []"
      using any by (simp add: match_chunk.simps(2))
    moreover have "match_chunk (f \<or> hd s = CHR ''/'') cs s' = None \<longleftrightarrow> bad_chunk cs"
      by (rule "2.IH"(2) [OF f_def s'_def]) (use any in simp_all)
    ultimately show ?thesis by (simp only: bad_chunk_def)
  next
    case esc
    show ?thesis
    proof (cases "cs = []")
      case True
      with esc show ?thesis by (simp add: match_chunk.simps(2) bad_chunk_def)
    next
      case False
      have "match_chunk failed (c # cs) s = match_chunk (f \<or> hd cs \<noteq> hd s) (tl cs) s'"
        unfolding match_chunk.simps(2) Let_def f_def s'_def using esc False by simp
      moreover have "match_chunk True (c # cs) [] = match_chunk True (tl cs) []"
        using esc False by (simp add: match_chunk.simps(2))
      moreover have "match_chunk (f \<or> hd cs \<noteq> hd s) (tl cs) s' = None \<longleftrightarrow> bad_chunk (tl cs)"
        by (rule "2.IH"(3) [OF f_def s'_def]) (use esc False in simp_all)
      ultimately show ?thesis by (simp only: bad_chunk_def)
    qed
  next
    case lit
    have "match_chunk failed (c # cs) s = match_chunk (f \<or> c \<noteq> hd s) cs s'"
      unfolding match_chunk.simps(2) Let_def f_def s'_def using lit by simp
    moreover have "match_chunk True (c # cs) [] = match_chunk True cs []"
      using lit by (simp add: match_chunk.simps(2))
    moreover have "match_chunk (f \<or> c \<noteq> hd s) cs s' = None \<longleftrightarrow> bad_chunk cs"
      by (rule "2.IH"(4) [OF f_def s'_def]) (use lit in simp_all)
    ultimately show ?thesis by (simp only: bad_chunk_def)
  qed
qed

lemma star_skip_bad: "\<not> bad_chunk chunk \<Longrightarrow> star_skip chunk l s \<noteq> None"
  by (induction chunk l s rule: star_skip.induct)
    (auto simp: match_chunk_bad split: option.splits)

function bad_pattern :: "string \<Rightarrow> bool" where
  "bad_pattern p \<longleftrightarrow> (if p = [] then False else case scan_chunk p of (star, chunk, rest) \<Rightarrow> bad_chunk chunk \<or> bad_pattern rest)"
  by pat_completeness auto

termination by (relation "measure length") (auto intro: scan_chunk_shorter [OF _ sym])

declare bad_pattern.simps [simp del]

lemma validate_rest_bad: "validate_rest p = None \<longleftrightarrow> bad_pattern p"
proof (induction p rule: validate_rest.induct)
  case (1 p)
  show ?case
  proof (cases "p = []")
    case True
    then show ?thesis by (simp add: validate_rest.simps bad_pattern.simps)
  next
    case False
    obtain star chunk rest where s: "scan_chunk p = (star, chunk, rest)" by (cases "scan_chunk p")
    show ?thesis
    proof (cases "match_chunk False chunk ''''")
      case None
      then show ?thesis using False s match_chunk_bad [of False chunk "''''"]
        by (simp add: validate_rest.simps [of p] bad_pattern.simps [of p])
    next
      case (Some r)
      then show ?thesis using False s match_chunk_bad [of False chunk "''''"] "1.IH" [OF False s [symmetric] refl Some]
        by (simp add: validate_rest.simps [of p] bad_pattern.simps [of p])
    qed
  qed
qed

lemma scan_chunk_star_end:
  assumes "scan_chunk p = (star, [], rest)" "star"
  shows "rest = []"
proof -
  define q where "q = dropWhile (\<lambda>c. c = CHR ''*'') p"
  have s: "scan_rest False q = ([], rest)" using assms by (simp add: scan_chunk_def q_def Let_def)
  show ?thesis
  proof (cases "q = []")
    case True
    then show ?thesis using s by simp
  next
    case False
    then have "hd q \<noteq> CHR ''*''" using hd_dropWhile [of "\<lambda>c. c = CHR ''*''" p] by (simp add: q_def)
    then show ?thesis using scan_rest_fst_Nil [of q] s False by simp
  qed
qed

text \<open>A pattern is refused for one name exactly when it is refused for every name.\<close>

lemma path_Match_bad: "path_Match p name = None \<longleftrightarrow> bad_pattern p"
proof (induction p name rule: path_Match.induct)
  case (1 p name)
  show ?case
  proof (cases "p = []")
    case True
    then show ?thesis by (simp add: path_Match.simps bad_pattern.simps)
  next
    case ne: False
    obtain star chunk rest where s: "scan_chunk p = (star, chunk, rest)" by (cases "scan_chunk p")
    note unf = path_Match.simps [of p name] bad_pattern.simps [of p]
    show ?thesis
    proof (cases "star \<and> chunk = []")
      case True
      then have "rest = []" using scan_chunk_star_end s by blast
      then show ?thesis using ne s True unf by (simp add: bad_chunk_def bad_pattern.simps [of "[]"])
    next
      case st: False
      show ?thesis
      proof (cases "match_chunk False chunk name")
        case None
        then show ?thesis using ne s st unf match_chunk_bad [of False chunk name] by auto
      next
        case (Some r)
        then have ok: "\<not> bad_chunk chunk" using match_chunk_bad [of False chunk name] by auto
        show ?thesis
        proof (cases "r \<noteq> None \<and> (the r = [] \<or> rest \<noteq> [])")
          case True
          then show ?thesis using ne s st Some ok unf "1.IH"(1) [OF ne s [symmetric] refl st Some True] by auto
        next
          case r: False
          show ?thesis
          proof (cases star)
            case False
            then show ?thesis using ne s st Some ok unf r validate_rest_bad [of rest] by auto
          next
            case star: True
            obtain q where q: "star_skip chunk (rest = []) name = Some q" using star_skip_bad [OF ok] by blast
            show ?thesis
            proof (cases q)
              case None
              then show ?thesis using ne s st Some ok unf r star q validate_rest_bad [of rest] by auto
            next
              case t: (Some t)
              then show ?thesis
                using ne s st Some ok unf r star q "1.IH"(2) [OF ne s [symmetric] refl st Some r star q t] by auto
            qed
          qed
        qed
      qed
    qed
  qed
qed

corollary path_Match_valid: "path_Match p name \<noteq> None \<Longrightarrow> path_Match p other \<noteq> None"
  by (simp add: path_Match_bad)

end
