(* ===== verification/SpikeSubscriptions.thy ===== *)
theory SpikeSubscriptions
  imports AstSpikes PathMatch
begin

text \<open>
  Streams addressed as resources: the spike subscriptions of
  \<open>internal/dispatch/spike_subscriptions.go\<close> and the sparse agents of \<open>sparse_agents.go\<close>.

  Both registries implement one contract, the locale \<open>resource_store\<close>: what is stored is found under
  its address and listed once. Shown for a created subscription: it is found under its own address,
  its glob can be matched against every path without an error, and its threshold and workspace scope
  are canonical. A payload is given as its decoded JSON value, \<open>None\<close> when it is empty or not JSON;
  a decoded field of another type is left at its zero value. The 16 random bytes of an identifier
  are an argument, \<open>None\<close> when the source of randomness fails.
\<close>

section \<open>Addressable stores\<close>

lemma distinct_singleton_list: "set xs = {r} \<Longrightarrow> distinct xs \<Longrightarrow> xs = [r]"
  by (cases xs; cases "tl xs") auto

locale resource_store =
  fixes get :: "'s \<Rightarrow> string \<Rightarrow> 'r option" and put :: "'r \<Rightarrow> 's \<Rightarrow> 's" and items :: "'s \<Rightarrow> 'r list"
    and inv :: "'s \<Rightarrow> bool" and rid :: "'r \<Rightarrow> string"
    and uri :: "string \<Rightarrow> string" and parse :: "string \<Rightarrow> string option" and good :: "string \<Rightarrow> bool"
  assumes get_put: "get (put r s) i = (if i = rid r then Some r else get s i)"
    and inv_put: "inv s \<Longrightarrow> inv (put r s)"
    and items_get: "inv s \<Longrightarrow> r \<in> set (items s) \<longleftrightarrow> get s (rid r) = Some r"
    and items_distinct: "inv s \<Longrightarrow> distinct (map rid (items s))"
    and parse_uri: "good i \<Longrightarrow> parse (uri i) = Some i"
begin

lemma put_resolves: "good (rid r) \<Longrightarrow> Option.bind (parse (uri (rid r))) (get (put r s)) = Some r"
  by (simp add: parse_uri get_put)

lemma put_listed_once:
  assumes "inv s"
  shows "filter (\<lambda>x. rid x = rid r) (items (put r s)) = [r]"
proof -
  have d: "distinct (map rid (items (put r s)))" by (rule items_distinct [OF inv_put [OF assms]])
  have r: "r \<in> set (items (put r s))" using items_get [OF inv_put [OF assms]] by (simp add: get_put)
  have "x = r" if "x \<in> set (items (put r s))" "rid x = rid r" for x
    using that r d by (auto simp: distinct_map inj_on_def)
  then have "set (filter (\<lambda>x. rid x = rid r) (items (put r s))) = {r}" using r by auto
  moreover have "distinct (filter (\<lambda>x. rid x = rid r) (items (put r s)))" using d by (simp add: distinct_map)
  ultimately show ?thesis by (intro distinct_singleton_list)
qed

lemma uri_inj: "good i \<Longrightarrow> good j \<Longrightarrow> uri i = uri j \<Longrightarrow> i = j"
  by (metis option.inject parse_uri)

end

text \<open>A parser that accepts only the addresses the store hands out.\<close>

locale strict_resource_store = resource_store +
  assumes parse_strict: "parse u = Some i \<Longrightarrow> u = uri i"
begin

lemma parse_inj: "parse u = Some i \<Longrightarrow> parse v = Some i \<Longrightarrow> u = v"
  by (metis parse_strict)

end

definition resource_id_ok :: "string \<Rightarrow> bool" where
  "resource_id_ok i \<longleftrightarrow> i \<noteq> '''' \<and> \<not> list_ex (\<lambda>c. c \<in> set ''/?#'') i"

section \<open>Spike subscriptions\<close>

definition SpikeResourcePrefix :: string where "SpikeResourcePrefix = ''cwso://spikes/''"

definition astSpikeTopics :: "string list" where
  "astSpikeTopics = [TopicASTSpike, TopicASTSemanticSpike, TopicASTConflictWarning]"

definition ASTSpikeTopics :: "string list" where
  "ASTSpikeTopics = astSpikeTopics"

record spike_subscription =
  sub_ID :: string
  sub_Path :: string
  sub_SemanticThreshold :: string
  sub_WorkspaceScope :: "string list"
  sub_CreatedAt :: gotime
  sub_thresholdRank :: int
  sub_scope :: "string list"

definition URI_sub :: "string \<Rightarrow> string" where
  "URI_sub i = SpikeResourcePrefix @ i"

definition ParseSpikeResourceID :: "string \<Rightarrow> string option" where
  "ParseSpikeResourceID uri =
     (if \<not> has_prefix uri SpikeResourcePrefix then None
      else let i = trim_prefix uri SpikeResourcePrefix in if resource_id_ok i then Some i else None)"

record spike_envelope =
  env_Workspace :: string
  env_Path :: string
  env_SpikeKind :: string
  env_HotPaths :: "string list"
  env_Workspaces :: "string list"

definition json_str :: "json option \<Rightarrow> string" where
  "json_str j = (case j of Some (JStr s) \<Rightarrow> s | _ \<Rightarrow> '''')"

definition json_strs :: "json option \<Rightarrow> string list" where
  "json_strs j = (case j of Some (JArr xs) \<Rightarrow> map (\<lambda>x. json_str (Some x)) xs | _ \<Rightarrow> [])"

definition decode_envelope :: "json option \<Rightarrow> spike_envelope" where
  "decode_envelope payload =
     (let field = (\<lambda>k. Option.bind payload (json_field k))
      in \<lparr>env_Workspace = json_str (field ''workspace''), env_Path = json_str (field ''path''),
          env_SpikeKind = json_str (field ''spike_kind''), env_HotPaths = json_strs (field ''hot_paths''),
          env_Workspaces = json_strs (field ''workspaces'')\<rparr>)"

definition isASTSpikeTopic :: "string \<Rightarrow> bool" where
  "isASTSpikeTopic topic = list_ex (\<lambda>t. t = topic) astSpikeTopics"

definition matchesThreshold :: "spike_subscription \<Rightarrow> string \<Rightarrow> string \<Rightarrow> bool" where
  "matchesThreshold s topic kind =
     ((if topic = TopicASTSpike then kind_rank SpikeKindCosmetic else kind_rank kind) \<ge> sub_thresholdRank s)"

definition matchesWorkspace :: "spike_subscription \<Rightarrow> spike_envelope \<Rightarrow> bool" where
  "matchesWorkspace s env =
     (if sub_scope s = [] then True
      else if env_Workspace env \<noteq> '''' \<and> env_Workspace env \<in> set (sub_scope s) then True
      else list_ex (\<lambda>ws. ws \<in> set (sub_scope s)) (env_Workspaces env))"

definition matchesPath :: "spike_subscription \<Rightarrow> string \<Rightarrow> spike_envelope \<Rightarrow> bool" where
  "matchesPath s topic env =
     (if sub_Path s = '''' then True
      else list_ex (\<lambda>c. c \<noteq> '''' \<and> path_Match (sub_Path s) c = Some True)
             (if topic = TopicASTSpike then env_HotPaths env else [env_Path env]))"

definition Allow_spike :: "spike_subscription option \<Rightarrow> string \<Rightarrow> json option \<Rightarrow> bool" where
  "Allow_spike sub topic payload = (case sub of
      None \<Rightarrow> False
    | Some s \<Rightarrow>
        let env = decode_envelope payload in
        if \<not> isASTSpikeTopic topic then False
        else if \<not> matchesThreshold s topic (env_SpikeKind env) then False
        else if \<not> matchesWorkspace s env then False
        else matchesPath s topic env)"

type_synonym spike_registry = "(string, spike_subscription) gomap"

definition NewSpikeSubscriptionRegistry :: spike_registry where
  "NewSpikeSubscriptionRegistry = []"

definition NormalizeSemanticThreshold :: "string \<Rightarrow> string + string" where
  "NormalizeSemanticThreshold threshold =
     (if threshold = '''' then Inr SpikeKindSignatureChange
      else if threshold \<in> set [SpikeKindSignatureChange, SpikeKindSymbolAdded, SpikeKindSymbolRemoved, SpikeThresholdAny]
        then Inr threshold
      else Inl (''invalid semantic_threshold '' @ go_quote threshold @
        '' (want signature_change|symbol_added|symbol_removed|any)''))"

fun clean_scope :: "string list \<Rightarrow> string list \<Rightarrow> string list" where
  "clean_scope [] acc = acc"
| "clean_scope (ws0 # rest) acc =
     (let ws = trim_space ws0
      in if ws = '''' \<or> ws \<in> set acc then clean_scope rest acc else clean_scope rest (acc @ [ws]))"

definition put_sub :: "spike_subscription \<Rightarrow> spike_registry \<Rightarrow> spike_registry" where
  "put_sub sub r = gm_set (sub_ID sub) sub r"

definition Create_sub ::
  "string \<Rightarrow> gotime \<Rightarrow> string \<Rightarrow> string \<Rightarrow> string list \<Rightarrow> spike_registry option \<Rightarrow>
   spike_registry option \<times> (string + spike_subscription)" where
  "Create_sub newID now p threshold0 workspaceScope reg = (case reg of
      None \<Rightarrow> (None, Inl ''spike subscriptions disabled'')
    | Some r \<Rightarrow> (case NormalizeSemanticThreshold threshold0 of
        Inl err \<Rightarrow> (reg, Inl err)
      | Inr threshold \<Rightarrow>
          if p \<noteq> '''' \<and> path_Match p ''probe'' = None
          then (reg, Inl (''invalid path glob '' @ go_quote p @ '': syntax error in pattern''))
          else
            let sub = \<lparr>sub_ID = newID, sub_Path = p, sub_SemanticThreshold = threshold,
                  sub_WorkspaceScope = clean_scope workspaceScope [], sub_CreatedAt = now,
                  sub_thresholdRank = thresholdRank threshold, sub_scope = clean_scope workspaceScope []\<rparr>
            in (Some (put_sub sub r), Inr sub)))"

definition Get_sub :: "spike_registry option \<Rightarrow> string \<Rightarrow> spike_subscription option" where
  "Get_sub reg i = (case reg of None \<Rightarrow> None | Some r \<Rightarrow> map_of r i)"

definition Remove_sub :: "string \<Rightarrow> spike_registry option \<Rightarrow> spike_registry option \<times> bool" where
  "Remove_sub i reg = (case reg of
      None \<Rightarrow> (None, False)
    | Some r \<Rightarrow> if map_of r i = None then (Some r, False) else (Some (gm_del i r), True))"

definition List_subs :: "spike_registry option \<Rightarrow> spike_subscription list" where
  "List_subs reg = (case reg of
      None \<Rightarrow> []
    | Some r \<Rightarrow> sort_key (\<lambda>s. (sub_CreatedAt s, sub_ID s)) (map snd r))"

definition hex_encode :: "8 word list \<Rightarrow> string" where
  "hex_encode bs = concat (map (\<lambda>b. [hex_digit (unat b div 16), hex_digit (unat b mod 16)]) bs)"

definition randomSubscriptionID :: "8 word list option \<Rightarrow> gotime \<Rightarrow> string" where
  "randomSubscriptionID bytes now = (case bytes of
      None \<Rightarrow> ''spk-'' @ show_int (unix_nano now)
    | Some bs \<Rightarrow> hex_encode bs)"

section \<open>Sparse agents\<close>

definition AgentResourcePrefix :: string where "AgentResourcePrefix = ''cwso://agents/''"
definition AgentTelemetrySuffix :: string where "AgentTelemetrySuffix = ''/telemetry''"
definition TopicAgentTelemetry :: string where "TopicAgentTelemetry = ''agents/telemetry''"
definition defaultAgentQuantization :: string where "defaultAgentQuantization = ''1.58-bit''"

record sparse_agent =
  sa_ID :: string
  sa_SkillDomain :: string
  sa_StreamURI :: string
  sa_CreatedAt :: gotime
  sa_TargetASTNode :: string

type_synonym agent_registry = "(string, sparse_agent) gomap"

definition AgentTelemetryURI :: "string \<Rightarrow> string" where
  "AgentTelemetryURI agentID = AgentResourcePrefix @ agentID @ AgentTelemetrySuffix"

definition ParseAgentTelemetryResourceID :: "string \<Rightarrow> string option" where
  "ParseAgentTelemetryResourceID uri =
     (if \<not> has_prefix uri AgentResourcePrefix \<or> \<not> has_suffix uri AgentTelemetrySuffix then None
      else let inner = trim_suffix (trim_prefix uri AgentResourcePrefix) AgentTelemetrySuffix
           in if resource_id_ok inner then Some inner else None)"

definition Allow_agent :: "string option \<Rightarrow> string \<Rightarrow> json option \<Rightarrow> bool" where
  "Allow_agent agentFilter topic payload = (case agentFilter of
      None \<Rightarrow> False
    | Some agentID \<Rightarrow>
        if topic \<noteq> TopicAgentTelemetry then False
        else json_str (Option.bind payload (json_field ''wasm_agent_id'')) = agentID)"

definition put_agent :: "sparse_agent \<Rightarrow> agent_registry \<Rightarrow> agent_registry" where
  "put_agent a r = gm_set (sa_ID a) a r"

definition Register_agent ::
  "gotime \<Rightarrow> string \<Rightarrow> string \<Rightarrow> string \<Rightarrow> agent_registry option \<Rightarrow> agent_registry option \<times> sparse_agent option" where
  "Register_agent now i skillDomain targetASTNode reg = (case reg of
      None \<Rightarrow> (None, None)
    | Some r \<Rightarrow>
        let a = \<lparr>sa_ID = i, sa_SkillDomain = skillDomain, sa_StreamURI = AgentTelemetryURI i, sa_CreatedAt = now,
                 sa_TargetASTNode = targetASTNode\<rparr>
        in (Some (put_agent a r), Some a))"

definition Get_agent :: "agent_registry option \<Rightarrow> string \<Rightarrow> sparse_agent option" where
  "Get_agent reg i = (case reg of None \<Rightarrow> None | Some r \<Rightarrow> map_of r i)"

definition List_agents :: "agent_registry option \<Rightarrow> sparse_agent list" where
  "List_agents reg = (case reg of
      None \<Rightarrow> []
    | Some r \<Rightarrow> sort_key (\<lambda>a. (sa_CreatedAt a, sa_ID a)) (map snd r))"

definition NormalizeQuantization :: "string \<Rightarrow> string + string" where
  "NormalizeQuantization q0 =
     (let q = trim_space q0
      in if q = '''' then Inr defaultAgentQuantization
         else if q \<in> set [''1.58-bit'', ''int4'', ''int8''] then
           (if q \<noteq> defaultAgentQuantization
            then Inl (''unsupported quantization '' @ go_quote q @ '' (only 1.58-bit is implemented)'')
            else Inr q)
         else Inl (''unsupported quantization '' @ go_quote q))"

section \<open>The registries as stores\<close>

definition keyed :: "('r \<Rightarrow> string) \<Rightarrow> (string, 'r) gomap \<Rightarrow> bool" where
  "keyed rid m \<longleftrightarrow> gm_wf m \<and> (\<forall>i r. map_of m i = Some r \<longrightarrow> i = rid r)"

lemma keyed_set: "keyed rid m \<Longrightarrow> keyed rid (gm_set (rid r) r m)"
  by (simp add: keyed_def)

lemma keyed_values:
  assumes "keyed rid m"
  shows "r \<in> snd ` set m \<longleftrightarrow> map_of m (rid r) = Some r" and "distinct (map rid (map snd m))"
proof -
  have wf: "gm_wf m" and k: "\<And>i r. map_of m i = Some r \<Longrightarrow> i = rid r" using assms by (simp_all add: keyed_def)
  have mem: "(i, r) \<in> set m \<longleftrightarrow> map_of m i = Some r" for i r using wf by (simp add: map_of_eq_Some_iff)
  show "r \<in> snd ` set m \<longleftrightarrow> map_of m (rid r) = Some r"
  proof
    assume "r \<in> snd ` set m"
    then obtain i where "map_of m i = Some r" using mem by auto
    then show "map_of m (rid r) = Some r" using k by metis
  next
    assume "map_of m (rid r) = Some r"
    then show "r \<in> snd ` set m" using mem by force
  qed
  have "map (rid \<circ> snd) m = map fst m"
  proof (rule map_cong [OF refl])
    fix x
    assume "x \<in> set m"
    then have "map_of m (fst x) = Some (snd x)" using mem by (metis prod.collapse)
    then show "(rid \<circ> snd) x = fst x" using k by simp
  qed
  then show "distinct (map rid (map snd m))" using wf by (simp only: map_map)
qed

lemma distinct_map_sort_key: "distinct (map f (sort_key g xs)) \<longleftrightarrow> distinct (map f xs)"
  by (rule mset_eq_imp_distinct_iff) simp

lemma trim_prefix_append: "trim_prefix (p @ s) p = s"
  by (simp add: trim_prefix_def has_prefix_iff)

lemma ParseSpikeResourceID_URI: "resource_id_ok i \<Longrightarrow> ParseSpikeResourceID (URI_sub i) = Some i"
  by (simp add: ParseSpikeResourceID_def URI_sub_def has_prefix_iff trim_prefix_append)

lemma ParseSpikeResourceID_strict: "ParseSpikeResourceID u = Some i \<Longrightarrow> u = URI_sub i"
  by (auto simp: ParseSpikeResourceID_def URI_sub_def has_prefix_iff trim_prefix_append Let_def split: if_splits)

lemma ParseAgentTelemetryResourceID_URI: "resource_id_ok i \<Longrightarrow> ParseAgentTelemetryResourceID (AgentTelemetryURI i) = Some i"
  by (simp add: ParseAgentTelemetryResourceID_def AgentTelemetryURI_def has_prefix_iff has_suffix_iff trim_prefix_append
      trim_suffix_def)

interpretation spike_store: strict_resource_store "\<lambda>r. Get_sub (Some r)" put_sub "\<lambda>r. List_subs (Some r)"
  "keyed sub_ID" sub_ID URI_sub ParseSpikeResourceID resource_id_ok
proof unfold_locales
  fix s :: spike_registry and r :: spike_subscription
  assume k: "keyed sub_ID s"
  show "r \<in> set (List_subs (Some s)) \<longleftrightarrow> Get_sub (Some s) (sub_ID r) = Some r"
    using keyed_values(1) [OF k] by (simp add: List_subs_def Get_sub_def)
  show "distinct (map sub_ID (List_subs (Some s)))"
    using keyed_values(2) [OF k] by (simp add: List_subs_def distinct_map_sort_key)
qed (auto simp: Get_sub_def put_sub_def keyed_set ParseSpikeResourceID_URI dest: ParseSpikeResourceID_strict)

interpretation agent_store: resource_store "\<lambda>r. Get_agent (Some r)" put_agent "\<lambda>r. List_agents (Some r)"
  "keyed sa_ID" sa_ID AgentTelemetryURI ParseAgentTelemetryResourceID resource_id_ok
proof unfold_locales
  fix s :: agent_registry and r :: sparse_agent
  assume k: "keyed sa_ID s"
  show "r \<in> set (List_agents (Some s)) \<longleftrightarrow> Get_agent (Some s) (sa_ID r) = Some r"
    using keyed_values(1) [OF k] by (simp add: List_agents_def Get_agent_def)
  show "distinct (map sa_ID (List_agents (Some s)))"
    using keyed_values(2) [OF k] by (simp add: List_agents_def distinct_map_sort_key)
qed (auto simp: Get_agent_def put_agent_def keyed_set ParseAgentTelemetryResourceID_URI)

text \<open>An address that no agent has is resolved to the agent called telemetry.\<close>

lemma ParseAgentTelemetryResourceID_not_strict:
  "ParseAgentTelemetryResourceID ''cwso://agents/telemetry'' = Some ''telemetry'' \<and>
   AgentTelemetryURI ''telemetry'' = ''cwso://agents/telemetry/telemetry''"
  by code_simp

section \<open>Created subscriptions\<close>

lemma clean_scope_props:
  "distinct acc \<Longrightarrow> list_all (\<lambda>w. w \<noteq> '''' \<and> trim_space w = w) acc \<Longrightarrow>
   distinct (clean_scope ws acc) \<and> list_all (\<lambda>w. w \<noteq> '''' \<and> trim_space w = w) (clean_scope ws acc) \<and>
   set (clean_scope ws acc) = set acc \<union> (trim_space ` set ws - {''''})"
  by (induction ws acc rule: clean_scope.induct) (auto simp: Let_def)

lemma hex_digit_ok: "d < 16 \<Longrightarrow> hex_digit d \<notin> set ''/?#''"
proof -
  assume "d < 16"
  then have "(of_char (hex_digit d) :: nat) \<in> {48..57} \<union> {97..102}" by (auto simp: hex_digit_def)
  then show ?thesis by auto
qed

text \<open>Distinct from the markers: hexadecimal and decimal digits, letters and the dash.\<close>

lemma randomSubscriptionID_ok:
  assumes "\<And>bs. bytes = Some bs \<Longrightarrow> bs \<noteq> []"
  shows "resource_id_ok (randomSubscriptionID bytes now)"
proof (cases bytes)
  case None
  have "c \<notin> set ''/?#''" if "c \<in> set (show_nat n)" for c n
    using show_nat_digits [OF that] by auto
  then show ?thesis
    using None by (auto simp: randomSubscriptionID_def resource_id_ok_def show_int_def list_ex_iff)
next
  case (Some bs)
  have "unat b div 16 < 16" for b :: "8 word" using unsigned_less [of b, where ?'a = nat] by (simp add: less_mult_imp_div_less)
  then have "c \<notin> set ''/?#''" if "c \<in> set (hex_encode bs)" for c
    using that hex_digit_ok by (auto simp: hex_encode_def)
  moreover have "hex_encode bs \<noteq> []" using assms [OF Some] by (cases bs) (auto simp: hex_encode_def)
  ultimately show ?thesis using Some by (auto simp: randomSubscriptionID_def resource_id_ok_def list_ex_iff)
qed

lemma Create_sub_cases:
  assumes "Create_sub newID now p th scope (Some r) = (reg', Inr sub)"
  shows "reg' = Some (put_sub sub r)" "sub_ID sub = newID" "sub_Path sub = p"
    and "p \<noteq> '''' \<Longrightarrow> path_Match p ''probe'' \<noteq> None"
    and "sub_WorkspaceScope sub = clean_scope scope []" "sub_scope sub = sub_WorkspaceScope sub"
    and "sub_thresholdRank sub = thresholdRank (sub_SemanticThreshold sub)"
    and "sub_SemanticThreshold sub \<in> set [SpikeKindSignatureChange, SpikeKindSymbolAdded, SpikeKindSymbolRemoved, SpikeThresholdAny]"
  using assms by (auto simp: Create_sub_def Let_def NormalizeSemanticThreshold_def split: sum.splits if_splits)

text \<open>
  A successfully created subscription is found under the address built from its random
  identifier and is listed exactly once, other subscriptions stay as they were, matching its glob
  never fails for any path, its scope is the trimmed, non-empty workspaces of the request without
  duplicates, and its threshold is one of the four kinds with a rank from 1 to 3.
\<close>

theorem Create_sub_ok:
  assumes "keyed sub_ID r" and "bytes = None \<or> length (the bytes) = 16"
    and "Create_sub (randomSubscriptionID bytes t) now p th scope (Some r) = (reg', Inr sub)"
  shows "Option.bind (ParseSpikeResourceID (URI_sub (sub_ID sub))) (Get_sub reg') = Some sub \<and>
    filter (\<lambda>x. sub_ID x = sub_ID sub) (List_subs reg') = [sub] \<and>
    (i = sub_ID sub \<or> Get_sub reg' i = Get_sub (Some r) i) \<and>
    (sub_Path sub = '''' \<or> path_Match (sub_Path sub) file \<noteq> None) \<and>
    distinct (sub_WorkspaceScope sub) \<and> set (sub_WorkspaceScope sub) = trim_space ` set scope - {''''} \<and>
    sub_thresholdRank sub \<in> {1, 2, 3}"
proof -
  note c = Create_sub_cases [OF assms(3)]
  have "resource_id_ok (sub_ID sub)" unfolding c(2) using assms(2) by (intro randomSubscriptionID_ok) auto
  then have 1: "Option.bind (ParseSpikeResourceID (URI_sub (sub_ID sub))) (Get_sub reg') = Some sub"
    unfolding c(1) by (rule spike_store.put_resolves)
  have 2: "filter (\<lambda>x. sub_ID x = sub_ID sub) (List_subs reg') = [sub]"
    unfolding c(1) by (rule spike_store.put_listed_once [OF assms(1)])
  have 3: "i = sub_ID sub \<or> Get_sub reg' i = Get_sub (Some r) i"
    unfolding c(1) using spike_store.get_put by auto
  have 4: "sub_Path sub = '''' \<or> path_Match (sub_Path sub) file \<noteq> None"
    using c(3,4) path_Match_valid by blast
  have 5: "sub_thresholdRank sub \<in> {1, 2, 3}"
    unfolding c(7) using c(8) by (auto simp: thresholdRank_def kind_rank_def spike_kind_defs)
  show ?thesis using 1 2 3 4 5 clean_scope_props [of "[]" scope] by (simp add: c(5))
qed

definition w_id_bytes :: "8 word list" where "w_id_bytes = replicate 16 171"

definition w_sub :: spike_subscription where
  "w_sub = \<lparr>sub_ID = randomSubscriptionID (Some w_id_bytes) 0, sub_Path = ''*.go'',
    sub_SemanticThreshold = ''signature_change'', sub_WorkspaceScope = [''a''], sub_CreatedAt = 5,
    sub_thresholdRank = 3, sub_scope = [''a'']\<rparr>"

text \<open>A subscription to the Go files of one workspace, given twice.\<close>

theorem Create_sub_ok_witness:
  "Create_sub (randomSubscriptionID (Some w_id_bytes) 0) 5 ''*.go'' '''' ['' a'', ''a''] (Some []) =
     (Some (put_sub w_sub []), Inr w_sub) \<and>
   Option.bind (ParseSpikeResourceID (URI_sub (sub_ID w_sub))) (Get_sub (Some (put_sub w_sub []))) = Some w_sub \<and>
   path_Match ''*.go'' ''x.go'' \<noteq> None"
proof -
  have "path_Match ''*.go'' ''probe'' \<noteq> None" "clean_scope ['' a'', ''a''] [] = [''a'']"
    "NormalizeSemanticThreshold '''' = Inr ''signature_change''" "thresholdRank ''signature_change'' = 3" by code_simp+
  then have c: "Create_sub (randomSubscriptionID (Some w_id_bytes) 0) 5 ''*.go'' '''' ['' a'', ''a''] (Some []) =
      (Some (put_sub w_sub []), Inr w_sub)"
    by (simp add: Create_sub_def w_sub_def Let_def)
  have k: "keyed sub_ID []" by (simp add: keyed_def)
  have l: "Some w_id_bytes = None \<or> length (the (Some w_id_bytes)) = 16" by (simp add: w_id_bytes_def)
  have "sub_Path w_sub = ''*.go''" by (simp add: w_sub_def)
  with c Create_sub_ok [OF k l c, of "''''" "''x.go''"] show ?thesis by simp
qed

end
