(* ===== verification/Profiler.thy ===== *)
theory Profiler
  imports PolicyEngine
begin

text \<open>
  The two feeders of the policy engine: the workload profiler of \<open>internal/dispatch/profiler.go\<close> and
  the capability syncer of \<open>capability_syncer.go\<close>. A sync receives the fetched records paired with the
  clock readings of their upserts. Shown: records that fail validation are skipped and do not change
  what the others do to the registry; and a task above the long-context floor is sent to the baseline
  when the sequence assist is on with its default maximum.
\<close>

section \<open>Profiles\<close>

definition LatencyRealtime :: string where "LatencyRealtime = ''realtime''"
definition LatencyBatch :: string where "LatencyBatch = ''batch''"
definition WorkloadDefault :: string where "WorkloadDefault = ''default''"
definition WorkloadRealtime :: string where "WorkloadRealtime = ''realtime''"
definition WorkloadLongContext :: string where "WorkloadLongContext = ''long-context''"
definition WorkloadInferenceHeavy :: string where "WorkloadInferenceHeavy = ''inference-heavy''"
definition WorkloadDeterministicEdit :: string where "WorkloadDeterministicEdit = ''deterministic-edit''"
definition HardwareClassLPU :: string where "HardwareClassLPU = ''lpu''"
definition HardwareClassGPU :: string where "HardwareClassGPU = ''gpu''"
definition HardwareClassSSM :: string where "HardwareClassSSM = ''ssm''"
definition HardwareClassWasmLocal :: string where "HardwareClassWasmLocal = ''wasm-local''"
definition HardwareClassCPU :: string where "HardwareClassCPU = ''cpu''"
definition RealtimeContextCeiling :: int where "RealtimeContextCeiling = 8192"
definition LongContextFloor :: int where "LongContextFloor = 32768"

record workload_profile =
  wp_Tags :: "string list"
  wp_RecommendedClass :: string
  wp_ContextSizeEstimate :: int
  wp_LatencyRequirement :: string
  wp_RequestLabels :: "string list"

definition NormalizeLatencyRequirement :: "string \<Rightarrow> string + string" where
  "NormalizeLatencyRequirement raw0 =
     (let raw = to_lower (trim_space raw0)
      in if raw = '''' \<or> raw = LatencyBatch then Inr LatencyBatch
         else if raw = LatencyRealtime then Inr LatencyRealtime
         else Inl (''latency_requirement must be one of: '' @ LatencyRealtime @ '', '' @ LatencyBatch))"

definition deterministicEditKeywords :: "string list" where
  "deterministicEditKeywords =
     [''rename'', ''format'', ''gofmt'', ''lint'', ''add type'', ''add types'',
      ''type annotation'', ''reorder imports'', ''whitespace'', ''docstring'']"

definition isDeterministicEdit :: "string \<Rightarrow> bool" where
  "isDeterministicEdit taskDescription =
     (let desc = to_lower taskDescription in list_ex (contains_str desc) deterministicEditKeywords)"

definition ProfileTask :: "string \<Rightarrow> int \<Rightarrow> string \<Rightarrow> workload_profile" where
  "ProfileTask taskDescription contextSize0 latencyRequirement =
     (let contextSize = (if contextSize0 < 0 then 0 else contextSize0);
          latency = (case NormalizeLatencyRequirement latencyRequirement of Inl _ \<Rightarrow> '''' | Inr l \<Rightarrow> l);
          (tags, cls, labels) =
            (if contextSize \<ge> LongContextFloor
               then ([WorkloadLongContext], HardwareClassSSM, [''sequence_length='' @ show_int contextSize])
             else if latency = LatencyRealtime \<and> contextSize \<le> RealtimeContextCeiling
               then ([WorkloadRealtime], HardwareClassLPU, [])
             else if latency = LatencyBatch \<and> isDeterministicEdit taskDescription
               then ([WorkloadDeterministicEdit, WorkloadInferenceHeavy], HardwareClassWasmLocal, [])
             else ([WorkloadInferenceHeavy], HardwareClassGPU, []))
      in \<lparr>wp_Tags = dedupeAndSort tags, wp_RecommendedClass = cls, wp_ContextSizeEstimate = contextSize,
          wp_LatencyRequirement = latency, wp_RequestLabels = labels\<rparr>)"

section \<open>The capability syncer\<close>

text \<open>
  The syncer's fields and what its calls have done so far. The fetcher is a parameter: a sync is given
  its answer. \<open>csy_OnError\<close> and \<open>csy_OnSync\<close> are the arguments the callbacks have received, in order,
  and \<open>None\<close> when the callback is not set.
\<close>

record capability_syncer =
  csy_has_fetcher :: bool
  csy_registry :: "capability_registry option"
  csy_interval :: duration
  csy_OnError :: "string list option"
  csy_OnSync :: "nat list option"

definition NewCapabilitySyncer :: "bool \<Rightarrow> capability_registry option \<Rightarrow> duration \<Rightarrow> capability_syncer" where
  "NewCapabilitySyncer fetcher registry interval =
     \<lparr>csy_has_fetcher = fetcher, csy_registry = registry,
      csy_interval = (if interval \<le> 0 then 15 * second else interval), csy_OnError = None, csy_OnSync = None\<rparr>"

definition reportError :: "string \<Rightarrow> capability_syncer \<Rightarrow> capability_syncer" where
  "reportError err s = s\<lparr>csy_OnError := map_option (\<lambda>es. es @ [err]) (csy_OnError s)\<rparr>"

definition sync_record :: "provider_capability \<Rightarrow> provider_capability" where
  "sync_record c =
     c\<lparr>pc_ContractVersion := (if pc_ContractVersion c = '''' then ''dispatch.provider/v2'' else pc_ContractVersion c),
       pc_LastUpdatedAt := 0\<rparr>"

fun sync_loop ::
  "(gotime \<times> provider_capability) list \<Rightarrow> nat \<Rightarrow> capability_registry \<Rightarrow> capability_syncer \<Rightarrow>
   capability_registry \<times> capability_syncer \<times> nat" where
  "sync_loop [] synced r s = (r, s, synced)"
| "sync_loop ((now, c) # cs) synced r s = (case Upsert now (sync_record c) r of
      (r', Some upErr) \<Rightarrow> sync_loop cs synced r' (reportError upErr s)
    | (r', None) \<Rightarrow> sync_loop cs (synced + 1) r' s)"

definition SyncOnce ::
  "string + (gotime \<times> provider_capability) list \<Rightarrow> capability_syncer \<Rightarrow> capability_syncer \<times> nat \<times> string option" where
  "SyncOnce fetched s =
     (if \<not> csy_has_fetcher s then (s, 0, None)
      else case csy_registry s of
        None \<Rightarrow> (s, 0, None)
      | Some reg \<Rightarrow> (case fetched of
          Inl err \<Rightarrow> (reportError err s, 0, Some err)
        | Inr caps \<Rightarrow>
            let (reg', s', synced) = sync_loop caps 0 reg s
            in (s'\<lparr>csy_registry := Some reg', csy_OnSync := map_option (\<lambda>ns. ns @ [synced]) (csy_OnSync s')\<rparr>,
                synced, None)))"

text \<open>The background loop, for the fetches made before the context is cancelled: the first at once, then one per tick.\<close>

definition Start_syncer :: "(string + (gotime \<times> provider_capability) list) list \<Rightarrow> capability_syncer \<Rightarrow> capability_syncer" where
  "Start_syncer fetches s = foldl (\<lambda>s f. fst (SyncOnce f s)) s fetches"

section \<open>What a sync keeps\<close>

definition sync_valid :: "gotime \<times> provider_capability \<Rightarrow> bool" where
  "sync_valid x \<longleftrightarrow> validateCapability (sync_record (snd x)) = None"

lemma reportError_registry [simp]:
  "csy_registry (reportError e s) = csy_registry s" "csy_has_fetcher (reportError e s) = csy_has_fetcher s"
  by (simp_all add: reportError_def)

lemma sync_loop_skips:
  "fst (sync_loop cs n r s) = fst (sync_loop (filter sync_valid cs) m r s') \<and>
   snd (snd (sync_loop cs n r s)) = n + length (filter sync_valid cs) \<and>
   map_option length (csy_OnError (fst (snd (sync_loop cs n r s)))) =
     map_option (\<lambda>es. length es + length (filter (\<lambda>x. \<not> sync_valid x) cs)) (csy_OnError s)"
proof (induction cs arbitrary: n m r s s')
  case Nil
  show ?case by (cases "csy_OnError s") simp_all
next
  case (Cons x cs)
  obtain now c where x: "x = (now, c)" by (cases x)
  show ?case
  proof (cases "validateCapability (sync_record c)")
    case None
    then obtain r' where up: "Upsert now (sync_record c) r = (r', None)" and v: "sync_valid (now, c)"
      by (simp add: Upsert_def sync_valid_def)
    show ?thesis using Cons.IH [of "n + 1" r' s "m + 1" s'] v by (simp add: x up)
  next
    case (Some e)
    then have up: "Upsert now (sync_record c) r = (r, Some e)" and v: "\<not> sync_valid (now, c)"
      by (simp_all add: Upsert_def sync_valid_def)
    show ?thesis
      using Cons.IH [of n r "reportError e s" m s'] v
      by (cases "csy_OnError s") (simp_all add: x up reportError_def)
  qed
qed

lemma sync_loop_inv: "registry_inv r \<Longrightarrow> registry_inv (fst (sync_loop cs n r s))"
proof (induction cs arbitrary: n r s)
  case (Cons x cs)
  obtain now c where x: "x = (now, c)" by (cases x)
  obtain r' e where up: "Upsert now (sync_record c) r = (r', e)" by (cases "Upsert now (sync_record c) r")
  with registry_inv_Upsert [OF Cons.prems, of now "sync_record c"] have "registry_inv r'" by simp
  with Cons.IH show ?case by (cases e) (simp_all add: x up)
qed simp

lemma SyncOnce_inv: "pred_option registry_inv (csy_registry s) \<Longrightarrow> pred_option registry_inv (csy_registry (fst (SyncOnce f s)))"
  using sync_loop_inv by (auto simp: SyncOnce_def case_prod_beta Let_def split: option.split sum.split)

lemma Start_syncer_inv: "pred_option registry_inv (csy_registry s) \<Longrightarrow> pred_option registry_inv (csy_registry (Start_syncer fs s))"
  unfolding Start_syncer_def by (induction fs arbitrary: s) (simp_all add: SyncOnce_inv)

section \<open>Long contexts\<close>

lemma is_digit_show_nat: "c \<in> set (show_nat n) \<Longrightarrow> is_digit c"
  using show_nat_digits by (simp add: is_digit_def)

lemma to_lower_show_nat [simp]: "to_lower (show_nat n) = show_nat n"
  unfolding to_lower_def
  by (rule map_idI) (auto simp: to_lower_char_def Let_def dest: show_nat_digits)

lemma digit_not_space: "is_digit c \<Longrightarrow> \<not> is_space c"
  by (auto simp: is_digit_def is_space_def)

lemma show_nat_ends [simp]: "\<not> is_space (hd (show_nat n))" "\<not> is_space (last (show_nat n))"
  by (intro digit_not_space is_digit_show_nat [of _ n]; simp)+

lemma trim_show_nat [simp]: "trim_space (show_nat n) = show_nat n"
  by (rule trim_space_fixed) simp

lemma atoi_show_nat:
  assumes "int n < 2 ^ 63"
  shows "atoi (show_nat n) = Some (int n)"
proof -
  obtain c cs where s: "show_nat n = c # cs" by (cases "show_nat n") simp_all
  then have "is_digit c" using is_digit_show_nat [of c n] by simp
  then have c: "c \<noteq> CHR ''-''" "c \<noteq> CHR ''+''" by (auto simp: is_digit_def)
  have d: "list_all is_digit (c # cs)" using is_digit_show_nat [of _ n] by (simp add: list_all_iff s)
  have "read_nat (c # cs) = n" by (metis read_nat_show_nat s)
  with assms c d show ?thesis by (simp add: atoi_def s)
qed

lemma parse_sequence_label:
  "parseLabelKeyValue (''sequence_length='' @ show_nat n) = Some (''sequence_length'', show_nat n)"
proof -
  let ?l = "''sequence_length='' @ show_nat n"
  have "to_lower ''sequence_length='' = ''sequence_length=''" by code_simp
  then have low: "to_lower ?l = ?l" by (simp only: to_lower_append to_lower_show_nat)
  have tr: "trim_space ?l = ?l" by (rule trim_space_fixed) (use show_nat_ends(2) [of n] in \<open>auto simp: is_space_def\<close>)
  have sp: "split_once (CHR ''='') ?l = Some (''sequence_length'', show_nat n)"
    by (simp add: split_once_Some)
  have key: "trim_space ''sequence_length'' = ''sequence_length''" by code_simp
  show ?thesis unfolding parseLabelKeyValue_def low tr Let_def using sp key by simp
qed

lemma ProfileTask_long:
  assumes "LongContextFloor \<le> n"
  shows "wp_Tags (ProfileTask d n l) = [WorkloadLongContext] \<and>
    wp_RequestLabels (ProfileTask d n l) = [''sequence_length='' @ show_nat (nat n)]"
proof -
  have "dedupeAndSort [WorkloadLongContext] = [WorkloadLongContext]" by code_simp
  then show ?thesis using assms by (simp add: ProfileTask_def Let_def LongContextFloor_def show_int_def)
qed

lemma long_context_signal:
  assumes "LongContextFloor \<le> n" and "n < 2 ^ 63"
  shows "extractSequenceLengthSignal (wp_RequestLabels (ProfileTask d n l) @ rest) = SequenceLength n"
proof -
  have "0 < n" using assms(1) by (simp add: LongContextFloor_def)
  with assms(2) have "atoi (show_nat (nat n)) = Some n" using atoi_show_nat [of "nat n"] by simp
  with \<open>0 < n\<close> show ?thesis using ProfileTask_long [OF assms(1), of d l] parse_sequence_label [of "nat n"] by simp
qed

text \<open>
  C27. The profiler labels every task at or above its long-context floor with its sequence length, and
  the policy engine refuses every sequence length above the configured maximum. When that maximum is
  not above the floor, as with the default values of both, an engine with the sequence assist on sends
  every task above the floor to the baseline alone, whatever providers the snapshot holds.
\<close>

theorem long_context_baseline:
  assumes "LongContextFloor < n" and "n < 2 ^ 63"
    and "ssm_Enabled (pcfg_SSM cfg)" and "ssm_MaxSequenceLength (pcfg_SSM cfg) \<le> LongContextFloor"
    and "set (wp_Tags (ProfileTask d n l)) \<subseteq> set (in_WorkloadTags input)"
    and "in_RequestLabels input = wp_RequestLabels (ProfileTask d n l) @ rest"
  shows "pd_SelectedProvider (snd (Select snapshot input (NewPolicyEngineV2 cfg))) =
      pcfg_BaselineProviderID (normalizePolicyV2Config cfg) \<and>
    pd_RankedFallbackChain (snd (Select snapshot input (NewPolicyEngineV2 cfg))) =
      [pcfg_BaselineProviderID (normalizePolicyV2Config cfg)]"
proof -
  let ?e = "NewPolicyEngineV2 cfg"
  have "WorkloadLongContext \<in> set (in_WorkloadTags input)"
    using ProfileTask_long [of n d l] assms(1,5) by simp
  moreover have "norm_class WorkloadLongContext = ''long-context''" by code_simp
  ultimately have tag: "hasLongContextWorkload (in_WorkloadTags input)"
    by (auto simp: hasLongContextWorkload_def list_ex_iff)
  have sig: "extractSequenceLengthSignal (in_RequestLabels input) = SequenceLength n"
    using long_context_signal [of n d l rest] assms(1,2,6) by simp
  have mx: "ssm_MaxSequenceLength (pcfg_SSM (pe_cfg ?e)) < n"
    using assms(1,4)
    by (simp add: NewPolicyEngineV2_def normalizePolicyV2Config_def normalize_ssm_def Let_def
        DefaultPolicyV2Config_def LongContextFloor_def)
  have on: "isSSMAssistActive ?e"
    using assms(3)
    by (simp add: isSSMAssistActive_def NewPolicyEngineV2_def normalizePolicyV2Config_def normalize_ssm_def Let_def)
  have "ssm_phase ?e input cs = Inl ''ssm_signal_out_of_threshold_fallback''" for cs
    using tag sig mx on by (simp add: ssm_phase_def Let_def)
  moreover have "pe_cfg ?e = normalizePolicyV2Config cfg" by (simp add: NewPolicyEngineV2_def)
  ultimately show ?thesis by (simp add: Select_def Let_def baselineDecision_def)
qed


section \<open>Witnesses\<close>

definition w_ssm_config :: policy_config where
  "w_ssm_config = DefaultPolicyV2Config\<lparr>pcfg_Enabled := True,
     pcfg_SSM := (pcfg_SSM DefaultPolicyV2Config)\<lparr>ssm_Enabled := True\<rparr>\<rparr>"

definition w_ssm_snapshot :: capability_snapshot where
  "w_ssm_snapshot = \<lparr>cs_Epoch = 1, cs_CapturedAt = 1, cs_Providers = [w_provider ''ssm-1'' [''long-context''] ''healthy'']\<rparr>"

definition w_long_input :: policy_input where
  "w_long_input = \<lparr>in_WorkloadTags = [''long-context''], in_QualityScore = None,
     in_RequestLabels = wp_RequestLabels (ProfileTask ''analyse'' 40000 ''batch'')\<rparr>"

text \<open>A healthy long-context provider is eligible and is not selected at 40000 tokens.\<close>

theorem long_context_baseline_witness:
  "eligible_ids (NewPolicyEngineV2 w_ssm_config) w_long_input w_ssm_snapshot = [''ssm-1''] \<and>
   pd_SelectedProvider (snd (Select w_ssm_snapshot w_long_input (NewPolicyEngineV2 w_ssm_config))) = ''cpu-baseline''"
proof
  have "set (wp_Tags (ProfileTask ''analyse'' 40000 ''batch'')) \<subseteq> set (in_WorkloadTags w_long_input)"
    using ProfileTask_long [of 40000 "''analyse''" "''batch''"]
    by (simp add: w_long_input_def WorkloadLongContext_def LongContextFloor_def)
  moreover have "in_RequestLabels w_long_input = wp_RequestLabels (ProfileTask ''analyse'' 40000 ''batch'') @ []"
    by (simp add: w_long_input_def)
  moreover have "LongContextFloor < 40000" "ssm_Enabled (pcfg_SSM w_ssm_config)"
    "ssm_MaxSequenceLength (pcfg_SSM w_ssm_config) \<le> LongContextFloor"
    "pcfg_BaselineProviderID (normalizePolicyV2Config w_ssm_config) = ''cpu-baseline''"
    by code_simp+
  ultimately show
    "pd_SelectedProvider (snd (Select w_ssm_snapshot w_long_input (NewPolicyEngineV2 w_ssm_config))) = ''cpu-baseline''"
    using long_context_baseline [of 40000 w_ssm_config "''analyse''" "''batch''" w_long_input "[]" w_ssm_snapshot] by simp
  have "in_WorkloadTags w_long_input = [''long-context'']" by (simp add: w_long_input_def)
  moreover have "map pc_ProviderID (filter (\<lambda>p. isPolicyEligible p (dedupeAndSort [''long-context''])
      (pcfg_BaselineProviderID (pe_cfg (NewPolicyEngineV2 w_ssm_config)))) (cs_Providers w_ssm_snapshot)) = [''ssm-1'']"
    by code_simp
  ultimately show "eligible_ids (NewPolicyEngineV2 w_ssm_config) w_long_input w_ssm_snapshot = [''ssm-1'']"
    by (simp add: eligible_ids_def)
qed

end
