(* ===== verification/DispatchTools.thy ===== *)
theory DispatchTools
  imports Jobs Profiler Telemetry SandboxRouter Go_Json
begin

text \<open>
  The batch dispatch tool, \<open>internal/tools/dispatch_tools.go\<close>, with the tool results of
  \<open>internal/mcp/protocol.go\<close>. It composes the job manager, the policy engine, the decision telemetry
  and the sandbox router.

  The tool's fields and everything it calls that has state are one record. Decoding of the arguments
  is an argument (the error text of \<open>json.Unmarshal\<close> or the decoded value); so are the clock
  readings, the capability snapshots and what other goroutines do to the manager between two calls
  (\<open>dispatch_world\<close>). The manager's record only says that a job has a body, so the bodies of the
  accepted jobs are kept beside it.

  Shown: the accounting of a batch on every path and for every interference, that jobs only run on
  eligible providers or the baseline, and exactly which items are accepted when nothing interferes.
\<close>

section \<open>Tool results\<close>

record tool_call_result =
  tcr_Content :: "(string \<times> string) list"
  tcr_IsError :: bool

definition TextResult :: "string \<Rightarrow> tool_call_result" where
  "TextResult t = \<lparr>tcr_Content = [(''text'', t)], tcr_IsError = False\<rparr>"

definition TextError :: "string \<Rightarrow> tool_call_result" where
  "TextError t = \<lparr>tcr_Content = [(''text'', t)], tcr_IsError = True\<rparr>"

text \<open>\<open>json.Marshal\<close> of a struct: the encoded fields in declaration order.\<close>

definition json_struct :: "(string \<times> string) list \<Rightarrow> string" where
  "json_struct kvs = CHR 0x7B # join_with '','' (map (\<lambda>(k, v). json_quote k @ '':'' @ v) kvs) @ [CHR 0x7D]"

section \<open>Arguments\<close>

definition defaultDispatchTimeoutSeconds :: int where "defaultDispatchTimeoutSeconds = 300"
definition defaultDispatchMaxBatch :: int where "defaultDispatchMaxBatch = 64"
definition maxTimeoutSeconds :: int where "maxTimeoutSeconds = 3600"
definition maxFieldLength :: nat where "maxFieldLength = 512"

record dispatch_job_spec =
  ds_AgentRole :: string
  ds_ObjectivePrompt :: string
  ds_TargetWorkspaceUUID :: string
  ds_SandboxProfile :: string

record dispatch_args =
  da_Jobs :: "dispatch_job_spec list"
  da_ExecutionTimeoutSeconds :: "int option"

definition isSaneField :: "string \<Rightarrow> bool" where
  "isSaneField v0 = (let v = trim_space v0 in v \<noteq> '''' \<and> length v \<le> maxFieldLength)"

definition uuid_char_ok :: "nat \<Rightarrow> char \<Rightarrow> bool" where
  "uuid_char_ok i c =
     (if i \<in> set [8, 13, 18, 23] then c = CHR ''-''
      else let n = (of_char c :: nat) in (48 \<le> n \<and> n \<le> 57) \<or> (97 \<le> n \<and> n \<le> 102) \<or> (65 \<le> n \<and> n \<le> 70))"

definition looksLikeUUID :: "string \<Rightarrow> bool" where
  "looksLikeUUID v = (if length v \<noteq> 36 then False else list_all (\<lambda>(i, c). uuid_char_ok i c) (enumerate 0 v))"

definition validateDispatchSpec :: "dispatch_job_spec \<Rightarrow> string option" where
  "validateDispatchSpec spec =
     (if \<not> isSaneField (ds_AgentRole spec) then Some ''agent_role is required''
      else if \<not> isSaneField (ds_ObjectivePrompt spec) then Some ''objective_prompt is required''
      else if \<not> looksLikeUUID (ds_TargetWorkspaceUUID spec) then Some ''target_workspace_uuid must be a valid UUID''
      else if ds_SandboxProfile spec \<noteq> '''' \<and> ds_SandboxProfile spec \<notin> set ValidSandboxProfiles
        then Some (''sandbox_profile '' @ go_quote (ds_SandboxProfile spec) @ '' is not a valid tier'')
      else None)"

definition buildDispatchJobName :: "dispatch_job_spec \<Rightarrow> string" where
  "buildDispatchJobName spec =
     ''dispatch:'' @ trim_space (ds_AgentRole spec) @ '':'' @ trim_space (ds_TargetWorkspaceUUID spec)"

definition deriveBatchWorkloadTags :: "dispatch_job_spec list \<Rightarrow> string list" where
  "deriveBatchWorkloadTags specs =
     ''default'' # filter (\<lambda>p. p \<noteq> '''') (map (\<lambda>s. trim_space (to_lower (ds_SandboxProfile s))) specs)"

definition classifyProviderFailure :: "jobs_error \<Rightarrow> string" where
  "classifyProviderFailure err = (case err of
      ErrQueueFull \<Rightarrow> ''capacity_exhausted''
    | ErrClosed \<Rightarrow> ''unavailable''
    | _ \<Rightarrow> ''provider_failure'')"

section \<open>Job bodies\<close>

definition ctx_error_text :: "ctx_err \<Rightarrow> string option" where
  "ctx_error_text c = (case c of
      CtxLive \<Rightarrow> None
    | CtxCanceled \<Rightarrow> Some canceled_text
    | CtxDeadlineExceeded \<Rightarrow> Some ''context deadline exceeded'')"

definition defaultRunFunc :: "ctx_err \<Rightarrow> string option" where
  "defaultRunFunc ctx = ctx_error_text ctx"

text \<open>The request of a job to the sandbox; \<open>clean\<close> is \<open>filepath.Clean\<close>.\<close>

definition dispatch_run_request :: "(string \<Rightarrow> string) \<Rightarrow> string \<Rightarrow> dispatch_job_spec \<Rightarrow> string \<Rightarrow> run_request" where
  "dispatch_run_request clean workspaceRoot spec providerID =
     (let mount = trim_space workspaceRoot \<noteq> ''''
      in \<lparr>rr_Name = map (\<lambda>c. if c = CHR '':'' then CHR ''-'' else c) (buildDispatchJobName spec),
          rr_Image = '''', rr_Command = [],
          rr_Env = [(''CWSO_AGENT_ROLE'', trim_space (ds_AgentRole spec)),
                    (''CWSO_OBJECTIVE_PROMPT'', ds_ObjectivePrompt spec),
                    (''CWSO_TARGET_WORKSPACE'', ds_TargetWorkspaceUUID spec),
                    (''CWSO_DISPATCH_JOB_NAME'', buildDispatchJobName spec),
                    (''CWSO_DISPATCH_PROVIDER'', trim_space providerID)],
          rr_WorkingDir = '''', rr_MountWorkspace = mount,
          rr_WorkspaceDir = (if mount then clean workspaceRoot else ''''),
          rr_WorkspaceWritable = False, rr_RootFSWritable = False, rr_Timeout = 0,
          rr_SandboxProfile = ds_SandboxProfile spec\<rparr>)"

definition runFuncBuilder ::
  "(string \<Rightarrow> string) \<Rightarrow> runner option \<Rightarrow> string \<Rightarrow> dispatch_job_spec \<Rightarrow> string \<Rightarrow> ctx_err \<Rightarrow> string option" where
  "runFuncBuilder clean rnr workspaceRoot spec providerID ctx = (case rnr of
      None \<Rightarrow> defaultRunFunc ctx
    | Some r \<Rightarrow> snd (rn_Execute r (dispatch_run_request clean workspaceRoot spec providerID)))"

section \<open>The tool\<close>

text \<open>
  A value of interface type: nil, a nil pointer with its type, or a usable value. Comparing with nil
  only detects the first.
\<close>

datatype 'a iface = INil | ITypedNil | IVal 'a

record dispatch_item_result =
  dr_Index :: nat
  dr_Status :: string
  dr_JobID :: string
  dr_Code :: string

record dispatch_batch_result =
  db_Requested :: nat
  db_Accepted :: nat
  db_Rejected :: nat
  db_Results :: "dispatch_item_result list"

record 'e dispatch_tool =
  dt_manager :: "manager option"
  dt_defaultTimeout :: duration
  dt_maxBatch :: int
  dt_runner :: "runner option"
  dt_workspaceRoot :: string
  dt_emitter :: "'e iface"
  dt_snapshots :: "unit iface"
  dt_policyEngine :: policy_engine
  dt_policyV2Enabled :: bool
  dt_bodies :: "(string \<times> dispatch_job_spec \<times> string) list"

definition NewDispatchConcurrentJobsWithDispatchPolicy ::
  "manager option \<Rightarrow> int \<Rightarrow> int \<Rightarrow> runner option \<Rightarrow> string \<Rightarrow> 'e iface \<Rightarrow> unit iface \<Rightarrow> policy_config \<Rightarrow> 'e dispatch_tool" where
  "NewDispatchConcurrentJobsWithDispatchPolicy m defaultTimeoutSeconds maxBatch rnr workspaceRoot emitter snapshots policyCfg =
     \<lparr>dt_manager = m,
      dt_defaultTimeout =
        wrap64 ((if defaultTimeoutSeconds \<le> 0 then defaultDispatchTimeoutSeconds else defaultTimeoutSeconds) * second),
      dt_maxBatch = (if maxBatch \<le> 0 then defaultDispatchMaxBatch else maxBatch),
      dt_runner = rnr, dt_workspaceRoot = workspaceRoot, dt_emitter = emitter, dt_snapshots = snapshots,
      dt_policyEngine = NewPolicyEngineV2 policyCfg, dt_policyV2Enabled = pcfg_Enabled policyCfg, dt_bodies = []\<rparr>"

definition NewDispatchConcurrentJobsWithTelemetry ::
  "manager option \<Rightarrow> int \<Rightarrow> int \<Rightarrow> runner option \<Rightarrow> string \<Rightarrow> 'e iface \<Rightarrow> unit iface \<Rightarrow> 'e dispatch_tool" where
  "NewDispatchConcurrentJobsWithTelemetry m dts mb rnr wsRoot emitter snapshots =
     NewDispatchConcurrentJobsWithDispatchPolicy m dts mb rnr wsRoot emitter snapshots DefaultPolicyV2Config"

definition NewDispatchConcurrentJobsWithRunner ::
  "manager option \<Rightarrow> int \<Rightarrow> int \<Rightarrow> runner option \<Rightarrow> string \<Rightarrow> 'e dispatch_tool" where
  "NewDispatchConcurrentJobsWithRunner m dts mb rnr wsRoot =
     NewDispatchConcurrentJobsWithDispatchPolicy m dts mb rnr wsRoot INil INil DefaultPolicyV2Config"

definition NewDispatchConcurrentJobs :: "manager option \<Rightarrow> int \<Rightarrow> int \<Rightarrow> 'e dispatch_tool" where
  "NewDispatchConcurrentJobs m dts mb = NewDispatchConcurrentJobsWithRunner m dts mb None ''''"

definition policyEnabled :: "'e dispatch_tool \<Rightarrow> bool" where
  "policyEnabled t = (if dt_snapshots t = INil then False else dt_policyV2Enabled t)"

definition resolveTimeout :: "'e dispatch_tool \<Rightarrow> int option \<Rightarrow> string + duration" where
  "resolveTimeout t raw = (case raw of
      None \<Rightarrow> Inr (dt_defaultTimeout t)
    | Some n \<Rightarrow>
        if n \<le> 0 then Inl ''execution_timeout_seconds must be >= 1''
        else if n > maxTimeoutSeconds then Inl (''execution_timeout_seconds must be <= '' @ show_int maxTimeoutSeconds)
        else Inr (n * second))"

definition effective_provider :: "string \<Rightarrow> string" where
  "effective_provider p = (let q = trim_space p in if q = '''' then DefaultBaselineProviderID else q)"

definition enqueue_spec :: "gotime \<Rightarrow> dispatch_job_spec \<Rightarrow> duration \<Rightarrow> manager \<Rightarrow> manager \<times> (jobs_error + job)" where
  "enqueue_spec now spec timeout m =
     Enqueue now \<lparr>req_Name = buildDispatchJobName spec, req_Timeout = timeout, req_Run = True, req_RunResult = False\<rparr> m"


section \<open>A batch\<close>

record dispatch_world =
  dw_snapshot :: capability_snapshot
  dw_snapshot_after :: capability_snapshot
  dw_before :: "nat \<Rightarrow> manager \<Rightarrow> manager"
  dw_before_retry :: "nat \<Rightarrow> manager \<Rightarrow> manager"
  dw_now :: "nat \<Rightarrow> gotime"
  dw_now_retry :: "nat \<Rightarrow> gotime"
  dw_elapsed :: duration

record dispatch_loop =
  dl_manager :: manager
  dl_selection :: policy_decision
  dl_active :: string
  dl_out :: dispatch_batch_result
  dl_bodies :: "(string \<times> dispatch_job_spec \<times> string) list"

definition rejected_item :: "nat \<Rightarrow> string \<Rightarrow> dispatch_item_result" where
  "rejected_item i code = \<lparr>dr_Index = i, dr_Status = ''rejected'', dr_JobID = '''', dr_Code = code\<rparr>"

definition accepted_item :: "nat \<Rightarrow> string \<Rightarrow> dispatch_item_result" where
  "accepted_item i jid = \<lparr>dr_Index = i, dr_Status = ''accepted'', dr_JobID = jid, dr_Code = ''''\<rparr>"

definition reject :: "nat \<Rightarrow> string \<Rightarrow> dispatch_batch_result \<Rightarrow> dispatch_batch_result" where
  "reject i code out =
     out\<lparr>db_Rejected := db_Rejected out + 1, db_Results := db_Results out @ [rejected_item i code]\<rparr>"

definition accept :: "nat \<Rightarrow> string \<Rightarrow> dispatch_batch_result \<Rightarrow> dispatch_batch_result" where
  "accept i jid out =
     out\<lparr>db_Accepted := db_Accepted out + 1, db_Results := db_Results out @ [accepted_item i jid]\<rparr>"

definition enqueue_code :: "jobs_error \<Rightarrow> string" where
  "enqueue_code err = (case err of
      ErrQueueFull \<Rightarrow> ''queue_full''
    | ErrClosed \<Rightarrow> ''manager_closed''
    | _ \<Rightarrow> ''enqueue_failed'')"

text \<open>The first enqueue of an item and the single retry on the next provider of the chain.\<close>

definition enqueue_with_fallback ::
  "'e dispatch_tool \<Rightarrow> dispatch_world \<Rightarrow> duration \<Rightarrow> nat \<Rightarrow> dispatch_job_spec \<Rightarrow> dispatch_loop \<Rightarrow>
   dispatch_loop \<times> (jobs_error + job)" where
  "enqueue_with_fallback t w timeout i spec s =
     (let (m1, r1) = enqueue_spec (dw_now w i) spec timeout (dw_before w i (dl_manager s));
          s1 = s\<lparr>dl_manager := m1\<rparr>
      in case r1 of
           Inr job \<Rightarrow> (s1, Inr job)
         | Inl err \<Rightarrow>
             if \<not> policyEnabled t then (s1, Inl err)
             else
               let fallbackDecision =
                     FallbackOnFailure (dt_policyEngine t) (dl_selection s) (dl_active s) (classifyProviderFailure err);
                   fallbackProvider = trim_space (pd_SelectedProvider fallbackDecision)
               in if fallbackProvider \<noteq> '''' \<and> fallbackProvider \<noteq> dl_active s
                  then let (m2, r2) = enqueue_spec (dw_now_retry w i) spec timeout (dw_before_retry w i m1)
                       in (s1\<lparr>dl_manager := m2, dl_selection := fallbackDecision, dl_active := fallbackProvider\<rparr>, r2)
                  else (s1, Inl err))"

definition dispatch_item ::
  "'e dispatch_tool \<Rightarrow> dispatch_world \<Rightarrow> duration \<Rightarrow> nat \<Rightarrow> dispatch_job_spec \<Rightarrow> dispatch_loop \<Rightarrow> dispatch_loop" where
  "dispatch_item t w timeout i spec s = (case validateDispatchSpec spec of
      Some _ \<Rightarrow> s\<lparr>dl_out := reject i ''invalid_spec'' (dl_out s)\<rparr>
    | None \<Rightarrow> (case enqueue_with_fallback t w timeout i spec s of
        (s1, Inr job) \<Rightarrow>
          s1\<lparr>dl_out := accept i (job_ID job) (dl_out s1),
             dl_bodies := dl_bodies s1 @ [(job_ID job, spec, effective_provider (dl_active s1))]\<rparr>
      | (s1, Inl err) \<Rightarrow> s1\<lparr>dl_out := reject i (enqueue_code err) (dl_out s1)\<rparr>))"

fun dispatch_items ::
  "'e dispatch_tool \<Rightarrow> dispatch_world \<Rightarrow> duration \<Rightarrow> nat \<Rightarrow> dispatch_job_spec list \<Rightarrow> dispatch_loop \<Rightarrow> dispatch_loop" where
  "dispatch_items t w timeout i [] s = s"
| "dispatch_items t w timeout i (spec # specs) s =
     dispatch_items t w timeout (i + 1) specs (dispatch_item t w timeout i spec s)"

definition default_selection :: policy_decision where
  "default_selection =
     \<lparr>pd_PolicyVersion = ''cpu-baseline-default'', pd_CapabilityEpoch = 0,
      pd_SelectedProvider = DefaultBaselineProviderID, pd_RankedFallbackChain = [DefaultBaselineProviderID],
      pd_Confidence = 1, pd_ReasonCode = ''feature_disabled''\<rparr>"

definition batch_input :: "dispatch_job_spec list \<Rightarrow> policy_input" where
  "batch_input specs = \<lparr>in_WorkloadTags = deriveBatchWorkloadTags specs, in_QualityScore = None, in_RequestLabels = []\<rparr>"

definition initial_selection ::
  "'e dispatch_tool \<Rightarrow> dispatch_world \<Rightarrow> dispatch_job_spec list \<Rightarrow> policy_engine \<times> policy_decision" where
  "initial_selection t w specs =
     (if \<not> policyEnabled t then (dt_policyEngine t, default_selection)
      else
        let (e, d) = Select (dw_snapshot w) (batch_input specs) (dt_policyEngine t)
        in (e, if pd_CapabilityEpoch d = 0 then d\<lparr>pd_CapabilityEpoch := cs_Epoch (dw_snapshot w)\<rparr> else d))"

definition initial_loop :: "'e dispatch_tool \<Rightarrow> manager \<Rightarrow> policy_decision \<Rightarrow> dispatch_job_spec list \<Rightarrow> dispatch_loop" where
  "initial_loop t m selection specs =
     \<lparr>dl_manager = m, dl_selection = selection, dl_active = pd_SelectedProvider selection,
      dl_out = \<lparr>db_Requested = length specs, db_Accepted = 0, db_Rejected = 0, db_Results = []\<rparr>,
      dl_bodies = dt_bodies t\<rparr>"

section \<open>Telemetry and result\<close>

definition fallback_count :: "string list \<Rightarrow> int" where
  "fallback_count chain = (if length chain > 1 then int (length chain) - 1 else 0)"

definition dispatch_decision_event ::
  "64 word \<Rightarrow> dispatch_world \<Rightarrow> dispatch_batch_result \<Rightarrow> policy_decision \<Rightarrow> decision_event" where
  "dispatch_decision_event epoch w out selection =
     (let reason0 = trim_space (pd_ReasonCode selection);
          reason = (if reason0 = '''' \<or> reason0 = ''selected''
                    then if db_Accepted out = 0 then ''rejected''
                         else if db_Rejected out > 0 then ''accepted_partial'' else ''accepted''
                    else reason0);
          version0 = trim_space (pd_PolicyVersion selection);
          chain = (if pd_RankedFallbackChain selection = [] then [DefaultBaselineProviderID]
                   else pd_RankedFallbackChain selection);
          ms = milliseconds (dw_elapsed w)
      in \<lparr>de_DecisionID = '''', de_RequestID = '''',
          de_PolicyVersion = (if version0 = '''' then ''cpu-baseline-default'' else version0),
          de_CapabilityEpoch = epoch, de_SelectedProvider = effective_provider (pd_SelectedProvider selection),
          de_FallbackChain = chain, de_FallbackCount = fallback_count chain, de_ReasonCode = reason,
          de_Confidence = pd_Confidence selection, de_EstimatedLatencyMS = ms, de_ActualLatencyMS = ms,
          de_FeatureFlagsApplied = [''hhd.decision_telemetry.mcp_dispatch''],
          de_QualityGuardrailState = ''not-evaluated'', de_EmittedAt = ''''\<rparr>)"

text \<open>The epoch of the event; asking a nil registry for a snapshot panics.\<close>

definition decision_epoch :: "'e dispatch_tool \<Rightarrow> dispatch_world \<Rightarrow> policy_decision \<Rightarrow> 64 word outcome" where
  "decision_epoch t w selection =
     (if pd_CapabilityEpoch selection > 0 then Ok (pd_CapabilityEpoch selection)
      else case dt_snapshots t of
        INil \<Rightarrow> Ok 0
      | ITypedNil \<Rightarrow> Panic
      | IVal _ \<Rightarrow> Ok (cs_Epoch (dw_snapshot_after w)))"

text \<open>The emitter's method accepts a nil receiver and then does nothing.\<close>

definition emitDecisionTelemetry ::
  "(decision_event \<Rightarrow> 'e \<Rightarrow> 'e \<times> string option) \<Rightarrow> dispatch_world \<Rightarrow> dispatch_batch_result \<Rightarrow> policy_decision \<Rightarrow>
   'e dispatch_tool \<Rightarrow> 'e dispatch_tool \<times> string option outcome" where
  "emitDecisionTelemetry emit w out selection t =
     (if dt_emitter t = INil then (t, Ok None)
      else case decision_epoch t w selection of
        Ok epoch \<Rightarrow> (case dt_emitter t of
            IVal e \<Rightarrow>
              let (e', err) = emit (dispatch_decision_event epoch w out selection) e
              in (t\<lparr>dt_emitter := IVal e'\<rparr>, Ok err)
          | _ \<Rightarrow> (t, Ok None))
      | Err err \<Rightarrow> (t, Err err)
      | Panic \<Rightarrow> (t, Panic))"

definition opt_field :: "string \<Rightarrow> string \<Rightarrow> (string \<times> string) list" where
  "opt_field k v = (if v = '''' then [] else [(k, json_quote v)])"

definition item_json :: "dispatch_item_result \<Rightarrow> string" where
  "item_json r = json_struct ([(''index'', show_nat (dr_Index r)), (''status'', json_quote (dr_Status r))] @
     opt_field ''job_id'' (dr_JobID r) @ opt_field ''code'' (dr_Code r))"

definition batch_json :: "dispatch_batch_result \<Rightarrow> string" where
  "batch_json out = json_struct
     [(''requested'', show_nat (db_Requested out)), (''accepted'', show_nat (db_Accepted out)),
      (''rejected'', show_nat (db_Rejected out)),
      (''results'', ''['' @ join_with '','' (map item_json (db_Results out)) @ '']'')]"

definition Execute_batch ::
  "(decision_event \<Rightarrow> 'e \<Rightarrow> 'e \<times> string option) \<Rightarrow> dispatch_world \<Rightarrow> string + dispatch_args \<Rightarrow>
   'e dispatch_tool \<Rightarrow> 'e dispatch_tool \<times> tool_call_result outcome" where
  "Execute_batch emit w args t = (case dt_manager t of
      None \<Rightarrow> (t, Ok (TextError ''job manager is not configured''))
    | Some m \<Rightarrow> (case args of
        Inl err \<Rightarrow> (t, Ok (TextError (''invalid arguments: '' @ err)))
      | Inr p \<Rightarrow>
          if da_Jobs p = [] then (t, Ok (TextError ''jobs must contain at least 1 item''))
          else if int (length (da_Jobs p)) > dt_maxBatch t
            then (t, Ok (TextError (''jobs exceeds max batch size of '' @ show_int (dt_maxBatch t))))
          else (case resolveTimeout t (da_ExecutionTimeoutSeconds p) of
            Inl timeoutErr \<Rightarrow> (t, Ok (TextError timeoutErr))
          | Inr timeout \<Rightarrow>
              if policyEnabled t \<and> dt_snapshots t = ITypedNil then (t, Panic)
              else let (engine, selection) = initial_selection t w (da_Jobs p);
                  t1 = t\<lparr>dt_policyEngine := engine\<rparr>;
                  s = dispatch_items t1 w timeout 0 (da_Jobs p) (initial_loop t1 m selection (da_Jobs p));
                  t2 = t1\<lparr>dt_manager := Some (dl_manager s), dt_bodies := dl_bodies s\<rparr>
              in (case emitDecisionTelemetry emit w (dl_out s) (dl_selection s) t2 of
                   (t3, Panic) \<Rightarrow> (t3, Panic)
                 | (t3, _) \<Rightarrow> (t3, Ok (TextResult (batch_json (dl_out s))))))))"


section \<open>Accounting\<close>

text \<open>What holds of the loop after the items before \<open>i\<close>; \<open>providers\<close> are those a job may be sent to.\<close>

definition loop_ok :: "string set \<Rightarrow> policy_decision \<Rightarrow> dispatch_job_spec list \<Rightarrow> nat \<Rightarrow> dispatch_loop \<Rightarrow> bool" where
  "loop_ok providers d specs i s \<longleftrightarrow>
     i \<le> length specs \<and> db_Requested (dl_out s) = length specs \<and>
     db_Accepted (dl_out s) + db_Rejected (dl_out s) = i \<and>
     db_Accepted (dl_out s) = length (filter (\<lambda>r. dr_Status r = ''accepted'') (db_Results (dl_out s))) \<and>
     map dr_Index (db_Results (dl_out s)) = [0..<i] \<and>
     (\<forall>k < i. (validateDispatchSpec (specs ! k) \<noteq> None \<longrightarrow>
                  db_Results (dl_out s) ! k = rejected_item k ''invalid_spec'') \<and>
        (dr_Status (db_Results (dl_out s) ! k) = ''accepted'' \<longrightarrow>
           (\<exists>p \<in> providers. (dr_JobID (db_Results (dl_out s) ! k), specs ! k, p) \<in> set (dl_bodies s)))) \<and>
     pd_RankedFallbackChain (dl_selection s) = pd_RankedFallbackChain d \<and>
     effective_provider (dl_active s) \<in> providers"

lemma effective_trim [simp]: "effective_provider (trim_space p) = effective_provider p"
  by (simp add: effective_provider_def)

lemma next_in_chain_in: "next_in_chain b f xs \<in> insert b (set xs)"
proof (induction xs)
  case (Cons x xs)
  then show ?case by (cases xs) auto
qed simp

lemma fallback_provider:
  assumes "pd_RankedFallbackChain d \<noteq> []"
  shows "pd_RankedFallbackChain (FallbackOnFailure e d f c) = pd_RankedFallbackChain d \<and>
    pd_SelectedProvider (FallbackOnFailure e d f c) \<in>
      insert (pcfg_BaselineProviderID (pe_cfg e)) (set (pd_RankedFallbackChain d))"
  using assms next_in_chain_in [of "pcfg_BaselineProviderID (pe_cfg e)" _ "pd_RankedFallbackChain d"]
  by (simp add: FallbackOnFailure_def Let_def)

lemma enqueue_with_fallback_frame:
  assumes "enqueue_with_fallback t w timeout i spec s = (s1, r)"
    and "pd_RankedFallbackChain (dl_selection s) \<noteq> []" and "effective_provider (dl_active s) \<in> providers"
    and "policyEnabled t \<Longrightarrow> effective_provider ` insert (pcfg_BaselineProviderID (pe_cfg (dt_policyEngine t)))
           (set (pd_RankedFallbackChain (dl_selection s))) \<subseteq> providers"
  shows "dl_out s1 = dl_out s \<and> dl_bodies s1 = dl_bodies s \<and> effective_provider (dl_active s1) \<in> providers \<and>
    pd_RankedFallbackChain (dl_selection s1) = pd_RankedFallbackChain (dl_selection s)"
proof -
  note fb = fallback_provider [OF assms(2), of "dt_policyEngine t" "dl_active s"]
  have "effective_provider (pd_SelectedProvider (FallbackOnFailure (dt_policyEngine t) (dl_selection s) (dl_active s) c)) \<in> providers"
    if "policyEnabled t" for c
    using fb [of c] assms(4) [OF that] by blast
  then show ?thesis
    using assms(1,3) fb
    by (auto simp: enqueue_with_fallback_def Let_def case_prod_beta split: sum.splits if_splits)
qed

lemma loop_ok_snoc:
  assumes "loop_ok providers d specs i s" and "i < length specs"
    and "db_Requested out = length specs" and "db_Results out = db_Results (dl_out s) @ [r]" and "dr_Index r = i"
    and "db_Accepted out = db_Accepted (dl_out s) + (if dr_Status r = ''accepted'' then 1 else 0)"
    and "db_Rejected out = db_Rejected (dl_out s) + (if dr_Status r = ''accepted'' then 0 else 1)"
    and "validateDispatchSpec (specs ! i) \<noteq> None \<Longrightarrow> r = rejected_item i ''invalid_spec''"
    and "set (dl_bodies s) \<subseteq> set (dl_bodies s')"
    and "dr_Status r = ''accepted'' \<Longrightarrow> \<exists>p \<in> providers. (dr_JobID r, specs ! i, p) \<in> set (dl_bodies s')"
    and "pd_RankedFallbackChain (dl_selection s') = pd_RankedFallbackChain d"
    and "effective_provider (dl_active s') \<in> providers" and "dl_out s' = out"
  shows "loop_ok providers d specs (Suc i) s'"
proof -
  have len: "length (db_Results (dl_out s)) = i"
    using assms(1) unfolding loop_ok_def by (metis length_map length_upt diff_zero)
  have item: "(validateDispatchSpec (specs ! k) \<noteq> None \<longrightarrow> db_Results out ! k = rejected_item k ''invalid_spec'') \<and>
      (dr_Status (db_Results out ! k) = ''accepted'' \<longrightarrow>
         (\<exists>p \<in> providers. (dr_JobID (db_Results out ! k), specs ! k, p) \<in> set (dl_bodies s')))" if "k < Suc i" for k
  proof (cases "k = i")
    case True
    then show ?thesis using assms(4,8,10) len by (simp add: nth_append)
  next
    case False
    with that have k: "k < i" by simp
    then have "db_Results out ! k = db_Results (dl_out s) ! k" using assms(4) len by (simp add: nth_append)
    moreover have "(validateDispatchSpec (specs ! k) \<noteq> None \<longrightarrow>
          db_Results (dl_out s) ! k = rejected_item k ''invalid_spec'') \<and>
        (dr_Status (db_Results (dl_out s) ! k) = ''accepted'' \<longrightarrow>
           (\<exists>p \<in> providers. (dr_JobID (db_Results (dl_out s) ! k), specs ! k, p) \<in> set (dl_bodies s)))"
      using assms(1) k unfolding loop_ok_def by blast
    ultimately show ?thesis using assms(9) by auto
  qed
  have "map dr_Index (db_Results out) = [0..<Suc i]" using assms(1,4,5) by (simp add: loop_ok_def)
  moreover have "db_Accepted out + db_Rejected out = Suc i"
    "db_Accepted out = length (filter (\<lambda>r. dr_Status r = ''accepted'') (db_Results out))"
    using assms(1,4,6,7) by (simp_all add: loop_ok_def)
  moreover have "\<forall>k < Suc i. (validateDispatchSpec (specs ! k) \<noteq> None \<longrightarrow>
        db_Results out ! k = rejected_item k ''invalid_spec'') \<and>
      (dr_Status (db_Results out ! k) = ''accepted'' \<longrightarrow>
         (\<exists>p \<in> providers. (dr_JobID (db_Results out ! k), specs ! k, p) \<in> set (dl_bodies s')))"
    using item by blast
  moreover have "Suc i \<le> length specs" using assms(2) by simp
  ultimately show ?thesis
    unfolding loop_ok_def assms(13) using assms(3,11,12) by (intro conjI)
qed

lemma dispatch_item_ok:
  assumes "loop_ok providers d specs i s" and "i < length specs" and "pd_RankedFallbackChain d \<noteq> []"
    and "policyEnabled t \<Longrightarrow> effective_provider ` insert (pcfg_BaselineProviderID (pe_cfg (dt_policyEngine t)))
           (set (pd_RankedFallbackChain d)) \<subseteq> providers"
  shows "loop_ok providers d specs (Suc i) (dispatch_item t w timeout i (specs ! i) s)"
proof (cases "validateDispatchSpec (specs ! i)")
  case (Some e)
  show ?thesis
    by (rule loop_ok_snoc [OF assms(1,2), of "reject i ''invalid_spec'' (dl_out s)" "rejected_item i ''invalid_spec''"])
      (use assms(1) Some in \<open>simp_all add: loop_ok_def dispatch_item_def reject_def rejected_item_def\<close>)
next
  case None
  obtain s1 r where enq: "enqueue_with_fallback t w timeout i (specs ! i) s = (s1, r)" by fastforce
  have frame: "dl_out s1 = dl_out s" "dl_bodies s1 = dl_bodies s" "effective_provider (dl_active s1) \<in> providers"
    "pd_RankedFallbackChain (dl_selection s1) = pd_RankedFallbackChain d"
    using enqueue_with_fallback_frame [OF enq, of providers] assms by (auto simp: loop_ok_def)
  show ?thesis
  proof (cases r)
    case (Inl err)
    show ?thesis
      by (rule loop_ok_snoc [OF assms(1,2), of "reject i (enqueue_code err) (dl_out s)" "rejected_item i (enqueue_code err)"])
        (use assms(1) None enq Inl frame in \<open>simp_all add: loop_ok_def dispatch_item_def reject_def rejected_item_def\<close>)
  next
    case (Inr job)
    have b: "\<exists>p \<in> providers. (job_ID job, specs ! i, p) \<in>
        set (dl_bodies s @ [(job_ID job, specs ! i, effective_provider (dl_active s1))])"
      using frame(3) by auto
    show ?thesis
      by (rule loop_ok_snoc [OF assms(1,2), of "accept i (job_ID job) (dl_out s)" "accepted_item i (job_ID job)"])
        (use assms(1) None enq Inr frame b in \<open>simp_all add: subset_insertI loop_ok_def dispatch_item_def accept_def accepted_item_def\<close>)
  qed
qed

lemma dispatch_items_ok:
  assumes "loop_ok providers d specs i s" and "pd_RankedFallbackChain d \<noteq> []"
    and "policyEnabled t \<Longrightarrow> effective_provider ` insert (pcfg_BaselineProviderID (pe_cfg (dt_policyEngine t)))
           (set (pd_RankedFallbackChain d)) \<subseteq> providers"
  shows "loop_ok providers d specs (length specs) (dispatch_items t w timeout i (drop i specs) s)"
  using assms(1)
proof (induction "drop i specs" arbitrary: i s)
  case Nil
  then have "i = length specs" by (auto simp: loop_ok_def)
  with Nil show ?case by simp
next
  case (Cons spec rest)
  then have i: "i < length specs" by (metis drop_all list.distinct(1) not_le)
  have sp: "spec = specs ! i" "rest = drop (Suc i) specs" using Cons.hyps(2) by (simp_all add: Cons_nth_drop_Suc [OF i, symmetric])
  show ?case
    using Cons.hyps(1) [OF sp(2) dispatch_item_ok [OF Cons.prems i assms(2,3)]] sp
    by (simp add: Cons_nth_drop_Suc [OF i, symmetric])
qed


text \<open>The providers a batch may reach: the eligible ones and the baseline.\<close>

definition batch_providers :: "'e dispatch_tool \<Rightarrow> dispatch_world \<Rightarrow> dispatch_job_spec list \<Rightarrow> string set" where
  "batch_providers t w specs = effective_provider `
     (if policyEnabled t
      then insert (pcfg_BaselineProviderID (pe_cfg (dt_policyEngine t)))
             (set (eligible_ids (dt_policyEngine t) (batch_input specs) (dw_snapshot w)))
      else {DefaultBaselineProviderID})"

lemma Select_cfg: "pe_cfg (fst (Select snapshot input e)) = pe_cfg e"
  by (simp add: Select_def Let_def case_prod_beta split: sum.split)

lemma policy_engine_at_ok:
  "pcfg_MinConfidence (pe_cfg (policy_engine_at cfg latched)) \<le> 1"
  "pcfg_BaselineProviderID (pe_cfg (policy_engine_at cfg latched)) \<noteq> ''''"
  using normalize_MinConfidence normalize_baseline_nonblank [of cfg]
  by (auto simp: policy_engine_at_def NewPolicyEngineV2_def)

lemma initial_selection_ok:
  assumes e: "dt_policyEngine t = policy_engine_at cfg latched"
    and sel: "initial_selection t w specs = (engine, d)"
  defines "t1 \<equiv> t\<lparr>dt_policyEngine := engine\<rparr>"
  shows "pd_RankedFallbackChain d \<noteq> [] \<and> loop_ok (batch_providers t w specs) d specs 0 (initial_loop t1 m d specs) \<and>
    (policyEnabled t1 \<longrightarrow> effective_provider ` insert (pcfg_BaselineProviderID (pe_cfg (dt_policyEngine t1)))
       (set (pd_RankedFallbackChain d)) \<subseteq> batch_providers t w specs)"
proof (cases "policyEnabled t")
  case False
  then show ?thesis
    using sel
    by (auto simp: t1_def initial_selection_def default_selection_def loop_ok_def initial_loop_def batch_providers_def policyEnabled_def)
next
  case True
  let ?e = "dt_policyEngine t"
  let ?ids = "eligible_ids ?e (batch_input specs) (dw_snapshot w)"
  let ?d = "snd (Select (dw_snapshot w) (batch_input specs) ?e)"
  have "decision_ok ?e ?ids ?d" unfolding e by (intro Select_ok_gen policy_engine_at_ok)
  moreover have d: "pd_RankedFallbackChain d = pd_RankedFallbackChain ?d" "pd_SelectedProvider d = pd_SelectedProvider ?d"
    and engine: "pe_cfg engine = pe_cfg ?e"
    using sel True Select_cfg [of "dw_snapshot w" "batch_input specs" ?e]
    by (auto simp: initial_selection_def Let_def case_prod_beta)
  ultimately have chain: "pd_RankedFallbackChain d \<noteq> []" "pd_SelectedProvider d = hd (pd_RankedFallbackChain d)"
    "set (pd_RankedFallbackChain d) \<subseteq> insert (pcfg_BaselineProviderID (pe_cfg ?e)) (set ?ids)"
    unfolding decision_ok_def by simp_all
  then have "pd_SelectedProvider d \<in> insert (pcfg_BaselineProviderID (pe_cfg ?e)) (set ?ids)"
    using hd_in_set by fastforce
  with chain engine True show ?thesis
    by (auto simp: t1_def loop_ok_def initial_loop_def batch_providers_def policyEnabled_def)
qed

lemma emit_frame [simp]:
  "dt_bodies (fst (emitDecisionTelemetry emit w out d t)) = dt_bodies t"
  "dt_manager (fst (emitDecisionTelemetry emit w out d t)) = dt_manager t"
  by (simp_all add: emitDecisionTelemetry_def Let_def case_prod_beta split: outcome.split iface.split)

lemma emit_no_panic:
  "dt_snapshots t \<noteq> ITypedNil \<Longrightarrow> \<exists>r. snd (emitDecisionTelemetry emit w out d t) = Ok r"
  by (auto simp: emitDecisionTelemetry_def decision_epoch_def Let_def case_prod_beta split: iface.split)

text \<open>The final state of the loop of a batch.\<close>

definition batch_loop :: "'e dispatch_tool \<Rightarrow> dispatch_world \<Rightarrow> duration \<Rightarrow> manager \<Rightarrow> dispatch_job_spec list \<Rightarrow> dispatch_loop" where
  "batch_loop t w timeout m specs =
     (let (engine, d) = initial_selection t w specs; t1 = t\<lparr>dt_policyEngine := engine\<rparr>
      in dispatch_items t1 w timeout 0 specs (initial_loop t1 m d specs))"

lemma Execute_batch_ok:
  assumes "dt_manager t = Some m" and "da_Jobs p \<noteq> []" and "int (length (da_Jobs p)) \<le> dt_maxBatch t"
    and "resolveTimeout t (da_ExecutionTimeoutSeconds p) = Inr timeout" and "dt_snapshots t \<noteq> ITypedNil"
  shows "snd (Execute_batch emit w (Inr p) t) = Ok (TextResult (batch_json (dl_out (batch_loop t w timeout m (da_Jobs p))))) \<and>
    dt_bodies (fst (Execute_batch emit w (Inr p) t)) = dl_bodies (batch_loop t w timeout m (da_Jobs p)) \<and>
    dt_manager (fst (Execute_batch emit w (Inr p) t)) = Some (dl_manager (batch_loop t w timeout m (da_Jobs p)))"
proof -
  obtain engine d where sel: "initial_selection t w (da_Jobs p) = (engine, d)" by fastforce
  let ?s = "batch_loop t w timeout m (da_Jobs p)"
  let ?t2 = "t\<lparr>dt_policyEngine := engine, dt_manager := Some (dl_manager ?s), dt_bodies := dl_bodies ?s\<rparr>"
  have "dt_snapshots ?t2 \<noteq> ITypedNil" using assms(5) by simp
  then obtain t3 r where emit: "emitDecisionTelemetry emit w (dl_out ?s) (dl_selection ?s) ?t2 = (t3, Ok r)"
    using emit_no_panic [of ?t2 emit w "dl_out ?s" "dl_selection ?s"] by (metis prod.collapse)
  from emit have "dt_bodies t3 = dl_bodies ?s" "dt_manager t3 = Some (dl_manager ?s)"
    using emit_frame [of emit w "dl_out ?s" "dl_selection ?s" ?t2] by simp_all
  with emit assms sel show ?thesis by (simp add: Execute_batch_def batch_loop_def Let_def)
qed

text \<open>
  C8. Whatever other goroutines do to the job manager in between, the answer to an admissible batch
  accounts for every item exactly once and in order: the accepted and the rejected items add up to the
  requested ones, an invalid item is rejected as such, and every accepted item has a job whose body is
  that item's specification on an eligible provider or the baseline.
\<close>

theorem dispatch_batch_accounting:
  assumes "dt_manager t = Some m" and "dt_policyEngine t = policy_engine_at cfg latched"
    and "da_Jobs p \<noteq> []" and "int (length (da_Jobs p)) \<le> dt_maxBatch t"
    and "resolveTimeout t (da_ExecutionTimeoutSeconds p) = Inr timeout" and "dt_snapshots t \<noteq> ITypedNil"
  shows "\<exists>out. snd (Execute_batch emit w (Inr p) t) = Ok (TextResult (batch_json out)) \<and>
    db_Requested out = length (da_Jobs p) \<and> db_Accepted out + db_Rejected out = length (da_Jobs p) \<and>
    db_Accepted out = length (filter (\<lambda>r. dr_Status r = ''accepted'') (db_Results out)) \<and>
    map dr_Index (db_Results out) = [0..<length (da_Jobs p)] \<and>
    (\<forall>k < length (da_Jobs p).
       (validateDispatchSpec (da_Jobs p ! k) \<noteq> None \<longrightarrow> db_Results out ! k = rejected_item k ''invalid_spec'') \<and>
       (dr_Status (db_Results out ! k) = ''accepted'' \<longrightarrow>
          (\<exists>prov \<in> batch_providers t w (da_Jobs p).
             (dr_JobID (db_Results out ! k), da_Jobs p ! k, prov) \<in> set (dt_bodies (fst (Execute_batch emit w (Inr p) t))))))"
proof -
  obtain engine d where sel: "initial_selection t w (da_Jobs p) = (engine, d)" by fastforce
  note init = initial_selection_ok [OF assms(2) sel, of m]
  let ?t1 = "t\<lparr>dt_policyEngine := engine\<rparr>"
  have "loop_ok (batch_providers t w (da_Jobs p)) d (da_Jobs p) (length (da_Jobs p))
      (dispatch_items ?t1 w timeout 0 (drop 0 (da_Jobs p)) (initial_loop ?t1 m d (da_Jobs p)))"
    by (rule dispatch_items_ok) (use init in blast)+
  then have "loop_ok (batch_providers t w (da_Jobs p)) d (da_Jobs p) (length (da_Jobs p)) (batch_loop t w timeout m (da_Jobs p))"
    by (simp add: batch_loop_def sel Let_def)
  with Execute_batch_ok [OF assms(1,3-6), of emit w] show ?thesis
    unfolding loop_ok_def by (intro exI [of _ "dl_out (batch_loop t w timeout m (da_Jobs p))"]) simp
qed


section \<open>Batches nothing interferes with\<close>

definition quiet :: "dispatch_world \<Rightarrow> bool" where
  "quiet w \<longleftrightarrow> dw_before w = (\<lambda>_ m. m) \<and> dw_before_retry w = (\<lambda>_ m. m)"

definition accepted_results :: "dispatch_batch_result \<Rightarrow> dispatch_item_result list" where
  "accepted_results out = filter (\<lambda>r. dr_Status r = ''accepted'') (db_Results out)"

definition valid_indexes :: "dispatch_job_spec list \<Rightarrow> nat \<Rightarrow> nat list" where
  "valid_indexes specs n = filter (\<lambda>k. validateDispatchSpec (specs ! k) = None) [0..<n]"

definition free_slots :: "manager \<Rightarrow> nat" where
  "free_slots m = nat (mgr_queueCap m - int (length (mgr_queue m)))"

lemma enqueue_spec_cases:
  assumes "\<not> mgr_closed m" and "0 \<le> timeout"
  obtains (accepted) m' j where "enqueue_spec now spec timeout m = (m', Inr j)" and "0 < free_slots m"
      and "mgr_queue m' = mgr_queue m @ [job_ID j]" and "\<not> mgr_closed m'" and "mgr_queueCap m' = mgr_queueCap m"
  | (full) m' where "enqueue_spec now spec timeout m = (m', Inl ErrQueueFull)" and "free_slots m = 0"
      and "mgr_queue m' = mgr_queue m" and "\<not> mgr_closed m'" and "mgr_queueCap m' = mgr_queueCap m"
proof -
  let ?req = "\<lparr>req_Name = buildDispatchJobName spec, req_Timeout = timeout, req_Run = True, req_RunResult = False\<rparr>"
  obtain m1 j where ins: "enqueue_insert now ?req m = (m1, j)" by fastforce
  then have m1: "mgr_queue m1 = mgr_queue m" "mgr_closed m1 = mgr_closed m" "mgr_queueCap m1 = mgr_queueCap m"
    by (auto simp: enqueue_insert_def nextID_def Let_def)
  have enq: "enqueue_spec now spec timeout m = enqueue_send j m1"
    using assms ins by (simp add: enqueue_spec_def Enqueue_def enqueue_check_def)
  show thesis
  proof (cases "int (length (mgr_queue m)) < mgr_queueCap m")
    case True
    show thesis
      by (rule accepted [of "publishQueued j (m1\<lparr>mgr_queue := mgr_queue m1 @ [job_ID j]\<rparr>)" j])
        (use True m1 assms(1) enq in \<open>simp_all add: enqueue_send_def free_slots_def\<close>)
  next
    case False
    show thesis
      by (rule full [of "m1\<lparr>mgr_jobs := gm_del (job_ID j) (mgr_jobs m1)\<rparr>"])
        (use False m1 assms(1) enq in \<open>simp_all add: enqueue_send_def free_slots_def\<close>)
  qed
qed

definition quiet_ok :: "manager \<Rightarrow> dispatch_job_spec list \<Rightarrow> nat \<Rightarrow> dispatch_loop \<Rightarrow> bool" where
  "quiet_ok m specs i s \<longleftrightarrow>
     \<not> mgr_closed (dl_manager s) \<and> mgr_queueCap (dl_manager s) = mgr_queueCap m \<and>
     mgr_queue (dl_manager s) = mgr_queue m @ map dr_JobID (accepted_results (dl_out s)) \<and>
     map dr_Index (accepted_results (dl_out s)) = take (free_slots m) (valid_indexes specs i)"

lemma quiet_free_slots:
  assumes "quiet_ok m specs i s"
  shows "free_slots (dl_manager s) = free_slots m - length (accepted_results (dl_out s))"
  using assms by (simp add: quiet_ok_def free_slots_def nat_diff_distrib' algebra_simps)

lemma enqueue_with_fallback_quiet:
  assumes "quiet w" and "0 \<le> timeout" and "\<not> mgr_closed (dl_manager s)"
  obtains (accepted) s1 j where "enqueue_with_fallback t w timeout i spec s = (s1, Inr j)"
      and "0 < free_slots (dl_manager s)" and "dl_out s1 = dl_out s"
      and "mgr_queue (dl_manager s1) = mgr_queue (dl_manager s) @ [job_ID j]"
      and "\<not> mgr_closed (dl_manager s1)" and "mgr_queueCap (dl_manager s1) = mgr_queueCap (dl_manager s)"
  | (full) s1 where "enqueue_with_fallback t w timeout i spec s = (s1, Inl ErrQueueFull)"
      and "free_slots (dl_manager s) = 0" and "dl_out s1 = dl_out s" and "mgr_queue (dl_manager s1) = mgr_queue (dl_manager s)"
      and "\<not> mgr_closed (dl_manager s1)" and "mgr_queueCap (dl_manager s1) = mgr_queueCap (dl_manager s)"
proof (rule enqueue_spec_cases [OF assms(3,2), of "dw_now w i" spec])
  fix m' j
  assume "enqueue_spec (dw_now w i) spec timeout (dl_manager s) = (m', Inr j)" "0 < free_slots (dl_manager s)"
    "mgr_queue m' = mgr_queue (dl_manager s) @ [job_ID j]" "\<not> mgr_closed m'" "mgr_queueCap m' = mgr_queueCap (dl_manager s)"
  then show thesis
    using assms(1) by (intro accepted [of "s\<lparr>dl_manager := m'\<rparr>" j]) (simp_all add: enqueue_with_fallback_def quiet_def)
next
  fix m1
  assume first: "enqueue_spec (dw_now w i) spec timeout (dl_manager s) = (m1, Inl ErrQueueFull)" "free_slots (dl_manager s) = 0"
    "mgr_queue m1 = mgr_queue (dl_manager s)" "\<not> mgr_closed m1" "mgr_queueCap m1 = mgr_queueCap (dl_manager s)"
  then have "free_slots m1 = 0" by (simp add: free_slots_def)
  then obtain m2 where "enqueue_spec (dw_now_retry w i) spec timeout m1 = (m2, Inl ErrQueueFull)"
    "mgr_queue m2 = mgr_queue m1" "\<not> mgr_closed m2" "mgr_queueCap m2 = mgr_queueCap m1"
    using enqueue_spec_cases [OF first(4) assms(2), of "dw_now_retry w i" spec] by (metis less_irrefl)
  with first assms(1) show thesis
    by (intro full [of "fst (enqueue_with_fallback t w timeout i spec s)"])
      (simp_all add: enqueue_with_fallback_def quiet_def Let_def)
qed

lemma valid_indexes_Suc:
  "valid_indexes specs (Suc i) = valid_indexes specs i @ (if validateDispatchSpec (specs ! i) = None then [i] else [])"
  by (simp add: valid_indexes_def)

lemma accepted_results_add:
  "accepted_results (accept i jid out) = accepted_results out @ [accepted_item i jid]"
  "accepted_results (reject i code out) = accepted_results out"
  by (simp_all add: accepted_results_def accept_def accepted_item_def reject_def rejected_item_def)

lemma quiet_item:
  assumes "quiet w" and "0 \<le> timeout" and ok: "quiet_ok m specs i s"
  shows "quiet_ok m specs (Suc i) (dispatch_item t w timeout i (specs ! i) s)"
proof (cases "validateDispatchSpec (specs ! i)")
  case (Some e)
  with ok show ?thesis by (simp add: quiet_ok_def dispatch_item_def valid_indexes_Suc accepted_results_add)
next
  case None
  have "\<not> mgr_closed (dl_manager s)" using ok by (simp add: quiet_ok_def)
  note cases = enqueue_with_fallback_quiet [OF assms(1,2) this, of t i "specs ! i"]
  have len: "length (accepted_results (dl_out s)) = min (length (valid_indexes specs i)) (free_slots m)"
    using ok unfolding quiet_ok_def by (metis length_map length_take)
  note free = quiet_free_slots [OF ok]
  show ?thesis
  proof (rule cases)
    fix s1 j
    assume enq: "enqueue_with_fallback t w timeout i (specs ! i) s = (s1, Inr j)" "0 < free_slots (dl_manager s)"
      "dl_out s1 = dl_out s" "mgr_queue (dl_manager s1) = mgr_queue (dl_manager s) @ [job_ID j]"
      "\<not> mgr_closed (dl_manager s1)" "mgr_queueCap (dl_manager s1) = mgr_queueCap (dl_manager s)"
    then have "length (valid_indexes specs i) < free_slots m" using len free by linarith
    with enq ok None show ?thesis
      by (simp add: quiet_ok_def dispatch_item_def valid_indexes_Suc accepted_results_add accepted_item_def)
  next
    fix s1
    assume enq: "enqueue_with_fallback t w timeout i (specs ! i) s = (s1, Inl ErrQueueFull)" "free_slots (dl_manager s) = 0"
      "dl_out s1 = dl_out s" "mgr_queue (dl_manager s1) = mgr_queue (dl_manager s)"
      "\<not> mgr_closed (dl_manager s1)" "mgr_queueCap (dl_manager s1) = mgr_queueCap (dl_manager s)"
    then have "free_slots m \<le> length (valid_indexes specs i)" using len free by linarith
    with enq ok None show ?thesis
      by (simp add: quiet_ok_def dispatch_item_def valid_indexes_Suc accepted_results_add)
  qed
qed

lemma quiet_items:
  assumes "quiet w" and "0 \<le> timeout" and "quiet_ok m specs i s" and "i \<le> length specs"
  shows "quiet_ok m specs (length specs) (dispatch_items t w timeout i (drop i specs) s)"
  using assms(3,4)
proof (induction "length specs - i" arbitrary: i s)
  case (Suc k)
  then have i: "i < length specs" by simp
  have "quiet_ok m specs (length specs)
      (dispatch_items t w timeout (Suc i) (drop (Suc i) specs) (dispatch_item t w timeout i (specs ! i) s))"
    by (rule Suc.hyps(1)) (use Suc.hyps(2) i quiet_item [OF assms(1,2) Suc.prems(1)] in simp_all)
  then show ?case by (simp add: Cons_nth_drop_Suc [OF i, symmetric])
qed simp

lemma batch_loop_quiet:
  assumes "quiet w" and "\<not> mgr_closed m" and "0 \<le> timeout"
  shows "quiet_ok m specs (length specs) (batch_loop t w timeout m specs)"
proof -
  obtain engine d where sel: "initial_selection t w specs = (engine, d)" by fastforce
  let ?t1 = "t\<lparr>dt_policyEngine := engine\<rparr>"
  have "quiet_ok m specs 0 (initial_loop ?t1 m d specs)"
    using assms(2) by (simp add: quiet_ok_def initial_loop_def accepted_results_def valid_indexes_def)
  from quiet_items [OF assms(1,3) this, of ?t1] show ?thesis by (simp add: batch_loop_def sel Let_def)
qed

text \<open>
  When no other goroutine touches an open manager during the call, the first valid items of the
  batch, as many as the queue has free slots, are exactly the accepted ones, and their jobs are
  appended to the queue in the order of the batch.
\<close>

theorem dispatch_batch_fills_queue:
  assumes "dt_manager t = Some m" and "da_Jobs p \<noteq> []" and "int (length (da_Jobs p)) \<le> dt_maxBatch t"
    and "resolveTimeout t (da_ExecutionTimeoutSeconds p) = Inr timeout" and "dt_snapshots t \<noteq> ITypedNil"
    and "quiet w" and "\<not> mgr_closed m" and "0 \<le> timeout"
  shows "\<exists>out m'. snd (Execute_batch emit w (Inr p) t) = Ok (TextResult (batch_json out)) \<and>
    dt_manager (fst (Execute_batch emit w (Inr p) t)) = Some m' \<and>
    map dr_Index (accepted_results out) = take (free_slots m) (valid_indexes (da_Jobs p) (length (da_Jobs p))) \<and>
    mgr_queue m' = mgr_queue m @ map dr_JobID (accepted_results out)"
proof -
  have "quiet_ok m (da_Jobs p) (length (da_Jobs p)) (batch_loop t w timeout m (da_Jobs p))"
    using assms(6-8) by (intro batch_loop_quiet)
  with Execute_batch_ok [OF assms(1-5), of emit w] show ?thesis
    unfolding quiet_ok_def by blast
qed


section \<open>A registry that is a nil pointer\<close>

lemma dispatch_items_selection:
  assumes "\<not> policyEnabled t"
  shows "dl_selection (dispatch_items t w timeout i specs s) = dl_selection s"
proof (induction specs arbitrary: i s)
  case (Cons spec specs)
  have "dl_selection (fst (enqueue_with_fallback t w timeout i spec s)) = dl_selection s"
    using assms by (simp add: enqueue_with_fallback_def Let_def case_prod_beta split: sum.split)
  then have "dl_selection (dispatch_item t w timeout i spec s) = dl_selection s"
    by (simp add: dispatch_item_def case_prod_beta split: option.split sum.split)
  with Cons show ?case by simp
qed simp

lemma Execute_batch_typed_nil:
  assumes "dt_manager t = Some m" and "da_Jobs p \<noteq> []" and "int (length (da_Jobs p)) \<le> dt_maxBatch t"
    and "resolveTimeout t (da_ExecutionTimeoutSeconds p) = Inr timeout"
    and "dt_snapshots t = ITypedNil" and "dt_emitter t \<noteq> INil" and "\<not> dt_policyV2Enabled t"
  shows "snd (Execute_batch emit w (Inr p) t) = Panic \<and>
    dt_manager (fst (Execute_batch emit w (Inr p) t)) = Some (dl_manager (batch_loop t w timeout m (da_Jobs p)))"
proof -
  let ?s = "batch_loop t w timeout m (da_Jobs p)"
  have off: "\<not> policyEnabled t" using assms(7) by (simp add: policyEnabled_def)
  then have sel: "initial_selection t w (da_Jobs p) = (dt_policyEngine t, default_selection)"
    by (simp add: initial_selection_def)
  have "dl_selection ?s = default_selection"
    using off by (simp add: batch_loop_def sel Let_def dispatch_items_selection initial_loop_def)
  then have "decision_epoch u w (dl_selection ?s) = Panic" if "dt_snapshots u = ITypedNil" for u :: "'a dispatch_tool"
    using that by (simp add: decision_epoch_def default_selection_def)
  then have "emitDecisionTelemetry emit w (dl_out ?s) (dl_selection ?s) u = (u, Panic)"
    if "dt_snapshots u = ITypedNil" "dt_emitter u \<noteq> INil" for u
    using that by (simp add: emitDecisionTelemetry_def)
  with assms off sel show ?thesis by (simp add: Execute_batch_def batch_loop_def Let_def)
qed

section \<open>Witnesses\<close>

definition w_spec :: "string \<Rightarrow> dispatch_job_spec" where
  "w_spec role = \<lparr>ds_AgentRole = role, ds_ObjectivePrompt = ''fix'',
     ds_TargetWorkspaceUUID = ''01234567-89ab-cdef-0123-456789abcdef'', ds_SandboxProfile = ''''\<rparr>"

definition w_args :: dispatch_args where
  "w_args = \<lparr>da_Jobs = [w_spec '''', w_spec ''coder'', w_spec ''tester''], da_ExecutionTimeoutSeconds = Some 60\<rparr>"

text \<open>A manager with one free slot.\<close>

definition w_manager :: manager where
  "w_manager =
     \<lparr>mgr_queue = [''job-0''], mgr_publisher = False, mgr_events = [], mgr_rootCancelled = False, mgr_closed = False,
      mgr_idSeq = 1, mgr_totalCompleted = 0, mgr_totalFailed = 0, mgr_workers = 1, mgr_queueCap = 2, mgr_jobs = []\<rparr>"

definition w_tool :: "unit dispatch_tool" where
  "w_tool = NewDispatchConcurrentJobsWithDispatchPolicy (Some w_manager) 0 0 None '''' INil (IVal ())
     (DefaultPolicyV2Config\<lparr>pcfg_Enabled := True\<rparr>)"

definition w_world :: dispatch_world where
  "w_world = \<lparr>dw_snapshot = w_snapshot, dw_snapshot_after = w_snapshot, dw_before = \<lambda>_ m. m, dw_before_retry = \<lambda>_ m. m,
     dw_now = \<lambda>_. 1, dw_now_retry = \<lambda>_. 1, dw_elapsed = 0\<rparr>"

lemma w_tool_simps:
  "dt_manager w_tool = Some w_manager" "da_Jobs w_args \<noteq> []" "int (length (da_Jobs w_args)) \<le> dt_maxBatch w_tool"
  "resolveTimeout w_tool (da_ExecutionTimeoutSeconds w_args) = Inr (60 * second)"
  "dt_policyEngine w_tool = policy_engine_at (DefaultPolicyV2Config\<lparr>pcfg_Enabled := True\<rparr>) False"
  "dt_snapshots w_tool \<noteq> ITypedNil"
  by (simp_all add: w_tool_def NewDispatchConcurrentJobsWithDispatchPolicy_def w_args_def defaultDispatchMaxBatch_def
      resolveTimeout_def maxTimeoutSeconds_def policy_engine_at_def NewPolicyEngineV2_def)

lemma w_valid: "valid_indexes (da_Jobs w_args) 3 = [1, 2]" "free_slots w_manager = 1" "length (da_Jobs w_args) = 3"
  by code_simp+

theorem dispatch_batch_accounting_witness:
  "\<exists>out. snd (Execute_batch (\<lambda>_ e. (e, None)) w_world (Inr w_args) w_tool) = Ok (TextResult (batch_json out)) \<and>
     db_Accepted out + db_Rejected out = 3 \<and> db_Results out ! 0 = rejected_item 0 ''invalid_spec''"
proof -
  have "validateDispatchSpec (da_Jobs w_args ! 0) \<noteq> None" by code_simp
  then show ?thesis
    using dispatch_batch_accounting [OF w_tool_simps(1,5,2-4,6), of "\<lambda>_ e. (e, None)" w_world] w_valid(3)
    by (metis zero_less_numeral)
qed

text \<open>The first item is invalid, the second takes the only slot, the third finds the queue full.\<close>

theorem dispatch_batch_fills_queue_witness:
  "\<exists>out m'. snd (Execute_batch (\<lambda>_ e. (e, None)) w_world (Inr w_args) w_tool) = Ok (TextResult (batch_json out)) \<and>
     dt_manager (fst (Execute_batch (\<lambda>_ e. (e, None)) w_world (Inr w_args) w_tool)) = Some m' \<and>
     map dr_Index (accepted_results out) = [1] \<and> length (mgr_queue m') = 2"
proof -
  have "quiet w_world" "\<not> mgr_closed w_manager" "length (mgr_queue w_manager) = 1"
    by (simp_all add: quiet_def w_world_def w_manager_def)
  moreover have "length (accepted_results out) = 1" if "map dr_Index (accepted_results out) = [1]" for out
    using that by (metis length_map length_Cons list.size(3) One_nat_def)
  ultimately show ?thesis
    using dispatch_batch_fills_queue [OF w_tool_simps(1-4,6), of w_world "\<lambda>_ e. (e, None)"]
    unfolding w_valid by fastforce
qed

end
