(* ===== verification/HardwareDispatch.thy ===== *)
theory HardwareDispatch
  imports DispatchTools SpikeSubscriptions
begin

text \<open>
  The hardware-aware dispatch tool (\<open>internal/tools/dispatch_hardware_aware_tools.go\<close>), the quality
  guardrail that escalates to a dense provider (\<open>sparse_agent_guardrail.go\<close>) and the tool that
  creates sparse agents (\<open>sparse_agent_tools.go\<close>).

  The sidecars are parameters: \<open>infer\<close> is the inference client and \<open>create\<close> the sparse-agent client,
  each with an error text or a result. \<open>fmt_float\<close> is the JSON form of a float. Decoded arguments,
  snapshots, clock readings and interference are given as for the batch tool.

  Shown: where a hardware-aware job may run and when a request is refused, that the anomaly raised
  for a decision only depends on the length of its chain, and which memory limits reach the sidecar.
\<close>

section \<open>Hardware-aware dispatch\<close>

record inference_request =
  ir_WorkloadTags :: "string list"
  ir_Prompt :: string
  ir_ContextTokens :: int
  ir_LatencyClass :: string

record infer_result =
  if_ServedBy :: string
  if_FallbackCount :: int
  if_TokensOut :: int
  if_Deterministic :: bool
  if_Output :: string

type_synonym inferrer = "string \<Rightarrow> string list \<Rightarrow> inference_request \<Rightarrow> string + infer_result"

definition job_result_json :: "infer_result \<Rightarrow> string" where
  "job_result_json r = json_struct
     [(''served_by'', json_quote (if_ServedBy r)), (''fallback_count'', show_int (if_FallbackCount r)),
      (''tokens_out'', show_int (if_TokensOut r)), (''deterministic'', json_encode (JBool (if_Deterministic r))),
      (''output'', json_quote (if_Output r))]"

text \<open>The body of a hardware-aware job: an error text or the result of the job.\<close>

definition runFunc :: "inferrer option \<Rightarrow> string \<Rightarrow> string list \<Rightarrow> inference_request \<Rightarrow> ctx_err \<Rightarrow> string + string" where
  "runFunc hal providerID fallbackChain req ctx = (case ctx_error_text ctx of
      Some err \<Rightarrow> Inl err
    | None \<Rightarrow> (case hal of
        None \<Rightarrow> Inr ''''
      | Some infer \<Rightarrow> (case infer providerID fallbackChain req of
          Inl err \<Rightarrow> Inl err
        | Inr res \<Rightarrow> Inr (job_result_json res))))"

record hw_args =
  ha_TaskDescription :: string
  ha_ContextSizeEstimate :: int
  ha_LatencyRequirement :: string
  ha_WorkloadTags :: "string list"
  ha_TargetWorkspaceUUID :: string
  ha_HardwareTargetHint :: string
  ha_QualityFloor :: "gofloat option"

record hw_profile =
  hp_SelectedProvider :: string
  hp_RankedFallbackChain :: "string list"
  hp_PolicyVersion :: string
  hp_CapabilityEpoch :: "64 word"
  hp_Confidence :: gofloat
  hp_ReasonCode :: string
  hp_RecommendedClass :: string
  hp_WorkloadTags :: "string list"

record hw_result =
  hr_JobID :: string
  hr_Profile :: hw_profile

record 'e hw_tool =
  ht_manager :: "manager option"
  ht_defaultTimeout :: duration
  ht_emitter :: "'e option"
  ht_snapshots :: bool
  ht_policyEngine :: policy_engine
  ht_halClient :: "inferrer option"
  ht_bodies :: "(string \<times> string \<times> string list \<times> inference_request) list"

definition NewDispatchHardwareAwareJobWithHAL ::
  "manager option \<Rightarrow> int \<Rightarrow> 'e option \<Rightarrow> bool \<Rightarrow> policy_config \<Rightarrow> inferrer option \<Rightarrow> 'e hw_tool" where
  "NewDispatchHardwareAwareJobWithHAL m defaultTimeoutSeconds emitter snapshots policyCfg halClient =
     \<lparr>ht_manager = m,
      ht_defaultTimeout =
        wrap64 ((if defaultTimeoutSeconds \<le> 0 then defaultDispatchTimeoutSeconds else defaultTimeoutSeconds) * second),
      ht_emitter = emitter, ht_snapshots = snapshots, ht_policyEngine = NewPolicyEngineV2 policyCfg,
      ht_halClient = halClient, ht_bodies = []\<rparr>"

definition NewDispatchHardwareAwareJob ::
  "manager option \<Rightarrow> int \<Rightarrow> 'e option \<Rightarrow> bool \<Rightarrow> policy_config \<Rightarrow> 'e hw_tool" where
  "NewDispatchHardwareAwareJob m dts emitter snapshots policyCfg =
     NewDispatchHardwareAwareJobWithHAL m dts emitter snapshots policyCfg None"

fun dedupe_fold :: "string list \<Rightarrow> string list \<Rightarrow> string list" where
  "dedupe_fold seen [] = []"
| "dedupe_fold seen (tag # tags) =
     (if to_lower tag \<in> set seen then dedupe_fold seen tags else tag # dedupe_fold (to_lower tag # seen) tags)"

definition mergeWorkloadTags :: "string list \<Rightarrow> string list \<Rightarrow> string list" where
  "mergeWorkloadTags profileTags explicit =
     sort (dedupe_fold [] (profileTags @ filter (\<lambda>t. t \<noteq> '''') (map trim_space explicit)))"

definition buildHardwareAwareJobName :: "hw_args \<Rightarrow> string \<Rightarrow> string" where
  "buildHardwareAwareJobName p providerID =
     (let ws = trim_space (ha_TargetWorkspaceUUID p)
      in ''hw-dispatch:'' @ trim_space providerID @ '':'' @ (if ws = '''' then ''ephemeral'' else ws))"

definition enqueue_hw ::
  "gotime \<Rightarrow> hw_args \<Rightarrow> policy_decision \<Rightarrow> duration \<Rightarrow> manager \<Rightarrow> manager \<times> (jobs_error + job)" where
  "enqueue_hw now p decision timeout m =
     Enqueue now \<lparr>req_Name = buildHardwareAwareJobName p (effective_provider (pd_SelectedProvider decision)),
       req_Timeout = timeout, req_Run = False, req_RunResult = True\<rparr> m"

definition hw_decision_event :: "dispatch_world \<Rightarrow> policy_decision \<Rightarrow> decision_event" where
  "hw_decision_event w decision =
     (let chain = (if pd_RankedFallbackChain decision = [] then [DefaultBaselineProviderID]
                   else pd_RankedFallbackChain decision);
          version0 = trim_space (pd_PolicyVersion decision);
          reason0 = trim_space (pd_ReasonCode decision);
          ms = milliseconds (dw_elapsed w)
      in \<lparr>de_DecisionID = '''', de_RequestID = '''',
          de_PolicyVersion = (if version0 = '''' then ''cpu-baseline-default'' else version0),
          de_CapabilityEpoch = pd_CapabilityEpoch decision,
          de_SelectedProvider = effective_provider (pd_SelectedProvider decision),
          de_FallbackChain = chain, de_FallbackCount = fallback_count chain,
          de_ReasonCode = (if reason0 = '''' then ''selected'' else reason0),
          de_Confidence = pd_Confidence decision, de_EstimatedLatencyMS = ms, de_ActualLatencyMS = ms,
          de_FeatureFlagsApplied = [''hhd.hardware_aware_dispatch.mcp''],
          de_QualityGuardrailState = ''not-evaluated'', de_EmittedAt = ''''\<rparr>)"

definition emitHardwareAwareTelemetry ::
  "(decision_event \<Rightarrow> 'e \<Rightarrow> 'e \<times> string option) \<Rightarrow> dispatch_world \<Rightarrow> policy_decision \<Rightarrow> 'e hw_tool \<Rightarrow> 'e hw_tool \<times> string option" where
  "emitHardwareAwareTelemetry emit w decision t = (case ht_emitter t of
      None \<Rightarrow> (t, None)
    | Some e \<Rightarrow> let (e', err) = emit (hw_decision_event w decision) e in (t\<lparr>ht_emitter := Some e'\<rparr>, err))"

definition json_strings :: "string list \<Rightarrow> string" where
  "json_strings xs = json_encode (JArr (map JStr xs))"

definition hw_result_json :: "(gofloat \<Rightarrow> string) \<Rightarrow> hw_result \<Rightarrow> string" where
  "hw_result_json fmt_float r =
     (let p = hr_Profile r
      in json_struct [(''job_id'', json_quote (hr_JobID r)), (''assigned_hardware_profile'', json_struct
           [(''selected_provider'', json_quote (hp_SelectedProvider p)),
            (''ranked_fallback_chain'', json_strings (hp_RankedFallbackChain p)),
            (''policy_version'', json_quote (hp_PolicyVersion p)),
            (''capability_epoch'', show_nat (unat (hp_CapabilityEpoch p))),
            (''confidence'', fmt_float (hp_Confidence p)), (''reason_code'', json_quote (hp_ReasonCode p)),
            (''recommended_class'', json_quote (hp_RecommendedClass p)),
            (''workload_tags'', json_strings (hp_WorkloadTags p))])])"

text \<open>The checks of the arguments, in their order: the error text or the normalised latency.\<close>

definition check_hw_args :: "hw_args \<Rightarrow> string + string" where
  "check_hw_args p =
     (if \<not> isSaneField (ha_TaskDescription p) then Inl ''task_description is required''
      else if ha_ContextSizeEstimate p < 0 then Inl ''context_size_estimate must be >= 0''
      else case NormalizeLatencyRequirement (ha_LatencyRequirement p) of
        Inl err \<Rightarrow> Inl err
      | Inr latency \<Rightarrow>
          if ha_TargetWorkspaceUUID p \<noteq> '''' \<and> \<not> looksLikeUUID (ha_TargetWorkspaceUUID p)
            then Inl ''target_workspace_uuid must be a valid UUID''
          else (case ha_QualityFloor p of
              Some q \<Rightarrow> if q < 0 \<or> q > 1 then Inl ''quality_floor must be between 0 and 1'' else Inr latency
            | None \<Rightarrow> Inr latency))"

definition hw_input :: "hw_args \<Rightarrow> string \<Rightarrow> policy_input" where
  "hw_input p latency =
     (let profile = ProfileTask (ha_TaskDescription p) (ha_ContextSizeEstimate p) latency
      in \<lparr>in_WorkloadTags = mergeWorkloadTags (wp_Tags profile) (ha_WorkloadTags p),
          in_QualityScore = ha_QualityFloor p, in_RequestLabels = wp_RequestLabels profile\<rparr>)"

definition hw_inference_request :: "hw_args \<Rightarrow> string \<Rightarrow> inference_request" where
  "hw_inference_request p latency =
     \<lparr>ir_WorkloadTags = in_WorkloadTags (hw_input p latency), ir_Prompt = trim_space (ha_TaskDescription p),
      ir_ContextTokens = ha_ContextSizeEstimate p, ir_LatencyClass = latency\<rparr>"

text \<open>The first enqueue and at most one hop along the fallback chain.\<close>

definition enqueue_hw_with_fallback ::
  "'e hw_tool \<Rightarrow> dispatch_world \<Rightarrow> hw_args \<Rightarrow> policy_engine \<Rightarrow> policy_decision \<Rightarrow> manager \<Rightarrow>
   manager \<times> policy_decision \<times> (jobs_error + job)" where
  "enqueue_hw_with_fallback t w p engine decision m =
     (let (m1, r1) = enqueue_hw (dw_now w 0) p decision (ht_defaultTimeout t) (dw_before w 0 m)
      in case r1 of
           Inr job \<Rightarrow> (m1, decision, Inr job)
         | Inl err \<Rightarrow>
             let fallback = FallbackOnFailure engine decision (pd_SelectedProvider decision) (classifyProviderFailure err);
                 fb = trim_space (pd_SelectedProvider fallback)
             in if fb \<noteq> '''' \<and> fb \<noteq> pd_SelectedProvider decision
                then let (m2, r2) = enqueue_hw (dw_now_retry w 0) p fallback (ht_defaultTimeout t) (dw_before_retry w 0 m1)
                     in (m2, fallback, r2)
                else (m1, decision, Inl err))"

definition assigned_profile :: "policy_decision \<Rightarrow> string \<Rightarrow> string list \<Rightarrow> hw_profile" where
  "assigned_profile d cls tags =
     \<lparr>hp_SelectedProvider = pd_SelectedProvider d, hp_RankedFallbackChain = pd_RankedFallbackChain d,
      hp_PolicyVersion = pd_PolicyVersion d, hp_CapabilityEpoch = pd_CapabilityEpoch d, hp_Confidence = pd_Confidence d,
      hp_ReasonCode = pd_ReasonCode d, hp_RecommendedClass = cls, hp_WorkloadTags = tags\<rparr>"

definition hw_selection :: "dispatch_world \<Rightarrow> policy_input \<Rightarrow> policy_engine \<Rightarrow> policy_engine \<times> policy_decision" where
  "hw_selection w input e =
     (let (e', d) = Select (dw_snapshot w) input e
      in (e', if pd_CapabilityEpoch d = 0 then d\<lparr>pd_CapabilityEpoch := cs_Epoch (dw_snapshot w)\<rparr> else d))"

definition Execute_hw ::
  "(gofloat \<Rightarrow> string) \<Rightarrow> (decision_event \<Rightarrow> 'e \<Rightarrow> 'e \<times> string option) \<Rightarrow> dispatch_world \<Rightarrow> string + hw_args \<Rightarrow>
   'e hw_tool \<Rightarrow> 'e hw_tool \<times> tool_call_result" where
  "Execute_hw fmt_float emit w args t = (case ht_manager t of
      None \<Rightarrow> (t, TextError ''job manager is not configured'')
    | Some m \<Rightarrow>
        if \<not> ht_snapshots t then (t, TextError ''hardware-aware dispatch is not configured'')
        else (case args of
          Inl err \<Rightarrow> (t, TextError (''invalid arguments: '' @ err))
        | Inr p \<Rightarrow> (case check_hw_args p of
            Inl err \<Rightarrow> (t, TextError err)
          | Inr latency \<Rightarrow>
              let input = hw_input p latency;
                  (engine, decision) = hw_selection w input (ht_policyEngine t);
                  t1 = t\<lparr>ht_policyEngine := engine\<rparr>;
                  (m', decision', r) = enqueue_hw_with_fallback t1 w p engine decision m;
                  t2 = t1\<lparr>ht_manager := Some m'\<rparr>
              in case r of
                   Inl err \<Rightarrow> (t2, TextError (''dispatch rejected: '' @ enqueue_code err))
                 | Inr job \<Rightarrow>
                     let t3 = t2\<lparr>ht_bodies := ht_bodies t2 @
                           [(job_ID job, effective_provider (pd_SelectedProvider decision'),
                             pd_RankedFallbackChain decision', hw_inference_request p latency)]\<rparr>;
                         profile = ProfileTask (ha_TaskDescription p) (ha_ContextSizeEstimate p) latency;
                         out = \<lparr>hr_JobID = job_ID job,
                                hr_Profile = assigned_profile decision' (wp_RecommendedClass profile) (in_WorkloadTags input)\<rparr>
                     in (fst (emitHardwareAwareTelemetry emit w decision' t3), TextResult (hw_result_json fmt_float out)))))"


section \<open>Sparse agents and the quality guardrail\<close>

record guardrail =
  gr_Enabled :: bool
  gr_MinScore :: gofloat
  gr_Policy :: policy_config
  gr_Snapshots :: bool
  gr_Jobs :: "manager option"
  gr_HAL :: "inferrer option"
  gr_Timeout :: duration
  gr_bodies :: "(string \<times> string \<times> string list \<times> inference_request) list"

definition breach :: "guardrail option \<Rightarrow> gofloat option \<Rightarrow> bool" where
  "breach g qualityFloor = (case g of
      None \<Rightarrow> False
    | Some g \<Rightarrow> if \<not> gr_Enabled g then False else QualityGuardrailBreached qualityFloor (gr_MinScore g))"

definition escalation_request :: "string \<Rightarrow> inference_request" where
  "escalation_request taskDescription =
     (let prompt = trim_space taskDescription
      in \<lparr>ir_WorkloadTags = [''inference-heavy'', ''deterministic-edit''],
          ir_Prompt = (if prompt = '''' then ''sparse-agent-quality-floor-escalation'' else prompt),
          ir_ContextTokens = 0, ir_LatencyClass = LatencyBatch\<rparr>)"

definition escalation_out :: "(gofloat \<Rightarrow> string) \<Rightarrow> gofloat \<Rightarrow> policy_decision \<Rightarrow> (string \<times> json) list" where
  "escalation_out fmt_float q d =
     [(''escalated'', JBool True), (''reason_code'', JStr ReasonQualityGuardrailAutodisable),
      (''quality_floor'', JNum (fmt_float q)), (''selected_provider'', JStr (pd_SelectedProvider d)),
      (''ranked_fallback_chain'', JArr (map JStr (pd_RankedFallbackChain d))),
      (''policy_version'', JStr (pd_PolicyVersion d)), (''capability_epoch'', JNum (show_nat (unat (pd_CapabilityEpoch d))))]"

text \<open>\<open>None\<close> for the floor is the nil dereference, which \<open>breach\<close> excludes.\<close>

definition escalate ::
  "(gofloat \<Rightarrow> string) \<Rightarrow> (jobs_error \<Rightarrow> string) \<Rightarrow> capability_snapshot \<Rightarrow> gotime \<Rightarrow> gofloat option \<Rightarrow> string \<Rightarrow> guardrail \<Rightarrow>
   guardrail \<times> (string + (string \<times> json) list) outcome" where
  "escalate fmt_float err_text snapshot now qualityFloor taskDescription g =
     (if \<not> gr_Snapshots g then (g, Ok (Inl ''sparse quality guardrail is not configured''))
      else case qualityFloor of
        None \<Rightarrow> (g, Panic)
      | Some q \<Rightarrow>
          let decision = snd (SelectDenseGPUEscalation (Some (EscalationEngineForDenseGPU (gr_Policy g))) snapshot);
              out = escalation_out fmt_float q decision
          in (case (gr_Jobs g, gr_HAL g) of
               (Some m, Some _) \<Rightarrow>
                 let timeout = (if gr_Timeout g \<le> 0 then 300 * second else gr_Timeout g);
                     providerID = pd_SelectedProvider decision;
                     (m', r) = Enqueue now \<lparr>req_Name = ''sparse-escalation:'' @ providerID, req_Timeout = timeout,
                       req_Run = False, req_RunResult = True\<rparr> m
                 in (case r of
                      Inl err \<Rightarrow> (g\<lparr>gr_Jobs := Some m'\<rparr>, Ok (Inl (err_text err)))
                    | Inr job \<Rightarrow>
                        (g\<lparr>gr_Jobs := Some m', gr_bodies := gr_bodies g @
                             [(job_ID job, providerID, pd_RankedFallbackChain decision, escalation_request taskDescription)]\<rparr>,
                         Ok (Inr (out @ [(''job_id'', JStr (job_ID job))]))))
             | _ \<Rightarrow> (g, Ok (Inr out))))"

definition escalation_body :: "inferrer \<Rightarrow> string \<Rightarrow> string list \<Rightarrow> inference_request \<Rightarrow> string + string" where
  "escalation_body infer providerID chain req = (case infer providerID chain req of
      Inl err \<Rightarrow> Inl err
    | Inr res \<Rightarrow> Inr (job_result_json res))"

record sparse_args =
  sg_TargetASTNode :: string
  sg_SkillDomain :: string
  sg_Quantization :: string
  sg_MaxRAMMB :: int
  sg_QualityFloor :: "gofloat option"
  sg_TaskDescription :: string

record create_agent_params =
  cp_SkillDomain :: string
  cp_Quantization :: string
  cp_MaxRAMMB :: "32 word"
  cp_TargetASTNode :: "string option"

record create_agent_result =
  cr_WasmAgentID :: string
  cr_SkillDomain :: string
  cr_SliceSHA256 :: string
  cr_State :: string
  cr_ColdStartMS :: gofloat
  cr_ResidentRAMMB :: gofloat
  cr_TokensPerSec :: gofloat

record 'p sparse_tool =
  st_client :: "(create_agent_params \<Rightarrow> string + create_agent_result) option"
  st_registry :: "agent_registry option"
  st_pub :: "'p option"
  st_hostCap :: int
  st_guardrail :: "guardrail option"

definition NewCreateEphemeralSparseAgent ::
  "(create_agent_params \<Rightarrow> string + create_agent_result) option \<Rightarrow> agent_registry option \<Rightarrow> 'p option \<Rightarrow> int \<Rightarrow> 'p sparse_tool" where
  "NewCreateEphemeralSparseAgent client registry pub hostRAMCapMB =
     \<lparr>st_client = client, st_registry = registry, st_pub = pub, st_hostCap = hostRAMCapMB, st_guardrail = None\<rparr>"

definition WithSparseQualityGuardrail :: "guardrail option \<Rightarrow> 'p sparse_tool \<Rightarrow> 'p sparse_tool" where
  "WithSparseQualityGuardrail g t = t\<lparr>st_guardrail := g\<rparr>"

text \<open>The checks of the arguments, in their order: the error text, or the quantization and the memory limit.\<close>

definition check_sparse_args :: "int \<Rightarrow> sparse_args \<Rightarrow> string + string \<times> int" where
  "check_sparse_args hostCap p =
     (if sg_SkillDomain p = '''' then Inl ''skill_domain is required''
      else case NormalizeQuantization (sg_Quantization p) of
        Inl err \<Rightarrow> Inl err
      | Inr quant \<Rightarrow>
          let maxRAM = (if sg_MaxRAMMB p = 0 then 512 else sg_MaxRAMMB p)
          in if maxRAM \<le> 0 then Inl ''max_ram_mb must be > 0''
             else if hostCap > 0 \<and> maxRAM > hostCap
               then Inl (''max_ram_mb '' @ show_int maxRAM @ '' exceeds host cap '' @ show_int hostCap)
             else (case sg_QualityFloor p of
                 Some q \<Rightarrow> if q < 0 \<or> q > 1 then Inl ''quality_floor must be between 0 and 1'' else Inr (quant, maxRAM)
               | None \<Rightarrow> Inr (quant, maxRAM)))"

definition create_params :: "sparse_args \<Rightarrow> string \<Rightarrow> int \<Rightarrow> create_agent_params" where
  "create_params p quant maxRAM =
     \<lparr>cp_SkillDomain = sg_SkillDomain p, cp_Quantization = quant, cp_MaxRAMMB = word_of_int maxRAM,
      cp_TargetASTNode = (if sg_TargetASTNode p \<noteq> '''' then Some (sg_TargetASTNode p) else None)\<rparr>"

definition agent_telemetry_json :: "(gofloat \<Rightarrow> string) \<Rightarrow> string \<Rightarrow> string \<Rightarrow> create_agent_result \<Rightarrow> json" where
  "agent_telemetry_json fmt_float target emittedAt r =
     JObj ([(''wasm_agent_id'', JStr (cr_WasmAgentID r)), (''skill_domain'', JStr (cr_SkillDomain r))] @
       (if cr_SliceSHA256 r = '''' then [] else [(''slice_sha256'', JStr (cr_SliceSHA256 r))]) @
       [(''state'', JStr (cr_State r)), (''cold_start_ms'', JNum (fmt_float (cr_ColdStartMS r))),
        (''resident_ram_mb'', JNum (fmt_float (cr_ResidentRAMMB r))), (''tokens_per_sec'', JNum (fmt_float (cr_TokensPerSec r)))] @
       (if target = '''' then [] else [(''target_ast_node'', JStr target)]) @ [(''emitted_at'', JStr emittedAt)])"

definition create_out :: "(gofloat \<Rightarrow> string) \<Rightarrow> create_agent_result \<Rightarrow> string \<Rightarrow> json" where
  "create_out fmt_float r streamURI =
     JObj [(''wasm_agent_id'', JStr (cr_WasmAgentID r)), (''cold_start_ms'', JNum (fmt_float (cr_ColdStartMS r))),
       (''resident_ram_mb'', JNum (fmt_float (cr_ResidentRAMMB r))), (''stream_resource'', JStr streamURI),
       (''skill_domain'', JStr (cr_SkillDomain r)), (''slice_sha256'', JStr (cr_SliceSHA256 r)), (''state'', JStr (cr_State r))]"

text \<open>The last component of the result is the parameters sent to the sidecar, if the call got that far.\<close>

definition create_agent ::
  "(gofloat \<Rightarrow> string) \<Rightarrow> (gotime \<Rightarrow> string) \<Rightarrow> ('p, json) publisher \<Rightarrow> gotime \<Rightarrow>
   (create_agent_params \<Rightarrow> string + create_agent_result) \<Rightarrow> sparse_args \<Rightarrow> string \<Rightarrow> int \<Rightarrow> 'p sparse_tool \<Rightarrow>
   'p sparse_tool \<times> tool_call_result \<times> create_agent_params option" where
  "create_agent fmt_float fmt_time publish now create p quant maxRAM t =
     (let params = create_params p quant maxRAM
      in case create params of
           Inl err \<Rightarrow> (t, TextError (''create agent failed: '' @ err), Some params)
         | Inr res \<Rightarrow>
             let (reg', record) = Register_agent now (cr_WasmAgentID res) (cr_SkillDomain res) (sg_TargetASTNode p) (st_registry t);
                 streamURI = (case record of None \<Rightarrow> AgentTelemetryURI (cr_WasmAgentID res) | Some a \<Rightarrow> sa_StreamURI a);
                 event = agent_telemetry_json fmt_float (sg_TargetASTNode p) (fmt_time now) res;
                 pub' = map_option (\<lambda>s. fst (publish TopicAgentTelemetry event s)) (st_pub t)
             in (t\<lparr>st_registry := reg', st_pub := pub'\<rparr>, TextResult (json_encode (create_out fmt_float res streamURI)), Some params))"

definition Execute_sparse ::
  "(gofloat \<Rightarrow> string) \<Rightarrow> (gotime \<Rightarrow> string) \<Rightarrow> (jobs_error \<Rightarrow> string) \<Rightarrow> ('p, json) publisher \<Rightarrow> capability_snapshot \<Rightarrow> gotime \<Rightarrow>
   string + sparse_args \<Rightarrow> 'p sparse_tool \<Rightarrow> 'p sparse_tool \<times> tool_call_result outcome \<times> create_agent_params option" where
  "Execute_sparse fmt_float fmt_time err_text publish snapshot now args t = (case (st_client t, st_registry t) of
      (Some create, Some _) \<Rightarrow> (case args of
          Inl err \<Rightarrow> (t, Ok (TextError (''invalid arguments: '' @ err)), None)
        | Inr p \<Rightarrow> (case check_sparse_args (st_hostCap t) p of
            Inl err \<Rightarrow> (t, Ok (TextError err), None)
          | Inr (quant, maxRAM) \<Rightarrow> (case st_guardrail t of
              Some g \<Rightarrow>
                if breach (Some g) (sg_QualityFloor p)
                then (case escalate fmt_float err_text snapshot now (sg_QualityFloor p) (sg_TaskDescription p) g of
                    (g', Ok (Inl escErr)) \<Rightarrow>
                      (t\<lparr>st_guardrail := Some g'\<rparr>, Ok (TextError (''quality guardrail escalation failed: '' @ escErr)), None)
                  | (g', Ok (Inr out)) \<Rightarrow> (t\<lparr>st_guardrail := Some g'\<rparr>, Ok (TextResult (json_encode (JObj out))), None)
                  | (g', _) \<Rightarrow> (t\<lparr>st_guardrail := Some g'\<rparr>, Panic, None))
                else (let (t', res, sent) = create_agent fmt_float fmt_time publish now create p quant maxRAM t in (t', Ok res, sent))
            | None \<Rightarrow> (let (t', res, sent) = create_agent fmt_float fmt_time publish now create p quant maxRAM t in (t', Ok res, sent)))))
    | _ \<Rightarrow> (t, Ok (TextError ''sparse micro-agents are not enabled on this server''), None))"


section \<open>Where a hardware-aware job runs\<close>

lemma hw_selection_ok:
  assumes "e = policy_engine_at cfg latched" and "hw_selection w input e = (e', d)"
  shows "pe_cfg e' = pe_cfg e \<and> pd_RankedFallbackChain d \<noteq> [] \<and> pd_SelectedProvider d \<in> set (pd_RankedFallbackChain d) \<and>
    pcfg_BaselineProviderID (pe_cfg e) \<in> set (pd_RankedFallbackChain d) \<and>
    set (pd_RankedFallbackChain d) \<subseteq> insert (pcfg_BaselineProviderID (pe_cfg e)) (set (eligible_ids e input (dw_snapshot w)))"
proof -
  let ?d = "snd (Select (dw_snapshot w) input e)"
  have ok: "decision_ok e (eligible_ids e input (dw_snapshot w)) ?d"
    unfolding assms(1) by (intro Select_ok_gen policy_engine_at_ok)
  then have "pd_SelectedProvider ?d \<in> set (pd_RankedFallbackChain ?d)"
    unfolding decision_ok_def by (metis hd_in_set)
  moreover have "pd_RankedFallbackChain d = pd_RankedFallbackChain ?d" "pd_SelectedProvider d = pd_SelectedProvider ?d"
    "pe_cfg e' = pe_cfg e"
    using assms(2) Select_cfg [of "dw_snapshot w" input e] by (auto simp: hw_selection_def Let_def case_prod_beta)
  ultimately show ?thesis using ok by (simp add: decision_ok_def)
qed

lemma enqueue_hw_with_fallback_ok:
  assumes "enqueue_hw_with_fallback t w p e d m = (m', d', r)" and "pd_RankedFallbackChain d \<noteq> []"
    and "pd_SelectedProvider d \<in> set (pd_RankedFallbackChain d)"
    and "pcfg_BaselineProviderID (pe_cfg e) \<in> set (pd_RankedFallbackChain d)"
  shows "pd_RankedFallbackChain d' = pd_RankedFallbackChain d \<and> pd_SelectedProvider d' \<in> set (pd_RankedFallbackChain d)"
  using assms fallback_provider [OF assms(2), of e "pd_SelectedProvider d"]
  by (auto simp: enqueue_hw_with_fallback_def Let_def case_prod_beta insert_absorb split: sum.splits if_splits)


section \<open>The anomaly of a fallback\<close>

text \<open>
  C40. Both dispatch tools report the length of the ranked chain minus one as the number of fallbacks.
  The anomaly monitor therefore raises \<open>fallback_engaged\<close> for exactly those decisions whose chain has
  a second provider, whether or not any provider failed.
\<close>

theorem fallback_engaged_iff_chain:
  "(''fallback_engaged'' \<in> set (map ae_ReasonCode (snd (decision_anomalies tc now (dispatch_decision_event epoch w out d) mon)))) =
     (1 < length (pd_RankedFallbackChain d)) \<and>
   (''fallback_engaged'' \<in> set (map ae_ReasonCode (snd (decision_anomalies tc now (hw_decision_event w d) mon)))) =
     (1 < length (pd_RankedFallbackChain d))"
  unfolding decision_anomalies_reasons
  by (auto simp: dispatch_decision_event_def hw_decision_event_def fallback_count_def Let_def)

section \<open>Memory limits\<close>

lemma check_sparse_args_ram:
  assumes "check_sparse_args hostCap p = Inr (quant, maxRAM)"
  shows "maxRAM = (if sg_MaxRAMMB p = 0 then 512 else sg_MaxRAMMB p) \<and> 0 < maxRAM \<and> (0 < hostCap \<longrightarrow> maxRAM \<le> hostCap)"
  using assms by (auto simp: check_sparse_args_def Let_def split: if_splits sum.splits option.splits)

lemma create_agent_sent: "snd (snd (create_agent ff ft pb now create p quant maxRAM t)) = Some (create_params p quant maxRAM)"
  by (simp add: create_agent_def Let_def case_prod_beta split: sum.split)

lemma Execute_sparse_sent:
  assumes "snd (snd (Execute_sparse ff ft et pb snapshot now (Inr p) t)) = Some params"
  shows "\<exists>quant maxRAM. check_sparse_args (st_hostCap t) p = Inr (quant, maxRAM) \<and> params = create_params p quant maxRAM"
  using assms create_agent_sent [of ff ft pb now _ p]
  by (auto simp: Execute_sparse_def case_prod_beta split: option.splits sum.splits if_splits outcome.splits)

text \<open>
  C37. The memory limit sent to the sparse sidecar is the requested one (512 when none is given)
  reduced modulo 2 to the power 32. With a host cap that fits in 32 bits it is the requested limit and
  lies between 1 and the cap.
\<close>

theorem sparse_memory_limit:
  assumes "snd (snd (Execute_sparse ff ft et pb snapshot now (Inr p) t)) = Some params"
  shows "uint (cp_MaxRAMMB params) = (if sg_MaxRAMMB p = 0 then 512 else sg_MaxRAMMB p) mod 2 ^ 32 \<and>
    (0 < st_hostCap t \<and> st_hostCap t < 2 ^ 32 \<longrightarrow>
       uint (cp_MaxRAMMB params) = (if sg_MaxRAMMB p = 0 then 512 else sg_MaxRAMMB p) \<and>
       1 \<le> uint (cp_MaxRAMMB params) \<and> uint (cp_MaxRAMMB params) \<le> st_hostCap t)"
proof -
  obtain quant maxRAM where chk: "check_sparse_args (st_hostCap t) p = Inr (quant, maxRAM)"
    and params: "params = create_params p quant maxRAM"
    using Execute_sparse_sent [OF assms] by blast
  have "uint (cp_MaxRAMMB params) = maxRAM mod 2 ^ 32"
    by (simp add: params create_params_def uint_word_of_int)
  with check_sparse_args_ram [OF chk] show ?thesis by auto
qed


section \<open>Witnesses\<close>

definition w_hw_tool :: "unit hw_tool" where
  "w_hw_tool = NewDispatchHardwareAwareJob (Some w_manager) 0 None True (DefaultPolicyV2Config\<lparr>pcfg_Enabled := True\<rparr>)"

definition w_hw_args :: hw_args where
  "w_hw_args = \<lparr>ha_TaskDescription = ''summarise'', ha_ContextSizeEstimate = 10, ha_LatencyRequirement = ''batch'',
     ha_WorkloadTags = [], ha_TargetWorkspaceUUID = '''', ha_HardwareTargetHint = '''', ha_QualityFloor = None\<rparr>"


definition w_sparse_tool :: "unit sparse_tool" where
  "w_sparse_tool = NewCreateEphemeralSparseAgent (Some (\<lambda>_. Inl ''down'')) (Some []) None 4096"

definition w_sparse_args :: sparse_args where
  "w_sparse_args = \<lparr>sg_TargetASTNode = '''', sg_SkillDomain = ''go'', sg_Quantization = '''', sg_MaxRAMMB = 0,
     sg_QualityFloor = None, sg_TaskDescription = ''''\<rparr>"

theorem sparse_memory_limit_witness:
  "uint (cp_MaxRAMMB (create_params w_sparse_args ''1.58-bit'' 512)) = 512"
proof -
  have "snd (snd (Execute_sparse (\<lambda>_. ''0'') (\<lambda>_. '''') (\<lambda>_. '''') (\<lambda>_ _ p. (p, None)) w_snapshot 1 (Inr w_sparse_args) w_sparse_tool)) =
      Some (create_params w_sparse_args ''1.58-bit'' 512)"
    by (simp add: Execute_sparse_def w_sparse_tool_def NewCreateEphemeralSparseAgent_def check_sparse_args_def w_sparse_args_def
        NormalizeQuantization_def defaultAgentQuantization_def create_agent_def trim_space_def trim_left_def trim_right_def Let_def)
  from sparse_memory_limit [OF this] show ?thesis by (simp add: w_sparse_args_def)
qed

end
