(* ===== verification/Config.thy ===== *)
theory Config
  imports PolicyEngine Go_Json
begin

text \<open>
  Runtime configuration, \<open>internal/config/config.go\<close>, and the policy configuration the server derives
  from it (\<open>registerBaselineTools\<close> of \<open>internal/server/server.go\<close>).

  The fields of the struct \<open>Config\<close> are grouped into records, in the order of the source. The
  environment is a function (an unset variable is empty), the mounted secret an option, and \<open>pf\<close>
  is \<open>strconv.ParseFloat\<close>. A float setting keeps the special values, which the range checks see.
  The checks are a list of conditions with their errors; the first that holds is returned.

  Shown: what the checks guarantee of an accepted configuration and where they guarantee nothing, and
  that the policy engine takes an accepted configuration as it is.
\<close>

section \<open>Floats\<close>

datatype float64 = NaN | PosInf | NegInf | Fin gofloat

fun f_lt :: "float64 \<Rightarrow> float64 \<Rightarrow> bool" where
  "f_lt NaN _ = False"
| "f_lt _ NaN = False"
| "f_lt _ NegInf = False"
| "f_lt NegInf _ = True"
| "f_lt PosInf _ = False"
| "f_lt (Fin _) PosInf = True"
| "f_lt (Fin a) (Fin b) = (a < b)"

fun f_add :: "float64 \<Rightarrow> float64 \<Rightarrow> float64" where
  "f_add (Fin a) (Fin b) = Fin (a + b)"
| "f_add NaN _ = NaN"
| "f_add _ NaN = NaN"
| "f_add PosInf NegInf = NaN"
| "f_add NegInf PosInf = NaN"
| "f_add PosInf _ = PosInf"
| "f_add _ PosInf = PosInf"
| "f_add NegInf _ = NegInf"
| "f_add _ NegInf = NegInf"

definition f_outside :: "gofloat \<Rightarrow> gofloat \<Rightarrow> float64 \<Rightarrow> bool" where
  "f_outside lo hi f = (f_lt f (Fin lo) \<or> f_lt (Fin hi) f)"

definition f_le_zero :: "float64 \<Rightarrow> bool" where
  "f_le_zero f = (f_lt f (Fin 0) \<or> f = Fin 0)"

section \<open>Environment variables\<close>

definition envOr :: "(string \<Rightarrow> string) \<Rightarrow> string \<Rightarrow> string \<Rightarrow> string" where
  "envOr env key def = (if env key \<noteq> '''' then env key else def)"

definition envInt :: "(string \<Rightarrow> string) \<Rightarrow> string \<Rightarrow> int \<Rightarrow> int" where
  "envInt env key def = (if env key \<noteq> '''' then case atoi (env key) of Some n \<Rightarrow> n | None \<Rightarrow> def else def)"

definition envInt64 :: "(string \<Rightarrow> string) \<Rightarrow> string \<Rightarrow> int \<Rightarrow> int" where
  "envInt64 env key def = (if env key \<noteq> '''' then case atoi (env key) of Some n \<Rightarrow> n | None \<Rightarrow> def else def)"

definition envFloat64 :: "(string \<Rightarrow> float64 option) \<Rightarrow> (string \<Rightarrow> string) \<Rightarrow> string \<Rightarrow> float64 \<Rightarrow> float64" where
  "envFloat64 pf env key def = (if env key \<noteq> '''' then case pf (env key) of Some n \<Rightarrow> n | None \<Rightarrow> def else def)"

definition envBool :: "(string \<Rightarrow> string) \<Rightarrow> string \<Rightarrow> bool \<Rightarrow> bool" where
  "envBool env key def =
     (let v = trim_space (env key); l = to_lower v
      in if v = '''' then def
         else if l \<in> set [''1'', ''true'', ''yes'', ''y'', ''on''] then True
         else if l \<in> set [''0'', ''false'', ''no'', ''n'', ''off''] then False
         else def)"

fun split_on :: "char \<Rightarrow> string \<Rightarrow> string list" where
  "split_on c [] = [[]]"
| "split_on c (x # xs) =
     (if x = c then [] # split_on c xs else case split_on c xs of [] \<Rightarrow> [[x]] | p # ps \<Rightarrow> (x # p) # ps)"

definition splitCSV :: "string \<Rightarrow> string list" where
  "splitCSV s = filter (\<lambda>p. p \<noteq> '''') (map trim_space (split_on (CHR '','') s))"

section \<open>Settings\<close>

record core_settings =
  c_Transport :: string
  c_HTTPAddr :: string
  c_LogLevel :: string
  c_JWTSecret :: string
  c_JWTAlg :: string
  c_JWTIssuer :: string
  c_JWTAudience :: string
  c_JWKSPath :: string
  c_AllowedOrigins :: "string list"
  c_JobTimeoutSeconds :: int
  c_JobWorkers :: int
  c_JobQueueSize :: int
  c_Workspace :: string
  c_ShadowSocket :: string
  c_MergeEngineSocket :: string
  c_HALSocket :: string
  c_HALCapabilitySyncSeconds :: int
  c_DashboardToken :: string

record sandbox_settings =
  c_SandboxRunner :: string
  c_SandboxDockerHost :: string
  c_SandboxImage :: string
  c_SandboxRuntime :: string
  c_SandboxNetwork :: string
  c_SandboxCPUQuota :: int
  c_SandboxMemory :: int
  c_SandboxPIDs :: int
  c_SandboxStopSecs :: int
  c_SandboxFCBin :: string
  c_SandboxFCHelper :: string
  c_SandboxKVMDevice :: string
  c_SandboxVhostNet :: string
  c_SandboxSnapshot :: string
  c_SandboxVMState :: string
  c_SandboxRequireVh :: bool
  c_SandboxDegradedMode :: bool
  c_SandboxAllowDockerTrusted :: bool

record telemetry_settings =
  c_HHDCapabilityRegistry :: bool
  c_HHDDecisionTelemetry :: bool
  c_HHDTelemetryRedaction :: bool
  c_HHDTelemetryRequestIDMode :: string
  c_HHDTelemetryAnomalyNotes :: string
  c_HHDTelemetryRedactionSalt :: string
  c_HHDEventMonitorEnabled :: bool
  c_HHDEventMonitorEBPF :: bool
  c_HHDEventMonitorLatencyMS :: int

record spike_settings =
  c_ASTSpikeResourcesEnabled :: bool
  c_ASTSpikeMonitorEnabled :: bool
  c_ASTSpikePreferEBPF :: bool
  c_ASTSpikeWindowMS :: int
  c_ASTSpikeThreshold :: int
  c_ASTSpikeDebounceMS :: int
  c_ASTSpikeMaxHotPaths :: int
  c_ASTSpikeSemanticThreshold :: string
  c_ASTSpikeConflictWindowMS :: int
  c_ASTSpikeSignatureTTLMS :: int
  c_ASTSpikeMaxConflictPeers :: int

record sparse_settings =
  c_SparseAgentsEnabled :: bool
  c_SparseSocket :: string
  c_SparseHostRAMCapMB :: int
  c_SparseQualityGuardrailEnabled :: bool

record rollout_settings =
  c_RolloutRewardEnabled :: bool
  c_RolloutAPIEnabled :: bool
  c_RolloutSocket :: string
  c_RolloutKVPrefixRouterEnabled :: bool
  c_RolloutSystemPrompt :: string
  c_RolloutSystemPromptHash :: string
  c_RolloutGatewayStagingEnabled :: bool
  c_RolloutGatewayInitWorkers :: int
  c_RolloutGatewayReadyBuffer :: int
  c_RolloutGatewayRunningWorkers :: int
  c_RolloutGatewayPostRunWorkers :: int
  c_RolloutGatewaySessionTimeout :: int
  c_RolloutEvaluatorPrewarmEnabled :: bool
  c_RolloutEvaluatorRegistryEnabled :: bool
  c_RolloutEvaluatorSessionRewardEnabled :: bool
  c_RolloutEvaluatorSWEBenchEnabled :: bool
  c_RolloutSWEBenchInstance :: string
  c_RolloutTrajectoryBuilderEnabled :: bool
  c_RolloutTrajectoryBuilderStrategy :: string

record wasm_settings =
  c_HHDWasmScoringEnabled :: bool
  c_HHDWasmScoringModulePath :: string
  c_HHDWasmScoringModuleSHA256 :: string
  c_HHDWasmScoringTrustedDir :: string
  c_HHDWasmScoringTimeoutMS :: int
  c_HHDWasmScoringMemoryPages :: "32 word"
  c_HHDWasmScoringHostCalls :: "string list"

record policy_settings =
  c_HHDSnapshotTTLSeconds :: int
  c_HHDPolicyEngineV2 :: bool
  c_HHDHardwareAwareDispatch :: bool
  c_HHDPolicyMinConfidence :: float64
  c_HHDPolicyMaxQueueDepth :: int
  c_HHDWeightHealth :: float64
  c_HHDWeightReliability :: float64
  c_HHDWeightCost :: float64
  c_HHDWeightLatency :: float64
  c_HHDWeightQueueDepth :: float64
  c_HHDWeightWorkload :: float64
  c_HHDSparseQuantizedEnabled :: bool
  c_HHDSparseQuantizedTradeoff :: float64
  c_HHDQualityGuardrailMinScore :: float64
  c_HHDSSMAssistEnabled :: bool
  c_HHDSSMThroughputBias :: float64
  c_HHDSSMMinSequenceLength :: int
  c_HHDSSMMaxSequenceLength :: int
  c_HHDSSMSequenceSensitivity :: float64

record config =
  cfg_core :: core_settings
  cfg_sandbox :: sandbox_settings
  cfg_telemetry :: telemetry_settings
  cfg_spike :: spike_settings
  cfg_sparse :: sparse_settings
  cfg_rollout :: rollout_settings
  cfg_wasm :: wasm_settings
  cfg_policy :: policy_settings

section \<open>Defaults and overrides\<close>

definition load_core :: "(string \<Rightarrow> string) \<Rightarrow> string \<Rightarrow> core_settings" where
  "load_core env jwtSecret =
     \<lparr>c_Transport = envOr env ''CWSO_TRANSPORT'' ''stdio'',
      c_HTTPAddr = envOr env ''CWSO_HTTP_ADDR'' '':8080'',
      c_LogLevel = envOr env ''CWSO_LOG_LEVEL'' ''info'',
      c_JWTSecret = jwtSecret,
      c_JWTAlg = envOr env ''CWSO_JWT_ALG'' ''HS256'',
      c_JWTIssuer = envOr env ''CWSO_JWT_ISSUER'' ''cwso'',
      c_JWTAudience = envOr env ''CWSO_JWT_AUDIENCE'' ''cwso-mcp'',
      c_JWKSPath = env ''CWSO_JWKS_PATH'',
      c_AllowedOrigins = splitCSV (envOr env ''CWSO_ALLOWED_ORIGINS'' ''http://localhost,http://127.0.0.1''),
      c_JobTimeoutSeconds = envInt env ''CWSO_JOB_TIMEOUT_SECONDS'' 300,
      c_JobWorkers = envInt env ''CWSO_JOB_WORKERS'' 4,
      c_JobQueueSize = envInt env ''CWSO_JOB_QUEUE_SIZE'' 64,
      c_Workspace = envOr env ''CWSO_WORKSPACE'' ''/workspace'',
      c_ShadowSocket = env ''CWSO_GIT_SHADOW_SOCKET'',
      c_MergeEngineSocket = env ''CWSO_MERGE_ENGINE_SOCKET'',
      c_HALSocket = env ''CWSO_HAL_SOCKET'',
      c_HALCapabilitySyncSeconds = envInt env ''CWSO_HAL_CAPABILITY_SYNC_SECONDS'' 15,
      c_DashboardToken = trim_space (env ''CWSO_DASHBOARD_TOKEN'')\<rparr>"

definition load_sandbox :: "(string \<Rightarrow> string) \<Rightarrow> sandbox_settings" where
  "load_sandbox env =
     \<lparr>c_SandboxRunner = envOr env ''CWSO_SANDBOX_RUNNER'' ''none'',
      c_SandboxDockerHost = envOr env ''CWSO_DOCKER_HOST'' ''unix:///var/run/docker.sock'',
      c_SandboxImage = envOr env ''CWSO_DOCKER_IMAGE'' ''alpine:3.20'',
      c_SandboxRuntime = env ''CWSO_DOCKER_RUNTIME'',
      c_SandboxNetwork = envOr env ''CWSO_DOCKER_NETWORK'' ''none'',
      c_SandboxCPUQuota = envInt64 env ''CWSO_DOCKER_CPU_QUOTA_MICROS'' 100000,
      c_SandboxMemory = envInt64 env ''CWSO_DOCKER_MEMORY_BYTES'' 268435456,
      c_SandboxPIDs = envInt64 env ''CWSO_DOCKER_PIDS_LIMIT'' 128,
      c_SandboxStopSecs = envInt env ''CWSO_DOCKER_STOP_TIMEOUT_SECONDS'' 5,
      c_SandboxFCBin = envOr env ''CWSO_FIRECRACKER_BIN'' ''firecracker'',
      c_SandboxFCHelper = env ''CWSO_FIRECRACKER_EXEC_HELPER'',
      c_SandboxKVMDevice = envOr env ''CWSO_FIRECRACKER_KVM_DEVICE'' ''/dev/kvm'',
      c_SandboxVhostNet = envOr env ''CWSO_FIRECRACKER_VHOST_DEVICE'' ''/dev/vhost-net'',
      c_SandboxSnapshot = envOr env ''CWSO_FIRECRACKER_SNAPSHOT_DIR'' ''/tmp/cwso-firecracker/templates'',
      c_SandboxVMState = envOr env ''CWSO_FIRECRACKER_VMSTATE_DIR'' ''/tmp/cwso-firecracker/vms'',
      c_SandboxRequireVh = envBool env ''CWSO_FIRECRACKER_REQUIRE_VHOST_NET'' True,
      c_SandboxDegradedMode = envBool env ''CWSO_SANDBOX_DEGRADED_MODE'' False,
      c_SandboxAllowDockerTrusted = envBool env ''CWSO_SANDBOX_ALLOW_DOCKER_TRUSTED'' False\<rparr>"

definition load_telemetry :: "(string \<Rightarrow> string) \<Rightarrow> telemetry_settings" where
  "load_telemetry env =
     \<lparr>c_HHDCapabilityRegistry = envBool env ''CWSO_HHD_CAPABILITY_REGISTRY_ENABLED'' False,
      c_HHDDecisionTelemetry = envBool env ''CWSO_HHD_DECISION_TELEMETRY_ENABLED'' False,
      c_HHDTelemetryRedaction = envBool env ''CWSO_HHD_TELEMETRY_REDACTION_ENABLED'' False,
      c_HHDTelemetryRequestIDMode = to_lower (trim_space (envOr env ''CWSO_HHD_TELEMETRY_REQUEST_ID_MODE'' ''hash'')),
      c_HHDTelemetryAnomalyNotes = to_lower (trim_space (envOr env ''CWSO_HHD_TELEMETRY_ANOMALY_NOTES_MODE'' ''drop'')),
      c_HHDTelemetryRedactionSalt = trim_space (env ''CWSO_HHD_TELEMETRY_REDACTION_SALT''),
      c_HHDEventMonitorEnabled = envBool env ''CWSO_HHD_EVENT_MONITOR_ENABLED'' False,
      c_HHDEventMonitorEBPF = envBool env ''CWSO_HHD_EVENT_MONITOR_EBPF_ENABLED'' False,
      c_HHDEventMonitorLatencyMS = envInt env ''CWSO_HHD_EVENT_MONITOR_LATENCY_THRESHOLD_MS'' 1200\<rparr>"

definition load_spike :: "(string \<Rightarrow> string) \<Rightarrow> spike_settings" where
  "load_spike env =
     \<lparr>c_ASTSpikeResourcesEnabled = envBool env ''CWSO_AST_SPIKE_RESOURCES_ENABLED'' False,
      c_ASTSpikeMonitorEnabled = envBool env ''CWSO_AST_SPIKE_MONITOR_ENABLED'' False,
      c_ASTSpikePreferEBPF = envBool env ''CWSO_AST_SPIKE_EBPF_ENABLED'' False,
      c_ASTSpikeWindowMS = envInt env ''CWSO_AST_SPIKE_WINDOW_MS'' 1000,
      c_ASTSpikeThreshold = envInt env ''CWSO_AST_SPIKE_THRESHOLD'' 8,
      c_ASTSpikeDebounceMS = envInt env ''CWSO_AST_SPIKE_DEBOUNCE_MS'' 0,
      c_ASTSpikeMaxHotPaths = envInt env ''CWSO_AST_SPIKE_MAX_HOT_PATHS'' 5,
      c_ASTSpikeSemanticThreshold = to_lower (trim_space (envOr env ''CWSO_AST_SPIKE_SEMANTIC_THRESHOLD'' ''signature_change'')),
      c_ASTSpikeConflictWindowMS = envInt env ''CWSO_AST_SPIKE_CONFLICT_WINDOW_MS'' 2000,
      c_ASTSpikeSignatureTTLMS = envInt env ''CWSO_AST_SPIKE_SIGNATURE_TTL_MS'' 30000,
      c_ASTSpikeMaxConflictPeers = envInt env ''CWSO_AST_SPIKE_MAX_CONFLICT_PEERS'' 8\<rparr>"

definition load_sparse :: "(string \<Rightarrow> string) \<Rightarrow> sparse_settings" where
  "load_sparse env =
     \<lparr>c_SparseAgentsEnabled = envBool env ''CWSO_SPARSE_AGENTS_ENABLED'' False,
      c_SparseSocket = env ''CWSO_SPARSE_SOCKET'',
      c_SparseHostRAMCapMB = envInt env ''CWSO_SPARSE_HOST_RAM_CAP_MB'' 4096,
      c_SparseQualityGuardrailEnabled = envBool env ''CWSO_SPARSE_QUALITY_GUARDRAIL_ENABLED'' False\<rparr>"

definition load_rollout :: "(string \<Rightarrow> string) \<Rightarrow> rollout_settings" where
  "load_rollout env =
     \<lparr>c_RolloutRewardEnabled = envBool env ''CWSO_ROLLOUT_REWARD_ENABLED'' False,
      c_RolloutAPIEnabled = envBool env ''CWSO_ROLLOUT_API_ENABLED'' False,
      c_RolloutSocket = env ''CWSO_ROLLOUT_SOCKET'',
      c_RolloutKVPrefixRouterEnabled = envBool env ''CWSO_ROLLOUT_KV_PREFIX_ROUTER_ENABLED'' False,
      c_RolloutSystemPrompt = env ''CWSO_ROLLOUT_SYSTEM_PROMPT'',
      c_RolloutSystemPromptHash = env ''CWSO_ROLLOUT_SYSTEM_PROMPT_HASH'',
      c_RolloutGatewayStagingEnabled = envBool env ''CWSO_ROLLOUT_GATEWAY_STAGING_ENABLED'' False,
      c_RolloutGatewayInitWorkers = envInt env ''CWSO_ROLLOUT_GATEWAY_INIT_WORKERS'' 2,
      c_RolloutGatewayReadyBuffer = envInt env ''CWSO_ROLLOUT_GATEWAY_READY_BUFFER'' 4,
      c_RolloutGatewayRunningWorkers = envInt env ''CWSO_ROLLOUT_GATEWAY_RUNNING_WORKERS'' 4,
      c_RolloutGatewayPostRunWorkers = envInt env ''CWSO_ROLLOUT_GATEWAY_POSTRUN_WORKERS'' 2,
      c_RolloutGatewaySessionTimeout = envInt env ''CWSO_ROLLOUT_GATEWAY_SESSION_TIMEOUT_SECONDS'' 300,
      c_RolloutEvaluatorPrewarmEnabled = envBool env ''CWSO_ROLLOUT_EVALUATOR_PREWARM_ENABLED'' False,
      c_RolloutEvaluatorRegistryEnabled = envBool env ''CWSO_ROLLOUT_EVALUATOR_REGISTRY_ENABLED'' False,
      c_RolloutEvaluatorSessionRewardEnabled = envBool env ''CWSO_ROLLOUT_EVALUATOR_SESSION_REWARD_ENABLED'' False,
      c_RolloutEvaluatorSWEBenchEnabled = envBool env ''CWSO_ROLLOUT_EVALUATOR_SWEBENCH_ENABLED'' False,
      c_RolloutSWEBenchInstance = envOr env ''CWSO_ROLLOUT_SWEBENCH_INSTANCE'' '''',
      c_RolloutTrajectoryBuilderEnabled = envBool env ''CWSO_ROLLOUT_TRAJECTORY_BUILDER_ENABLED'' False,
      c_RolloutTrajectoryBuilderStrategy = envOr env ''CWSO_ROLLOUT_TRAJECTORY_BUILDER_STRATEGY'' ''prefix_merge''\<rparr>"

definition load_wasm :: "(string \<Rightarrow> string) \<Rightarrow> wasm_settings" where
  "load_wasm env =
     \<lparr>c_HHDWasmScoringEnabled = envBool env ''CWSO_HHD_WASM_SCORING_ENABLED'' False,
      c_HHDWasmScoringModulePath = env ''CWSO_HHD_WASM_SCORING_MODULE_PATH'',
      c_HHDWasmScoringModuleSHA256 = to_lower (trim_space (env ''CWSO_HHD_WASM_SCORING_MODULE_SHA256'')),
      c_HHDWasmScoringTrustedDir = trim_space (env ''CWSO_HHD_WASM_SCORING_TRUSTED_DIR''),
      c_HHDWasmScoringTimeoutMS = envInt env ''CWSO_HHD_WASM_SCORING_TIMEOUT_MS'' 20,
      c_HHDWasmScoringMemoryPages = word_of_int (envInt env ''CWSO_HHD_WASM_SCORING_MEMORY_LIMIT_PAGES'' 64),
      c_HHDWasmScoringHostCalls = splitCSV (env ''CWSO_HHD_WASM_SCORING_HOST_CALL_ALLOWLIST'')\<rparr>"

definition load_policy :: "(string \<Rightarrow> float64 option) \<Rightarrow> (string \<Rightarrow> string) \<Rightarrow> policy_settings" where
  "load_policy pf env =
     \<lparr>c_HHDSnapshotTTLSeconds = envInt env ''CWSO_HHD_CAPABILITY_SNAPSHOT_TTL_SECONDS'' 30,
      c_HHDPolicyEngineV2 = envBool env ''CWSO_HHD_POLICY_ENGINE_V2_ENABLED'' False,
      c_HHDHardwareAwareDispatch = envBool env ''CWSO_HHD_HARDWARE_AWARE_DISPATCH_ENABLED'' False,
      c_HHDPolicyMinConfidence = envFloat64 pf env ''CWSO_HHD_POLICY_MIN_CONFIDENCE'' (Fin (5 / 10)),
      c_HHDPolicyMaxQueueDepth = envInt env ''CWSO_HHD_POLICY_MAX_QUEUE_DEPTH'' 32,
      c_HHDWeightHealth = envFloat64 pf env ''CWSO_HHD_POLICY_WEIGHT_HEALTH'' (Fin (35 / 100)),
      c_HHDWeightReliability = envFloat64 pf env ''CWSO_HHD_POLICY_WEIGHT_RELIABILITY'' (Fin (25 / 100)),
      c_HHDWeightCost = envFloat64 pf env ''CWSO_HHD_POLICY_WEIGHT_COST'' (Fin (10 / 100)),
      c_HHDWeightLatency = envFloat64 pf env ''CWSO_HHD_POLICY_WEIGHT_LATENCY'' (Fin (10 / 100)),
      c_HHDWeightQueueDepth = envFloat64 pf env ''CWSO_HHD_POLICY_WEIGHT_QUEUE_DEPTH'' (Fin (10 / 100)),
      c_HHDWeightWorkload = envFloat64 pf env ''CWSO_HHD_POLICY_WEIGHT_WORKLOAD'' (Fin (10 / 100)),
      c_HHDSparseQuantizedEnabled = envBool env ''CWSO_HHD_SPARSE_QUANTIZED_ASSIST_ENABLED'' False,
      c_HHDSparseQuantizedTradeoff = envFloat64 pf env ''CWSO_HHD_SPARSE_QUANTIZED_COST_LATENCY_TRADEOFF'' (Fin 0),
      c_HHDQualityGuardrailMinScore = envFloat64 pf env ''CWSO_HHD_SPARSE_QUANTIZED_QUALITY_GUARDRAIL_MIN_SCORE'' (Fin (98 / 100)),
      c_HHDSSMAssistEnabled = envBool env ''CWSO_HHD_SSM_ASSIST_ENABLED'' False,
      c_HHDSSMThroughputBias = envFloat64 pf env ''CWSO_HHD_SSM_THROUGHPUT_BIAS'' (Fin 0),
      c_HHDSSMMinSequenceLength = envInt env ''CWSO_HHD_SSM_MIN_SEQUENCE_LENGTH'' 2048,
      c_HHDSSMMaxSequenceLength = envInt env ''CWSO_HHD_SSM_MAX_SEQUENCE_LENGTH'' 32768,
      c_HHDSSMSequenceSensitivity = envFloat64 pf env ''CWSO_HHD_SSM_SEQUENCE_SENSITIVITY'' (Fin 1)\<rparr>"

definition jwt_secret :: "string option \<Rightarrow> (string \<Rightarrow> string) \<Rightarrow> string" where
  "jwt_secret file env =
     (let s = (case file of Some data \<Rightarrow> trim_space data | None \<Rightarrow> '''')
      in if s = '''' then env ''CWSO_JWT_SECRET'' else s)"

definition load_config :: "(string \<Rightarrow> float64 option) \<Rightarrow> (string \<Rightarrow> string) \<Rightarrow> string option \<Rightarrow> config" where
  "load_config pf env file =
     \<lparr>cfg_core = load_core env (jwt_secret file env), cfg_sandbox = load_sandbox env, cfg_telemetry = load_telemetry env,
      cfg_spike = load_spike env, cfg_sparse = load_sparse env, cfg_rollout = load_rollout env,
      cfg_wasm = load_wasm env, cfg_policy = load_policy pf env\<rparr>"

section \<open>Checks\<close>

type_synonym check = "bool \<times> string"

fun first_failed :: "check list \<Rightarrow> string option" where
  "first_failed [] = None"
| "first_failed ((bad, err) # cs) = (if bad then Some err else first_failed cs)"

definition core_checks :: "config \<Rightarrow> check list" where
  "core_checks c = (let k = cfg_core c in
     [(c_Transport k = ''http'' \<and> c_JWTSecret k = '''',
       ''JWT secret must be set via /run/secrets/jwt_secret or CWSO_JWT_SECRET when transport=http''),
      (c_Transport k \<noteq> ''stdio'' \<and> c_Transport k \<noteq> ''http'', ''invalid transport '' @ go_quote (c_Transport k)),
      (c_JWTAlg k \<noteq> ''HS256'', ''invalid JWT algorithm '' @ go_quote (c_JWTAlg k) @ '' (must be HS256 in current build)''),
      (c_JobWorkers k \<le> 0, ''CWSO_JOB_WORKERS must be > 0''),
      (c_JobQueueSize k \<le> 0, ''CWSO_JOB_QUEUE_SIZE must be > 0''),
      (c_HHDSnapshotTTLSeconds (cfg_policy c) \<le> 0, ''CWSO_HHD_CAPABILITY_SNAPSHOT_TTL_SECONDS must be > 0''),
      (c_HHDEventMonitorLatencyMS (cfg_telemetry c) \<le> 0, ''CWSO_HHD_EVENT_MONITOR_LATENCY_THRESHOLD_MS must be > 0'')])"

definition spike_checks :: "spike_settings \<Rightarrow> check list" where
  "spike_checks k = (if \<not> c_ASTSpikeMonitorEnabled k then [] else
     [(c_ASTSpikeSemanticThreshold k \<notin> set [''signature_change'', ''symbol_added'', ''symbol_removed'', ''any''],
       ''CWSO_AST_SPIKE_SEMANTIC_THRESHOLD must be one of: signature_change, symbol_added, symbol_removed, any''),
      (c_ASTSpikeWindowMS k \<le> 0, ''CWSO_AST_SPIKE_WINDOW_MS must be > 0''),
      (c_ASTSpikeThreshold k \<le> 0, ''CWSO_AST_SPIKE_THRESHOLD must be > 0''),
      (c_ASTSpikeConflictWindowMS k \<le> 0, ''CWSO_AST_SPIKE_CONFLICT_WINDOW_MS must be > 0''),
      (c_ASTSpikeSignatureTTLMS k \<le> 0, ''CWSO_AST_SPIKE_SIGNATURE_TTL_MS must be > 0'')])"

definition sparse_checks :: "sparse_settings \<Rightarrow> check list" where
  "sparse_checks k = (if \<not> c_SparseAgentsEnabled k then [] else
     [(trim_space (c_SparseSocket k) = '''', ''CWSO_SPARSE_SOCKET must be set when CWSO_SPARSE_AGENTS_ENABLED=true''),
      (c_SparseHostRAMCapMB k \<le> 0, ''CWSO_SPARSE_HOST_RAM_CAP_MB must be > 0'')])"

definition telemetry_checks :: "telemetry_settings \<Rightarrow> check list" where
  "telemetry_checks k =
     [(c_HHDTelemetryRequestIDMode k \<notin> set [''allow'', ''hash'', ''drop''],
       ''CWSO_HHD_TELEMETRY_REQUEST_ID_MODE must be one of: allow, hash, drop''),
      (c_HHDTelemetryAnomalyNotes k \<notin> set [''allow'', ''drop''],
       ''CWSO_HHD_TELEMETRY_ANOMALY_NOTES_MODE must be one of: allow, drop'')]"

definition weight_list :: "policy_settings \<Rightarrow> float64 list" where
  "weight_list k = [c_HHDWeightHealth k, c_HHDWeightReliability k, c_HHDWeightCost k, c_HHDWeightLatency k,
     c_HHDWeightQueueDepth k, c_HHDWeightWorkload k]"

definition policy_checks :: "policy_settings \<Rightarrow> check list" where
  "policy_checks k =
     [(f_outside 0 1 (c_HHDPolicyMinConfidence k), ''CWSO_HHD_POLICY_MIN_CONFIDENCE must be between 0 and 1''),
      (c_HHDPolicyMaxQueueDepth k \<le> 0, ''CWSO_HHD_POLICY_MAX_QUEUE_DEPTH must be > 0''),
      (f_outside (- 1) 1 (c_HHDSparseQuantizedTradeoff k),
       ''CWSO_HHD_SPARSE_QUANTIZED_COST_LATENCY_TRADEOFF must be between -1 and 1''),
      (f_outside 0 1 (c_HHDQualityGuardrailMinScore k),
       ''CWSO_HHD_SPARSE_QUANTIZED_QUALITY_GUARDRAIL_MIN_SCORE must be between 0 and 1''),
      (f_outside (- 1) 1 (c_HHDSSMThroughputBias k), ''CWSO_HHD_SSM_THROUGHPUT_BIAS must be between -1 and 1''),
      (c_HHDSSMMinSequenceLength k \<le> 0, ''CWSO_HHD_SSM_MIN_SEQUENCE_LENGTH must be > 0''),
      (c_HHDSSMMaxSequenceLength k \<le> c_HHDSSMMinSequenceLength k,
       ''CWSO_HHD_SSM_MAX_SEQUENCE_LENGTH must be greater than CWSO_HHD_SSM_MIN_SEQUENCE_LENGTH''),
      (f_outside 0 2 (c_HHDSSMSequenceSensitivity k), ''CWSO_HHD_SSM_SEQUENCE_SENSITIVITY must be between 0 and 2''),
      (list_ex (\<lambda>w. f_lt w (Fin 0)) (weight_list k), ''CWSO_HHD_POLICY_WEIGHT_* values must be >= 0''),
      (f_le_zero (foldl f_add (Fin 0) (weight_list k)), ''CWSO_HHD_POLICY_WEIGHT_* values must sum to > 0'')]"

definition lower_hex :: "char \<Rightarrow> bool" where
  "lower_hex c = (let n = (of_char c :: nat) in (48 \<le> n \<and> n \<le> 57) \<or> (97 \<le> n \<and> n \<le> 102))"

definition wasm_checks :: "wasm_settings \<Rightarrow> check list" where
  "wasm_checks k = (let on = c_HHDWasmScoringEnabled k; sha = c_HHDWasmScoringModuleSHA256 k in
     [(c_HHDWasmScoringTimeoutMS k \<le> 0, ''CWSO_HHD_WASM_SCORING_TIMEOUT_MS must be > 0''),
      (c_HHDWasmScoringMemoryPages k = 0, ''CWSO_HHD_WASM_SCORING_MEMORY_LIMIT_PAGES must be > 0''),
      (on \<and> trim_space (c_HHDWasmScoringModulePath k) = '''',
       ''CWSO_HHD_WASM_SCORING_MODULE_PATH must be set when CWSO_HHD_WASM_SCORING_ENABLED=true''),
      (on \<and> sha = '''', ''CWSO_HHD_WASM_SCORING_MODULE_SHA256 must be set when CWSO_HHD_WASM_SCORING_ENABLED=true''),
      (on \<and> length sha \<noteq> 64, ''CWSO_HHD_WASM_SCORING_MODULE_SHA256 must be a 64-char sha256 hex digest''),
      (on \<and> \<not> list_all lower_hex sha, ''CWSO_HHD_WASM_SCORING_MODULE_SHA256 must be lowercase hex''),
      (on \<and> c_HHDWasmScoringTrustedDir k = '''',
       ''CWSO_HHD_WASM_SCORING_TRUSTED_DIR must be set when CWSO_HHD_WASM_SCORING_ENABLED=true'')])"

definition rollout_checks :: "rollout_settings \<Rightarrow> check list" where
  "rollout_checks k = (if \<not> c_RolloutGatewayStagingEnabled k then [] else
     [(c_RolloutGatewayInitWorkers k \<le> 0, ''CWSO_ROLLOUT_GATEWAY_INIT_WORKERS must be > 0 when gateway staging is enabled''),
      (c_RolloutGatewayReadyBuffer k \<le> 0, ''CWSO_ROLLOUT_GATEWAY_READY_BUFFER must be > 0 when gateway staging is enabled''),
      (c_RolloutGatewayRunningWorkers k \<le> 0,
       ''CWSO_ROLLOUT_GATEWAY_RUNNING_WORKERS must be > 0 when gateway staging is enabled''),
      (c_RolloutGatewayPostRunWorkers k \<le> 0,
       ''CWSO_ROLLOUT_GATEWAY_POSTRUN_WORKERS must be > 0 when gateway staging is enabled''),
      (c_RolloutGatewaySessionTimeout k \<le> 0,
       ''CWSO_ROLLOUT_GATEWAY_SESSION_TIMEOUT_SECONDS must be > 0 when gateway staging is enabled'')])"

definition runner_check :: "sandbox_settings \<Rightarrow> check" where
  "runner_check k =
     (c_SandboxRunner k \<notin> set [''none'', ''docker'', ''gvisor'', ''firecracker'', ''router''],
      ''CWSO_SANDBOX_RUNNER must be one of: none, docker, gvisor, firecracker, router'')"

definition checked_runner :: "sandbox_settings \<Rightarrow> bool" where
  "checked_runner k = (c_SandboxRunner k \<in> set [''docker'', ''gvisor'', ''firecracker''])"

definition limit_checks :: "sandbox_settings \<Rightarrow> check list" where
  "limit_checks k =
     [(trim_space (c_SandboxImage k) = '''', ''CWSO_DOCKER_IMAGE must be set when CWSO_SANDBOX_RUNNER='' @ c_SandboxRunner k),
      (equal_fold (c_SandboxNetwork k) ''host'', ''CWSO_DOCKER_NETWORK=host is forbidden''),
      (c_SandboxCPUQuota k \<le> 0, ''CWSO_DOCKER_CPU_QUOTA_MICROS must be > 0''),
      (c_SandboxMemory k \<le> 0, ''CWSO_DOCKER_MEMORY_BYTES must be > 0''),
      (c_SandboxPIDs k \<le> 0, ''CWSO_DOCKER_PIDS_LIMIT must be > 0''),
      (c_SandboxStopSecs k \<le> 0, ''CWSO_DOCKER_STOP_TIMEOUT_SECONDS must be > 0'')]"

definition default_runtime :: "sandbox_settings \<Rightarrow> sandbox_settings" where
  "default_runtime k =
     (if (c_SandboxRunner k = ''gvisor'' \<or> c_SandboxRunner k = ''router'') \<and> trim_space (c_SandboxRuntime k) = ''''
      then k\<lparr>c_SandboxRuntime := ''runsc''\<rparr> else k)"

definition firecracker_checks :: "sandbox_settings \<Rightarrow> check list" where
  "firecracker_checks k = (if c_SandboxRunner k \<noteq> ''firecracker'' then [] else
     [(trim_space (c_SandboxFCHelper k) = '''',
       ''CWSO_FIRECRACKER_EXEC_HELPER must be set when CWSO_SANDBOX_RUNNER=firecracker''),
      (trim_space (c_SandboxFCBin k) = '''',
       ''CWSO_FIRECRACKER_BIN must not be empty when CWSO_SANDBOX_RUNNER=firecracker''),
      (trim_space (c_SandboxKVMDevice k) = '''',
       ''CWSO_FIRECRACKER_KVM_DEVICE must not be empty when CWSO_SANDBOX_RUNNER=firecracker''),
      (trim_space (c_SandboxSnapshot k) = '''' \<or> trim_space (c_SandboxVMState k) = '''',
       ''CWSO_FIRECRACKER_SNAPSHOT_DIR and CWSO_FIRECRACKER_VMSTATE_DIR must be set when CWSO_SANDBOX_RUNNER=firecracker'')])"

definition check_sandbox :: "sandbox_settings \<Rightarrow> string + sandbox_settings" where
  "check_sandbox k =
     (if \<not> checked_runner k then Inr k
      else case first_failed (limit_checks k) of
        Some err \<Rightarrow> Inl err
      | None \<Rightarrow>
          let k' = default_runtime k
          in (case first_failed (firecracker_checks k') of Some err \<Rightarrow> Inl err | None \<Rightarrow> Inr k'))"

definition general_checks :: "config \<Rightarrow> check list" where
  "general_checks c = core_checks c @ spike_checks (cfg_spike c) @ sparse_checks (cfg_sparse c) @
     telemetry_checks (cfg_telemetry c) @ policy_checks (cfg_policy c) @ wasm_checks (cfg_wasm c) @
     rollout_checks (cfg_rollout c) @ [runner_check (cfg_sandbox c)]"

definition Load :: "(string \<Rightarrow> float64 option) \<Rightarrow> (string \<Rightarrow> string) \<Rightarrow> string option \<Rightarrow> string + config" where
  "Load pf env file =
     (let c = load_config pf env file
      in case first_failed (general_checks c) of
           Some err \<Rightarrow> Inl err
         | None \<Rightarrow> (case check_sandbox (cfg_sandbox c) of
             Inl err \<Rightarrow> Inl err
           | Inr k \<Rightarrow> Inr (c\<lparr>cfg_sandbox := k\<rparr>)))"

section \<open>The policy configuration of the server\<close>

text \<open>The engine is modelled over finite floats, so there is no configuration for the special values.\<close>

fun finite_value :: "float64 \<Rightarrow> gofloat option" where
  "finite_value (Fin r) = Some r"
| "finite_value _ = None"

definition policy_floats :: "policy_settings \<Rightarrow> float64 list" where
  "policy_floats k = c_HHDPolicyMinConfidence k # c_HHDSparseQuantizedTradeoff k # c_HHDQualityGuardrailMinScore k #
     c_HHDSSMThroughputBias k # c_HHDSSMSequenceSensitivity k # weight_list k"

definition policyCfg :: "score_adjuster option \<Rightarrow> config \<Rightarrow> policy_config option" where
  "policyCfg scoreAdjuster c = (let k = cfg_policy c; v = (\<lambda>f. the (finite_value f)) in
     if \<not> list_all (\<lambda>f. finite_value f \<noteq> None) (policy_floats k) then None
     else Some
       \<lparr>pcfg_Enabled = c_HHDPolicyEngineV2 k, pcfg_PolicyVersion = DefaultPolicyVersionV2,
        pcfg_BaselineProviderID = DefaultBaselineProviderID, pcfg_MinConfidence = v (c_HHDPolicyMinConfidence k),
        pcfg_MaxQueueDepth = c_HHDPolicyMaxQueueDepth k,
        pcfg_Weights = \<lparr>w_Health = v (c_HHDWeightHealth k), w_Reliability = v (c_HHDWeightReliability k),
          w_Cost = v (c_HHDWeightCost k), w_Latency = v (c_HHDWeightLatency k),
          w_QueueDepth = v (c_HHDWeightQueueDepth k), w_Workload = v (c_HHDWeightWorkload k)\<rparr>,
        pcfg_ScoreAdjuster = scoreAdjuster,
        pcfg_SparseQuantized = \<lparr>sq_Enabled = c_HHDSparseQuantizedEnabled k,
          sq_ProviderFeatureFlag = ''hhd.sparse_quantized_assist'',
          sq_CostLatencyTradeoff = v (c_HHDSparseQuantizedTradeoff k),
          sq_QualityGuardrailMinScore = v (c_HHDQualityGuardrailMinScore k)\<rparr>,
        pcfg_SSM = \<lparr>ssm_Enabled = c_HHDSSMAssistEnabled k, ssm_ProviderFeatureFlag = ''hhd.ssm_sequence_assist'',
          ssm_ThroughputBias = v (c_HHDSSMThroughputBias k), ssm_MinSequenceLength = c_HHDSSMMinSequenceLength k,
          ssm_MaxSequenceLength = c_HHDSSMMaxSequenceLength k,
          ssm_SequenceSensitivity = v (c_HHDSSMSequenceSensitivity k)\<rparr>\<rparr>)"

section \<open>What an accepted configuration guarantees\<close>

lemma first_failed_None: "first_failed cs = None \<longleftrightarrow> (\<forall>(bad, err) \<in> set cs. \<not> bad)"
  by (induction cs rule: first_failed.induct) auto

lemma Load_accepted:
  assumes "Load pf env file = Inr c"
  shows "first_failed (general_checks (load_config pf env file)) = None"
    and "check_sandbox (load_sandbox env) = Inr (cfg_sandbox c)"
    and "c = (load_config pf env file)\<lparr>cfg_sandbox := cfg_sandbox c\<rparr>"
  using assms by (auto simp: Load_def load_config_def Let_def split: option.splits sum.splits)

lemma f_outside_Fin [simp]: "f_outside lo hi (Fin r) = (r < lo \<or> hi < r)"
  by (simp add: f_outside_def)

lemma f_lt_Fin [simp]: "f_lt (Fin a) (Fin b) = (a < b)"
  by simp

lemma finite_value_Some: "finite_value f \<noteq> None \<longleftrightarrow> (\<exists>r. f = Fin r)"
  by (cases f) auto

text \<open>Finite settings that pass the checks are fixed by the normalisation of the engine.\<close>

lemma checked_policy_normal:
  assumes "\<forall>(bad, err) \<in> set (policy_checks (cfg_policy c)). \<not> bad" and "policyCfg adj c = Some p"
  shows "normalizePolicyV2Config p = p"
proof -
  define k where "k = cfg_policy c"
  have "\<exists>r. f = Fin r" if "f \<in> set (policy_floats k)" for f
    using assms(2) that finite_value_Some [of f] by (auto simp: policyCfg_def Let_def list_all_iff k_def split: if_splits)
  then obtain mc tr qg tb ss wh wr wc wl wq ww where vals [simp]:
    "c_HHDPolicyMinConfidence k = Fin mc" "c_HHDSparseQuantizedTradeoff k = Fin tr" "c_HHDQualityGuardrailMinScore k = Fin qg"
    "c_HHDSSMThroughputBias k = Fin tb" "c_HHDSSMSequenceSensitivity k = Fin ss" "c_HHDWeightHealth k = Fin wh"
    "c_HHDWeightReliability k = Fin wr" "c_HHDWeightCost k = Fin wc" "c_HHDWeightLatency k = Fin wl"
    "c_HHDWeightQueueDepth k = Fin wq" "c_HHDWeightWorkload k = Fin ww"
    by (metis (no_types) list.set_intros policy_floats_def weight_list_def)
  have ok: "\<not> (mc < 0 \<or> 1 < mc)" "0 < c_HHDPolicyMaxQueueDepth k" "\<not> (tr < - 1 \<or> 1 < tr)" "\<not> (qg < 0 \<or> 1 < qg)"
    "\<not> (tb < - 1 \<or> 1 < tb)" "0 < c_HHDSSMMinSequenceLength k" "c_HHDSSMMinSequenceLength k < c_HHDSSMMaxSequenceLength k"
    "\<not> (ss < 0 \<or> 2 < ss)" "\<not> wh < 0" "\<not> wr < 0" "\<not> wc < 0" "\<not> wl < 0" "\<not> wq < 0" "\<not> ww < 0"
    "wh + wr + wc + wl + wq + ww \<noteq> 0"
    using assms(1) unfolding k_def [symmetric] by (simp_all add: policy_checks_def weight_list_def f_le_zero_def)
  have "p = \<lparr>pcfg_Enabled = c_HHDPolicyEngineV2 k, pcfg_PolicyVersion = DefaultPolicyVersionV2,
        pcfg_BaselineProviderID = DefaultBaselineProviderID, pcfg_MinConfidence = mc,
        pcfg_MaxQueueDepth = c_HHDPolicyMaxQueueDepth k,
        pcfg_Weights = \<lparr>w_Health = wh, w_Reliability = wr, w_Cost = wc, w_Latency = wl, w_QueueDepth = wq, w_Workload = ww\<rparr>,
        pcfg_ScoreAdjuster = adj,
        pcfg_SparseQuantized = \<lparr>sq_Enabled = c_HHDSparseQuantizedEnabled k,
          sq_ProviderFeatureFlag = ''hhd.sparse_quantized_assist'', sq_CostLatencyTradeoff = tr, sq_QualityGuardrailMinScore = qg\<rparr>,
        pcfg_SSM = \<lparr>ssm_Enabled = c_HHDSSMAssistEnabled k, ssm_ProviderFeatureFlag = ''hhd.ssm_sequence_assist'',
          ssm_ThroughputBias = tb, ssm_MinSequenceLength = c_HHDSSMMinSequenceLength k,
          ssm_MaxSequenceLength = c_HHDSSMMaxSequenceLength k, ssm_SequenceSensitivity = ss\<rparr>\<rparr>"
    using assms(2) unfolding policyCfg_def Let_def k_def [symmetric] by (simp add: policy_floats_def weight_list_def)
  moreover have "trim_space DefaultPolicyVersionV2 \<noteq> ''''" "trim_space DefaultBaselineProviderID \<noteq> ''''" by code_simp+
  ultimately show ?thesis
    using ok by (simp add: normalizePolicyV2Config_def normalize_sparse_def normalize_ssm_def normalizeWeights_def weight_sum_def Let_def)
qed

lemma Load_policy_checks:
  assumes "Load pf env file = Inr c"
  shows "\<forall>(bad, err) \<in> set (policy_checks (cfg_policy c)). \<not> bad"
proof -
  have "cfg_policy c = load_policy pf env"
    using arg_cong [OF Load_accepted(3) [OF assms(1)], of cfg_policy] by (simp add: load_config_def)
  then show ?thesis
    using Load_accepted(1) [OF assms(1)] unfolding first_failed_None by (auto simp: general_checks_def load_config_def)
qed
text \<open>C17. The policy engine takes an accepted configuration as it is: its own normalisation changes nothing,
  so every confidence bound, queue bound, weight and assist parameter in force is the one that was configured.\<close>

theorem Load_policy_in_force:
  assumes "Load pf env file = Inr c" and "policyCfg adj c = Some p"
  shows "pe_cfg (NewPolicyEngineV2 p) = p"
  using checked_policy_normal [OF Load_policy_checks [OF assms(1)] assms(2)] by (simp add: NewPolicyEngineV2_def)


definition sandbox_limit_keys :: "string list" where
  "sandbox_limit_keys = [''CWSO_DOCKER_IMAGE'', ''CWSO_DOCKER_NETWORK'', ''CWSO_DOCKER_RUNTIME'', ''CWSO_DOCKER_CPU_QUOTA_MICROS'',
     ''CWSO_DOCKER_MEMORY_BYTES'', ''CWSO_DOCKER_PIDS_LIMIT'', ''CWSO_DOCKER_STOP_TIMEOUT_SECONDS'']"

lemmas env_reads = envOr_def envInt_def envInt64_def envFloat64_def envBool_def Let_def

text \<open>The variables that are read outside the limits of the sandbox.\<close>

definition general_keys :: "string list" where
  "general_keys = [
    ''CWSO_TRANSPORT'', ''CWSO_HTTP_ADDR'', ''CWSO_LOG_LEVEL'', ''CWSO_JWT_ALG'', ''CWSO_JWT_ISSUER'',
    ''CWSO_JWT_AUDIENCE'', ''CWSO_JWKS_PATH'', ''CWSO_ALLOWED_ORIGINS'', ''CWSO_JOB_TIMEOUT_SECONDS'',
    ''CWSO_JOB_WORKERS'', ''CWSO_JOB_QUEUE_SIZE'', ''CWSO_WORKSPACE'', ''CWSO_GIT_SHADOW_SOCKET'',
    ''CWSO_MERGE_ENGINE_SOCKET'', ''CWSO_HAL_SOCKET'', ''CWSO_HAL_CAPABILITY_SYNC_SECONDS'',
    ''CWSO_DASHBOARD_TOKEN'', ''CWSO_HHD_CAPABILITY_REGISTRY_ENABLED'', ''CWSO_HHD_DECISION_TELEMETRY_ENABLED'',
    ''CWSO_HHD_TELEMETRY_REDACTION_ENABLED'', ''CWSO_HHD_TELEMETRY_REQUEST_ID_MODE'',
    ''CWSO_HHD_TELEMETRY_ANOMALY_NOTES_MODE'', ''CWSO_HHD_TELEMETRY_REDACTION_SALT'',
    ''CWSO_HHD_EVENT_MONITOR_ENABLED'', ''CWSO_HHD_EVENT_MONITOR_EBPF_ENABLED'',
    ''CWSO_HHD_EVENT_MONITOR_LATENCY_THRESHOLD_MS'', ''CWSO_AST_SPIKE_RESOURCES_ENABLED'',
    ''CWSO_AST_SPIKE_MONITOR_ENABLED'', ''CWSO_AST_SPIKE_EBPF_ENABLED'', ''CWSO_AST_SPIKE_WINDOW_MS'',
    ''CWSO_AST_SPIKE_THRESHOLD'', ''CWSO_AST_SPIKE_DEBOUNCE_MS'', ''CWSO_AST_SPIKE_MAX_HOT_PATHS'',
    ''CWSO_AST_SPIKE_SEMANTIC_THRESHOLD'', ''CWSO_AST_SPIKE_CONFLICT_WINDOW_MS'',
    ''CWSO_AST_SPIKE_SIGNATURE_TTL_MS'', ''CWSO_AST_SPIKE_MAX_CONFLICT_PEERS'', ''CWSO_SPARSE_AGENTS_ENABLED'',
    ''CWSO_SPARSE_SOCKET'', ''CWSO_SPARSE_HOST_RAM_CAP_MB'', ''CWSO_SPARSE_QUALITY_GUARDRAIL_ENABLED'',
    ''CWSO_ROLLOUT_REWARD_ENABLED'', ''CWSO_ROLLOUT_API_ENABLED'', ''CWSO_ROLLOUT_SOCKET'',
    ''CWSO_ROLLOUT_KV_PREFIX_ROUTER_ENABLED'', ''CWSO_ROLLOUT_SYSTEM_PROMPT'', ''CWSO_ROLLOUT_SYSTEM_PROMPT_HASH'',
    ''CWSO_ROLLOUT_GATEWAY_STAGING_ENABLED'', ''CWSO_ROLLOUT_GATEWAY_INIT_WORKERS'',
    ''CWSO_ROLLOUT_GATEWAY_READY_BUFFER'', ''CWSO_ROLLOUT_GATEWAY_RUNNING_WORKERS'',
    ''CWSO_ROLLOUT_GATEWAY_POSTRUN_WORKERS'', ''CWSO_ROLLOUT_GATEWAY_SESSION_TIMEOUT_SECONDS'',
    ''CWSO_ROLLOUT_EVALUATOR_PREWARM_ENABLED'', ''CWSO_ROLLOUT_EVALUATOR_REGISTRY_ENABLED'',
    ''CWSO_ROLLOUT_EVALUATOR_SESSION_REWARD_ENABLED'', ''CWSO_ROLLOUT_EVALUATOR_SWEBENCH_ENABLED'',
    ''CWSO_ROLLOUT_SWEBENCH_INSTANCE'', ''CWSO_ROLLOUT_TRAJECTORY_BUILDER_ENABLED'',
    ''CWSO_ROLLOUT_TRAJECTORY_BUILDER_STRATEGY'', ''CWSO_HHD_WASM_SCORING_ENABLED'',
    ''CWSO_HHD_WASM_SCORING_MODULE_PATH'', ''CWSO_HHD_WASM_SCORING_MODULE_SHA256'',
    ''CWSO_HHD_WASM_SCORING_TRUSTED_DIR'', ''CWSO_HHD_WASM_SCORING_TIMEOUT_MS'',
    ''CWSO_HHD_WASM_SCORING_MEMORY_LIMIT_PAGES'', ''CWSO_HHD_WASM_SCORING_HOST_CALL_ALLOWLIST'',
    ''CWSO_HHD_CAPABILITY_SNAPSHOT_TTL_SECONDS'', ''CWSO_HHD_POLICY_ENGINE_V2_ENABLED'',
    ''CWSO_HHD_HARDWARE_AWARE_DISPATCH_ENABLED'', ''CWSO_HHD_POLICY_MIN_CONFIDENCE'',
    ''CWSO_HHD_POLICY_MAX_QUEUE_DEPTH'', ''CWSO_HHD_POLICY_WEIGHT_HEALTH'', ''CWSO_HHD_POLICY_WEIGHT_RELIABILITY'',
    ''CWSO_HHD_POLICY_WEIGHT_COST'', ''CWSO_HHD_POLICY_WEIGHT_LATENCY'', ''CWSO_HHD_POLICY_WEIGHT_QUEUE_DEPTH'',
    ''CWSO_HHD_POLICY_WEIGHT_WORKLOAD'', ''CWSO_HHD_SPARSE_QUANTIZED_ASSIST_ENABLED'',
    ''CWSO_HHD_SPARSE_QUANTIZED_COST_LATENCY_TRADEOFF'', ''CWSO_HHD_SPARSE_QUANTIZED_QUALITY_GUARDRAIL_MIN_SCORE'',
    ''CWSO_HHD_SSM_ASSIST_ENABLED'', ''CWSO_HHD_SSM_THROUGHPUT_BIAS'', ''CWSO_HHD_SSM_MIN_SEQUENCE_LENGTH'',
    ''CWSO_HHD_SSM_MAX_SEQUENCE_LENGTH'', ''CWSO_HHD_SSM_SEQUENCE_SENSITIVITY'', ''CWSO_JWT_SECRET'',
    ''CWSO_SANDBOX_RUNNER'']"

lemma load_general_cong:
  assumes "list_all (\<lambda>k. env k = env' k) general_keys"
  shows "load_core env = load_core env'" "load_telemetry env = load_telemetry env'" "load_spike env = load_spike env'"
    "load_sparse env = load_sparse env'" "load_rollout env = load_rollout env'" "load_wasm env = load_wasm env'"
    "load_policy pf env = load_policy pf env'" "jwt_secret file env = jwt_secret file env'"
    "c_SandboxRunner (load_sandbox env) = c_SandboxRunner (load_sandbox env')"
proof -
  note e = assms [unfolded general_keys_def list.pred_inject(2) list.pred_inject(1)]
  show "load_core env = load_core env'" by (rule ext) (simp only: load_core_def env_reads e)
  show "load_telemetry env = load_telemetry env'" by (simp only: load_telemetry_def env_reads e)
  show "load_spike env = load_spike env'" by (simp only: load_spike_def env_reads e)
  show "load_sparse env = load_sparse env'" by (simp only: load_sparse_def env_reads e)
  show "load_rollout env = load_rollout env'" by (simp only: load_rollout_def env_reads e)
  show "load_wasm env = load_wasm env'" by (simp only: load_wasm_def env_reads e)
  show "load_policy pf env = load_policy pf env'" by (simp only: load_policy_def env_reads e)
  show "jwt_secret file env = jwt_secret file env'" by (simp only: jwt_secret_def env_reads e)
  show "c_SandboxRunner (load_sandbox env) = c_SandboxRunner (load_sandbox env')"
    by (simp only: load_sandbox_def sandbox_settings.select_convs env_reads e)
qed

lemma load_other_sandbox_key:
  assumes "key \<in> set sandbox_limit_keys"
  shows "list_all (\<lambda>k. (env(key := v)) k = env k) general_keys"
proof -
  have "list_all (\<lambda>k. k \<notin> set sandbox_limit_keys) general_keys" by code_simp
  with assms show ?thesis by (auto simp: list_all_iff)
qed


lemma load_config_sandbox_key:
  assumes "key \<in> set sandbox_limit_keys"
  shows "load_config pf (env(key := v)) file = (load_config pf env file)\<lparr>cfg_sandbox := load_sandbox (env(key := v))\<rparr>"
  unfolding load_config_def load_general_cong [OF load_other_sandbox_key [OF assms, of env v]] by simp

lemma general_checks_sandbox:
  assumes "c_SandboxRunner k = c_SandboxRunner (cfg_sandbox c)"
  shows "general_checks (c\<lparr>cfg_sandbox := k\<rparr>) = general_checks c"
  using assms by (simp add: general_checks_def core_checks_def runner_check_def)

lemma default_runtime_simps [simp]:
  "c_SandboxRunner (default_runtime k) = c_SandboxRunner k" "c_SandboxNetwork (default_runtime k) = c_SandboxNetwork k"
  "c_SandboxCPUQuota (default_runtime k) = c_SandboxCPUQuota k" "c_SandboxMemory (default_runtime k) = c_SandboxMemory k"
  "c_SandboxPIDs (default_runtime k) = c_SandboxPIDs k" "c_SandboxStopSecs (default_runtime k) = c_SandboxStopSecs k"
  by (simp_all add: default_runtime_def)

lemma default_runtime_gvisor: "c_SandboxRunner k = ''gvisor'' \<Longrightarrow> trim_space (c_SandboxRuntime (default_runtime k)) \<noteq> ''''"
  by (simp add: default_runtime_def) code_simp

lemma check_sandbox_Inr:
  assumes "check_sandbox k = Inr k'"
  shows "k' = (if checked_runner k then default_runtime k else k)"
    and "checked_runner k \<Longrightarrow> \<forall>(bad, err) \<in> set (limit_checks k). \<not> bad"
  using assms unfolding first_failed_None [symmetric]
  by (auto simp: check_sandbox_def Let_def split: if_splits option.splits)

text \<open>C19. An accepted configuration with the docker, gvisor or firecracker runner never has the host network
  and has positive CPU, memory, process and stop limits; with gvisor the container runtime is set. With the
  router, which runs the same containers, nothing of this is checked: an accepted configuration stays accepted
  for every value of the image, network, runtime and limit variables, and the runtime is not defaulted.\<close>

theorem Load_sandbox_limits:
  assumes "Load pf env file = Inr c"
  defines "k \<equiv> cfg_sandbox c"
  shows "(c_SandboxRunner k \<in> {''docker'', ''gvisor'', ''firecracker''} \<longrightarrow>
       \<not> equal_fold (c_SandboxNetwork k) ''host'' \<and> 0 < c_SandboxCPUQuota k \<and> 0 < c_SandboxMemory k \<and>
       0 < c_SandboxPIDs k \<and> 0 < c_SandboxStopSecs k \<and>
       (c_SandboxRunner k = ''gvisor'' \<longrightarrow> trim_space (c_SandboxRuntime k) \<noteq> '''')) \<and>
    (c_SandboxRunner k = ''router'' \<longrightarrow> (\<forall>key v. key \<in> set sandbox_limit_keys \<longrightarrow>
       Load pf (env(key := v)) file = Inr (c\<lparr>cfg_sandbox := load_sandbox (env(key := v))\<rparr>)))"
proof -
  note acc = Load_accepted [OF assms(1)]
  have runner: "c_SandboxRunner k = c_SandboxRunner (load_sandbox env)"
    using check_sandbox_Inr(1) [OF acc(2)] by (simp add: k_def)
  have "\<not> equal_fold (c_SandboxNetwork k) ''host'' \<and> 0 < c_SandboxCPUQuota k \<and> 0 < c_SandboxMemory k \<and>
      0 < c_SandboxPIDs k \<and> 0 < c_SandboxStopSecs k \<and>
      (c_SandboxRunner k = ''gvisor'' \<longrightarrow> trim_space (c_SandboxRuntime k) \<noteq> '''')"
    if "c_SandboxRunner k \<in> {''docker'', ''gvisor'', ''firecracker''}"
  proof -
    have chk: "checked_runner (load_sandbox env)" using that runner by (auto simp: checked_runner_def)
    then have k: "k = default_runtime (load_sandbox env)" using check_sandbox_Inr(1) [OF acc(2)] by (simp add: k_def)
    have "\<forall>(bad, err) \<in> set (limit_checks (load_sandbox env)). \<not> bad" using check_sandbox_Inr(2) [OF acc(2) chk] .
    then show ?thesis unfolding k using default_runtime_gvisor [of "load_sandbox env"] by (simp add: limit_checks_def)
  qed
  moreover have "Load pf (env(key := v)) file = Inr (c\<lparr>cfg_sandbox := load_sandbox (env(key := v))\<rparr>)"
    if "c_SandboxRunner k = ''router''" "key \<in> set sandbox_limit_keys" for key v
  proof -
    let ?k = "load_sandbox (env(key := v))"
    have r: "c_SandboxRunner ?k = c_SandboxRunner (load_sandbox env)"
      by (rule load_general_cong(9) [OF load_other_sandbox_key [OF that(2)]])
    then have "check_sandbox ?k = Inr ?k"
      using that(1) runner by (simp add: check_sandbox_def checked_runner_def)
    moreover have "first_failed (general_checks (load_config pf (env(key := v)) file)) = None"
      unfolding load_config_sandbox_key [OF that(2)]
      by (subst general_checks_sandbox) (use r acc(1) in \<open>simp_all add: load_config_def\<close>)
    moreover have "c\<lparr>cfg_sandbox := ?k\<rparr> = (load_config pf env file)\<lparr>cfg_sandbox := ?k\<rparr>"
      using arg_cong [OF acc(3), of "cfg_sandbox_update (\<lambda>_. ?k)"] by simp
    ultimately show ?thesis by (simp add: Load_def Let_def load_config_sandbox_key [OF that(2)])
  qed
  ultimately show ?thesis by blast
qed

definition w_router_env :: "string \<Rightarrow> string" where
  "w_router_env = (\<lambda>_. '''')(''CWSO_SANDBOX_RUNNER'' := ''router'')"

lemma Load_router: "Load (\<lambda>_. None) w_router_env None = Inr (load_config (\<lambda>_. None) w_router_env None)"
proof -
  have "first_failed (general_checks (load_config (\<lambda>_. None) w_router_env None)) = None"
    "\<not> checked_runner (load_sandbox w_router_env)" by code_simp+
  then show ?thesis by (simp add: Load_def check_sandbox_def load_config_def)
qed
text \<open>In router mode the host network is accepted.\<close>

theorem Load_sandbox_limits_witness:
  "\<exists>c. Load (\<lambda>_. None) (w_router_env(''CWSO_DOCKER_NETWORK'' := ''host'')) None = Inr c \<and> c_SandboxNetwork (cfg_sandbox c) = ''host''"
proof -
  have "''CWSO_DOCKER_NETWORK'' \<in> set sandbox_limit_keys" by (simp add: sandbox_limit_keys_def)
  moreover have "c_SandboxRunner (cfg_sandbox (load_config (\<lambda>_. None) w_router_env None)) = ''router''"
    by (simp add: load_config_def load_sandbox_def w_router_env_def envOr_def)
  ultimately have "Load (\<lambda>_. None) (w_router_env(''CWSO_DOCKER_NETWORK'' := ''host'')) None =
      Inr ((load_config (\<lambda>_. None) w_router_env None)\<lparr>cfg_sandbox :=
        load_sandbox (w_router_env(''CWSO_DOCKER_NETWORK'' := ''host''))\<rparr>)"
    using Load_sandbox_limits [OF Load_router] by blast
  then show ?thesis by (simp add: load_sandbox_def envOr_def)
qed


text \<open>The default thresholds and weights are in force.\<close>

theorem Load_policy_in_force_witness:
  "\<exists>p. policyCfg None (load_config (\<lambda>_. None) w_router_env None) = Some p \<and> pe_cfg (NewPolicyEngineV2 p) = p \<and>
     pcfg_MinConfidence p = 1 / 2"
proof -
  have "policyCfg None (load_config (\<lambda>_. None) w_router_env None) \<noteq> None"
    "pcfg_MinConfidence (the (policyCfg None (load_config (\<lambda>_. None) w_router_env None))) = 1 / 2"
    by (simp_all add: policyCfg_def load_config_def policy_floats_def weight_list_def load_policy_def w_router_env_def envFloat64_def)
  then obtain p where "policyCfg None (load_config (\<lambda>_. None) w_router_env None) = Some p" "pcfg_MinConfidence p = 1 / 2" by auto
  with Load_policy_in_force [OF Load_router this(1)] show ?thesis by blast
qed

section \<open>Ranges\<close>

lemma f_outside_range: "\<not> f_outside lo hi f \<Longrightarrow> f \<in> insert NaN (Fin ` {lo..hi})"
  by (cases f) (auto simp: f_outside_def)

lemma not_negative_range: "\<not> f_lt f (Fin 0) \<Longrightarrow> f \<in> {NaN, PosInf} \<union> Fin ` {0..}"
  by (cases f) auto

text \<open>C36. The float settings of an accepted configuration are in their documented ranges, or not a number: the
  checks compare, and every comparison with NaN is false. Weights may also be infinite.\<close>

theorem Load_float_ranges:
  assumes "Load pf env file = Inr c"
  defines "k \<equiv> cfg_policy c"
  shows "c_HHDPolicyMinConfidence k \<in> insert NaN (Fin ` {0..1}) \<and> c_HHDSparseQuantizedTradeoff k \<in> insert NaN (Fin ` {- 1..1}) \<and>
    c_HHDQualityGuardrailMinScore k \<in> insert NaN (Fin ` {0..1}) \<and> c_HHDSSMThroughputBias k \<in> insert NaN (Fin ` {- 1..1}) \<and>
    c_HHDSSMSequenceSensitivity k \<in> insert NaN (Fin ` {0..2}) \<and> set (weight_list k) \<subseteq> {NaN, PosInf} \<union> Fin ` {0..}"
proof -
  have "\<forall>(bad, err) \<in> set (policy_checks k). \<not> bad" unfolding k_def by (rule Load_policy_checks [OF assms(1)])
  then have *: "\<not> f_outside 0 1 (c_HHDPolicyMinConfidence k)" "\<not> f_outside (- 1) 1 (c_HHDSparseQuantizedTradeoff k)"
    "\<not> f_outside 0 1 (c_HHDQualityGuardrailMinScore k)" "\<not> f_outside (- 1) 1 (c_HHDSSMThroughputBias k)"
    "\<not> f_outside 0 2 (c_HHDSSMSequenceSensitivity k)" "\<not> list_ex (\<lambda>w. f_lt w (Fin 0)) (weight_list k)"
    by (simp_all add: policy_checks_def)
  from *(6) have "set (weight_list k) \<subseteq> {NaN, PosInf} \<union> Fin ` {0..}"
    using not_negative_range by (auto simp: list_ex_iff)
  with *(1-5) show ?thesis using f_outside_range by blast
qed

definition w_nan_env :: "string \<Rightarrow> string" where
  "w_nan_env = (\<lambda>_. '''')(''CWSO_HHD_POLICY_MIN_CONFIDENCE'' := ''NaN'')"

definition w_parse :: "string \<Rightarrow> float64 option" where
  "w_parse s = (if s = ''NaN'' then Some NaN else None)"

text \<open>A minimum confidence that is not a number is accepted.\<close>

theorem Load_float_ranges_witness:
  "\<exists>c. Load w_parse w_nan_env None = Inr c \<and> c_HHDPolicyMinConfidence (cfg_policy c) = NaN \<and>
     c_HHDSparseQuantizedTradeoff (cfg_policy c) \<in> insert NaN (Fin ` {- 1..1})"
proof -
  let ?c = "load_config w_parse w_nan_env None"
  have "first_failed (general_checks ?c) = None" "\<not> checked_runner (load_sandbox w_nan_env)"
    and nan: "c_HHDPolicyMinConfidence (cfg_policy ?c) = NaN" by code_simp+
  then have l: "Load w_parse w_nan_env None = Inr ?c" by (simp add: Load_def check_sandbox_def load_config_def)
  then show ?thesis using nan Load_float_ranges [OF l] by blast
qed

end
