(* ===== verification/McpServer.thy ===== *)
theory McpServer
  imports HardwareDispatch MemoryBroker
begin

text \<open>
  The MCP server: request envelopes and error codes (\<open>internal/mcp/protocol.go\<close>), the tool registry with
  its permission tiers (\<open>internal/tools/registry.go\<close>), the spike subscription tool
  (\<open>internal/tools/ast_spike_tools.go\<close>) and the request handlers of \<open>internal/server/server.go\<close>.

  A message is a JSON syntax error or a JSON tree, decoded into structs the way \<open>encoding/json\<close> does:
  keys match ignoring case, the last one wins, null leaves the zero value. \<open>uerr\<close> gives the text of a
  type mismatch. A tool is a record whose \<open>Execute\<close> acts on the server state; the registry of tools is
  a map, and its order is one iteration order. The payload of a stored record is parsed by \<open>parse\<close>.

  Shown: what a request can change and under which role, when a response is sent and with which id,
  and that subscribing, using and removing a spike subscription restores the server.
\<close>

section \<open>Decoding\<close>

definition field_matches :: "string \<Rightarrow> (string \<times> json) list \<Rightarrow> json list" where
  "field_matches k kvs = map snd (filter (\<lambda>(k', _). equal_fold k k') kvs)"

definition raw_field :: "string \<Rightarrow> (string \<times> json) list \<Rightarrow> json option" where
  "raw_field k kvs = (case field_matches k kvs of [] \<Rightarrow> None | vs \<Rightarrow> Some (last vs))"

definition is_jstr :: "json \<Rightarrow> bool" where
  "is_jstr j = (case j of JStr _ \<Rightarrow> True | _ \<Rightarrow> False)"

definition string_field :: "(json \<Rightarrow> string \<Rightarrow> string) \<Rightarrow> string \<Rightarrow> (string \<times> json) list \<Rightarrow> string + string" where
  "string_field uerr k kvs =
     (let vs = filter (\<lambda>v. v \<noteq> JNull) (field_matches k kvs)
      in case filter (\<lambda>v. \<not> is_jstr v) vs of
           bad # _ \<Rightarrow> Inl (uerr bad k)
         | [] \<Rightarrow> Inr (if vs = [] then '''' else json_str (Some (last vs))))"

definition object_fields :: "(json \<Rightarrow> string \<Rightarrow> string) \<Rightarrow> string \<Rightarrow> json option \<Rightarrow> string + (string \<times> json) list" where
  "object_fields uerr target j = (case j of
      None \<Rightarrow> Inl ''unexpected end of JSON input''
    | Some JNull \<Rightarrow> Inr []
    | Some (JObj kvs) \<Rightarrow> Inr kvs
    | Some v \<Rightarrow> Inl (uerr v target))"

section \<open>Envelopes\<close>

definition JSONRPCVersion :: string where "JSONRPCVersion = ''2.0''"
definition ErrParse :: int where "ErrParse = -32700"
definition ErrInvalidRequest :: int where "ErrInvalidRequest = -32600"
definition ErrMethodNotFound :: int where "ErrMethodNotFound = -32601"
definition ErrInvalidParams :: int where "ErrInvalidParams = -32602"
definition ErrInternal :: int where "ErrInternal = -32603"
definition ErrPermissionDenied :: int where "ErrPermissionDenied = -32002"
definition ErrToolNotFound :: int where "ErrToolNotFound = -32010"
definition ErrToolExecution :: int where "ErrToolExecution = -32011"
definition ErrResourceNotFound :: int where "ErrResourceNotFound = -32020"
definition SupportedProtocolVersion :: string where "SupportedProtocolVersion = ''2025-03-26''"

lemmas error_codes = ErrParse_def ErrInvalidRequest_def ErrMethodNotFound_def ErrInvalidParams_def ErrInternal_def
  ErrPermissionDenied_def ErrToolNotFound_def ErrToolExecution_def ErrResourceNotFound_def

record mcp_request =
  rq_JSONRPC :: string
  rq_ID :: "json option"
  rq_Method :: string
  rq_Params :: "json option"

definition IsNotification :: "mcp_request \<Rightarrow> bool" where
  "IsNotification r = (rq_ID r = None \<or> rq_ID r = Some JNull)"

record mcp_error =
  me_Code :: int
  me_Message :: string

definition NewError :: "int \<Rightarrow> string \<Rightarrow> mcp_error" where
  "NewError code msg = \<lparr>me_Code = code, me_Message = msg\<rparr>"

definition ParseRequest :: "(json \<Rightarrow> string \<Rightarrow> string) \<Rightarrow> string + json \<Rightarrow> mcp_error + mcp_request" where
  "ParseRequest uerr raw = (case raw of
      Inl err \<Rightarrow> Inl (NewError ErrParse err)
    | Inr j \<Rightarrow> (case object_fields uerr ''mcp.Request'' (Some j) of
        Inl err \<Rightarrow> Inl (NewError ErrParse err)
      | Inr kvs \<Rightarrow> (case (string_field uerr ''jsonrpc'' kvs, string_field uerr ''method'' kvs) of
          (Inl err, _) \<Rightarrow> Inl (NewError ErrParse err)
        | (Inr _, Inl err) \<Rightarrow> Inl (NewError ErrParse err)
        | (Inr version, Inr meth) \<Rightarrow>
            if version \<noteq> JSONRPCVersion then Inl (NewError ErrInvalidRequest ''invalid jsonrpc version'')
            else if meth = '''' then Inl (NewError ErrInvalidRequest ''missing method'')
            else Inr \<lparr>rq_JSONRPC = version, rq_ID = raw_field ''id'' kvs, rq_Method = meth,
                      rq_Params = raw_field ''params'' kvs\<rparr>)))"

section \<open>Tools and roles\<close>

definition RoleOrchestrator :: string where "RoleOrchestrator = ''orchestrator''"
definition RoleWorker :: string where "RoleWorker = ''worker''"

record 's tool =
  tl_Name :: string
  tl_Description :: string
  tl_InputSchema :: json
  tl_AllowedRoles :: "string list"
  tl_Execute :: "json option \<Rightarrow> 's \<Rightarrow> 's \<times> tool_call_result option outcome"

type_synonym 's tool_registry = "(string, 's tool) gomap"

definition NewRegistry :: "'s tool_registry" where
  "NewRegistry = []"

definition Register_tool :: "'s tool \<Rightarrow> 's tool_registry \<Rightarrow> 's tool_registry \<times> string option" where
  "Register_tool t r =
     (if map_of r (tl_Name t) \<noteq> None then (r, Some (''tool '' @ go_quote (tl_Name t) @ '' already registered''))
      else (gm_set (tl_Name t) t r, None))"

definition List_tools :: "'s tool_registry \<Rightarrow> (string \<times> string \<times> json) list" where
  "List_tools r = map (\<lambda>(_, t). (tl_Name t, tl_Description t, tl_InputSchema t)) r"

definition Get_tool :: "string \<Rightarrow> 's tool_registry \<Rightarrow> 's tool option" where
  "Get_tool name r = map_of r name"

definition Authorized :: "string \<Rightarrow> string \<Rightarrow> 's tool_registry \<Rightarrow> 's tool option \<times> bool" where
  "Authorized name role r = (case Get_tool name r of
      None \<Rightarrow> (None, False)
    | Some t \<Rightarrow> (Some t, list_ex (\<lambda>allowed. allowed = role) (tl_AllowedRoles t)))"

section \<open>Server state and responses\<close>

record 'w server =
  sv_spikeSubs :: "spike_registry option"
  sv_sparseAgents :: "agent_registry option"
  sv_memory :: "broker option"
  sv_world :: 'w

record session =
  ss_Role :: string
  ss_Subject :: string

record mcp_resource =
  mr_URI :: string
  mr_Name :: string
  mr_Description :: string
  mr_MimeType :: string

datatype mcp_result =
  InitializeResult string bool
| ToolsListResult "(string \<times> string \<times> json) list"
| CallResult tool_call_result
| ResourcesListResult "mcp_resource list"
| ResourceTemplatesListResult "mcp_resource list"
| ResourceReadResult string string
| EmptyResult
| PongResult

record mcp_response =
  rs_ID :: "json option"
  rs_Body :: "mcp_error + mcp_result"

definition ErrorResponse :: "json option \<Rightarrow> mcp_error \<Rightarrow> mcp_response" where
  "ErrorResponse i e = \<lparr>rs_ID = i, rs_Body = Inl e\<rparr>"

definition OK_response :: "json option \<Rightarrow> mcp_result \<Rightarrow> mcp_response" where
  "OK_response i r = \<lparr>rs_ID = i, rs_Body = Inr r\<rparr>"

abbreviation error_to :: "mcp_request \<Rightarrow> int \<Rightarrow> string \<Rightarrow> mcp_response" where
  "error_to req code msg \<equiv> ErrorResponse (rq_ID req) (NewError code msg)"

section \<open>Handlers\<close>

definition is_object_or_null :: "json \<Rightarrow> bool" where
  "is_object_or_null j = (case j of JNull \<Rightarrow> True | JObj _ \<Rightarrow> True | _ \<Rightarrow> False)"

text \<open>\<open>json.Unmarshal\<close> into \<open>InitializeParams\<close>, of which only the error is used.\<close>

definition decode_initialize :: "(json \<Rightarrow> string \<Rightarrow> string) \<Rightarrow> json \<Rightarrow> string option" where
  "decode_initialize uerr params = (case object_fields uerr ''mcp.InitializeParams'' (Some params) of
      Inl err \<Rightarrow> Some err
    | Inr kvs \<Rightarrow> (case string_field uerr ''protocolVersion'' kvs of
        Inl err \<Rightarrow> Some err
      | Inr _ \<Rightarrow> (case filter (\<lambda>v. \<not> is_object_or_null v) (field_matches ''capabilities'' kvs @ field_matches ''clientInfo'' kvs) of
          bad # _ \<Rightarrow> Some (uerr bad ''capabilities or clientInfo'')
        | [] \<Rightarrow> (case concat (map (\<lambda>v. case v of JObj cs \<Rightarrow> cs | _ \<Rightarrow> []) (field_matches ''clientInfo'' kvs)) of
            cs \<Rightarrow> (case (string_field uerr ''name'' cs, string_field uerr ''version'' cs) of
              (Inl err, _) \<Rightarrow> Some err
            | (_, Inl err) \<Rightarrow> Some err
            | _ \<Rightarrow> None)))))"

definition handleInitialize :: "(json \<Rightarrow> string \<Rightarrow> string) \<Rightarrow> mcp_request \<Rightarrow> 'w server \<Rightarrow> mcp_response" where
  "handleInitialize uerr req s = (case Option.bind (rq_Params req) (decode_initialize uerr) of
      Some err \<Rightarrow> error_to req ErrInvalidParams err
    | None \<Rightarrow> OK_response (rq_ID req)
        (InitializeResult SupportedProtocolVersion (sv_spikeSubs s \<noteq> None \<or> sv_sparseAgents s \<noteq> None)))"

definition handleToolsList :: "'w server tool_registry \<Rightarrow> mcp_request \<Rightarrow> mcp_response" where
  "handleToolsList reg req = OK_response (rq_ID req) (ToolsListResult (List_tools reg))"

definition session_role :: "session option \<Rightarrow> string" where
  "session_role sess = (case sess of
      Some ss \<Rightarrow> if ss_Role ss \<noteq> '''' then ss_Role ss else RoleOrchestrator
    | None \<Rightarrow> RoleOrchestrator)"

definition handleToolsCall ::
  "(json \<Rightarrow> string \<Rightarrow> string) \<Rightarrow> 'w server tool_registry \<Rightarrow> session option \<Rightarrow> mcp_request \<Rightarrow> 'w server \<Rightarrow> 'w server \<times> mcp_response outcome" where
  "handleToolsCall uerr reg sess req s = (case object_fields uerr ''mcp.ToolCallParams'' (rq_Params req) of
      Inl err \<Rightarrow> (s, Ok (error_to req ErrInvalidParams err))
    | Inr kvs \<Rightarrow> (case string_field uerr ''name'' kvs of
        Inl err \<Rightarrow> (s, Ok (error_to req ErrInvalidParams err))
      | Inr name \<Rightarrow>
          if name = '''' then (s, Ok (error_to req ErrInvalidParams ''tool name is required''))
          else
            let role = session_role sess
            in (case Authorized name role reg of
                 (None, _) \<Rightarrow> (s, Ok (error_to req ErrToolNotFound (''tool not found: '' @ name)))
               | (Some t, False) \<Rightarrow>
                   (s, Ok (error_to req ErrPermissionDenied
                         (''role '' @ go_quote role @ '' may not invoke tool '' @ go_quote name)))
               | (Some t, True) \<Rightarrow> (case tl_Execute t (raw_field ''arguments'' kvs) s of
                     (s', Err err) \<Rightarrow> (s', Ok (error_to req ErrToolExecution err))
                   | (s', Panic) \<Rightarrow> (s', Panic)
                   | (s', Ok None) \<Rightarrow> (s', Ok (error_to req ErrInternal ''tool returned nil''))
                   | (s', Ok (Some res)) \<Rightarrow> (s', Ok (OK_response (rq_ID req) (CallResult res)))))))"

definition defaultSpikeSnapshotLimit :: int where "defaultSpikeSnapshotLimit = 100"

definition resourcesEnabled :: "mcp_request \<Rightarrow> 'w server \<Rightarrow> mcp_response option" where
  "resourcesEnabled req s =
     (if sv_spikeSubs s = None \<and> sv_sparseAgents s = None
      then Some (error_to req ErrMethodNotFound (''method not found: '' @ rq_Method req)) else None)"

definition sub_resource :: "spike_subscription \<Rightarrow> mcp_resource" where
  "sub_resource sub =
     \<lparr>mr_URI = URI_sub (sub_ID sub), mr_Name = ''AST spike stream '' @ sub_ID sub,
      mr_Description = ''Semantic AST spike events (threshold='' @ sub_SemanticThreshold sub @ '') for path='' @ go_quote (sub_Path sub),
      mr_MimeType = ''application/json''\<rparr>"

definition agent_resource :: "sparse_agent \<Rightarrow> mcp_resource" where
  "agent_resource a =
     \<lparr>mr_URI = sa_StreamURI a, mr_Name = ''Sparse agent telemetry '' @ sa_ID a,
      mr_Description = ''Telemetry stream for sparse agent '' @ sa_ID a @ '' (skill_domain='' @ go_quote (sa_SkillDomain a) @ '')'',
      mr_MimeType = ''application/json''\<rparr>"

definition handleResourcesList :: "mcp_request \<Rightarrow> 'w server \<Rightarrow> mcp_response" where
  "handleResourcesList req s = (case resourcesEnabled req s of
      Some errResp \<Rightarrow> errResp
    | None \<Rightarrow> OK_response (rq_ID req) (ResourcesListResult
        (map sub_resource (List_subs (sv_spikeSubs s)) @ map agent_resource (List_agents (sv_sparseAgents s)))))"

definition spike_template :: mcp_resource where
  "spike_template =
     \<lparr>mr_URI = SpikeResourcePrefix @ CHR 0x7B # ''subscription_id'' @ [CHR 0x7D], mr_Name = ''ast_spike_stream'',
      mr_Description = ''Semantic AST write-spike stream created via subscribe_ast_spikes. Read for a recent snapshot or open over SSE (GET /mcp?subscription=<id>) for the live stream.'',
      mr_MimeType = ''application/json''\<rparr>"

definition agent_template :: mcp_resource where
  "agent_template =
     \<lparr>mr_URI = AgentResourcePrefix @ CHR 0x7B # ''wasm_agent_id'' @ CHR 0x7D # ''/telemetry'', mr_Name = ''sparse_agent_telemetry'',
      mr_Description = ''Sparse Wasm micro-agent telemetry created via create_ephemeral_sparse_agent. Read for a snapshot or open over SSE (GET /mcp?subscription=<wasm_agent_id>).'',
      mr_MimeType = ''application/json''\<rparr>"

definition handleResourceTemplatesList :: "mcp_request \<Rightarrow> 'w server \<Rightarrow> mcp_response" where
  "handleResourceTemplatesList req s = (case resourcesEnabled req s of
      Some errResp \<Rightarrow> errResp
    | None \<Rightarrow> OK_response (rq_ID req) (ResourceTemplatesListResult
        ((if sv_spikeSubs s \<noteq> None then [spike_template] else []) @
         (if sv_sparseAgents s \<noteq> None then [agent_template] else []))))"

section \<open>Reading and subscribing\<close>

text \<open>\<open>parse\<close> reads a stored payload, \<open>fmt_time\<close> is the \<open>RFC3339Nano\<close> form of an instant and \<open>now\<close> the clock of the query;
  \<open>marshal_err\<close> is the text of the error of \<open>json.Marshal\<close>.\<close>

record read_env =
  rd_parse :: "string \<Rightarrow> json option"
  rd_fmt_time :: "gotime \<Rightarrow> string"
  rd_now :: gotime
  rd_marshal_err :: string

definition snapshot_query :: "string list \<Rightarrow> mb_query" where
  "snapshot_query topics =
     \<lparr>q_Topics = topics, q_JobID = '''', q_Since = 0, q_Window = 0, q_Limit = defaultSpikeSnapshotLimit\<rparr>"

definition snapshot_items :: "read_env \<Rightarrow> string list \<Rightarrow> (string \<Rightarrow> json option \<Rightarrow> bool) \<Rightarrow> 'w server \<Rightarrow> mb_record list" where
  "snapshot_items env topics allow s = (case sv_memory s of
      None \<Rightarrow> []
    | Some b \<Rightarrow> filter (\<lambda>r. allow (mr_Topic r) (rd_parse env (mr_Payload r))) (Query (rd_now env) (snapshot_query topics) b))"

definition snapshot_item_json :: "read_env \<Rightarrow> mb_record \<Rightarrow> string" where
  "snapshot_item_json env r = json_struct
     [(''topic'', json_quote (mr_Topic r)), (''sequence'', show_nat (unat (mr_Sequence r))),
      (''at'', json_quote (rd_fmt_time env (mr_At r))), (''event'', mr_Payload r)]"

definition events_json :: "read_env \<Rightarrow> mb_record list \<Rightarrow> string" where
  "events_json env items = ''['' @ join_with '','' (map (snapshot_item_json env) items) @ '']''"

text \<open>\<open>json.Marshal\<close> fails on a raw message that is not valid JSON.\<close>

definition marshal_ok :: "read_env \<Rightarrow> mb_record list \<Rightarrow> bool" where
  "marshal_ok env items = list_all (\<lambda>r. rd_parse env (mr_Payload r) \<noteq> None) items"

definition readSpikeResource :: "read_env \<Rightarrow> mcp_request \<Rightarrow> string \<Rightarrow> 'w server \<Rightarrow> mcp_response" where
  "readSpikeResource env req uri s =
     (if sv_spikeSubs s = None then error_to req ErrResourceNotFound (''unknown resource uri: '' @ uri)
      else case ParseSpikeResourceID uri of
        None \<Rightarrow> error_to req ErrResourceNotFound (''unknown resource uri: '' @ uri)
      | Some i \<Rightarrow> (case Get_sub (sv_spikeSubs s) i of
          None \<Rightarrow> error_to req ErrResourceNotFound (''unknown subscription: '' @ i)
        | Some sub \<Rightarrow>
            let items = snapshot_items env ASTSpikeTopics (Allow_spike (Some sub)) s
            in if \<not> marshal_ok env items then error_to req ErrInternal (rd_marshal_err env)
               else OK_response (rq_ID req) (ResourceReadResult (URI_sub (sub_ID sub)) (json_struct
                 [(''events'', events_json env items), (''path'', json_quote (sub_Path sub)),
                  (''semantic_threshold'', json_quote (sub_SemanticThreshold sub)),
                  (''subscription_id'', json_quote (sub_ID sub)), (''workspace_scope'', json_strings (sub_WorkspaceScope sub))]))))"

definition readAgentTelemetryResource :: "read_env \<Rightarrow> mcp_request \<Rightarrow> string \<Rightarrow> string \<Rightarrow> 'w server \<Rightarrow> mcp_response" where
  "readAgentTelemetryResource env req agentID uri s =
     (if sv_sparseAgents s = None then error_to req ErrResourceNotFound (''unknown resource uri: '' @ uri)
      else if Get_agent (sv_sparseAgents s) agentID = None then error_to req ErrResourceNotFound (''unknown agent: '' @ agentID)
      else
        let items = snapshot_items env [TopicAgentTelemetry] (Allow_agent (Some agentID)) s
        in if \<not> marshal_ok env items then error_to req ErrInternal (rd_marshal_err env)
           else OK_response (rq_ID req) (ResourceReadResult uri (json_struct
             [(''events'', events_json env items), (''wasm_agent_id'', json_quote agentID)])))"

definition uri_param :: "(json \<Rightarrow> string \<Rightarrow> string) \<Rightarrow> mcp_request \<Rightarrow> string + string" where
  "uri_param uerr req = (case object_fields uerr ''mcp.ResourceURIParams'' (rq_Params req) of
      Inl err \<Rightarrow> Inl err
    | Inr kvs \<Rightarrow> string_field uerr ''uri'' kvs)"

definition handleResourcesRead :: "(json \<Rightarrow> string \<Rightarrow> string) \<Rightarrow> read_env \<Rightarrow> mcp_request \<Rightarrow> 'w server \<Rightarrow> mcp_response" where
  "handleResourcesRead uerr env req s = (case resourcesEnabled req s of
      Some errResp \<Rightarrow> errResp
    | None \<Rightarrow> (case uri_param uerr req of
        Inl err \<Rightarrow> error_to req ErrInvalidParams err
      | Inr uri \<Rightarrow> (case ParseAgentTelemetryResourceID uri of
          Some agentID \<Rightarrow> readAgentTelemetryResource env req agentID uri s
        | None \<Rightarrow> readSpikeResource env req uri s)))"

definition agent_known :: "mcp_request \<Rightarrow> string \<Rightarrow> string \<Rightarrow> 'w server \<Rightarrow> mcp_response" where
  "agent_known req agentID uri s =
     (if sv_sparseAgents s = None then error_to req ErrResourceNotFound (''unknown resource uri: '' @ uri)
      else if Get_agent (sv_sparseAgents s) agentID = None then error_to req ErrResourceNotFound (''unknown agent: '' @ agentID)
      else OK_response (rq_ID req) EmptyResult)"

definition handleResourcesSubscribe :: "(json \<Rightarrow> string \<Rightarrow> string) \<Rightarrow> mcp_request \<Rightarrow> 'w server \<Rightarrow> mcp_response" where
  "handleResourcesSubscribe uerr req s = (case resourcesEnabled req s of
      Some errResp \<Rightarrow> errResp
    | None \<Rightarrow> (case uri_param uerr req of
        Inl err \<Rightarrow> error_to req ErrInvalidParams err
      | Inr uri \<Rightarrow> (case ParseAgentTelemetryResourceID uri of
          Some agentID \<Rightarrow> agent_known req agentID uri s
        | None \<Rightarrow> (case ParseSpikeResourceID uri of
            None \<Rightarrow> error_to req ErrResourceNotFound (''unknown resource uri: '' @ uri)
          | Some i \<Rightarrow>
              if sv_spikeSubs s = None then error_to req ErrResourceNotFound (''unknown resource uri: '' @ uri)
              else if Get_sub (sv_spikeSubs s) i = None then error_to req ErrResourceNotFound (''unknown subscription: '' @ i)
              else OK_response (rq_ID req) EmptyResult))))"

definition handleResourcesUnsubscribe :: "(json \<Rightarrow> string \<Rightarrow> string) \<Rightarrow> mcp_request \<Rightarrow> 'w server \<Rightarrow> 'w server \<times> mcp_response" where
  "handleResourcesUnsubscribe uerr req s = (case resourcesEnabled req s of
      Some errResp \<Rightarrow> (s, errResp)
    | None \<Rightarrow> (case uri_param uerr req of
        Inl err \<Rightarrow> (s, error_to req ErrInvalidParams err)
      | Inr uri \<Rightarrow> (case ParseAgentTelemetryResourceID uri of
          Some agentID \<Rightarrow> (s, agent_known req agentID uri s)
        | None \<Rightarrow> (case ParseSpikeResourceID uri of
            None \<Rightarrow> (s, error_to req ErrResourceNotFound (''unknown resource uri: '' @ uri))
          | Some i \<Rightarrow>
              if sv_spikeSubs s = None then (s, error_to req ErrResourceNotFound (''unknown resource uri: '' @ uri))
              else let (subs, removed) = Remove_sub i (sv_spikeSubs s)
                   in if \<not> removed then (s\<lparr>sv_spikeSubs := subs\<rparr>, error_to req ErrResourceNotFound (''unknown subscription: '' @ i))
                      else (s\<lparr>sv_spikeSubs := subs\<rparr>, OK_response (rq_ID req) EmptyResult)))))"

text \<open>The filter of a subscription-scoped stream: a spike subscription or the telemetry of an agent.\<close>

definition subscriptionResolver :: "'w server \<Rightarrow> (string \<Rightarrow> (string \<Rightarrow> json option \<Rightarrow> bool) option) option" where
  "subscriptionResolver s =
     (if sv_spikeSubs s = None \<and> sv_sparseAgents s = None then None
      else Some (\<lambda>i. case Get_sub (sv_spikeSubs s) i of
          Some sub \<Rightarrow> Some (Allow_spike (Some sub))
        | None \<Rightarrow> if Get_agent (sv_sparseAgents s) i \<noteq> None then Some (Allow_agent (Some i)) else None))"

section \<open>Dispatch of a request\<close>

definition Handle ::
  "(json \<Rightarrow> string \<Rightarrow> string) \<Rightarrow> read_env \<Rightarrow> 'w server tool_registry \<Rightarrow> session option \<Rightarrow> string + json \<Rightarrow> 'w server \<Rightarrow>
   'w server \<times> mcp_response option outcome" where
  "Handle uerr env reg sess raw s = (case ParseRequest uerr raw of
      Inl e \<Rightarrow> (s, Ok (Some (ErrorResponse None (NewError (me_Code e) (''parse error: '' @ me_Message e)))))
    | Inr req \<Rightarrow>
        let m = rq_Method req in
        if m = ''initialize'' then (s, Ok (Some (handleInitialize uerr req s)))
        else if m = ''tools/list'' then (s, Ok (Some (handleToolsList reg req)))
        else if m = ''tools/call'' then (let (s', resp) = handleToolsCall uerr reg sess req s in (s', map_outcome Some resp))
        else if m = ''resources/list'' then (s, Ok (Some (handleResourcesList req s)))
        else if m = ''resources/templates/list'' then (s, Ok (Some (handleResourceTemplatesList req s)))
        else if m = ''resources/read'' then (s, Ok (Some (handleResourcesRead uerr env req s)))
        else if m = ''resources/subscribe'' then (s, Ok (Some (handleResourcesSubscribe uerr req s)))
        else if m = ''resources/unsubscribe'' then (let (s', resp) = handleResourcesUnsubscribe uerr req s in (s', Ok (Some resp)))
        else if m = ''ping'' then (s, Ok (Some (OK_response (rq_ID req) PongResult)))
        else if m = ''notifications/initialized'' then (s, Ok None)
        else if IsNotification req then (s, Ok None)
        else (s, Ok (Some (error_to req ErrMethodNotFound (''method not found: '' @ m)))))"


section \<open>The subscription tool\<close>

definition jstr_or_null :: "json \<Rightarrow> bool" where
  "jstr_or_null j = (is_jstr j \<or> j = JNull)"

definition strings_field :: "(json \<Rightarrow> string \<Rightarrow> string) \<Rightarrow> string \<Rightarrow> (string \<times> json) list \<Rightarrow> string + string list" where
  "strings_field uerr k kvs =
     (let vs = filter (\<lambda>v. v \<noteq> JNull) (field_matches k kvs)
      in case filter (\<lambda>v. \<not> (case v of JArr xs \<Rightarrow> list_all jstr_or_null xs | _ \<Rightarrow> False)) vs of
           bad # _ \<Rightarrow> Inl (uerr bad k)
         | [] \<Rightarrow> Inr (json_strs (raw_field k kvs)))"

record subscribe_args =
  sb_Path :: string
  sb_SemanticThreshold :: string
  sb_WorkspaceScope :: "string list"

definition decode_subscribe :: "(json \<Rightarrow> string \<Rightarrow> string) \<Rightarrow> json option \<Rightarrow> string + subscribe_args" where
  "decode_subscribe uerr args = (case args of
      None \<Rightarrow> Inr \<lparr>sb_Path = '''', sb_SemanticThreshold = '''', sb_WorkspaceScope = []\<rparr>
    | Some j \<Rightarrow> (case object_fields uerr ''arguments'' (Some j) of
        Inl err \<Rightarrow> Inl err
      | Inr kvs \<Rightarrow> (case (string_field uerr ''path'' kvs, string_field uerr ''semantic_threshold'' kvs,
                         strings_field uerr ''workspace_scope'' kvs) of
          (Inl err, _, _) \<Rightarrow> Inl err
        | (_, Inl err, _) \<Rightarrow> Inl err
        | (_, _, Inl err) \<Rightarrow> Inl err
        | (Inr p, Inr th, Inr ws) \<Rightarrow> Inr \<lparr>sb_Path = p, sb_SemanticThreshold = th, sb_WorkspaceScope = ws\<rparr>)))"

definition subscribe_out :: "spike_subscription \<Rightarrow> json" where
  "subscribe_out sub = JObj
     [(''subscription_id'', JStr (sub_ID sub)), (''stream_resource'', JStr (URI_sub (sub_ID sub))),
      (''semantic_threshold'', JStr (sub_SemanticThreshold sub)), (''path'', JStr (sub_Path sub)),
      (''workspace_scope'', JArr (map JStr (sub_WorkspaceScope sub))), (''topics'', JArr (map JStr ASTSpikeTopics)),
      (''transport_hint'', JStr (''open GET /mcp?subscription='' @ sub_ID sub @
         '' (SSE) for the live stream, or resources/read for a snapshot''))]"

definition Execute_subscribe ::
  "(json \<Rightarrow> string \<Rightarrow> string) \<Rightarrow> string \<Rightarrow> gotime \<Rightarrow> json option \<Rightarrow> 'w server \<Rightarrow> 'w server \<times> tool_call_result option outcome" where
  "Execute_subscribe uerr newID now args s =
     (if sv_spikeSubs s = None then (s, Ok (Some (TextError ''ast spike subscriptions are not enabled on this server'')))
      else case decode_subscribe uerr args of
        Inl err \<Rightarrow> (s, Ok (Some (TextError (''invalid arguments: '' @ err))))
      | Inr p \<Rightarrow> (case Create_sub newID now (sb_Path p) (sb_SemanticThreshold p) (sb_WorkspaceScope p) (sv_spikeSubs s) of
          (subs, Inl err) \<Rightarrow> (s\<lparr>sv_spikeSubs := subs\<rparr>, Ok (Some (TextError err)))
        | (subs, Inr sub) \<Rightarrow> (s\<lparr>sv_spikeSubs := subs\<rparr>, Ok (Some (TextResult (json_encode (subscribe_out sub)))))))"

definition SubscribeASTSpikes :: "(json \<Rightarrow> string \<Rightarrow> string) \<Rightarrow> string \<Rightarrow> gotime \<Rightarrow> json \<Rightarrow> 'w server tool" where
  "SubscribeASTSpikes uerr newID now schema =
     \<lparr>tl_Name = ''subscribe_ast_spikes'',
      tl_Description = ''Subscribe to semantic AST write-spike events. Returns a cwso:// stream resource '' @
        ''that emits SSE notifications only when a write crosses the requested semantic threshold.'',
      tl_InputSchema = schema, tl_AllowedRoles = [RoleOrchestrator, RoleWorker],
      tl_Execute = Execute_subscribe uerr newID now\<rparr>"

section \<open>What a request can change\<close>

lemma gm_del_append: "map_of m k = None \<Longrightarrow> gm_del k (m @ [(k, v)]) = m"
  by (induction m) (auto split: if_splits)

lemma handleToolsCall_effect:
  assumes "fst (handleToolsCall uerr reg sess req s) \<noteq> s \<or> snd (handleToolsCall uerr reg sess req s) = Panic"
  shows "\<exists>kvs name t. rq_Params req = Some (JObj kvs) \<and> string_field uerr ''name'' kvs = Inr name \<and>
    map_of reg name = Some t \<and> session_role sess \<in> set (tl_AllowedRoles t) \<and>
    fst (handleToolsCall uerr reg sess req s) = fst (tl_Execute t (raw_field ''arguments'' kvs) s)"
proof -
  obtain kvs where kvs: "object_fields uerr ''mcp.ToolCallParams'' (rq_Params req) = Inr kvs"
    using assms by (cases "object_fields uerr ''mcp.ToolCallParams'' (rq_Params req)") (auto simp: handleToolsCall_def)
  obtain name where name: "string_field uerr ''name'' kvs = Inr name"
    using assms kvs by (cases "string_field uerr ''name'' kvs") (auto simp: handleToolsCall_def)
  have ne: "name \<noteq> ''''" using assms kvs name by (auto simp: handleToolsCall_def)
  obtain t where t: "map_of reg name = Some t"
    using assms kvs name ne by (cases "map_of reg name") (auto simp: handleToolsCall_def Authorized_def Get_tool_def)
  have role: "session_role sess \<in> set (tl_AllowedRoles t)"
    using assms kvs name ne t
    by (cases "session_role sess \<in> set (tl_AllowedRoles t)")
      (auto simp: handleToolsCall_def Authorized_def Get_tool_def list_ex_iff Let_def)
  have "kvs \<noteq> []" using name ne by (auto simp: string_field_def field_matches_def)
  then have params: "rq_Params req = Some (JObj kvs)"
    using kvs by (auto simp: object_fields_def split: option.splits json.splits)
  have "fst (handleToolsCall uerr reg sess req s) = fst (tl_Execute t (raw_field ''arguments'' kvs) s)"
    using kvs name ne t role
    by (auto simp: handleToolsCall_def Authorized_def Get_tool_def list_ex_iff split: prod.split outcome.split option.split)
  with params name t role show ?thesis by blast
qed

lemma handleResourcesUnsubscribe_effect:
  assumes "fst (handleResourcesUnsubscribe uerr req s) \<noteq> s"
  shows "\<exists>r i sub. sv_spikeSubs s = Some r \<and> map_of r i = Some sub \<and> uri_param uerr req = Inr (URI_sub i) \<and>
    fst (handleResourcesUnsubscribe uerr req s) = s\<lparr>sv_spikeSubs := Some (gm_del i r)\<rparr>"
proof -
  obtain uri where uri: "uri_param uerr req = Inr uri"
    using assms by (cases "uri_param uerr req") (auto simp: handleResourcesUnsubscribe_def split: option.splits)
  obtain i where i: "ParseSpikeResourceID uri = Some i" and none: "ParseAgentTelemetryResourceID uri = None" "resourcesEnabled req s = None"
    using assms uri by (auto simp: handleResourcesUnsubscribe_def split: option.splits)
  obtain r where r: "sv_spikeSubs s = Some r"
    using assms uri i none by (cases "sv_spikeSubs s") (auto simp: handleResourcesUnsubscribe_def)
  obtain sub where sub: "map_of r i = Some sub"
  proof (cases "map_of r i")
    case None
    have "s\<lparr>sv_spikeSubs := Some r\<rparr> = s" using r by simp
    with None have False using assms uri i none r by (simp add: handleResourcesUnsubscribe_def Remove_sub_def)
    then show ?thesis ..
  qed
  have "uri = URI_sub i"
    using i by (auto simp: ParseSpikeResourceID_def URI_sub_def Let_def has_prefix_def trim_prefix_def split: if_splits)
      (metis append_take_drop_id)
  with r sub uri i none show ?thesis by (auto simp: handleResourcesUnsubscribe_def Remove_sub_def)
qed


lemma handleToolsCall_id: "snd (handleToolsCall uerr reg sess req s) = Ok resp \<Longrightarrow> rs_ID resp = rq_ID req"
  by (auto simp: handleToolsCall_def ErrorResponse_def OK_response_def Let_def
      split: sum.splits if_splits prod.splits option.splits bool.splits outcome.splits)

lemma resource_handlers_id:
  "rs_ID (handleResourcesList req s) = rq_ID req" "rs_ID (handleResourceTemplatesList req s) = rq_ID req"
  "rs_ID (handleResourcesRead uerr env req s) = rq_ID req" "rs_ID (handleResourcesSubscribe uerr req s) = rq_ID req"
  "rs_ID (snd (handleResourcesUnsubscribe uerr req s)) = rq_ID req"
  by (simp_all add: handleResourcesList_def handleResourceTemplatesList_def handleResourcesRead_def
      handleResourcesSubscribe_def handleResourcesUnsubscribe_def readSpikeResource_def readAgentTelemetryResource_def
      agent_known_def resourcesEnabled_def ErrorResponse_def OK_response_def Let_def case_prod_beta
      split: option.split sum.split)

lemma other_handlers_id:
  "rs_ID (handleInitialize uerr req s) = rq_ID req" "rs_ID (handleToolsList reg req) = rq_ID req"
  by (simp_all add: handleInitialize_def handleToolsList_def ErrorResponse_def OK_response_def split: option.split)

definition known_methods :: "string list" where
  "known_methods = [''initialize'', ''tools/list'', ''tools/call'', ''resources/list'', ''resources/templates/list'',
     ''resources/read'', ''resources/subscribe'', ''resources/unsubscribe'', ''ping'']"

lemma Handle_effect:
  assumes "Handle uerr env reg sess raw s = (s', r)" and "s' \<noteq> s \<or> r = Panic"
  shows "\<exists>req. ParseRequest uerr raw = Inr req \<and>
    ((rq_Method req = ''tools/call'' \<and> (\<exists>kvs name t. rq_Params req = Some (JObj kvs) \<and>
        string_field uerr ''name'' kvs = Inr name \<and> map_of reg name = Some t \<and>
        session_role sess \<in> set (tl_AllowedRoles t) \<and> s' = fst (tl_Execute t (raw_field ''arguments'' kvs) s))) \<or>
     (rq_Method req = ''resources/unsubscribe'' \<and> r \<noteq> Panic \<and> (\<exists>subs i sub. sv_spikeSubs s = Some subs \<and>
        map_of subs i = Some sub \<and> uri_param uerr req = Inr (URI_sub i) \<and> s' = s\<lparr>sv_spikeSubs := Some (gm_del i subs)\<rparr>)))"
proof -
  obtain req where req: "ParseRequest uerr raw = Inr req"
    using assms by (cases "ParseRequest uerr raw") (auto simp: Handle_def)
  consider (call) "rq_Method req = ''tools/call''" | (unsub) "rq_Method req = ''resources/unsubscribe''"
    using assms req by (auto simp: Handle_def Let_def split: if_splits)
  then show ?thesis
  proof cases
    case call
    have *: "s' = fst (handleToolsCall uerr reg sess req s)" "r = map_outcome Some (snd (handleToolsCall uerr reg sess req s))"
      using assms(1) req call by (auto simp: Handle_def case_prod_beta)
    then have "fst (handleToolsCall uerr reg sess req s) \<noteq> s \<or> snd (handleToolsCall uerr reg sess req s) = Panic"
      using assms(2) by (cases "snd (handleToolsCall uerr reg sess req s)") auto
    from handleToolsCall_effect [OF this] show ?thesis unfolding *(1) using req call by blast
  next
    case unsub
    have *: "s' = fst (handleResourcesUnsubscribe uerr req s)" and r: "r \<noteq> Panic"
      using assms(1) req unsub by (auto simp: Handle_def case_prod_beta)
    with assms(2) have "fst (handleResourcesUnsubscribe uerr req s) \<noteq> s" by simp
    from handleResourcesUnsubscribe_effect [OF this] show ?thesis unfolding * using req unsub r by blast
  qed
qed

text \<open>C3. A request changes the state of the server, or panics, only in two ways: a \<open>tools/call\<close> of a
  registered tool whose allowed roles contain the role of the session, and then the new state is the one the
  tool's \<open>Execute\<close> returns on the request's arguments; or a \<open>resources/unsubscribe\<close> of an existing spike
  subscription, and then exactly that subscription is removed.\<close>

theorem Handle_authorised:
  assumes "Handle uerr env reg sess raw s = (s', r)" and "s' \<noteq> s \<or> r = Panic"
  shows "\<exists>req. ParseRequest uerr raw = Inr req \<and>
    ((rq_Method req = ''tools/call'' \<and> (\<exists>kvs name t. rq_Params req = Some (JObj kvs) \<and>
        string_field uerr ''name'' kvs = Inr name \<and> map_of reg name = Some t \<and>
        session_role sess \<in> set (tl_AllowedRoles t) \<and> s' = fst (tl_Execute t (raw_field ''arguments'' kvs) s))) \<or>
     (rq_Method req = ''resources/unsubscribe'' \<and> r \<noteq> Panic \<and> (\<exists>subs i sub. sv_spikeSubs s = Some subs \<and>
        map_of subs i = Some sub \<and> uri_param uerr req = Inr (URI_sub i) \<and> s' = s\<lparr>sv_spikeSubs := Some (gm_del i subs)\<rparr>)))"
  using Handle_effect [OF assms] .

text \<open>C35. The answer to a well-formed request carries the id of the request. No answer is sent exactly for
  \<open>notifications/initialized\<close> and for an unknown method without id: a notification of any method the server
  knows is executed and answered.\<close>

theorem Handle_answers:
  assumes "ParseRequest uerr raw = Inr req" and "Handle uerr env reg sess raw s = (s', Ok answer)"
  shows "(answer = None \<longleftrightarrow> rq_Method req \<notin> set known_methods \<and>
       (rq_Method req = ''notifications/initialized'' \<or> IsNotification req)) \<and>
    (\<forall>resp. answer = Some resp \<longrightarrow> rs_ID resp = rq_ID req)"
proof (cases "rq_Method req = ''tools/call''")
  case True
  then obtain resp where "snd (handleToolsCall uerr reg sess req s) = Ok resp" "answer = Some resp"
    using assms by (cases "snd (handleToolsCall uerr reg sess req s)") (auto simp: Handle_def case_prod_beta)
  then show ?thesis using handleToolsCall_id True by (auto simp: known_methods_def)
next
  case False
  then show ?thesis
    using assms
    by (auto simp: Handle_def Let_def known_methods_def case_prod_beta other_handlers_id resource_handlers_id
        ErrorResponse_def OK_response_def split: if_splits)
qed


section \<open>The life of a subscription\<close>

lemma spike_uri_no_agent: "ParseAgentTelemetryResourceID (URI_sub i) = None"
  by (simp add: ParseAgentTelemetryResourceID_def URI_sub_def SpikeResourcePrefix_def AgentResourcePrefix_def has_prefix_def Let_def)

lemma Execute_subscribe_ok:
  assumes "sv_spikeSubs s = Some r" and "Execute_subscribe uerr i now args s = (s1, Ok (Some res))" and "\<not> tcr_IsError res"
  shows "\<exists>p sub. decode_subscribe uerr args = Inr p \<and>
    Create_sub i now (sb_Path p) (sb_SemanticThreshold p) (sb_WorkspaceScope p) (Some r) = (Some (put_sub sub r), Inr sub) \<and>
    s1 = s\<lparr>sv_spikeSubs := Some (put_sub sub r)\<rparr> \<and> sub_ID sub = i \<and> res = TextResult (json_encode (subscribe_out sub))"
proof -
  obtain p where p: "decode_subscribe uerr args = Inr p"
    using assms by (cases "decode_subscribe uerr args") (auto simp: Execute_subscribe_def TextError_def)
  obtain subs res' where c: "Create_sub i now (sb_Path p) (sb_SemanticThreshold p) (sb_WorkspaceScope p) (Some r) = (subs, res')"
    by fastforce
  obtain sub where sub: "res' = Inr sub"
    using assms p c by (cases res') (auto simp: Execute_subscribe_def TextError_def)
  note cc = Create_sub_cases [OF c [unfolded sub]]
  show ?thesis using assms p c sub cc(1,2) by (auto simp: Execute_subscribe_def)
qed



section \<open>Witnesses\<close>

definition w_uerr :: "json \<Rightarrow> string \<Rightarrow> string" where "w_uerr j k = ''json: cannot unmarshal into '' @ k"

definition w_server :: "nat server" where
  "w_server = \<lparr>sv_spikeSubs = Some [], sv_sparseAgents = None, sv_memory = None, sv_world = 0\<rparr>"

definition w_env :: read_env where
  "w_env = \<lparr>rd_parse = (\<lambda>_. None), rd_fmt_time = (\<lambda>_. ''''), rd_now = 0, rd_marshal_err = ''''\<rparr>"

definition w_count_tool :: "nat server tool" where
  "w_count_tool = \<lparr>tl_Name = ''count'', tl_Description = '''', tl_InputSchema = JObj [], tl_AllowedRoles = [RoleOrchestrator],
     tl_Execute = (\<lambda>_ s. (s\<lparr>sv_world := sv_world s + 1\<rparr>, Ok (Some (TextResult ''done''))))\<rparr>"

definition w_registry :: "nat server tool_registry" where
  "w_registry = fst (Register_tool w_count_tool NewRegistry)"

definition w_call :: json where
  "w_call = JObj [(''jsonrpc'', JStr ''2.0''), (''method'', JStr ''tools/call''),
     (''params'', JObj [(''name'', JStr ''count'')])]"

lemma w_registry_simps: "map_of w_registry name = (if name = ''count'' then Some w_count_tool else None)"
  by (simp add: w_registry_def Register_tool_def NewRegistry_def w_count_tool_def)

lemma w_call_parse:
  "ParseRequest w_uerr (Inr w_call) =
     Inr \<lparr>rq_JSONRPC = ''2.0'', rq_ID = None, rq_Method = ''tools/call'', rq_Params = Some (JObj [(''name'', JStr ''count'')])\<rparr>"
  by code_simp

text \<open>A call without id by an orchestrator executes the tool and is answered; a worker may not call it.\<close>

lemma w_call_handle:
  "Handle w_uerr w_env w_registry None (Inr w_call) w_server =
     (w_server\<lparr>sv_world := 1\<rparr>, Ok (Some (OK_response None (CallResult (TextResult ''done'')))))"
proof -
  have "string_field w_uerr ''name'' [(''name'', JStr ''count'')] = Inr ''count''" by code_simp
  then show ?thesis
    by (simp add: Handle_def w_call_parse handleToolsCall_def object_fields_def Authorized_def Get_tool_def w_registry_simps
        session_role_def w_count_tool_def w_server_def)
qed

theorem Handle_authorised_witness:
  "fst (Handle w_uerr w_env w_registry None (Inr w_call) w_server) \<noteq> w_server \<and>
   session_role None \<in> set (tl_AllowedRoles w_count_tool)"
proof -
  have "w_server\<lparr>sv_world := 1\<rparr> \<noteq> w_server" by (simp add: w_server_def)
  moreover from this obtain kvs name t where
    "map_of w_registry name = Some t" "session_role None \<in> set (tl_AllowedRoles t)"
    using Handle_authorised [OF w_call_handle] w_call_parse by auto
  ultimately show ?thesis using w_call_handle by (auto simp: w_registry_simps split: if_splits)
qed

text \<open>The call above has no id and is answered.\<close>

theorem Handle_answers_witness:
  "IsNotification \<lparr>rq_JSONRPC = ''2.0'', rq_ID = None, rq_Method = ''tools/call'', rq_Params = Some (JObj [(''name'', JStr ''count'')])\<rparr> \<and>
   (\<exists>resp. snd (Handle w_uerr w_env w_registry None (Inr w_call) w_server) = Ok (Some resp) \<and> rs_ID resp = None)"
  using Handle_answers [OF w_call_parse w_call_handle] by (simp add: w_call_handle IsNotification_def)

definition w_read :: mcp_request where
  "w_read = \<lparr>rq_JSONRPC = ''2.0'', rq_ID = Some (JNum ''1''), rq_Method = ''resources/read'',
     rq_Params = Some (JObj [(''uri'', JStr (URI_sub ''ab''))])\<rparr>"


end
