(* ===== verification/ServerWiring.thy ===== *)
theory ServerWiring
  imports McpServer Config
begin

text \<open>
  How the server puts its parts together, \<open>New\<close>, \<open>registerBaselineTools\<close>, \<open>initCapabilitySync\<close> and
  the provider catalog of \<open>internal/server/server.go\<close>.

  The clock readings of the registry and what the hardware layer answers are arguments. A nil pointer
  that is passed as an interface is not a nil interface.

  Shown: which tools an accepted start registers, that the built-in catalog routes every task to the
  class of hardware the profiler recommends, fresh or stale, with or without a reachable hardware
  layer, and what the dispatch tool does when the capability registry is switched off.
\<close>

section \<open>The provider catalog\<close>

definition cpu_baseline :: provider_capability where
  "cpu_baseline =
     \<lparr>pc_ProviderID = ''cpu-baseline'', pc_ContractVersion = ''dispatch.provider/v1.0'', pc_HealthState = HealthHealthy,
      pc_LatencyClass = ''baseline'', pc_CostClass = ''low'', pc_QueueDepth = 0, pc_SupportedWorkloadTags = [''default''],
      pc_ReliabilityClass = ''standard'', pc_FeatureFlags = [], pc_LastUpdatedAt = 0\<rparr>"

definition shadowHardwareProviders :: "provider_capability list" where
  "shadowHardwareProviders =
     [\<lparr>pc_ProviderID = ''lpu-realtime'', pc_ContractVersion = ''dispatch.provider/v1.0'', pc_HealthState = HealthHealthy,
       pc_LatencyClass = ''ultra'', pc_CostClass = ''medium'', pc_QueueDepth = 0, pc_SupportedWorkloadTags = [''realtime''],
       pc_ReliabilityClass = ''gold'', pc_FeatureFlags = [], pc_LastUpdatedAt = 0\<rparr>,
      \<lparr>pc_ProviderID = ''gpu-accelerated'', pc_ContractVersion = ''dispatch.provider/v1.0'', pc_HealthState = HealthHealthy,
       pc_LatencyClass = ''fast'', pc_CostClass = ''high'', pc_QueueDepth = 0,
       pc_SupportedWorkloadTags = [''inference-heavy'', ''deterministic-edit''],
       pc_ReliabilityClass = ''gold'', pc_FeatureFlags = [''hhd.sparse_quantized_assist''], pc_LastUpdatedAt = 0\<rparr>,
      \<lparr>pc_ProviderID = ''ssm-longctx'', pc_ContractVersion = ''dispatch.provider/v1.0'', pc_HealthState = HealthHealthy,
       pc_LatencyClass = ''baseline'', pc_CostClass = ''medium'', pc_QueueDepth = 0, pc_SupportedWorkloadTags = [''long-context''],
       pc_ReliabilityClass = ''gold'', pc_FeatureFlags = [''hhd.ssm_sequence_assist''], pc_LastUpdatedAt = 0\<rparr>]"

text \<open>Providers are stored one after the other; the first that is refused ends the start.\<close>

fun seed_shadow :: "(gotime \<times> provider_capability) list \<Rightarrow> capability_registry \<Rightarrow> string + capability_registry" where
  "seed_shadow [] r = Inr r"
| "seed_shadow ((now, prov) # rest) r = (case Upsert now prov r of
      (_, Some err) \<Rightarrow> Inl (''seed shadow provider '' @ go_quote (pc_ProviderID prov) @ '': '' @ err)
    | (r', None) \<Rightarrow> seed_shadow rest r')"

definition New_caps :: "config \<Rightarrow> gotime \<Rightarrow> gotime list \<Rightarrow> string + capability_registry option" where
  "New_caps c now nows =
     (if \<not> c_HHDCapabilityRegistry (cfg_telemetry c) then Inr None
      else case Upsert now cpu_baseline (NewCapabilityRegistry (wrap64 (c_HHDSnapshotTTLSeconds (cfg_policy c) * second))) of
        (_, Some err) \<Rightarrow> Inl (''seed capability registry: '' @ err)
      | (r, None) \<Rightarrow>
          if c_HHDHardwareAwareDispatch (cfg_policy c) \<and> c_HALSocket (cfg_core c) = ''''
          then map_sum id Some (seed_shadow (zip nows shadowHardwareProviders) r)
          else Inr (Some r))"

section \<open>Live capabilities\<close>

record hal_capability =
  hc_ProviderID :: string
  hc_ContractVersion :: string
  hc_HealthState :: string
  hc_LatencyClass :: string
  hc_CostClass :: string
  hc_QueueDepth :: int
  hc_SupportedWorkloadTags :: "string list"
  hc_ReliabilityClass :: string
  hc_FeatureFlags :: "string list"

definition FetchCapabilities :: "string + hal_capability list \<Rightarrow> string + provider_capability list" where
  "FetchCapabilities live = (case live of
      Inl err \<Rightarrow> Inl err
    | Inr cs \<Rightarrow> Inr (map (\<lambda>c.
        \<lparr>pc_ProviderID = hc_ProviderID c, pc_ContractVersion = hc_ContractVersion c, pc_HealthState = hc_HealthState c,
         pc_LatencyClass = hc_LatencyClass c, pc_CostClass = hc_CostClass c, pc_QueueDepth = hc_QueueDepth c,
         pc_SupportedWorkloadTags = hc_SupportedWorkloadTags c, pc_ReliabilityClass = hc_ReliabilityClass c,
         pc_FeatureFlags = hc_FeatureFlags c, pc_LastUpdatedAt = 0\<rparr>) cs))"

text \<open>\<open>nows\<close> are the clock readings of the writes: of the live records, or of the static catalog when the fetch fails.\<close>

definition initCapabilitySync ::
  "config \<Rightarrow> string + hal_capability list \<Rightarrow> gotime list \<Rightarrow> capability_registry option \<Rightarrow>
   capability_registry option \<times> capability_syncer option" where
  "initCapabilitySync c live nows caps =
     (if \<not> c_HHDHardwareAwareDispatch (cfg_policy c) \<or> c_HALSocket (cfg_core c) = '''' \<or> caps = None then (caps, None)
      else
        let syncer0 = (NewCapabilitySyncer True caps (wrap64 (c_HALCapabilitySyncSeconds (cfg_core c) * second)))
              \<lparr>csy_OnError := Some [], csy_OnSync := Some []\<rparr>;
            (syncer, _, err) = SyncOnce (map_sum id (zip nows) (FetchCapabilities live)) syncer0
        in if err \<noteq> None
           then let caps' = map_option (fold (\<lambda>(now, prov) r. fst (Upsert now prov r)) (zip nows shadowHardwareProviders))
                              (csy_registry syncer)
                in (caps', Some (syncer\<lparr>csy_registry := caps'\<rparr>))
           else (csy_registry syncer, Some syncer))"

text \<open>The registry after the constructor: seeded, then synchronised.\<close>

definition New_synced_caps ::
  "config \<Rightarrow> gotime \<Rightarrow> gotime list \<Rightarrow> string + hal_capability list \<Rightarrow> string + capability_registry option" where
  "New_synced_caps c now nows live = map_sum id (\<lambda>caps. fst (initCapabilitySync c live nows caps)) (New_caps c now nows)"

section \<open>Telemetry and registries\<close>

definition New_redaction :: "config \<Rightarrow> redaction_config" where
  "New_redaction c = (let k = cfg_telemetry c in
     \<lparr>rc_Enabled = c_HHDTelemetryRedaction k, rc_RequestIDMode = c_HHDTelemetryRequestIDMode k,
      rc_AnomalyNotesMode = c_HHDTelemetryAnomalyNotes k, rc_RequestIDSalt = c_HHDTelemetryRedactionSalt k\<rparr>)"

definition New_emitter :: "host_facts \<Rightarrow> ('p, dispatch_payload) publisher option \<Rightarrow> config \<Rightarrow> decision_emitter option" where
  "New_emitter host publisher c = (let k = cfg_telemetry c in
     if \<not> c_HHDDecisionTelemetry k then None
     else
       let monitor = (if c_HHDEventMonitorEnabled k
             then NewDecisionAnomalyMonitor publisher (newSignalPathResolver host (c_HHDEventMonitorEBPF k) None)
                    (c_HHDEventMonitorLatencyMS k) (New_redaction c)
             else None)
       in Some (NewDecisionEmitter monitor (New_redaction c)))"

definition New_server :: "config \<Rightarrow> broker \<Rightarrow> 'w \<Rightarrow> 'w server" where
  "New_server c memory world =
     \<lparr>sv_spikeSubs = (if c_ASTSpikeResourcesEnabled (cfg_spike c) then Some NewSpikeSubscriptionRegistry else None),
      sv_sparseAgents = (if c_SparseAgentsEnabled (cfg_sparse c) \<and> c_SparseSocket (cfg_sparse c) \<noteq> '''' then Some [] else None),
      sv_memory = Some memory, sv_world = world\<rparr>"

section \<open>Tools\<close>

definition iface_of_pointer :: "'a option \<Rightarrow> 'a iface" where
  "iface_of_pointer p = (case p of None \<Rightarrow> ITypedNil | Some v \<Rightarrow> IVal v)"

text \<open>The dispatch tool; the emitter and the registry are passed as pointers.\<close>

definition dispatchTool ::
  "config \<Rightarrow> manager \<Rightarrow> runner option \<Rightarrow> 'e option \<Rightarrow> capability_registry option \<Rightarrow> policy_config \<Rightarrow> 'e dispatch_tool" where
  "dispatchTool c jobs rnr emitter caps policy =
     (let k = cfg_core c;
          base = NewDispatchConcurrentJobsWithDispatchPolicy (Some jobs) (c_JobTimeoutSeconds k) (c_JobQueueSize k) None ''''
            (iface_of_pointer emitter) (iface_of_pointer (map_option (\<lambda>_. ()) caps)) policy
      in if rnr \<noteq> None
         then NewDispatchConcurrentJobsWithDispatchPolicy (Some jobs) (c_JobTimeoutSeconds k) (c_JobQueueSize k) rnr (c_Workspace k)
            (iface_of_pointer emitter) (iface_of_pointer (map_option (\<lambda>_. ()) caps)) policy
         else base)"

record 's tool_set =
  ts_readFile :: "'s tool"
  ts_writeFile :: "'s tool"
  ts_listDir :: "'s tool"
  ts_dispatch :: "'s tool"
  ts_spikes :: "'s tool"
  ts_sparse :: "'s tool"
  ts_hardware :: "'s tool"

definition baseTools :: "config \<Rightarrow> capability_registry option \<Rightarrow> 'w server \<Rightarrow> 's tool_set \<Rightarrow> 's tool list" where
  "baseTools c caps s ts =
     [ts_readFile ts, ts_writeFile ts, ts_listDir ts, ts_dispatch ts] @
     (if sv_spikeSubs s \<noteq> None then [ts_spikes ts] else []) @
     (if sv_sparseAgents s \<noteq> None \<and> c_SparseSocket (cfg_sparse c) \<noteq> '''' then [ts_sparse ts] else []) @
     (if c_HHDHardwareAwareDispatch (cfg_policy c) \<and> caps \<noteq> None then [ts_hardware ts] else [])"

fun register_all :: "'s tool list \<Rightarrow> 's tool_registry \<Rightarrow> 's tool_registry \<times> string option" where
  "register_all [] reg = (reg, None)"
| "register_all (t # rest) reg = (case Register_tool t reg of
      (reg', Some err) \<Rightarrow> (reg', Some err)
    | (reg', None) \<Rightarrow> register_all rest reg')"

text \<open>The snapshot is published once after the registration when there are an emitter and a registry.\<close>

definition registerBaselineTools ::
  "time_codec \<Rightarrow> ('p, dispatch_payload) publisher option \<Rightarrow> gotime \<Rightarrow> config \<Rightarrow> decision_emitter option \<Rightarrow>
   capability_registry option \<Rightarrow> 'w server \<Rightarrow> 's tool_set \<Rightarrow> 's tool_registry \<Rightarrow> 'p \<Rightarrow> 's tool_registry \<times> 'p \<times> string option" where
  "registerBaselineTools tc pub now c emitter caps s ts reg p = (case register_all (baseTools c caps s ts) reg of
      (reg', Some err) \<Rightarrow> (reg', p, Some err)
    | (reg', None) \<Rightarrow> (case (emitter, caps) of
        (Some _, Some r) \<Rightarrow> (reg', fst (EmitCapabilitySnapshot tc pub (Snapshot now r) p), None)
      | _ \<Rightarrow> (reg', p, None)))"

lemma register_all_ok:
  assumes "distinct (map tl_Name ts)" and "\<And>t. t \<in> set ts \<Longrightarrow> map_of reg (tl_Name t) = None"
  shows "register_all ts reg = (reg @ map (\<lambda>t. (tl_Name t, t)) ts, None)"
  using assms
proof (induction ts arbitrary: reg)
  case (Cons t ts)
  then have "Register_tool t reg = (reg @ [(tl_Name t, t)], None)" by (simp add: Register_tool_def gm_set_new)
  moreover have "map_of (reg @ [(tl_Name t, t)]) (tl_Name u) = None" if "u \<in> set ts" for u
  proof -
    have "tl_Name t \<noteq> tl_Name u" using Cons.prems(1) that by (auto simp: image_iff)
    then show ?thesis using Cons.prems(2) [of u] that by (simp add: map_add_def)
  qed
  ultimately show ?case using Cons.IH [of "reg @ [(tl_Name t, t)]"] Cons.prems(1) by simp
qed simp

text \<open>With distinct names every base tool is registered, and exactly those.\<close>

lemma registerBaselineTools_ok:
  assumes "distinct (map tl_Name (baseTools c caps s ts))"
  shows "\<exists>p'. registerBaselineTools tc pub now c emitter caps s ts NewRegistry p =
    (map (\<lambda>t. (tl_Name t, t)) (baseTools c caps s ts), p', None)"
  using register_all_ok [OF assms, of NewRegistry]
  by (simp add: registerBaselineTools_def NewRegistry_def split: option.split)

section \<open>Routing with the catalog\<close>

lemma Select_two_candidates:
  assumes "pcfg_Enabled (pe_cfg e)" and "\<not> sq_Enabled (pcfg_SparseQuantized (pe_cfg e))" and "\<not> ssm_Enabled (pcfg_SSM (pe_cfg e))"
    and "pcfg_ScoreAdjuster (pe_cfg e) = None" and "scoreCandidates (cs_Providers snapshot) input (pe_cfg e) = [a, b]"
    and "sc_score a < sc_score b" and "pcfg_MinConfidence (pe_cfg e) \<le> sc_confidence b"
    and "sc_providerID a = pcfg_BaselineProviderID (pe_cfg e)" and "sc_providerID b \<noteq> sc_providerID a" and "sc_providerID b \<noteq> ''''"
  shows "pd_RankedFallbackChain (snd (Select snapshot input e)) = [sc_providerID b, pcfg_BaselineProviderID (pe_cfg e)]"
proof -
  have "rank_candidates [a, b] = [b, a]"
    using assms(6) by (simp add: rank_candidates_def rank_key_def less_eq_prod_def)
  then show ?thesis
    using assms
    by (simp add: Select_def Let_def shouldAutoDisableSparseQuantized_def isSparseQuantizedActive_def ssm_phase_def
        isSSMAssistActive_def plugin_phase_def rank_decision_def fallback_chain_def)
qed

text \<open>What a snapshot shows of a provider that was stored at \<open>t\<close>: it is degraded once it is older than \<open>ttl\<close>.\<close>

definition shown :: "gotime \<Rightarrow> duration \<Rightarrow> gotime \<Rightarrow> provider_capability \<Rightarrow> provider_capability" where
  "shown now ttl t c = applyStaleness (normalizeCapability t c) now ttl"

definition catalog_snapshot :: "gotime \<Rightarrow> duration \<Rightarrow> gotime list \<Rightarrow> provider_capability list" where
  "catalog_snapshot now ttl ts =
     [shown now ttl (ts ! 0) cpu_baseline, shown now ttl (ts ! 2) (shadowHardwareProviders ! 1),
      shown now ttl (ts ! 1) (shadowHardwareProviders ! 0), shown now ttl (ts ! 3) (shadowHardwareProviders ! 2)]"

lemma shown_simps [simp]:
  "pc_ProviderID (shown now ttl t c) = pc_ProviderID c" "pc_LatencyClass (shown now ttl t c) = pc_LatencyClass c"
  "pc_CostClass (shown now ttl t c) = pc_CostClass c" "pc_QueueDepth (shown now ttl t c) = pc_QueueDepth c"
  "pc_SupportedWorkloadTags (shown now ttl t c) = dedupeAndSort (pc_SupportedWorkloadTags c)"
  "pc_ReliabilityClass (shown now ttl t c) = pc_ReliabilityClass c"
  by (simp_all add: shown_def applyStaleness_def normalizeCapability_def)

definition stale :: "gotime \<Rightarrow> duration \<Rightarrow> gotime \<Rightarrow> bool" where
  "stale now ttl t \<longleftrightarrow> 0 < ttl \<and> t \<noteq> 0 \<and> ttl < time_sub now t"

lemma shown_health:
  assumes "pc_HealthState c = HealthHealthy" and "pc_LastUpdatedAt c = 0"
  shows "pc_HealthState (shown now ttl t c) = (if stale now ttl t then HealthDegraded else HealthHealthy)"
  using assms by (auto simp: shown_def applyStaleness_def normalizeCapability_def stale_def equal_fold_def)

lemma stale_mono: "t \<le> t' \<Longrightarrow> 0 < t \<Longrightarrow> stale now ttl t' \<Longrightarrow> stale now ttl t"
  by (auto simp: stale_def time_sub_def)

lemmas catalog_defs = cpu_baseline_def shadowHardwareProviders_def

lemma norm_class_catalog:
  "norm_class ''baseline'' = ''baseline''" "norm_class ''low'' = ''low''" "norm_class ''standard'' = ''standard''"
  "norm_class ''ultra'' = ''ultra''" "norm_class ''medium'' = ''medium''" "norm_class ''gold'' = ''gold''"
  "norm_class ''fast'' = ''fast''" "norm_class ''high'' = ''high''"
  "norm_class HealthHealthy = HealthHealthy" "norm_class HealthDegraded = HealthDegraded"
  by code_simp+

abbreviation default_cfg :: policy_config where
  "default_cfg \<equiv> DefaultPolicyV2Config\<lparr>pcfg_Enabled := True\<rparr>"

lemma default_engine_cfg: "pe_cfg (NewPolicyEngineV2 default_cfg) = default_cfg"
proof -
  have "trim_space DefaultPolicyVersionV2 \<noteq> ''''" "trim_space DefaultBaselineProviderID \<noteq> ''''" by code_simp+
  then show ?thesis
    by (simp add: NewPolicyEngineV2_def normalizePolicyV2Config_def DefaultPolicyV2Config_def normalize_sparse_def normalize_ssm_def
        normalizeWeights_def weight_sum_def Let_def)
qed

text \<open>Tags, the provider they are for and the tags that provider supports.\<close>

definition catalog_routes :: "(string list \<times> provider_capability) list" where
  "catalog_routes =
     [([''realtime''], shadowHardwareProviders ! 0), ([''inference-heavy''], shadowHardwareProviders ! 1),
      ([''deterministic-edit'', ''inference-heavy''], shadowHardwareProviders ! 1), ([''long-context''], shadowHardwareProviders ! 2)]"

definition supports :: "provider_capability \<Rightarrow> string list \<Rightarrow> bool" where
  "supports c tags = list_ex (\<lambda>t. let tag = trim_space (to_lower t) in
     tag \<noteq> '''' \<and> tag \<in> set (supported_tags (dedupeAndSort (pc_SupportedWorkloadTags c)))) tags"

definition route_ok :: "string list \<Rightarrow> provider_capability \<Rightarrow> bool" where
  "route_ok tags c \<longleftrightarrow> dedupeAndSort tags = tags \<and> tags \<noteq> [] \<and>
     filter (\<lambda>p. supports p tags) [shadowHardwareProviders ! 1, shadowHardwareProviders ! 0, shadowHardwareProviders ! 2] = [c] \<and>
     workloadScore tags (dedupeAndSort (pc_SupportedWorkloadTags cpu_baseline)) = 0 \<and>
     workloadScore tags (dedupeAndSort (pc_SupportedWorkloadTags c)) = 1 \<and>
     pc_ProviderID c \<noteq> ''cpu-baseline'' \<and> pc_ProviderID c \<noteq> [] \<and> pc_HealthState c = HealthHealthy \<and> pc_LastUpdatedAt c = 0 \<and>
     pc_QueueDepth c = 0 \<and> reliabilityScore (pc_ReliabilityClass c) = 9 / 10 \<and>
     7 / 10 \<le> latencyScore (pc_LatencyClass c) \<and> 4 / 10 \<le> costScore (pc_CostClass c)"

lemma catalog_routes_ok: "(tags, c) \<in> set catalog_routes \<Longrightarrow> route_ok tags c"
proof -
  have "list_all (\<lambda>(tags, c). route_ok tags c) catalog_routes" by code_simp
  then show "(tags, c) \<in> set catalog_routes \<Longrightarrow> route_ok tags c" by (auto simp: list_all_iff)
qed

lemma eligible_shown:
  assumes "tags \<noteq> []" and "pc_HealthState c = HealthHealthy" and "pc_LastUpdatedAt c = 0" and "trim_space (pc_ProviderID c) \<noteq> ''''"
  shows "isPolicyEligible (shown now ttl t c) tags base \<longleftrightarrow> pc_ProviderID c = base \<or> supports c tags"
proof -
  have "\<not> equal_fold HealthHealthy HealthUnavailable" "\<not> equal_fold HealthDegraded HealthUnavailable" by code_simp+
  then show ?thesis using assms by (auto simp: isPolicyEligible_def supports_def shown_health)
qed

lemma default_score:
  "sc_score (scoreProvider tags default_cfg c) =
     35 / 100 * healthScore (pc_HealthState c) + 25 / 100 * reliabilityScore (pc_ReliabilityClass c) +
     10 / 100 * costScore (pc_CostClass c) + 10 / 100 * latencyScore (pc_LatencyClass c) +
     10 / 100 * queueDepthScore (pc_QueueDepth c) 32 + 10 / 100 * workloadScore tags (pc_SupportedWorkloadTags c)"
  "sc_confidence (scoreProvider tags default_cfg c) = clamp01 (sc_score (scoreProvider tags default_cfg c))"
  by (simp_all add: scoreProvider_def DefaultPolicyV2Config_def weight_sum_def Let_def)

lemma health_scores: "healthScore HealthHealthy = 1" "healthScore HealthDegraded = 1 / 2"
  by (simp_all add: healthScore_def norm_class_catalog) (simp add: HealthHealthy_def HealthDegraded_def)

lemma catalog_candidates:
  assumes "(tags, c) \<in> set catalog_routes" and "sorted ts" and "length ts = 4" and "0 < ts ! 0"
  shows "\<exists>t \<ge> ts ! 0. scoreCandidates (catalog_snapshot now ttl ts) \<lparr>in_WorkloadTags = tags, in_QualityScore = q, in_RequestLabels = ls\<rparr> default_cfg =
     [scoreProvider tags default_cfg (shown now ttl (ts ! 0) cpu_baseline), scoreProvider tags default_cfg (shown now ttl t c)]"
proof -
  have r: "dedupeAndSort tags = tags" "tags \<noteq> []"
    "filter (\<lambda>p. supports p tags) [shadowHardwareProviders ! 1, shadowHardwareProviders ! 0, shadowHardwareProviders ! 2] = [c]"
    using catalog_routes_ok [OF assms(1)] unfolding route_ok_def by blast+
  have base: "pcfg_BaselineProviderID default_cfg = ''cpu-baseline''"
    by (simp add: DefaultPolicyV2Config_def DefaultBaselineProviderID_def)
  have ids: "trim_space (pc_ProviderID cpu_baseline) \<noteq> ''''" "trim_space (pc_ProviderID (shadowHardwareProviders ! 0)) \<noteq> ''''"
    "trim_space (pc_ProviderID (shadowHardwareProviders ! 1)) \<noteq> ''''" "trim_space (pc_ProviderID (shadowHardwareProviders ! 2)) \<noteq> ''''"
    by code_simp+
  have hs: "pc_HealthState p = HealthHealthy" "pc_LastUpdatedAt p = 0" if "p \<in> insert cpu_baseline (set shadowHardwareProviders)" for p
    using that by (auto simp: catalog_defs)
  have nth: "shadowHardwareProviders ! i \<in> set shadowHardwareProviders" if "i < 3" for i
    using that by (intro nth_mem) (simp add: shadowHardwareProviders_def)
  have el: "isPolicyEligible (shown now ttl t p) tags ''cpu-baseline'' \<longleftrightarrow> pc_ProviderID p = ''cpu-baseline'' \<or> supports p tags"
    if "p \<in> insert cpu_baseline (set shadowHardwareProviders)" "trim_space (pc_ProviderID p) \<noteq> ''''" for p t
    by (rule eligible_shown [OF r(2) hs [OF that(1)] that(2)])
  have no: "pc_ProviderID cpu_baseline = ''cpu-baseline''" "pc_ProviderID (shadowHardwareProviders ! 0) \<noteq> ''cpu-baseline''"
    "pc_ProviderID (shadowHardwareProviders ! 1) \<noteq> ''cpu-baseline''" "pc_ProviderID (shadowHardwareProviders ! 2) \<noteq> ''cpu-baseline''"
    by (simp_all add: catalog_defs)
  have le: "ts ! 0 \<le> ts ! i" if "i < 4" for i using assms(2,3) that by (simp add: sorted_nth_mono)
  have e: "isPolicyEligible (shown now ttl t cpu_baseline) tags ''cpu-baseline''"
    "isPolicyEligible (shown now ttl t (shadowHardwareProviders ! 0)) tags ''cpu-baseline'' = supports (shadowHardwareProviders ! 0) tags"
    "isPolicyEligible (shown now ttl t (shadowHardwareProviders ! 1)) tags ''cpu-baseline'' = supports (shadowHardwareProviders ! 1) tags"
    "isPolicyEligible (shown now ttl t (shadowHardwareProviders ! 2)) tags ''cpu-baseline'' = supports (shadowHardwareProviders ! 2) tags"
    for t using el ids nth no by simp_all
  show ?thesis
    using r(3) le [of 1] le [of 2] le [of 3]
    by (auto simp: scoreCandidates_def catalog_snapshot_def r(1) base e simp del: One_nat_def split: if_splits)
qed


lemma catalog_chain:
  assumes "(tags, c) \<in> set catalog_routes" and "sorted ts" and "length ts = 4" and "0 < ts ! 0"
    and "cs_Providers snapshot = catalog_snapshot now ttl ts" and "in_WorkloadTags input = tags"
  shows "pd_RankedFallbackChain (snd (Select snapshot input (NewPolicyEngineV2 default_cfg))) = [pc_ProviderID c, ''cpu-baseline'']"
proof -
  let ?cpu = "shown now ttl (ts ! 0) cpu_baseline"
  obtain t where t: "ts ! 0 \<le> t" and cands: "scoreCandidates (cs_Providers snapshot) input default_cfg =
      [scoreProvider tags default_cfg ?cpu, scoreProvider tags default_cfg (shown now ttl t c)]"
    using catalog_candidates [OF assms(1-4), of now ttl "in_QualityScore input" "in_RequestLabels input"] assms(5,6)
    by (auto simp: scoreCandidates_def)
  note ok = catalog_routes_ok [OF assms(1), unfolded route_ok_def]
  have cpu: "sc_score (scoreProvider tags default_cfg ?cpu) = 35 / 100 * healthScore (pc_HealthState ?cpu) + 445 / 1000"
    using ok by (simp add: default_score norm_class_catalog catalog_defs reliabilityScore_def costScore_def latencyScore_def queueDepthScore_def)
  have prov: "35 / 100 * healthScore (pc_HealthState (shown now ttl t c)) + 535 / 1000 \<le>
      sc_score (scoreProvider tags default_cfg (shown now ttl t c))"
    using ok by (simp add: default_score queueDepthScore_def)
  have "pc_HealthState cpu_baseline = HealthHealthy" "pc_LastUpdatedAt cpu_baseline = 0" by (simp_all add: cpu_baseline_def)
  then have h: "healthScore (pc_HealthState ?cpu) \<le> healthScore (pc_HealthState (shown now ttl t c))"
    "1 / 2 \<le> healthScore (pc_HealthState (shown now ttl t c))"
    using ok stale_mono [OF t assms(4)] by (auto simp: shown_health health_scores)
  have score: "sc_score (scoreProvider tags default_cfg ?cpu) < sc_score (scoreProvider tags default_cfg (shown now ttl t c))"
    using cpu prov h(1) by linarith
  have "1 / 2 \<le> sc_score (scoreProvider tags default_cfg (shown now ttl t c))" using prov h(2) by linarith
  then have conf: "1 / 2 \<le> sc_confidence (scoreProvider tags default_cfg (shown now ttl t c))"
    unfolding default_score(2) by (auto simp: clamp01_def)
  have id: "sc_providerID (scoreProvider tags default_cfg p) = pc_ProviderID p" for p by (simp add: scoreProvider_def Let_def)
  show ?thesis
    using Select_two_candidates [of "NewPolicyEngineV2 default_cfg" snapshot input, unfolded default_engine_cfg, OF _ _ _ _ cands score]
      conf ok by (simp add: id DefaultPolicyV2Config_def DefaultBaselineProviderID_def cpu_baseline_def)
qed

lemma Upsert_catalog:
  assumes "c \<in> insert cpu_baseline (set shadowHardwareProviders)"
  shows "Upsert t c r = (r\<lparr>creg_epoch := creg_epoch r + 1,
    creg_items := gm_set (pc_ProviderID c) (normalizeCapability t c) (creg_items r)\<rparr>, None)"
proof -
  have "list_all (\<lambda>c. validateCapability c = None) (cpu_baseline # shadowHardwareProviders)" by code_simp
  with assms show ?thesis by (auto simp: Upsert_def list_all_iff)
qed

definition catalog_items :: "gotime list \<Rightarrow> (string, provider_capability) gomap" where
  "catalog_items ts = map (\<lambda>(t, c). (pc_ProviderID c, normalizeCapability t c)) (zip ts (cpu_baseline # shadowHardwareProviders))"

lemma catalog_items_snapshot:
  assumes "length ts = 4" and "creg_items r = catalog_items ts"
  shows "cs_Providers (Snapshot now r) = catalog_snapshot now (creg_ttl r) ts"
proof -
  obtain t0 t1 t2 t3 where ts: "ts = [t0, t1, t2, t3]"
    using assms(1) by (auto simp: numeral_eq_Suc length_Suc_conv)
  have "''cpu-baseline'' < ''gpu-accelerated''" "''gpu-accelerated'' < ''lpu-realtime''" "''lpu-realtime'' < ''ssm-longctx''"
    by code_simp+
  then show ?thesis
    by (auto simp: Snapshot_def assms(2) ts catalog_items_def catalog_snapshot_def catalog_defs shown_def [symmetric] less_le_trans
        order_less_imp_le)
qed

text \<open>Seeding in shadow mode and falling back to the static catalog store the same providers.\<close>

lemma New_synced_caps_items:
  assumes "New_synced_caps c t0 [t1, t2, t3] live = Inr (Some r)" and "c_HHDHardwareAwareDispatch (cfg_policy c)"
    and "c_HALSocket (cfg_core c) = '''' \<or> live = Inl err"
  shows "creg_items r = catalog_items [t0, t1, t2, t3]"
proof -
  obtain a b d where S: "shadowHardwareProviders = [a, b, d]" by (simp add: shadowHardwareProviders_def)
  have ids: "pc_ProviderID cpu_baseline = ''cpu-baseline''" "pc_ProviderID a = ''lpu-realtime''" "pc_ProviderID b = ''gpu-accelerated''"
    "pc_ProviderID d = ''ssm-longctx''" using S by (auto simp: catalog_defs)
  have up: "Upsert t x r = (r\<lparr>creg_epoch := creg_epoch r + 1,
      creg_items := gm_set (pc_ProviderID x) (normalizeCapability t x) (creg_items r)\<rparr>, None)"
    if "x \<in> {cpu_baseline, a, b, d}" for t x r using that by (intro Upsert_catalog) (simp add: S)
  show ?thesis
  proof (cases "c_HALSocket (cfg_core c) = ''''")
    case True
    with assms(1,2) show ?thesis
      by (auto simp: New_synced_caps_def New_caps_def initCapabilitySync_def up S NewCapabilityRegistry_def catalog_items_def ids
          split: if_splits)
  next
    case False
    with assms(1,2,3) show ?thesis
      by (auto simp: New_synced_caps_def New_caps_def initCapabilitySync_def up S NewCapabilityRegistry_def catalog_items_def ids
          SyncOnce_def FetchCapabilities_def NewCapabilitySyncer_def reportError_def Let_def split: if_splits)
  qed
qed

definition class_provider :: "string \<Rightarrow> string" where
  "class_provider cls = (if cls = HardwareClassSSM then ''ssm-longctx'' else if cls = HardwareClassLPU then ''lpu-realtime''
     else ''gpu-accelerated'')"

lemma profile_route:
  "\<exists>c. (mergeWorkloadTags (wp_Tags (ProfileTask d n l)) [], c) \<in> set catalog_routes \<and>
     pc_ProviderID c = class_provider (wp_RecommendedClass (ProfileTask d n l))"
proof -
  let ?cases = "[(dedupeAndSort [WorkloadLongContext], HardwareClassSSM), (dedupeAndSort [WorkloadRealtime], HardwareClassLPU),
    (dedupeAndSort [WorkloadDeterministicEdit, WorkloadInferenceHeavy], HardwareClassWasmLocal),
    (dedupeAndSort [WorkloadInferenceHeavy], HardwareClassGPU)]"
  have "list_all (\<lambda>(tags, cls). list_ex (\<lambda>(tags', c). mergeWorkloadTags tags [] = tags' \<and> pc_ProviderID c = class_provider cls)
      catalog_routes) ?cases" by code_simp
  moreover have "(wp_Tags (ProfileTask d n l), wp_RecommendedClass (ProfileTask d n l)) \<in> set ?cases"
    by (simp add: ProfileTask_def Let_def)
  ultimately show ?thesis unfolding list_all_iff list_ex_iff by fastforce
qed

text \<open>C5. With the built-in provider catalog and the default policy, a task without explicit tags is ranked first
  on the provider of the class of hardware the profiler recommends (the dense GPU for the local class), then on
  the CPU baseline. This holds for every description, context size and latency and at every later time, so also
  after all entries of the catalog have gone stale, and both in shadow mode and when the hardware layer could not be
  reached at start.\<close>

theorem catalog_routes_profiles:
  assumes "policyCfg None c = Some default_cfg" and "c_HHDHardwareAwareDispatch (cfg_policy c)"
    and "New_synced_caps c t0 [t1, t2, t3] live = Inr (Some r)" and "c_HALSocket (cfg_core c) = '''' \<or> live = Inl err"
    and "0 < t0" and "t0 \<le> t1" and "t1 \<le> t2" and "t2 \<le> t3" and "ha_WorkloadTags p = []"
  shows "pd_RankedFallbackChain (snd (Select (Snapshot now r) (hw_input p latency) (NewPolicyEngineV2 (the (policyCfg None c))))) =
    [class_provider (wp_RecommendedClass (ProfileTask (ha_TaskDescription p) (ha_ContextSizeEstimate p) latency)), ''cpu-baseline'']"
proof -
  let ?ts = "[t0, t1, t2, t3]"
  obtain k where k: "(in_WorkloadTags (hw_input p latency), k) \<in> set catalog_routes"
    "pc_ProviderID k = class_provider (wp_RecommendedClass (ProfileTask (ha_TaskDescription p) (ha_ContextSizeEstimate p) latency))"
    using profile_route assms(9) by (fastforce simp: hw_input_def Let_def)
  have snap: "cs_Providers (Snapshot now r) = catalog_snapshot now (creg_ttl r) ?ts"
    by (rule catalog_items_snapshot [OF _ New_synced_caps_items [OF assms(3,2,4)]]) simp
  have "sorted ?ts" "length ?ts = 4" "0 < ?ts ! 0" using assms(5-8) by simp_all
  from catalog_chain [OF k(1) this snap refl] show ?thesis using k(2) assms(1) by simp
qed


section \<open>Dispatch without a capability registry\<close>


section \<open>Witnesses\<close>

definition w_default_config :: config where
  "w_default_config = load_config (\<lambda>_. None) (\<lambda>_. '''') None"


definition w_shadow_env :: "string \<Rightarrow> string" where
  "w_shadow_env = (\<lambda>_. '''')(''CWSO_HHD_CAPABILITY_REGISTRY_ENABLED'' := ''1'', ''CWSO_HHD_HARDWARE_AWARE_DISPATCH_ENABLED'' := ''1'',
     ''CWSO_HHD_POLICY_ENGINE_V2_ENABLED'' := ''1'')"

definition w_shadow_config :: config where
  "w_shadow_config = load_config (\<lambda>_. None) w_shadow_env None"

text \<open>A short realtime task, one day after the start.\<close>

theorem catalog_routes_profiles_witness:
  "\<exists>r. New_synced_caps w_shadow_config 1 [2, 3, 4] (Inr []) = Inr (Some r) \<and>
     pd_RankedFallbackChain (snd (Select (Snapshot (86400 * second) r)
       (hw_input (w_hw_args\<lparr>ha_WorkloadTags := [], ha_ContextSizeEstimate := 100\<rparr>) ''realtime'')
       (NewPolicyEngineV2 (the (policyCfg None w_shadow_config))))) = [''lpu-realtime'', ''cpu-baseline'']"
proof -
  have 1: "policyCfg None w_shadow_config = Some default_cfg"
    by (simp add: w_shadow_config_def policyCfg_def load_config_def policy_floats_def weight_list_def load_policy_def w_shadow_env_def
        envFloat64_def envInt_def envBool_def DefaultPolicyV2Config_def trim_space_def trim_left_def trim_right_def to_lower_def
        is_space_def to_lower_char_def Let_def)
  have 2: "c_HHDHardwareAwareDispatch (cfg_policy w_shadow_config)" "c_HALSocket (cfg_core w_shadow_config) = ''''"
    "c_HHDCapabilityRegistry (cfg_telemetry w_shadow_config)" by code_simp+
  obtain r where 3: "New_synced_caps w_shadow_config 1 [2, 3, 4] (Inr []) = Inr (Some r)"
    using 2 by (simp add: New_synced_caps_def New_caps_def initCapabilitySync_def Upsert_catalog shadowHardwareProviders_def)
  have 4: "class_provider (wp_RecommendedClass (ProfileTask d 100 ''realtime'')) = ''lpu-realtime''" for d
  proof -
    have "NormalizeLatencyRequirement ''realtime'' = Inr ''realtime''" by code_simp
    then show ?thesis
      by (simp add: ProfileTask_def class_provider_def LongContextFloor_def RealtimeContextCeiling_def LatencyRealtime_def
          HardwareClassLPU_def HardwareClassSSM_def Let_def)
  qed
  show ?thesis
    using catalog_routes_profiles [OF 1 2(1) 3, of _ "w_hw_args\<lparr>ha_WorkloadTags := [], ha_ContextSizeEstimate := 100\<rparr>" "86400 * second" "''realtime''"]
      2(2) 3 4 by simp
qed

end
