(* ===== verification/HttpTransport.thy ===== *)
theory HttpTransport
  imports ServerWiring
begin

text \<open>
  The transports, \<open>internal/transport/http.go\<close>, \<open>telemetry.go\<close> and \<open>stdio.go\<close>, with the counters of
  \<open>internal/dashboard/dashboard.go\<close> they update.

  A handler maps a request context, a request and the state to the new state and a reply, or a panic;
  a middleware maps handlers to handlers. The headers the code sets are part of the state (those
  \<open>http.Error\<close> adds are left out). The JWT parser, the token bucket, \<open>mime.ParseMediaType\<close>, the JSON codec,
  path cleaning and the mounted rollout and dashboard handlers are parameters. A stream is open from the
  reply to its request until a separate step closes it; the frames it writes are a function of the events
  its loop receives.

  Shown: what a request needs before it can change the server, the budget of streams per client in every
  reachable state and what identifies a client, what the throttle may suppress, and what the loop over
  standard input answers.
\<close>

section \<open>Requests, replies and state\<close>

record http_request =
  hq_Method :: string
  hq_Path :: string
  hq_Host :: string
  hq_RemoteAddr :: string
  hq_Origin :: string
  hq_Authorization :: string
  hq_ContentType :: string
  hq_RequestID :: string
  hq_Subscription :: string
  hq_Body :: "string + string"

datatype http_result = Reply int string | Panicked

definition http_Error :: "string \<Rightarrow> int \<Rightarrow> http_result" where
  "http_Error msg code = Reply code (msg @ [CHR 0x0A])"

record client_metrics =
  cm_TotalRequests :: "64 word"
  cm_AuthFailures :: "64 word"
  cm_RateLimitHits :: "64 word"
  cm_toolCalls :: "(string, 64 word) gomap"

definition RecordRequest :: "client_metrics \<Rightarrow> client_metrics" where
  "RecordRequest m = m\<lparr>cm_TotalRequests := cm_TotalRequests m + 1\<rparr>"

definition RecordAuthFailure :: "client_metrics \<Rightarrow> client_metrics" where
  "RecordAuthFailure m = m\<lparr>cm_AuthFailures := cm_AuthFailures m + 1\<rparr>"

definition RecordRateLimitHit :: "client_metrics \<Rightarrow> client_metrics" where
  "RecordRateLimitHit m = m\<lparr>cm_RateLimitHits := cm_RateLimitHits m + 1\<rparr>"

definition RecordToolCall :: "string \<Rightarrow> client_metrics \<Rightarrow> client_metrics" where
  "RecordToolCall name m =
     m\<lparr>cm_toolCalls := gm_set name ((case map_of (cm_toolCalls m) name of None \<Rightarrow> 0 | Some n \<Rightarrow> n) + 1) (cm_toolCalls m)\<rparr>"

definition ToolCallSnapshot :: "client_metrics \<Rightarrow> (string, 64 word) gomap" where
  "ToolCallSnapshot m = filter (\<lambda>(_, n). n > 0) (cm_toolCalls m)"

record 'l limiter_entry =
  le_lim :: 'l
  le_lastSeen :: gotime

record ('w, 'l, 'p) http_state =
  hs_server :: "'w server"
  hs_limiters :: "(string, 'l limiter_entry) gomap"
  hs_conns :: "(string, int) gomap"
  hs_streams :: "string list"
  hs_rid :: "64 word"
  hs_metrics :: "client_metrics option"
  hs_header :: "(string, string) gomap"
  hs_events :: 'p

record request_ctx =
  cx_RequestID :: string
  cx_Session :: "session option"

type_synonym ('w, 'l, 'p) handler =
  "request_ctx \<Rightarrow> http_request \<Rightarrow> ('w, 'l, 'p) http_state \<Rightarrow> ('w, 'l, 'p) http_state \<times> http_result"

record jwt_claims =
  jc_Role :: string
  jc_Issuer :: string
  jc_Subject :: string
  jc_Audience :: "string list"

text \<open>The errors of the parser; an error can be both expired and not yet valid, and expiry is asked first.\<close>

record jwt_error =
  je_Expired :: bool
  je_NotValidYet :: bool
  je_Text :: string

record ('w, 'l, 'p) http_env =
  he_cfg :: config
  he_uerr :: "json \<Rightarrow> string \<Rightarrow> string"
  he_read :: read_env
  he_registry :: "'w server tool_registry"
  he_parse :: "string \<Rightarrow> string + json"
  he_encode :: "mcp_response \<Rightarrow> string + string"
  he_media :: "string \<Rightarrow> string option"
  he_jwt :: "(string \<Rightarrow> string + string) \<Rightarrow> string \<Rightarrow> jwt_error + jwt_claims"
  he_newLimiter :: 'l
  he_allow :: "gotime \<Rightarrow> 'l \<Rightarrow> 'l \<times> bool"
  he_publish :: "(string \<Rightarrow> json \<Rightarrow> 'p \<Rightarrow> 'p) option"
  he_now :: gotime
  he_clean :: "string \<Rightarrow> string"
  he_resolve :: bool
  he_rollout :: "('w, 'l, 'p) handler option"
  he_dashboard :: "('w, 'l, 'p) handler option"

definition set_header :: "string \<Rightarrow> string \<Rightarrow> ('w, 'l, 'p) http_state \<Rightarrow> ('w, 'l, 'p) http_state" where
  "set_header k v s = s\<lparr>hs_header := gm_set k v (hs_header s)\<rparr>"

section \<open>Middleware\<close>

type_synonym ('w, 'l, 'p) middleware = "('w, 'l, 'p) handler \<Rightarrow> ('w, 'l, 'p) handler"

definition mw_chain :: "('w, 'l, 'p) middleware list \<Rightarrow> ('w, 'l, 'p) middleware" where
  "mw_chain mws next = foldr (\<lambda>mw nx. mw nx) mws next"

definition recoverMiddleware :: "('w, 'l, 'p) middleware" where
  "recoverMiddleware next cx r s = (case next cx r s of
      (s', Panicked) \<Rightarrow> (s', http_Error ''internal error'' 500)
    | res \<Rightarrow> res)"

definition nextRequestID :: "gotime \<Rightarrow> ('w, 'l, 'p) http_state \<Rightarrow> ('w, 'l, 'p) http_state \<times> string" where
  "nextRequestID now s =
     (let n = hs_rid s + 1
      in (s\<lparr>hs_rid := n\<rparr>, ''rid-'' @ show_int (unix_nano now) @ ''-'' @ show_nat (unat n)))"

definition requestIDMiddleware :: "gotime \<Rightarrow> ('w, 'l, 'p) middleware" where
  "requestIDMiddleware now next cx r s =
     (let (s1, rid) = (if hq_RequestID r = '''' then nextRequestID now s else (s, hq_RequestID r))
      in next (cx\<lparr>cx_RequestID := rid\<rparr>) r (set_header ''X-Request-ID'' rid s1))"

definition before_colon :: "string \<Rightarrow> string" where
  "before_colon h = (case split_once (CHR '':'') h of Some (a, _) \<Rightarrow> a | None \<Rightarrow> h)"

fun after_scheme :: "string \<Rightarrow> string option" where
  "after_scheme [] = None"
| "after_scheme (c # cs) = (if has_prefix (c # cs) ''://'' then Some (drop 3 (c # cs)) else after_scheme cs)"

definition originHostAllowed :: "string list \<Rightarrow> string \<Rightarrow> bool" where
  "originHostAllowed allowed host =
     list_ex (\<lambda>og. case after_scheme og of None \<Rightarrow> False | Some h \<Rightarrow> before_colon h = host) allowed"

definition origin_allowed :: "string list \<Rightarrow> http_request \<Rightarrow> bool" where
  "origin_allowed allowed r =
     (let origin = to_lower (hq_Origin r)
      in if origin = '''' then originHostAllowed allowed (to_lower (before_colon (hq_Host r)))
         else origin \<in> set allowed)"

definition originMiddleware :: "string list \<Rightarrow> ('w, 'l, 'p) middleware" where
  "originMiddleware allowed next cx r s =
     (if \<not> origin_allowed allowed r then (s, http_Error ''forbidden origin'' 403) else next cx r s)"

definition securityHeadersMiddleware :: "('w, 'l, 'p) middleware" where
  "securityHeadersMiddleware next cx r s =
     (let s1 = set_header ''X-XSS-Protection'' ''0'' (set_header ''X-Frame-Options'' ''DENY''
                (set_header ''X-Content-Type-Options'' ''nosniff''
                  (set_header ''Strict-Transport-Security'' ''max-age=31536000; includeSubDomains''
                    (set_header ''Content-Security-Policy'' (''default-src '' @ CHR 0x27 # ''self'' @ [CHR 0x27]) s))));
          s2 = (if hq_Method r = ''POST'' then set_header ''Cache-Control'' ''no-store'' s1 else s1)
      in next cx r s2)"

section \<open>Rate limiting\<close>

definition isLocalhost :: "string \<Rightarrow> bool" where
  "isLocalhost ip = (ip = ''127.0.0.1'' \<or> ip = ''::1'' \<or> ip = ''localhost'')"

text \<open>\<open>net.SplitHostPort\<close>, the host only; \<open>None\<close> is an error.\<close>

definition last_colon :: "string \<Rightarrow> (string \<times> string) option" where
  "last_colon s = (case split_once (CHR '':'') (rev s) of None \<Rightarrow> None | Some (p, h) \<Rightarrow> Some (rev h, rev p))"

definition splitHost :: "string \<Rightarrow> string option" where
  "splitHost s = (case last_colon s of
      None \<Rightarrow> None
    | Some (before, port) \<Rightarrow>
        if s \<noteq> [] \<and> hd s = CHR ''['' then
          (case split_once (CHR '']'') s of
             None \<Rightarrow> None
           | Some (a, b) \<Rightarrow>
               if a @ '']'' \<noteq> before then None
               else if CHR ''['' \<in> set (drop 1 s) \<or> CHR '']'' \<in> set b then None
               else Some (drop 1 a))
        else if CHR '':'' \<in> set before \<or> CHR ''['' \<in> set s \<or> CHR '']'' \<in> set s then None
        else Some before)"

definition client_ip :: "http_request \<Rightarrow> string" where
  "client_ip r = (case splitHost (hq_RemoteAddr r) of Some ip \<Rightarrow> ip | None \<Rightarrow> hq_RemoteAddr r)"

definition getLimiter ::
  "'l \<Rightarrow> gotime \<Rightarrow> string \<Rightarrow> (string, 'l limiter_entry) gomap \<Rightarrow> (string, 'l limiter_entry) gomap \<times> 'l" where
  "getLimiter new now ip ls = (case map_of ls ip of
      Some e \<Rightarrow> (gm_set ip (e\<lparr>le_lastSeen := now\<rparr>) ls, le_lim e)
    | None \<Rightarrow> (gm_set ip \<lparr>le_lim = new, le_lastSeen = now\<rparr> ls, new))"

definition evict :: "gotime \<Rightarrow> (string, 'l limiter_entry) gomap \<Rightarrow> (string, 'l limiter_entry) gomap" where
  "evict now ls = filter (\<lambda>(_, e). \<not> le_lastSeen e < now - 300 * second) ls"

definition rateLimitMiddleware :: "('w, 'l, 'p) http_env \<Rightarrow> ('w, 'l, 'p) middleware" where
  "rateLimitMiddleware env next cx r s =
     (if hq_Method r = ''GET'' \<and> hq_Path r = ''/mcp'' then next cx r s
      else
        let ip = client_ip r in
        if isLocalhost ip then next cx r s
        else
          let (ls, lim) = getLimiter (he_newLimiter env) (he_now env) ip (hs_limiters s);
              (lim', ok) = he_allow env (he_now env) lim;
              s1 = s\<lparr>hs_limiters := gm_set ip \<lparr>le_lim = lim', le_lastSeen = he_now env\<rparr> ls\<rparr>
          in if \<not> ok
             then (set_header ''Retry-After'' ''60'' (s1\<lparr>hs_metrics := map_option RecordRateLimitHit (hs_metrics s1)\<rparr>),
                   http_Error ''too many requests'' 429)
             else next cx r s1)"

definition countRequestsMiddleware :: "('w, 'l, 'p) middleware" where
  "countRequestsMiddleware next cx r s = next cx r (s\<lparr>hs_metrics := map_option RecordRequest (hs_metrics s)\<rparr>)"

section \<open>Authentication\<close>

definition jwt_key :: "string \<Rightarrow> string \<Rightarrow> string + string" where
  "jwt_key secret alg = (if alg \<noteq> ''HS256'' then Inl (''unexpected signing method: '' @ alg) else Inr secret)"

definition verifyJWT :: "('w, 'l, 'p) http_env \<Rightarrow> string \<Rightarrow> string + jwt_claims" where
  "verifyJWT env token =
     (let k = cfg_core (he_cfg env) in
      if c_JWTSecret k = '''' then Inl ''jwt secret not configured''
      else if c_JWTAlg k \<noteq> ''HS256'' then Inl (''unsupported algorithm: '' @ c_JWTAlg k)
      else case he_jwt env (jwt_key (c_JWTSecret k)) token of
        Inl err \<Rightarrow>
          if je_Expired err then Inl ''token expired''
          else if je_NotValidYet err then Inl ''token used before valid (nbf)''
          else Inl (''parse token: '' @ je_Text err)
      | Inr claims \<Rightarrow>
          if jc_Issuer claims \<noteq> c_JWTIssuer k
          then Inl (''invalid issuer: expected '' @ go_quote (c_JWTIssuer k) @ '', got '' @ go_quote (jc_Issuer claims))
          else if \<not> list_ex (\<lambda>aud. aud = c_JWTAudience k) (jc_Audience claims)
          then Inl (''invalid audience: expected '' @ go_quote (c_JWTAudience k))
          else Inr claims)"

definition auth_failure :: "('w, 'l, 'p) http_state \<Rightarrow> ('w, 'l, 'p) http_state" where
  "auth_failure s = s\<lparr>hs_metrics := map_option RecordAuthFailure (hs_metrics s)\<rparr>"

definition authMiddleware :: "('w, 'l, 'p) http_env \<Rightarrow> ('w, 'l, 'p) middleware" where
  "authMiddleware env next cx r s =
     (if \<not> has_prefix (hq_Authorization r) ''Bearer '' then (auth_failure s, http_Error ''missing bearer token'' 401)
      else case verifyJWT env (trim_prefix (hq_Authorization r) ''Bearer '') of
        Inl _ \<Rightarrow> (auth_failure s, http_Error ''invalid token'' 401)
      | Inr claims \<Rightarrow>
          if jc_Role claims \<noteq> RoleOrchestrator \<and> jc_Role claims \<noteq> RoleWorker
          then (s, http_Error ''forbidden: unrecognised role'' 403)
          else next (cx\<lparr>cx_Session := Some \<lparr>ss_Role = jc_Role claims, ss_Subject = jc_Subject claims\<rparr>\<rparr>) r s)"


section \<open>Stream budget\<close>

definition maxSSEConnsPerIP :: int where "maxSSEConnsPerIP = 10"

definition conn_count :: "(string, int) gomap \<Rightarrow> string \<Rightarrow> int" where
  "conn_count conns ip = (case map_of conns ip of None \<Rightarrow> 0 | Some n \<Rightarrow> n)"

definition acquire :: "string \<Rightarrow> (string, int) gomap \<Rightarrow> (string, int) gomap \<times> bool" where
  "acquire ip conns =
     (if conn_count conns ip \<ge> maxSSEConnsPerIP then (conns, False)
      else (gm_set ip (conn_count conns ip + 1) conns, True))"

definition release :: "string \<Rightarrow> (string, int) gomap \<Rightarrow> (string, int) gomap" where
  "release ip conns =
     (if conn_count conns ip \<le> 1 then gm_del ip conns else gm_set ip (conn_count conns ip - 1) conns)"

definition sse_key :: "http_request \<Rightarrow> string" where
  "sse_key r = before_colon (hq_RemoteAddr r)"

section \<open>Posted messages\<close>

definition maxBody :: nat where "maxBody = 8 * 2 ^ 20"

text \<open>The method for the metrics: the last string under that key, or empty; decoding errors are ignored.\<close>

definition meta_method :: "string + json \<Rightarrow> string" where
  "meta_method raw = (case raw of
      Inr (JObj kvs) \<Rightarrow> (case filter is_jstr (field_matches ''method'' kvs) of [] \<Rightarrow> '''' | vs \<Rightarrow> json_str (Some (last vs)))
    | _ \<Rightarrow> '''')"

definition TopicNotificationsLog :: string where "TopicNotificationsLog = ''notifications/log''"

definition publishSampleEvents ::
  "('w, 'l, 'p) http_env \<Rightarrow> string \<Rightarrow> string \<Rightarrow> string \<Rightarrow> string \<Rightarrow> ('w, 'l, 'p) http_state \<Rightarrow> ('w, 'l, 'p) http_state" where
  "publishSampleEvents env meth rid st errMsg s = (case he_publish env of
      None \<Rightarrow> s
    | Some publish \<Rightarrow>
        let payload = JObj ([(''request_id'', JStr rid), (''method'', JStr meth), (''state'', JStr st)] @
              (if errMsg \<noteq> '''' then [(''error'', JStr errMsg)] else []));
            s1 = s\<lparr>hs_events := publish TopicNotificationsLog payload (hs_events s)\<rparr>
        in if meth \<noteq> ''tools/call'' then s1
           else s1\<lparr>hs_events := publish TopicNotificationsJobState
                    (JObj [(''request_id'', JStr rid), (''state'', JStr st)]) (hs_events s1)\<rparr>)"

definition handlePOST :: "('w, 'l, 'p) http_env \<Rightarrow> ('w, 'l, 'p) handler" where
  "handlePOST env cx r s =
     (if he_media env (hq_ContentType r) \<noteq> Some ''application/json'' then (s, http_Error ''unsupported media type'' 415)
      else case hq_Body r of
        Inl _ \<Rightarrow> (s, http_Error ''bad request'' 400)
      | Inr body \<Rightarrow>
          if length body > maxBody then (s, http_Error ''request body exceeds 8MiB limit'' 413)
          else
            let raw = he_parse env body;
                meth = meta_method raw;
                s1 = (if meth \<noteq> '''' then s\<lparr>hs_metrics := map_option (RecordToolCall meth) (hs_metrics s)\<rparr> else s);
                (server, answer) = Handle (he_uerr env) (he_read env) (he_registry env) (cx_Session cx) raw (hs_server s1);
                s2 = s1\<lparr>hs_server := server\<rparr>
            in (case answer of
                 Panic \<Rightarrow> (s2, Panicked)
               | Err err \<Rightarrow> (publishSampleEvents env meth (cx_RequestID cx) ''failed'' err s2, http_Error ''handler error'' 500)
               | Ok None \<Rightarrow> (publishSampleEvents env meth (cx_RequestID cx) ''accepted'' '''' s2, Reply 202 '''')
               | Ok (Some resp) \<Rightarrow> (case he_encode env resp of
                   Inl err \<Rightarrow> (publishSampleEvents env meth (cx_RequestID cx) ''failed'' err s2, http_Error ''handler error'' 500)
                 | Inr bytes \<Rightarrow>
                     (set_header ''Content-Type'' ''application/json''
                        (publishSampleEvents env meth (cx_RequestID cx) ''completed'' '''' s2), Reply 200 bytes))))"

section \<open>Streams\<close>

text \<open>The filter of a stream: none without a subscription in the query.\<close>

definition resolveSSEFilter ::
  "('w, 'l, 'p) http_env \<Rightarrow> http_request \<Rightarrow> 'w server \<Rightarrow> http_result + (string \<Rightarrow> json option \<Rightarrow> bool) option" where
  "resolveSSEFilter env r server =
     (if hq_Subscription r = '''' then Inr None
      else case (if he_resolve env then subscriptionResolver server else None) of
        None \<Rightarrow> Inl (http_Error ''subscriptions not enabled'' 404)
      | Some resolver \<Rightarrow> (case resolver (hq_Subscription r) of
          None \<Rightarrow> Inl (http_Error ''unknown subscription'' 404)
        | Some f \<Rightarrow> Inr (Some f)))"

definition ready_frame :: string where
  "ready_frame = ''event: ready'' @ [CHR 0x0A] @ ''data: '' @ CHR 0x7B # CHR 0x22 # ''protocolVersion'' @ CHR 0x22 # CHR 0x3A #
     CHR 0x22 # ''2025-03-26'' @ [CHR 0x22, CHR 0x7D, CHR 0x0A, CHR 0x0A]"

definition handleGET :: "('w, 'l, 'p) http_env \<Rightarrow> ('w, 'l, 'p) handler" where
  "handleGET env cx r s = (case acquire (sse_key r) (hs_conns s) of
      (_, False) \<Rightarrow> (s, http_Error ''too many SSE connections'' 429)
    | (conns, True) \<Rightarrow> (case resolveSSEFilter env r (hs_server s) of
        Inl res \<Rightarrow> (s\<lparr>hs_conns := release (sse_key r) conns\<rparr>, res)
      | Inr _ \<Rightarrow>
          (set_header ''Content-Type'' ''text/event-stream'' (set_header ''Cache-Control'' ''no-cache''
             (set_header ''Connection'' ''keep-alive'' (s\<lparr>hs_conns := conns, hs_streams := sse_key r # hs_streams s\<rparr>))),
           Reply 200 ready_frame)))"

text \<open>The loop of a stream returned: its deferred release runs.\<close>

definition end_sse_stream :: "string \<Rightarrow> ('w, 'l, 'p) http_state \<Rightarrow> ('w, 'l, 'p) http_state" where
  "end_sse_stream key s = s\<lparr>hs_conns := release key (hs_conns s), hs_streams := remove1 key (hs_streams s)\<rparr>"

section \<open>Routes\<close>

definition origin_set :: "config \<Rightarrow> string list" where
  "origin_set c = map (\<lambda>og. to_lower (trim_space og)) (c_AllowedOrigins (cfg_core c))"

definition http_mw :: "('w, 'l, 'p) http_env \<Rightarrow> ('w, 'l, 'p) middleware" where
  "http_mw env = mw_chain
     [recoverMiddleware, requestIDMiddleware (he_now env), originMiddleware (origin_set (he_cfg env)),
      securityHeadersMiddleware, rateLimitMiddleware env, countRequestsMiddleware]"

definition mcp_handler :: "('w, 'l, 'p) http_env \<Rightarrow> ('w, 'l, 'p) handler" where
  "mcp_handler env cx r s =
     (if hq_Method r = ''POST'' then handlePOST env cx r s
      else if hq_Method r = ''GET'' then handleGET env cx r s
      else (s, http_Error ''method not allowed'' 405))"

text \<open>The mux redirects a path that is not clean; an unknown path is not found.\<close>

definition ServeHTTP :: "('w, 'l, 'p) http_env \<Rightarrow> http_request \<Rightarrow> ('w, 'l, 'p) http_state \<Rightarrow> ('w, 'l, 'p) http_state \<times> http_result" where
  "ServeHTTP env r s0 =
     (let s = s0\<lparr>hs_header := []\<rparr>;
          cx = \<lparr>cx_RequestID = '''', cx_Session = None\<rparr>;
          path = hq_Path r
      in if hq_Method r \<noteq> ''CONNECT'' \<and> he_clean env path \<noteq> path then (s, Reply 301 '''')
         else if path = ''/healthz'' then (s, Reply 200 ''ok'')
         else if path = ''/mcp'' then http_mw env (authMiddleware env (mcp_handler env)) cx r s
         else if he_dashboard env \<noteq> None \<and> (path = ''/dashboard'' \<or> path = ''/dashboard/status'')
           then http_mw env (the (he_dashboard env)) cx r s
         else (case he_rollout env of
             Some rollout \<Rightarrow> http_mw env (authMiddleware env rollout) cx r s
           | None \<Rightarrow> (s, http_Error ''404 page not found'' 404)))"

inductive http_step :: "('w, 'l, 'p) http_env \<Rightarrow> ('w, 'l, 'p) http_state \<Rightarrow> ('w, 'l, 'p) http_state \<Rightarrow> bool" for env where
  request: "http_step env s (fst (ServeHTTP (env\<lparr>he_now := now\<rparr>) r s))"
| stream_end: "key \<in> set (hs_streams s) \<Longrightarrow> http_step env s (end_sse_stream key s)"
| tick: "http_step env s (s\<lparr>hs_limiters := evict now (hs_limiters s)\<rparr>)"
| background: "http_step env s (s\<lparr>hs_server := server, hs_events := p\<rparr>)"


section \<open>Telemetry throttle\<close>

definition millisecond :: duration where "millisecond = 1000000"
definition defaultLogThrottleWindow :: duration where "defaultLogThrottleWindow = 250 * millisecond"
definition defaultJobStateThrottleWindow :: duration where "defaultJobStateThrottleWindow = 75 * millisecond"

definition isTerminalJobStatePayload :: "(string \<Rightarrow> json option) \<Rightarrow> string \<Rightarrow> bool" where
  "isTerminalJobStatePayload parse payload =
     (if payload = '''' then False
      else case parse payload of
        Some (JObj kvs) \<Rightarrow> (case string_field (\<lambda>_ _. '''') ''state'' kvs of
            Inl _ \<Rightarrow> False
          | Inr st \<Rightarrow> to_lower (trim_space st) \<in> set [''completed'', ''failed'', ''cancelled''])
      | _ \<Rightarrow> False)"

record topic_policy =
  tp_Window :: duration
  tp_Bypass :: "(string \<Rightarrow> bool) option"

record throttle_state =
  th_lastEmitAt :: gotime
  th_Emitted :: int
  th_Suppressed :: int

record telemetry_throttle =
  tt_policies :: "(string, topic_policy) gomap"
  tt_states :: "(string, throttle_state) gomap"

definition newTelemetryThrottle :: "(string \<Rightarrow> json option) \<Rightarrow> telemetry_throttle" where
  "newTelemetryThrottle parse =
     \<lparr>tt_policies = [(TopicNotificationsLog, \<lparr>tp_Window = defaultLogThrottleWindow, tp_Bypass = None\<rparr>),
        (TopicNotificationsJobState,
         \<lparr>tp_Window = defaultJobStateThrottleWindow, tp_Bypass = Some (isTerminalJobStatePayload parse)\<rparr>)],
      tt_states = []\<rparr>"

definition stateFor :: "string \<Rightarrow> telemetry_throttle \<Rightarrow> throttle_state" where
  "stateFor topic t = (case map_of (tt_states t) topic of
      Some st \<Rightarrow> st
    | None \<Rightarrow> \<lparr>th_lastEmitAt = 0, th_Emitted = 0, th_Suppressed = 0\<rparr>)"

definition eventTime :: "gotime \<Rightarrow> gotime \<Rightarrow> gotime" where
  "eventTime rec_at now = (if rec_at \<noteq> 0 then rec_at else now)"

definition emit_state :: "gotime \<Rightarrow> throttle_state \<Rightarrow> throttle_state" where
  "emit_state tm st = st\<lparr>th_lastEmitAt := tm, th_Emitted := th_Emitted st + 1\<rparr>"

definition put_state :: "string \<Rightarrow> throttle_state \<Rightarrow> telemetry_throttle \<Rightarrow> telemetry_throttle" where
  "put_state topic st t = t\<lparr>tt_states := gm_set topic st (tt_states t)\<rparr>"

definition Allow_throttle :: "gotime \<Rightarrow> mb_record \<Rightarrow> telemetry_throttle \<Rightarrow> telemetry_throttle \<times> bool" where
  "Allow_throttle now r t =
     (let topic = mr_Topic r; st = stateFor topic t; tm = eventTime (mr_At r) now;
          emit = put_state topic (emit_state tm st) t
      in case map_of (tt_policies t) topic of
           None \<Rightarrow> (emit, True)
         | Some policy \<Rightarrow>
             if tp_Window policy \<le> 0 then (emit, True)
             else if (case tp_Bypass policy of None \<Rightarrow> False | Some bypass \<Rightarrow> bypass (mr_Payload r)) then (emit, True)
             else if th_lastEmitAt st = 0 \<or> \<not> tm < th_lastEmitAt st + tp_Window policy then (emit, True)
             else (put_state topic (st\<lparr>th_Suppressed := th_Suppressed st + 1\<rparr>) t, False))"

definition Snapshot_throttle :: "telemetry_throttle \<Rightarrow> (string \<times> int \<times> int) list" where
  "Snapshot_throttle t = map (\<lambda>(topic, st). (topic, th_Emitted st, th_Suppressed st)) (tt_states t)"

fun throttle_run :: "(gotime \<times> mb_record) list \<Rightarrow> telemetry_throttle \<Rightarrow> telemetry_throttle \<times> bool list" where
  "throttle_run [] t = (t, [])"
| "throttle_run ((now, r) # rs) t =
     (let (t1, d) = Allow_throttle now r t; (t2, ds) = throttle_run rs t1 in (t2, d # ds))"

section \<open>Frames\<close>

text \<open>\<open>cjson\<close> is what \<open>json.Marshal\<close> makes of a raw message, an error when it is not valid.\<close>

definition marshalJSONRPCNotification :: "(string \<Rightarrow> string option) \<Rightarrow> string \<Rightarrow> string \<Rightarrow> string option" where
  "marshalJSONRPCNotification cjson topic payload =
     (let body = (if payload = '''' then [CHR 0x7B, CHR 0x7D] else payload)
      in map_option (\<lambda>params. json_struct [(''jsonrpc'', json_quote ''2.0''), (''method'', json_quote topic), (''params'', params)])
           (cjson body))"

definition data_frame :: "string \<Rightarrow> string" where
  "data_frame envelope = ''data: '' @ envelope @ [CHR 0x0A, CHR 0x0A]"

text \<open>The frames written so far decide whether the next write succeeds; \<open>False\<close> ends the loop.\<close>

definition write_frame :: "(string list \<Rightarrow> bool) \<Rightarrow> (string \<Rightarrow> string option) \<Rightarrow> string \<Rightarrow> string \<Rightarrow> string list \<Rightarrow> string list \<times> bool" where
  "write_frame ok cjson topic payload out = (case marshalJSONRPCNotification cjson topic payload of
      None \<Rightarrow> (out, True)
    | Some envelope \<Rightarrow> if ok out then (out @ [data_frame envelope], True) else (out, False))"

definition writeSSEFrame ::
  "(string list \<Rightarrow> bool) \<Rightarrow> (string \<Rightarrow> string option) \<Rightarrow> (string \<Rightarrow> json option) \<Rightarrow> (string \<Rightarrow> json option \<Rightarrow> bool) option \<Rightarrow>
   string \<Rightarrow> string \<Rightarrow> string list \<Rightarrow> string list \<times> bool" where
  "writeSSEFrame ok cjson parse filt topic payload out =
     (if (case filt of None \<Rightarrow> False | Some f \<Rightarrow> \<not> f topic (parse payload)) then (out, True)
      else write_frame ok cjson topic payload out)"

definition writeBrokerSSEFrame ::
  "(string list \<Rightarrow> bool) \<Rightarrow> (string \<Rightarrow> string option) \<Rightarrow> (string \<Rightarrow> json option) \<Rightarrow> (string \<Rightarrow> json option \<Rightarrow> bool) option \<Rightarrow>
   gotime \<Rightarrow> mb_record \<Rightarrow> telemetry_throttle \<Rightarrow> string list \<Rightarrow> telemetry_throttle \<times> string list \<times> bool" where
  "writeBrokerSSEFrame ok cjson parse filt now r t out =
     (if (case filt of None \<Rightarrow> False | Some f \<Rightarrow> \<not> f (mr_Topic r) (parse (mr_Payload r))) then (t, out, True)
      else case Allow_throttle now r t of
        (t1, False) \<Rightarrow> (t1, out, True)
      | (t1, True) \<Rightarrow> (t1, write_frame ok cjson (mr_Topic r) (mr_Payload r) out))"

datatype sse_event = CtxDone | Tick | ChanClosed | Delivered gotime mb_record

definition heartbeat_frame :: string where
  "heartbeat_frame = '': heartbeat'' @ [CHR 0x0A, CHR 0x0A]"

text \<open>The loop of a stream over the broker, for the events it receives.\<close>

fun handleBrokerSSE ::
  "(string list \<Rightarrow> bool) \<Rightarrow> (string \<Rightarrow> string option) \<Rightarrow> (string \<Rightarrow> json option) \<Rightarrow> (string \<Rightarrow> json option \<Rightarrow> bool) option \<Rightarrow>
   sse_event list \<Rightarrow> telemetry_throttle \<Rightarrow> string list \<Rightarrow> telemetry_throttle \<times> string list" where
  "handleBrokerSSE ok cjson parse filt [] t out = (t, out)"
| "handleBrokerSSE ok cjson parse filt (CtxDone # es) t out = (t, out)"
| "handleBrokerSSE ok cjson parse filt (ChanClosed # es) t out = (t, out)"
| "handleBrokerSSE ok cjson parse filt (Tick # es) t out =
     handleBrokerSSE ok cjson parse filt es t (if ok out then out @ [heartbeat_frame] else out)"
| "handleBrokerSSE ok cjson parse filt (Delivered now r # es) t out =
     (case writeBrokerSSEFrame ok cjson parse filt now r t out of
        (t1, out1, True) \<Rightarrow> handleBrokerSSE ok cjson parse filt es t1 out1
      | (t1, out1, False) \<Rightarrow> (t1, out1))"

section \<open>Standard input\<close>

datatype stdin_event = Cancelled | InputLine string | InputError string

definition maxLine :: nat where "maxLine = 8 * 2 ^ 20"

text \<open>The result is the error the loop returns; the end of the list is the end of the input.\<close>

fun RunStdio ::
  "(string list \<Rightarrow> string option) \<Rightarrow> (string \<Rightarrow> string + json) \<Rightarrow> (mcp_response \<Rightarrow> string + string) \<Rightarrow> (json \<Rightarrow> string \<Rightarrow> string) \<Rightarrow>
   read_env \<Rightarrow> 'w server tool_registry \<Rightarrow> stdin_event list \<Rightarrow> 'w server \<Rightarrow> string list \<Rightarrow>
   'w server \<times> string list \<times> string option outcome" where
  "RunStdio werr parse encode uerr env reg [] s out = (s, out, Ok None)"
| "RunStdio werr parse encode uerr env reg (Cancelled # es) s out = (s, out, Ok None)"
| "RunStdio werr parse encode uerr env reg (InputError err # es) s out = (s, out, Ok (Some err))"
| "RunStdio werr parse encode uerr env reg (InputLine l # es) s out =
     (if length l > maxLine then (s, out, Ok (Some ''input line exceeds 8MiB limit''))
      else if l = '''' then RunStdio werr parse encode uerr env reg es s out
      else case Handle uerr env reg (Some \<lparr>ss_Role = RoleOrchestrator, ss_Subject = ''stdio''\<rparr>) (parse l) s of
        (s1, Panic) \<Rightarrow> (s1, out, Panic)
      | (s1, Err _) \<Rightarrow> RunStdio werr parse encode uerr env reg es s1 out
      | (s1, Ok None) \<Rightarrow> RunStdio werr parse encode uerr env reg es s1 out
      | (s1, Ok (Some resp)) \<Rightarrow> (case encode resp of
          Inl _ \<Rightarrow> RunStdio werr parse encode uerr env reg es s1 out
        | Inr bytes \<Rightarrow> (case werr out of
            Some err \<Rightarrow> (s1, out, Ok (Some err))
          | None \<Rightarrow> RunStdio werr parse encode uerr env reg es s1 (out @ [bytes @ [CHR 0x0A]]))))"


section \<open>What reaches a handler\<close>

abbreviation same_core :: "('w, 'l, 'p) http_state \<Rightarrow> ('w, 'l, 'p) http_state \<Rightarrow> bool" where
  "same_core s s' \<equiv> hs_server s' = hs_server s \<and> hs_conns s' = hs_conns s \<and> hs_streams s' = hs_streams s"

lemma set_header_core [simp]:
  "hs_server (set_header k v s) = hs_server s" "hs_conns (set_header k v s) = hs_conns s"
  "hs_streams (set_header k v s) = hs_streams s"
  by (simp_all add: set_header_def)

lemma securityHeaders_pass: "\<exists>s'. same_core s s' \<and> securityHeadersMiddleware next cx r s = next cx r s'"
  unfolding securityHeadersMiddleware_def Let_def by (intro exI conjI refl) auto

lemma rateLimit_cases:
  obtains (stopped) "same_core s (fst (rateLimitMiddleware env next cx r s))"
  | (passed) s1 where "same_core s s1" "rateLimitMiddleware env next cx r s = next cx r s1"
proof (cases "hq_Method r = ''GET'' \<and> hq_Path r = ''/mcp'' \<or> isLocalhost (client_ip r)")
  case True
  then have "rateLimitMiddleware env next cx r s = next cx r s" by (auto simp: rateLimitMiddleware_def)
  with passed show thesis by blast
next
  case False
  obtain ls lim where l: "getLimiter (he_newLimiter env) (he_now env) (client_ip r) (hs_limiters s) = (ls, lim)" by fastforce
  obtain lim' ok where a: "he_allow env (he_now env) lim = (lim', ok)" by fastforce
  let ?s1 = "s\<lparr>hs_limiters := gm_set (client_ip r) \<lparr>le_lim = lim', le_lastSeen = he_now env\<rparr> ls\<rparr>"
  show thesis
  proof (cases ok)
    case True
    with False l a have "rateLimitMiddleware env next cx r s = next cx r ?s1" by (auto simp: rateLimitMiddleware_def)
    then show thesis by (intro passed [of ?s1]) simp_all
  next
    case denied: False
    with False l a have "same_core s (fst (rateLimitMiddleware env next cx r s))" by (auto simp: rateLimitMiddleware_def)
    then show thesis by (rule stopped)
  qed
qed

text \<open>The middleware refuses a request without touching the server or the streams, or passes it on.\<close>

lemma http_mw_cases:
  obtains (stopped) "same_core s (fst (http_mw env next cx r s))"
  | (passed) cx' s1 where "origin_allowed (origin_set (he_cfg env)) r" "cx_Session cx' = cx_Session cx" "same_core s s1"
      "fst (http_mw env next cx r s) = fst (next cx' r s1)"
proof -
  note st = stopped and pa = passed
  let ?inner = "securityHeadersMiddleware (rateLimitMiddleware env (countRequestsMiddleware next))"
  obtain cx' s1 where 1: "cx_Session cx' = cx_Session cx" "same_core s s1"
    "fst (http_mw env next cx r s) = fst (originMiddleware (origin_set (he_cfg env)) ?inner cx' r s1)"
  proof -
    let ?p = "if hq_RequestID r = '''' then nextRequestID (he_now env) s else (s, hq_RequestID r)"
    have "same_core s (set_header ''X-Request-ID'' (snd ?p) (fst ?p))" by (simp add: nextRequestID_def Let_def)
    moreover have "fst (http_mw env next cx r s) =
        fst (originMiddleware (origin_set (he_cfg env)) ?inner (cx\<lparr>cx_RequestID := snd ?p\<rparr>) r (set_header ''X-Request-ID'' (snd ?p) (fst ?p)))"
      by (simp add: http_mw_def mw_chain_def recoverMiddleware_def requestIDMiddleware_def case_prod_beta Let_def split: http_result.split)
    ultimately show thesis by (intro that [of "cx\<lparr>cx_RequestID := snd ?p\<rparr>" "set_header ''X-Request-ID'' (snd ?p) (fst ?p)"]) simp_all
  qed
  show thesis
  proof (cases "origin_allowed (origin_set (he_cfg env)) r")
    case False
    then show thesis using 1(2,3) stopped by (simp add: originMiddleware_def)
  next
    case True
    obtain s2 where 2: "same_core s s2" "?inner cx' r s1 = rateLimitMiddleware env (countRequestsMiddleware next) cx' r s2"
      using securityHeaders_pass [of s1 "rateLimitMiddleware env (countRequestsMiddleware next)" cx' r] 1(2) by auto
    show thesis
    proof (cases rule: rateLimit_cases [where s = s2 and env = env and ?next = "countRequestsMiddleware next" and cx = cx' and r = r])
      case stopped
      with 1 2 True show thesis by (intro st) (simp add: originMiddleware_def)
    next
      case (passed s3)
      with 1 2 True show thesis
        by (intro pa [of cx' "s3\<lparr>hs_metrics := map_option RecordRequest (hs_metrics s3)\<rparr>"])
          (simp_all add: originMiddleware_def countRequestsMiddleware_def)
    qed
  qed
qed


definition token_of :: "http_request \<Rightarrow> string" where
  "token_of r = trim_prefix (hq_Authorization r) ''Bearer ''"

lemma authMiddleware_cases:
  obtains (stopped) "same_core s (fst (authMiddleware env next cx r s))"
  | (passed) claims where "has_prefix (hq_Authorization r) ''Bearer ''" "verifyJWT env (token_of r) = Inr claims"
      "jc_Role claims \<in> {RoleOrchestrator, RoleWorker}"
      "authMiddleware env next cx r s =
         next (cx\<lparr>cx_Session := Some \<lparr>ss_Role = jc_Role claims, ss_Subject = jc_Subject claims\<rparr>\<rparr>) r s"
proof (cases "has_prefix (hq_Authorization r) ''Bearer ''")
  case False
  then show thesis using stopped by (simp add: authMiddleware_def auth_failure_def)
next
  case True
  show thesis
  proof (cases "verifyJWT env (token_of r)")
    case (Inl err)
    with True show thesis using stopped by (simp add: authMiddleware_def auth_failure_def token_of_def)
  next
    case (Inr claims)
    with True show thesis
      using stopped passed [of claims]
      by (cases "jc_Role claims \<in> {RoleOrchestrator, RoleWorker}") (auto simp: authMiddleware_def token_of_def)
  qed
qed

lemma verifyJWT_sound:
  assumes "verifyJWT env token = Inr claims"
  shows "c_JWTSecret (cfg_core (he_cfg env)) \<noteq> '''' \<and>
    he_jwt env (jwt_key (c_JWTSecret (cfg_core (he_cfg env)))) token = Inr claims \<and>
    jc_Issuer claims = c_JWTIssuer (cfg_core (he_cfg env)) \<and> c_JWTAudience (cfg_core (he_cfg env)) \<in> set (jc_Audience claims)"
  using assms by (auto simp: verifyJWT_def Let_def list_ex_iff split: if_splits sum.splits)

lemma publishSampleEvents_core [simp]: "same_core s (publishSampleEvents env m rid st err s)"
  by (simp add: publishSampleEvents_def Let_def split: option.split)

text \<open>A posted message reaches the server only as the request it parses to, and leaves the streams alone.\<close>

lemma handlePOST_server:
  "hs_conns (fst (handlePOST env cx r s)) = hs_conns s \<and> hs_streams (fst (handlePOST env cx r s)) = hs_streams s \<and>
   (hs_server (fst (handlePOST env cx r s)) = hs_server s \<or>
    (\<exists>body answer. hq_Body r = Inr body \<and> length body \<le> maxBody \<and> he_media env (hq_ContentType r) = Some ''application/json'' \<and>
       Handle (he_uerr env) (he_read env) (he_registry env) (cx_Session cx) (he_parse env body) (hs_server s) =
         (hs_server (fst (handlePOST env cx r s)), answer)))"
proof (cases "hq_Body r")
  case (Inl err)
  then show ?thesis by (simp add: handlePOST_def)
next
  case (Inr body)
  let ?raw = "he_parse env body"
  obtain server answer where h: "Handle (he_uerr env) (he_read env) (he_registry env) (cx_Session cx) ?raw (hs_server s) = (server, answer)"
    by fastforce
  show ?thesis
  proof (cases "he_media env (hq_ContentType r) = Some ''application/json'' \<and> \<not> maxBody < length body")
    case False
    then show ?thesis using Inr by (auto simp: handlePOST_def)
  next
    case True
    then have "hs_server (fst (handlePOST env cx r s)) = server \<and> hs_conns (fst (handlePOST env cx r s)) = hs_conns s \<and>
        hs_streams (fst (handlePOST env cx r s)) = hs_streams s"
      using Inr h by (simp add: handlePOST_def Let_def split: outcome.split option.split sum.split)
    with True Inr h show ?thesis by auto
  qed
qed

lemma handleGET_server: "hs_server (fst (handleGET env cx r s)) = hs_server s"
  by (simp add: handleGET_def split: prod.split bool.split sum.split)

text \<open>The mounted handlers keep the streams, and the dashboard reads the server only.\<close>

definition mounted_ok :: "('w, 'l, 'p) http_env \<Rightarrow> bool" where
  "mounted_ok env \<longleftrightarrow>
     (\<forall>h cx r s. he_rollout env = Some h \<or> he_dashboard env = Some h \<longrightarrow>
        hs_conns (fst (h cx r s)) = hs_conns s \<and> hs_streams (fst (h cx r s)) = hs_streams s) \<and>
     (\<forall>h cx r s. he_dashboard env = Some h \<longrightarrow> hs_server (fst (h cx r s)) = hs_server s)"

text \<open>What holds of an authorised JSON-RPC message that may change the server under a role.\<close>

definition may_change :: "('w, 'l, 'p) http_env \<Rightarrow> string \<Rightarrow> string \<Rightarrow> bool" where
  "may_change env role body \<longleftrightarrow> (\<exists>req. ParseRequest (he_uerr env) (he_parse env body) = Inr req \<and>
     (rq_Method req = ''resources/unsubscribe'' \<or>
      rq_Method req = ''tools/call'' \<and> (\<exists>kvs name t. rq_Params req = Some (JObj kvs) \<and>
        string_field (he_uerr env) ''name'' kvs = Inr name \<and> map_of (he_registry env) name = Some t \<and> role \<in> set (tl_AllowedRoles t))))"

lemma mcp_handler_change:
  assumes "hs_server (fst (mcp_handler env cx r s)) \<noteq> hs_server s" and "cx_Session cx = Some ss" and "ss_Role ss \<noteq> ''''"
  shows "hq_Method r = ''POST'' \<and> (\<exists>body. hq_Body r = Inr body \<and> length body \<le> maxBody \<and> may_change env (ss_Role ss) body)"
proof -
  have post: "hq_Method r = ''POST''" "hs_server (fst (handlePOST env cx r s)) \<noteq> hs_server s"
    using assms(1) handleGET_server [of env cx r s] by (auto simp: mcp_handler_def split: if_splits)
  then obtain body answer where b: "hq_Body r = Inr body" "length body \<le> maxBody"
    "Handle (he_uerr env) (he_read env) (he_registry env) (cx_Session cx) (he_parse env body) (hs_server s) =
       (hs_server (fst (handlePOST env cx r s)), answer)"
    using handlePOST_server [of env cx r s] by blast
  from Handle_effect [OF b(3)] post(2) have "may_change env (ss_Role ss) body"
    using assms(2,3) by (auto simp: may_change_def session_role_def)
  with post b show ?thesis by blast
qed

lemma authenticated_change:
  assumes "hs_server (fst (http_mw env (authMiddleware env h) cx r s)) \<noteq> hs_server s"
  obtains claims cx' s1 where "origin_allowed (origin_set (he_cfg env)) r" "has_prefix (hq_Authorization r) ''Bearer ''"
    "verifyJWT env (token_of r) = Inr claims" "jc_Role claims \<in> {RoleOrchestrator, RoleWorker}"
    "cx_Session cx' = Some \<lparr>ss_Role = jc_Role claims, ss_Subject = jc_Subject claims\<rparr>"
    "hs_server (fst (h cx' r s1)) \<noteq> hs_server s1"
proof (cases rule: http_mw_cases [where env = env and ?next = "authMiddleware env h" and cx = cx and r = r and s = s])
  case stopped
  with assms show thesis by simp
next
  case (passed cx1 s1)
  note outer = passed
  show thesis
  proof (cases rule: authMiddleware_cases [where env = env and ?next = h and cx = cx1 and r = r and s = s1])
    case stopped
    with assms outer show thesis by simp
  next
    case (passed claims)
    with assms outer show thesis
      by (intro that [of claims "cx1\<lparr>cx_Session := Some \<lparr>ss_Role = jc_Role claims, ss_Subject = jc_Subject claims\<rparr>\<rparr>" s1]) simp_all
  qed
qed



section \<open>The budget of streams\<close>

definition streams_ok :: "('w, 'l, 'p) http_state \<Rightarrow> bool" where
  "streams_ok s \<longleftrightarrow> (\<forall>k. count_list (hs_streams s) k \<le> 10 \<and>
     map_of (hs_conns s) k = (if count_list (hs_streams s) k = 0 then None else Some (int (count_list (hs_streams s) k))))"

lemma streams_ok_core: "same_core s s' \<Longrightarrow> streams_ok s' = streams_ok s"
  by (simp add: streams_ok_def)

lemma conn_count_streams: "streams_ok s \<Longrightarrow> conn_count (hs_conns s) k = int (count_list (hs_streams s) k)"
  by (simp add: streams_ok_def conn_count_def)

lemma release_acquire:
  assumes "\<And>n. map_of m k = Some n \<Longrightarrow> 0 < n"
  shows "map_of (release k (gm_set k (conn_count m k + 1) m)) j = map_of m j"
  using assms by (cases "map_of m k") (force simp: release_def conn_count_def)+

lemma end_sse_stream_ok:
  assumes "streams_ok s" and "k \<in> set (hs_streams s)"
  shows "streams_ok (end_sse_stream k s)"
proof -
  have c: "count_list (remove1 k xs) j = (if j = k then count_list xs j - 1 else count_list xs j)" for j xs
    by (induction xs) (auto dest: count_notin)
  have "count_list (hs_streams s) k \<noteq> 0" using assms(2) by (simp add: count_list_0_iff)
  then show ?thesis
    using assms(1) conn_count_streams [OF assms(1), of k] unfolding streams_ok_def end_sse_stream_def release_def
    by (auto simp: c) (metis One_nat_def diff_le_self le_trans)+
qed

lemma handleGET_ok:
  assumes "streams_ok s"
  shows "streams_ok (fst (handleGET env cx r s))"
proof (cases "conn_count (hs_conns s) (sse_key r) \<ge> maxSSEConnsPerIP")
  case True
  then show ?thesis using assms by (simp add: handleGET_def acquire_def)
next
  case False
  let ?k = "sse_key r"
  have less: "count_list (hs_streams s) ?k < 10"
    using False conn_count_streams [OF assms, of ?k] by (simp add: maxSSEConnsPerIP_def)
  have pos: "0 < n" if "map_of (hs_conns s) ?k = Some n" for n
    using that assms by (auto simp: streams_ok_def split: if_splits)
  show ?thesis
  proof (cases "resolveSSEFilter env r (hs_server s)")
    case (Inl res)
    with False have "fst (handleGET env cx r s) = s\<lparr>hs_conns := release ?k (gm_set ?k (conn_count (hs_conns s) ?k + 1) (hs_conns s))\<rparr>"
      by (simp add: handleGET_def acquire_def)
    then show ?thesis using assms release_acquire [of "hs_conns s" ?k, OF pos] by (simp add: streams_ok_def)
  next
    case (Inr f)
    with False less show ?thesis
      using assms conn_count_streams [OF assms, of ?k] by (simp add: handleGET_def acquire_def streams_ok_def)
  qed
qed

lemma mcp_handler_ok: "streams_ok s \<Longrightarrow> streams_ok (fst (mcp_handler env cx r s))"
  using handleGET_ok [of s env cx r] handlePOST_server [of env cx r s]
  by (auto simp: mcp_handler_def streams_ok_def)

lemma authMiddleware_ok:
  assumes "\<And>cx s. streams_ok s \<Longrightarrow> streams_ok (fst (h cx r s))" and "streams_ok s"
  shows "streams_ok (fst (authMiddleware env h cx r s))"
  by (cases rule: authMiddleware_cases [where env = env and ?next = h and cx = cx and r = r and s = s])
    (use assms streams_ok_core in auto)

lemma http_mw_ok:
  assumes "\<And>cx s. streams_ok s \<Longrightarrow> streams_ok (fst (h cx r s))" and "streams_ok s"
  shows "streams_ok (fst (http_mw env h cx r s))"
proof (cases rule: http_mw_cases [where env = env and ?next = h and cx = cx and r = r and s = s])
  case stopped
  with assms(2) show ?thesis using streams_ok_core by blast
next
  case (passed cx' s1)
  with assms show ?thesis using streams_ok_core [of s s1] by simp
qed

lemma ServeHTTP_ok:
  assumes "mounted_ok env" and "streams_ok s"
  shows "streams_ok (fst (ServeHTTP env r s))"
proof -
  have s: "streams_ok (s\<lparr>hs_header := []\<rparr>)" using assms(2) by (simp add: streams_ok_def)
  have mounted: "streams_ok (fst (h cx r s))" if "he_rollout env = Some h \<or> he_dashboard env = Some h" "streams_ok s" for h cx s
  proof -
    from assms(1) that(1) have "hs_conns (fst (h cx r s)) = hs_conns s \<and> hs_streams (fst (h cx r s)) = hs_streams s"
      unfolding mounted_ok_def by blast
    with that(2) show ?thesis by (simp add: streams_ok_def)
  qed
  let ?s = "s\<lparr>hs_header := []\<rparr>" and ?cx = "\<lparr>cx_RequestID = '''', cx_Session = None\<rparr>"
  have "streams_ok (fst (http_mw env (authMiddleware env (mcp_handler env)) ?cx r ?s))"
    using s by (intro http_mw_ok authMiddleware_ok mcp_handler_ok)
  moreover have "streams_ok (fst (http_mw env h ?cx r ?s))" if "he_dashboard env = Some h" for h
    using s that by (intro http_mw_ok mounted) auto
  moreover have "streams_ok (fst (http_mw env (authMiddleware env h) ?cx r ?s))" if "he_rollout env = Some h" for h
    using s that by (intro http_mw_ok authMiddleware_ok mounted) auto
  ultimately show ?thesis using s by (auto simp: ServeHTTP_def Let_def split: option.split)
qed

lemma http_step_ok: "http_step env s s' \<Longrightarrow> mounted_ok env \<Longrightarrow> streams_ok s \<Longrightarrow> streams_ok s'"
proof (induction rule: http_step.induct)
  case (request s now r)
  moreover from this have "mounted_ok (env\<lparr>he_now := now\<rparr>)" by (simp add: mounted_ok_def)
  ultimately show ?case by (intro ServeHTTP_ok)
next
  case (stream_end key s)
  then show ?case by (intro end_sse_stream_ok)
qed (simp_all add: streams_ok_def)

lemma http_reach_ok:
  assumes "(http_step env)\<^sup>*\<^sup>* s s'" and "mounted_ok env" and "hs_conns s = []" and "hs_streams s = []"
  shows "streams_ok s'"
  using assms(1)
proof (induction rule: rtranclp_induct)
  case base
  then show ?case using assms by (simp add: streams_ok_def)
next
  case (step y z)
  then show ?case using http_step_ok assms(2) by blast
qed

text \<open>C12. In every state reached from an empty one by requests, ends of streams, evictions and background changes, the
  table of connections holds exactly the keys with an open stream, each with the number of its open streams, which is
  at most ten; and a stream is refused for the budget exactly when its key has ten.\<close>

theorem sse_budget:
  assumes "mounted_ok env" and "hs_conns s0 = []" and "hs_streams s0 = []" and "(http_step env)\<^sup>*\<^sup>* s0 s"
  shows "map_of (hs_conns s) k = (if k \<in> set (hs_streams s) then Some (int (count_list (hs_streams s) k)) else None) \<and>
    count_list (hs_streams s) k \<le> 10 \<and>
    (snd (handleGET env cx r s) = http_Error ''too many SSE connections'' 429 \<longleftrightarrow> count_list (hs_streams s) (sse_key r) = 10)"
proof -
  have ok: "streams_ok s" by (rule http_reach_ok [OF assms(4,1,2,3)])
  have "snd (handleGET env cx r s) = http_Error ''too many SSE connections'' 429 \<longleftrightarrow>
      conn_count (hs_conns s) (sse_key r) \<ge> maxSSEConnsPerIP"
    by (auto simp: handleGET_def acquire_def resolveSSEFilter_def http_Error_def split: sum.split option.splits if_splits)
  with ok conn_count_streams [OF ok, of "sse_key r"] show ?thesis
    by (auto simp: streams_ok_def maxSSEConnsPerIP_def count_list_0_iff intro: order_antisym)
qed

lemma splitHost_ipv6:
  assumes "set ip \<inter> {CHR ''['', CHR '']''} = {}" and "set port \<inter> {CHR ''['', CHR '']'', CHR '':''} = {}"
  shows "splitHost (CHR ''['' # ip @ '']:'' @ port) = Some ip"
proof -
  have "split_once (CHR '':'') (rev (CHR ''['' # ip @ '']:'' @ port)) = Some (rev port, CHR '']'' # rev ip @ ''['')"
    using assms by (simp add: split_once_Some)
  then have "last_colon (CHR ''['' # ip @ '']:'' @ port) = Some (CHR ''['' # ip @ '']'', port)" by (simp add: last_colon_def)
  moreover have "split_once (CHR '']'') (CHR ''['' # ip @ '']:'' @ port) = Some (CHR ''['' # ip, CHR '':'' # port)"
    unfolding split_once_Some using assms by simp
  ultimately show ?thesis using assms by (simp add: splitHost_def del: split_once.simps)
qed

text \<open>C32. The key of a stream is the address up to the first colon, so the clients of one IPv6 block whose first group is
  the same share one budget: once ten streams of them are open, each of them is refused, whichever address holds them,
  although the rate limiter tells their addresses apart.\<close>

theorem sse_budget_ipv6:
  assumes "mounted_ok env" and "hs_conns s0 = []" and "hs_streams s0 = []" and "(http_step env)\<^sup>*\<^sup>* s0 s"
    and "count_list (hs_streams s) (CHR ''['' # g) = 10" and "CHR '':'' \<notin> set g"
    and "hq_RemoteAddr r = CHR ''['' # g @ CHR '':'' # h @ '']:'' @ port"
    and "set h \<inter> {CHR ''['', CHR '']''} = {}" and "set g \<inter> {CHR ''['', CHR '']''} = {}"
    and "set port \<inter> {CHR ''['', CHR '']'', CHR '':''} = {}"
  shows "handleGET env cx r s = (s, http_Error ''too many SSE connections'' 429) \<and> client_ip r = g @ CHR '':'' # h"
proof -
  have "split_once (CHR '':'') (hq_RemoteAddr r) = Some (CHR ''['' # g, h @ '']:'' @ port)"
    unfolding split_once_Some using assms(6,7) by simp
  then have key: "sse_key r = CHR ''['' # g" by (simp add: sse_key_def before_colon_def)
  have "streams_ok s" by (rule http_reach_ok [OF assms(4,1,2,3)])
  then have "conn_count (hs_conns s) (sse_key r) = 10" using conn_count_streams [of s "sse_key r"] assms(5) key by simp
  moreover have "splitHost (hq_RemoteAddr r) = Some (g @ CHR '':'' # h)"
    using splitHost_ipv6 [of "g @ CHR '':'' # h" port] assms(7-10) by simp
  ultimately show ?thesis by (simp add: handleGET_def acquire_def maxSSEConnsPerIP_def client_ip_def)
qed


section \<open>What the throttle suppresses\<close>

definition record_time :: "gotime \<times> mb_record \<Rightarrow> gotime" where
  "record_time x = eventTime (mr_At (snd x)) (fst x)"

definition decided :: "bool \<Rightarrow> string \<Rightarrow> (gotime \<times> mb_record) list \<Rightarrow> bool list \<Rightarrow> (gotime \<times> mb_record) list" where
  "decided b topic rs ds = map fst (filter (\<lambda>(x, d). d = b \<and> mr_Topic (snd x) = topic) (zip rs ds))"

definition throttle_window :: "string \<Rightarrow> duration option" where
  "throttle_window topic = (if topic = TopicNotificationsLog then Some (250 * millisecond)
     else if topic = TopicNotificationsJobState then Some (75 * millisecond) else None)"

text \<open>The state of a topic after the records of a run.\<close>

definition topic_state :: "string \<Rightarrow> (gotime \<times> mb_record) list \<Rightarrow> bool list \<Rightarrow> throttle_state" where
  "topic_state topic rs ds =
     \<lparr>th_lastEmitAt = (case rev (decided True topic rs ds) of [] \<Rightarrow> 0 | x # _ \<Rightarrow> record_time x),
      th_Emitted = int (length (decided True topic rs ds)), th_Suppressed = int (length (decided False topic rs ds))\<rparr>"

lemma throttle_run_snoc:
  "throttle_run (rs @ [x]) t =
     (let (t1, ds) = throttle_run rs t; (t2, d) = Allow_throttle (fst x) (snd x) t1 in (t2, ds @ [d]))"
proof (induction rs arbitrary: t)
  case Nil
  then show ?case by (cases x) (simp add: case_prod_beta Let_def)
next
  case (Cons a rs)
  then show ?case by (cases a) (simp add: case_prod_beta Let_def)
qed

lemma decided_snoc:
  "length ds = length rs \<Longrightarrow>
     decided b topic (rs @ [x]) (ds @ [d]) = decided b topic rs ds @ (if d = b \<and> mr_Topic (snd x) = topic then [x] else [])"
  by (simp add: decided_def)

lemma Allow_policies [simp]: "tt_policies (fst (Allow_throttle now r t)) = tt_policies t"
  by (simp add: Allow_throttle_def Let_def put_state_def split: option.split)

lemma Allow_state:
  "stateFor topic (fst (Allow_throttle now r t)) =
     (if topic \<noteq> mr_Topic r then stateFor topic t
      else if snd (Allow_throttle now r t) then emit_state (record_time (now, r)) (stateFor topic t)
      else (stateFor topic t)\<lparr>th_Suppressed := th_Suppressed (stateFor topic t) + 1\<rparr>)"
  by (simp add: Allow_throttle_def Let_def put_state_def stateFor_def record_time_def split: option.split)

lemma throttle_run_state:
  "throttle_run rs (newTelemetryThrottle parse) = (t, ds) \<Longrightarrow>
     length ds = length rs \<and> tt_policies t = tt_policies (newTelemetryThrottle parse) \<and>
     (\<forall>topic. stateFor topic t = topic_state topic rs ds)"
proof (induction rs arbitrary: t ds rule: rev_induct)
  case Nil
  then show ?case by (auto simp: topic_state_def decided_def stateFor_def newTelemetryThrottle_def)
next
  case (snoc x rs)
  obtain t1 ds1 where 1: "throttle_run rs (newTelemetryThrottle parse) = (t1, ds1)" by fastforce
  let ?a = "Allow_throttle (fst x) (snd x) t1"
  have 2: "t = fst ?a" "ds = ds1 @ [snd ?a]" using snoc.prems 1 by (auto simp: throttle_run_snoc case_prod_beta)
  note IH = snoc.IH [OF 1]
  show ?case unfolding 2 using IH
    by (simp add: Allow_state topic_state_def decided_snoc emit_state_def)
qed

text \<open>C26. After any run of a new throttle, a record is suppressed exactly when its topic is throttled, it is not a
  terminal job state, and the last record of its topic that was let through has a time and lies less than a window
  before it; and the counters of every topic are the numbers of records let through and suppressed.\<close>

theorem throttle_exact:
  assumes "throttle_run rs (newTelemetryThrottle parse) = (t, ds)" and "Allow_throttle now r t = (t', allowed)"
  shows "(\<not> allowed \<longleftrightarrow> (\<exists>w x xs. throttle_window (mr_Topic r) = Some w \<and>
      \<not> (mr_Topic r = TopicNotificationsJobState \<and> isTerminalJobStatePayload parse (mr_Payload r)) \<and>
      decided True (mr_Topic r) rs ds = xs @ [x] \<and> record_time x \<noteq> 0 \<and> record_time (now, r) < record_time x + w)) \<and>
    th_Emitted (stateFor topic t') = int (length (decided True topic (rs @ [(now, r)]) (ds @ [allowed]))) \<and>
    th_Suppressed (stateFor topic t') = int (length (decided False topic (rs @ [(now, r)]) (ds @ [allowed])))"
proof -
  note run = throttle_run_state [OF assms(1)]
  have "throttle_run (rs @ [(now, r)]) (newTelemetryThrottle parse) = (t', ds @ [allowed])"
    using assms by (simp add: throttle_run_snoc)
  from throttle_run_state [OF this] have counters:
    "th_Emitted (stateFor topic t') = int (length (decided True topic (rs @ [(now, r)]) (ds @ [allowed]))) \<and>
     th_Suppressed (stateFor topic t') = int (length (decided False topic (rs @ [(now, r)]) (ds @ [allowed])))"
    by (simp add: topic_state_def)
  have policy: "map_of (tt_policies t) (mr_Topic r) =
      map_option (\<lambda>w. \<lparr>tp_Window = w, tp_Bypass = if mr_Topic r = TopicNotificationsJobState then Some (isTerminalJobStatePayload parse) else None\<rparr>)
        (throttle_window (mr_Topic r))"
    using run by (simp add: newTelemetryThrottle_def throttle_window_def defaultLogThrottleWindow_def
        defaultJobStateThrottleWindow_def TopicNotificationsLog_def TopicNotificationsJobState_def)
  have pos: "throttle_window (mr_Topic r) = Some w \<Longrightarrow> 0 < w" for w
    by (auto simp: throttle_window_def millisecond_def split: if_splits)
  have last: "th_lastEmitAt (stateFor (mr_Topic r) t) =
      (case rev (decided True (mr_Topic r) rs ds) of [] \<Rightarrow> 0 | x # _ \<Rightarrow> record_time x)"
    using run by (simp add: topic_state_def)
  have "allowed = snd (Allow_throttle now r t)" using assms(2) by simp
  then have "\<not> allowed \<longleftrightarrow> (\<exists>w x xs. throttle_window (mr_Topic r) = Some w \<and>
      \<not> (mr_Topic r = TopicNotificationsJobState \<and> isTerminalJobStatePayload parse (mr_Payload r)) \<and>
      decided True (mr_Topic r) rs ds = xs @ [x] \<and> record_time x \<noteq> 0 \<and> record_time (now, r) < record_time x + w)"
    using pos unfolding Allow_throttle_def Let_def policy last
    by (cases "throttle_window (mr_Topic r)"; cases "decided True (mr_Topic r) rs ds" rule: rev_cases)
      (auto simp: record_time_def split: if_splits)
  with counters show ?thesis by blast
qed


section \<open>Witnesses\<close>

definition w_config :: config where
  "w_config = (load_config (\<lambda>_. None) w_router_env None)\<lparr>cfg_core := load_core (\<lambda>_. '''') ''k''\<rparr>"

definition w_claims :: jwt_claims where
  "w_claims = \<lparr>jc_Role = RoleOrchestrator, jc_Issuer = ''cwso'', jc_Subject = ''a'', jc_Audience = [''cwso-mcp'']\<rparr>"

text \<open>A parser that knows one token, an encoder that answers \<open>x\<close>, and a limiter that always allows.\<close>

definition w_http :: "(nat, unit, unit) http_env" where
  "w_http = \<lparr>he_cfg = w_config, he_uerr = w_uerr, he_read = w_env, he_registry = w_registry, he_parse = (\<lambda>_. Inr w_call),
     he_encode = (\<lambda>_. Inr ''x''), he_media = (\<lambda>ct. Some ct),
     he_jwt = (\<lambda>key token. if key ''HS256'' = Inr ''k'' \<and> token = ''t'' then Inr w_claims
       else Inl \<lparr>je_Expired = False, je_NotValidYet = False, je_Text = ''''\<rparr>),
     he_newLimiter = (), he_allow = (\<lambda>_ l. (l, True)), he_publish = None, he_now = 5, he_clean = (\<lambda>p. p),
     he_resolve = False, he_rollout = None, he_dashboard = None\<rparr>"

definition w_request :: "string \<Rightarrow> string \<Rightarrow> http_request" where
  "w_request meth addr = \<lparr>hq_Method = meth, hq_Path = ''/mcp'', hq_Host = ''localhost'', hq_RemoteAddr = addr, hq_Origin = '''',
     hq_Authorization = ''Bearer t'', hq_ContentType = ''application/json'', hq_RequestID = ''r'', hq_Subscription = '''', hq_Body = Inr ''b''\<rparr>"

definition w_state :: "(nat, unit, unit) http_state" where
  "w_state = \<lparr>hs_server = w_server, hs_limiters = [], hs_conns = [], hs_streams = [], hs_rid = 0, hs_metrics = None,
     hs_header = [], hs_events = ()\<rparr>"

lemma w_http_mounted: "mounted_ok w_http" by (simp add: mounted_ok_def w_http_def)

lemma w_core: "cfg_core w_config = load_core (\<lambda>_. '''') ''k''" by (simp add: w_config_def)

lemma w_origin: "origin_allowed (origin_set w_config) (w_request meth addr)"
proof -
  have "origin_set w_config = [''http://localhost'', ''http://127.0.0.1'']" unfolding origin_set_def w_core by code_simp
  moreover have "originHostAllowed [''http://localhost'', ''http://127.0.0.1''] (to_lower (before_colon ''localhost''))" by code_simp
  ultimately show ?thesis by (simp add: origin_allowed_def w_request_def to_lower_def)
qed

lemma w_jwt: "verifyJWT w_http ''t'' = Inr w_claims"
  by (simp add: verifyJWT_def w_http_def w_core load_core_def envOr_def jwt_key_def w_claims_def)

lemma w_auth: "authMiddleware w_http h cx (w_request meth addr) s =
    h (cx\<lparr>cx_Session := Some \<lparr>ss_Role = RoleOrchestrator, ss_Subject = ''a''\<rparr>\<rparr>) (w_request meth addr) s"
proof -
  have "has_prefix ''Bearer t'' ''Bearer ''" "trim_prefix ''Bearer t'' ''Bearer '' = ''t''" by code_simp+
  then show ?thesis by (simp add: authMiddleware_def w_request_def w_jwt) (simp add: w_claims_def)
qed

text \<open>A request to \<open>/mcp\<close> that is not limited reaches the handler.\<close>

lemma w_serve:
  assumes "meth = ''GET'' \<or> isLocalhost (client_ip (w_request meth addr))"
  obtains cx s1 where "cx_Session cx = Some \<lparr>ss_Role = RoleOrchestrator, ss_Subject = ''a''\<rparr>" "same_core s s1"
    "fst (ServeHTTP w_http (w_request meth addr) s) = fst (mcp_handler w_http cx (w_request meth addr) s1)"
proof -
  let ?r = "w_request meth addr" and ?cx = "\<lparr>cx_RequestID = '''', cx_Session = None\<rparr>" and ?s = "s\<lparr>hs_header := []\<rparr>"
  let ?h = "authMiddleware w_http (mcp_handler w_http)"
  have "\<exists>cx s1. cx_Session cx = None \<and> same_core s s1 \<and> fst (http_mw w_http ?h ?cx ?r ?s) = fst (?h cx ?r s1)"
  proof -
    have env: "he_cfg w_http = w_config" "hq_RequestID ?r = ''r''" "hq_Path ?r = ''/mcp''" "hq_Method ?r = meth"
      by (simp_all add: w_http_def w_request_def)
    define s1 where "s1 = set_header ''X-Request-ID'' ''r'' ?s"
    obtain s2 where s2: "same_core s1 s2"
      "securityHeadersMiddleware (rateLimitMiddleware w_http (countRequestsMiddleware ?h)) (?cx\<lparr>cx_RequestID := ''r''\<rparr>) ?r s1 =
         rateLimitMiddleware w_http (countRequestsMiddleware ?h) (?cx\<lparr>cx_RequestID := ''r''\<rparr>) ?r s2"
      using securityHeaders_pass [of s1 "rateLimitMiddleware w_http (countRequestsMiddleware ?h)" "?cx\<lparr>cx_RequestID := ''r''\<rparr>" ?r]
      by blast
    have "rateLimitMiddleware w_http (countRequestsMiddleware ?h) (?cx\<lparr>cx_RequestID := ''r''\<rparr>) ?r s2 =
        ?h (?cx\<lparr>cx_RequestID := ''r''\<rparr>) ?r (s2\<lparr>hs_metrics := map_option RecordRequest (hs_metrics s2)\<rparr>)"
      using assms by (auto simp: rateLimitMiddleware_def countRequestsMiddleware_def env)
    moreover have "fst (http_mw w_http ?h ?cx ?r ?s) =
        fst (securityHeadersMiddleware (rateLimitMiddleware w_http (countRequestsMiddleware ?h)) (?cx\<lparr>cx_RequestID := ''r''\<rparr>) ?r s1)"
      by (simp add: http_mw_def mw_chain_def recoverMiddleware_def requestIDMiddleware_def originMiddleware_def env w_origin s1_def
          case_prod_beta split: http_result.split)
    ultimately show ?thesis using s2
      by (intro exI [of _ "?cx\<lparr>cx_RequestID := ''r''\<rparr>"] exI [of _ "s2\<lparr>hs_metrics := map_option RecordRequest (hs_metrics s2)\<rparr>"])
        (simp add: s1_def)
  qed
  moreover have "ServeHTTP w_http ?r s = http_mw w_http ?h ?cx ?r ?s"
    by (simp add: ServeHTTP_def w_request_def) (simp add: w_http_def)
  ultimately obtain cx s1 where "same_core s s1" "fst (ServeHTTP w_http ?r s) = fst (?h cx ?r s1)" by auto
  then show thesis
    by (intro that [of "cx\<lparr>cx_Session := Some \<lparr>ss_Role = RoleOrchestrator, ss_Subject = ''a''\<rparr>\<rparr>" s1]) (simp_all add: w_auth)
qed

text \<open>The call of the counting tool by an orchestrator changes the server.\<close>

lemma w_post_changes: "hs_server (fst (ServeHTTP w_http (w_request ''POST'' ''127.0.0.1:80'') w_state)) \<noteq> w_server"
proof -
  have ip: "client_ip (w_request ''POST'' ''127.0.0.1:80'') = ''127.0.0.1''" by code_simp
  have nm: "string_field w_uerr ''name'' [(''name'', JStr ''count'')] = Inr ''count''" by code_simp
  have h: "fst (Handle w_uerr w_env w_registry (Some \<lparr>ss_Role = RoleOrchestrator, ss_Subject = ''a''\<rparr>) (Inr w_call) w_server) =
      w_server\<lparr>sv_world := 1\<rparr>"
    by (simp add: Handle_def w_call_parse handleToolsCall_def object_fields_def Authorized_def Get_tool_def w_registry_simps
        session_role_def w_count_tool_def w_server_def nm RoleOrchestrator_def)
  obtain cx and s1 :: "(nat, unit, unit) http_state" where s1: "cx_Session cx = Some \<lparr>ss_Role = RoleOrchestrator, ss_Subject = ''a''\<rparr>"
    "same_core w_state s1"
    "fst (ServeHTTP w_http (w_request ''POST'' ''127.0.0.1:80'') w_state) = fst (mcp_handler w_http cx (w_request ''POST'' ''127.0.0.1:80'') s1)"
    by (rule w_serve [of "''POST''" "''127.0.0.1:80''" w_state]) (simp_all add: ip isLocalhost_def)
  have "hs_server (fst (mcp_handler w_http cx (w_request ''POST'' ''127.0.0.1:80'') s1)) = w_server\<lparr>sv_world := 1\<rparr>"
    using s1(1,2) h by (simp add: mcp_handler_def handlePOST_def w_request_def w_http_def w_state_def maxBody_def Let_def case_prod_beta
        split: outcome.split option.split)
  then show ?thesis using s1(3) by (simp add: w_server_def)
qed



text \<open>Ten streams opened from one IPv6 address, and a client at another.\<close>

definition w_opened :: "nat \<Rightarrow> (nat, unit, unit) http_state" where
  "w_opened n = ((\<lambda>s. fst (ServeHTTP w_http (w_request ''GET'' ''[2001:db8::1]:80'') s)) ^^ n) w_state"

lemma w_key: "sse_key (w_request ''GET'' ''[2001:db8::1]:80'') = ''[2001''" by code_simp

lemma count_list_replicate: "count_list (replicate n x) y = (if x = y then n else 0)"
  by (induction n) auto

lemma w_opened_reach: "(http_step w_http)\<^sup>*\<^sup>* w_state (w_opened n)"
proof (induction n)
  case 0
  then show ?case by (simp add: w_opened_def)
next
  case (Suc n)
  have "w_http\<lparr>he_now := 5\<rparr> = w_http" by (simp add: w_http_def)
  then have "http_step w_http (w_opened n) (w_opened (Suc n))"
    using http_step.request [of w_http "w_opened n" 5 "w_request ''GET'' ''[2001:db8::1]:80''"] by (simp add: w_opened_def)
  with Suc show ?case by (rule rtranclp.rtrancl_into_rtrancl)
qed

lemma w_opened_streams: "n \<le> 10 \<Longrightarrow> hs_streams (w_opened n) = replicate n ''[2001''"
proof (induction n)
  case 0
  then show ?case by (simp add: w_opened_def w_state_def)
next
  case (Suc n)
  then have IH: "hs_streams (w_opened n) = replicate n ''[2001''" by simp
  have "streams_ok (w_opened n)" using http_reach_ok [OF w_opened_reach w_http_mounted] by (simp add: w_state_def)
  then have "conn_count (hs_conns (w_opened n)) ''[2001'' = int n"
    using IH conn_count_streams [of "w_opened n" "''[2001''"] by (simp add: count_list_replicate)
  then have c: "conn_count (hs_conns (w_opened n)) ''[2001'' < maxSSEConnsPerIP"
    using Suc.prems by (simp add: maxSSEConnsPerIP_def)
  obtain cx and s1 :: "(nat, unit, unit) http_state" where "same_core (w_opened n) s1"
    "w_opened (Suc n) = fst (mcp_handler w_http cx (w_request ''GET'' ''[2001:db8::1]:80'') s1)"
    by (rule w_serve [of "''GET''" "''[2001:db8::1]:80''" "w_opened n"]) (simp_all add: w_opened_def)
  with IH c show ?case
    by (simp add: mcp_handler_def handleGET_def acquire_def w_key resolveSSEFilter_def) (simp add: w_request_def w_key [unfolded w_request_def])
qed

theorem sse_budget_witness:
  "map_of (hs_conns (w_opened 3)) ''[2001'' = Some 3 \<and>
   snd (handleGET w_http \<lparr>cx_RequestID = ''r'', cx_Session = None\<rparr> (w_request ''GET'' ''10.0.0.1:80'') (w_opened 3)) \<noteq> http_Error ''too many SSE connections'' 429"
proof -
  have "hs_streams (w_opened 3) = replicate 3 ''[2001''" by (rule w_opened_streams) simp
  moreover have "sse_key (w_request ''GET'' ''10.0.0.1:80'') = ''10.0.0.1''" by code_simp
  ultimately show ?thesis
    using sse_budget [OF w_http_mounted _ _ w_opened_reach [of 3], of "''[2001''" "\<lparr>cx_RequestID = ''r'', cx_Session = None\<rparr>"
        "w_request ''GET'' ''10.0.0.1:80''"]
    by (simp add: w_state_def count_list_replicate)
qed

theorem sse_budget_ipv6_witness:
  "snd (handleGET w_http \<lparr>cx_RequestID = ''r'', cx_Session = None\<rparr> (w_request ''GET'' ''[2001:dead::2]:80'') (w_opened 10)) =
     http_Error ''too many SSE connections'' 429 \<and>
   client_ip (w_request ''GET'' ''[2001:dead::2]:80'') = ''2001:dead::2'' \<and>
   hs_streams (w_opened 10) = replicate 10 ''[2001''"
proof -
  have st: "hs_streams (w_opened 10) = replicate 10 ''[2001''" by (rule w_opened_streams) simp
  then show ?thesis
    using sse_budget_ipv6 [OF w_http_mounted _ _ w_opened_reach [of 10], of "''2001''" "w_request ''GET'' ''[2001:dead::2]:80''" "''dead::2''" "''80''"
        "\<lparr>cx_RequestID = ''r'', cx_Session = None\<rparr>"]
    by (simp add: w_state_def count_list_replicate w_request_def)
qed

definition w_log :: "gotime \<Rightarrow> mb_record" where
  "w_log t = \<lparr>mr_Sequence = 1, mr_Topic = ''notifications/log'', mr_JobID = '''', mr_At = t, mr_Payload = ''''\<rparr>"

text \<open>A log record one nanosecond before the end of the window of the first is suppressed.\<close>

theorem throttle_exact_witness:
  "\<not> snd (Allow_throttle 0 (w_log 250000000) (fst (throttle_run [(0, w_log 1)] (newTelemetryThrottle (\<lambda>_. None))))) \<and>
   th_Suppressed (stateFor ''notifications/log''
     (fst (Allow_throttle 0 (w_log 250000000) (fst (throttle_run [(0, w_log 1)] (newTelemetryThrottle (\<lambda>_. None))))))) = 1"
proof -
  let ?new = "newTelemetryThrottle (\<lambda>_. None)"
  let ?t = "fst (throttle_run [(0, w_log 1)] ?new)" and ?r = "w_log 250000000"
  have "snd (throttle_run [(0, w_log 1)] ?new) = [True]" by code_simp
  then have run: "throttle_run [(0, w_log 1)] ?new = (?t, [True])" by (metis prod.collapse)
  have "decided True ''notifications/log'' [(0, w_log 1)] [True] = [] @ [(0, w_log 1)]"
    "throttle_window ''notifications/log'' = Some 250000000" "record_time (0, w_log 1) = 1" "record_time (0, ?r) = 250000000"
    "mr_Topic ?r = ''notifications/log''" "''notifications/log'' \<noteq> TopicNotificationsJobState"
    by (simp_all add: decided_def w_log_def record_time_def eventTime_def throttle_window_def TopicNotificationsLog_def
        TopicNotificationsJobState_def millisecond_def)
  with throttle_exact [OF run surjective_pairing [of "Allow_throttle 0 ?r ?t"], of "''notifications/log''"]
  have "\<not> snd (Allow_throttle 0 ?r ?t)" by fastforce
  moreover have "th_Suppressed (stateFor ''notifications/log'' (fst (Allow_throttle 0 ?r ?t))) = 1"
    using throttle_exact [OF run surjective_pairing [of "Allow_throttle 0 ?r ?t"], of "''notifications/log''"] calculation
    by (simp add: decided_def w_log_def)
  ultimately show ?thesis by blast
qed

end
