(* ===== verification/Spec2Isabelle.thy ===== *)
theory Spec2Isabelle
  imports Go_Prelude Go_Json Jobs Jobs_System Subscriber EventBus MemoryBroker Trajectory NodeRegistry
    PrefixRouter SandboxRouter CapabilityRegistry PolicyEngine Telemetry AstSpikes PathMatch SpikeSubscriptions Profiler DispatchTools HardwareDispatch Config McpServer ServerWiring HttpTransport
begin

text \<open>
  Verification of the CWSO orchestrator, the Go program under \<open>src/orchestrator\<close>: a control plane
  that accepts jobs over MCP, chooses a backend and a sandbox tier for them, runs them concurrently,
  publishes what happens on an event bus and a memory broker, watches writes for conflicts between
  agents, and assembles the recorded completions of a session into training trajectories.

  \<^bold>\<open>How the parts interact.\<close> A tool call profiles a task, takes a snapshot of the capability registry,
  asks the policy engine for a provider and a fallback chain and submits a job to the job manager. The
  manager's workers run it through the sandbox router. State changes are published on the event bus;
  a tee also appends them to the memory broker's log, which clients query and subscribe to. Decisions
  and writes go through the telemetry and spike pipelines to the same publishers. Rollout sessions are
  assigned to nodes, keyed for prefix caching and turned into trajectories.

  \<^bold>\<open>Theories\<close> (file names are relative to \<open>src/orchestrator/internal\<close>):
  \<^item> \<open>Go_Prelude\<close>, \<open>Go_Json\<close>: the Go constructs and library functions in use - strings, decimal
    rendering, 64-bit arithmetic, instants, maps, sorting, JSON encoding.
  \<^item> \<open>Jobs\<close> (\<open>jobs/manager.go\<close>): records \<open>job\<close>, \<open>job_record\<close> and \<open>manager\<close>, one definition per method, the
    state automaton \<open>canTransition\<close>, error sanitising. \<open>Jobs_System\<close>: the same operations interleaved by
    \<open>jobs_step\<close> between submitters, cancellers, workers, deadlines and \<open>Close\<close>; every critical section
    of the source is one step.
  \<^item> \<open>Subscriber\<close>: the contract of a bounded queue that drops when full (locale \<open>bounded_subscriber\<close>), and what
    follows for delivery; interpreted by \<open>EventBus\<close> (\<open>eventbus/bus.go\<close>) and by \<open>MemoryBroker\<close>
    (\<open>memorybroker/broker.go\<close>, \<open>publisher.go\<close>), which adds the ring-buffer log (locale \<open>bounded_log\<close>),
    queries and payload redaction.
  \<^item> \<open>Trajectory\<close> (\<open>rollout/trajectory.go\<close>, \<open>trajectory_builder.go\<close>, \<open>types.go\<close>), \<open>NodeRegistry\<close>
    (\<open>rollout/node_registry.go\<close>), \<open>PrefixRouter\<close> (\<open>rollout/prefix_router.go\<close>).
  \<^item> \<open>SandboxRouter\<close> (\<open>sandbox/router.go\<close>, \<open>runner.go\<close>).
  \<^item> \<open>CapabilityRegistry\<close> (\<open>dispatch/capability_registry.go\<close>), \<open>PolicyEngine\<close>
    (\<open>dispatch/policy_engine_v2.go\<close>, \<open>sparse_escalation.go\<close>), \<open>Telemetry\<close> (\<open>dispatch/signal_path.go\<close>,
    \<open>telemetry.go\<close>, \<open>anomaly_monitor.go\<close>), \<open>AstSpikes\<close> (\<open>dispatch/ast_spike_monitor.go\<close>,
    \<open>ast_spike_filter.go\<close>, \<open>write_event_sink.go\<close>).

  \<^bold>\<open>What is shown.\<close>
  \<^item> Jobs: in every interleaving the queue and the workers respect their bounds, a job follows its
    automaton and is frozen once terminal, the totals are exact, and after \<open>Close\<close> every job is
    terminal unless a submission overlapped it, which is shown to strand a job.
  \<^item> Bus and broker: what a subscriber receives is a subsequence of what was published with an exact
    drop count, byte and depth bounds hold, the ring is the tail of the log, queries equal filtering
    the log, and no sensitive value is stored.
  \<^item> Rollout: trajectories validate, can be read back with the prompts the model saw, train exactly the
    sampled tokens and do not depend on the order of records; assignment is a fair round robin; keys
    are canonical except for line breaks in paths.
  \<^item> Dispatch: no escalation of the sandbox tier; canonical snapshots; well-formed, order-independent
    decisions with a fallback walk that ends; a permanent guardrail latch; redacted telemetry; spike
    detection that refines specifications over the whole history of writes.

  \<^bold>\<open>Conventions.\<close> State is passed explicitly; a Go map is an association list with distinct keys, whose order
  is one iteration order. Clock readings, random identifiers, third-party digests, runners, resolvers,
  adjusters and publishers are arguments. Errors are values; run-time panics are the constructor
  \<open>Panic\<close>. Counters keep their 64 bits. All loops are structurally recursive, so no fuel is used.

  \<^bold>\<open>Idealisations.\<close> Floating-point scores are exact rationals. Case folding and trimming act on ASCII.
  Where \<open>sort.Slice\<close> meets equal keys the model keeps the original order; the theorems about order
  assume distinct keys or do not depend on it. Mutexes make each critical section atomic.

  \<^bold>\<open>Not modelled.\<close> Socket, process, container and file-system I/O (transports, sidecar clients, sandbox
  runners, harness), start-up wiring and configuration from the environment, logging and the
  dashboard, the WebAssembly runtime of the scoring plugin (its interface is the score adjuster), and
  the Rust sidecars, which are separate programs behind sockets.
\<close>

end
